(* ===== verification/Prelude.thy ===== *)
theory Prelude
  imports Main "HOL-Library.Word" "HOL-Library.List_Lexorder"
begin

text \<open>
  Shared vocabulary of the development: the machine types of the C++ sources, their string
  literals and generic facts on lists, options and words that several components use.

  The sources are compiled for 64-bit Windows: \<^verbatim>\<open>wchar_t\<close> is a 16-bit UTF-16 code unit,
  \<^verbatim>\<open>size_t\<close> and \<^verbatim>\<open>uint64_t\<close> are 64 bits wide. Numbers that travel on the wire, and those the
  code computes with at a fixed width, are words; sizes and positions of containers are
  natural numbers, since no container of the program comes near 2^64 elements.
\<close>

unbundle bit_operations_syntax

type_synonym byte = "8 word"
type_synonym bytes = "byte list"
type_synonym wchar = "16 word"
type_synonym wstr = "wchar list"
type_synonym u16 = "16 word"
type_synonym u32 = "32 word"
type_synonym u64 = "64 word"

named_theorems wire_simps \<open>evaluation of the wire formats: literals, digits, bytes\<close>
named_theorems guard_simps \<open>the guards of the document and protocol operations\<close>

section \<open>String literals\<close>

text \<open>\<open>wide ''abc''\<close> is the wide literal \<^verbatim>\<open>L"abc"\<close>, \<open>narrow ''abc''\<close> the narrow one.\<close>

definition wide :: "string \<Rightarrow> wstr" where
  "wide s = map of_char s"

definition narrow :: "string \<Rightarrow> bytes" where
  "narrow s = map of_char s"

lemma wide_Nil [simp]: "wide [] = []"
  by (simp add: wide_def)

lemma narrow_Nil [simp]: "narrow [] = []"
  by (simp add: narrow_def)

lemma wide_eq_Nil_iff [simp]: "wide s = [] \<longleftrightarrow> s = []"
  by (simp add: wide_def)

lemma wide_Cons: "wide (c # s) = of_char c # wide s"
  by (simp add: wide_def)

lemma length_wide [simp]: "length (wide s) = length s"
  by (simp add: wide_def)

lemma length_narrow [simp]: "length (narrow s) = length s"
  by (simp add: narrow_def)

lemma unat_of_char_wchar: "unat (of_char c :: wchar) = (of_char c :: nat)"
proof -
  have *: "(of_nat (of_char c) :: wchar) = of_char c"
    by (rule of_nat_of_char)
  have "(of_char c :: nat) < 65536"
    using nat_of_char_less_256 [of c] by linarith
  then have "unat (of_nat (of_char c :: nat) :: wchar) = of_char c"
    by (simp add: unat_of_nat)
  then show ?thesis by (simp only: *)
qed

lemma of_char_wchar_eq_iff [simp]: "(of_char c :: wchar) = of_char d \<longleftrightarrow> c = d"
  by (metis of_char_eq_iff unat_of_char_wchar)

lemma wide_eq_iff [simp]: "wide s = wide t \<longleftrightarrow> s = t"
proof -
  have "inj (of_char :: char \<Rightarrow> wchar)"
    by (rule injI) simp
  then show ?thesis
    by (simp add: wide_def inj_map_eq_map)
qed

lemma wide_append: "wide (s @ t) = wide s @ wide t"
  by (simp add: wide_def)

lemmas wide_eval [wire_simps] = wide_def narrow_def

section \<open>Lists\<close>

text \<open>\<^verbatim>\<open>std::wstring::insert\<close> and \<^verbatim>\<open>erase\<close> at a position inside the string.\<close>

definition list_insert_at :: "nat \<Rightarrow> 'a list \<Rightarrow> 'a list \<Rightarrow> 'a list" where
  "list_insert_at p xs ys = take p ys @ xs @ drop p ys"

definition list_erase_at :: "nat \<Rightarrow> nat \<Rightarrow> 'a list \<Rightarrow> 'a list" where
  "list_erase_at p n ys = take p ys @ drop (p + n) ys"

text \<open>\<^verbatim>\<open>substr(pos, count)\<close> with \<open>pos\<close> inside the string: the count is clamped to the end.\<close>

definition substr :: "nat \<Rightarrow> nat \<Rightarrow> 'a list \<Rightarrow> 'a list" where
  "substr p n ys = take n (drop p ys)"

lemma length_list_insert_at [simp]:
  "p \<le> length ys \<Longrightarrow> length (list_insert_at p xs ys) = length xs + length ys"
  by (simp add: list_insert_at_def)

lemma length_list_erase_at [simp]:
  "p + n \<le> length ys \<Longrightarrow> length (list_erase_at p n ys) = length ys - n"
  by (simp add: list_erase_at_def)

lemma list_insert_at_append [simp]:
  "list_insert_at (length p) xs (p @ s) = p @ xs @ s"
  by (simp add: list_insert_at_def)

lemma list_erase_at_append [simp]:
  "list_erase_at (length p) (length d) (p @ d @ s) = p @ s"
  by (simp add: list_erase_at_def)

lemma list_erase_insert:
  "p \<le> length ys \<Longrightarrow> list_erase_at p (length xs) (list_insert_at p xs ys) = ys"
  by (simp add: list_erase_at_def list_insert_at_def)

lemma list_insert_erase:
  assumes "p + n \<le> length ys"
  shows "list_insert_at p (substr p n ys) (list_erase_at p n ys) = ys"
proof -
  have "take n (drop p ys) @ drop (p + n) ys = drop p ys"
    by (metis add.commute append_take_drop_id drop_drop)
  with assms show ?thesis
    by (simp add: list_erase_at_def list_insert_at_def substr_def)
qed

text \<open>Cutting a list into pieces of fixed size and joining them again.\<close>

definition chunk :: "nat \<Rightarrow> 'a list \<Rightarrow> nat \<Rightarrow> 'a list" where
  "chunk k xs i = take k (drop (i * k) xs)"

lemma take_chunk: "take (i * k) xs @ chunk k xs i = take (i * k + k) xs"
  by (simp add: chunk_def take_add)

lemma concat_chunks_take: "concat (map (chunk k xs) [0..<n]) = take (n * k) xs"
  by (induction n) (simp_all add: take_chunk add.commute)

lemma concat_chunks:
  assumes "length xs \<le> n * k"
  shows "concat (map (chunk k xs) [0..<n]) = xs"
  using assms by (simp add: concat_chunks_take)

section \<open>Words\<close>

lemma unat_u64_lt: "unat (x :: u64) < 2 ^ 64"
  using unsigned_less [of x, where 'a = nat] by simp

lemma unat_wchar_lt: "unat (x :: wchar) < 2 ^ 16"
  using unsigned_less [of x, where 'a = nat] by simp

lemma unat_byte_lt: "unat (x :: byte) < 2 ^ 8"
  using unsigned_less [of x, where 'a = nat] by simp

lemma unat_u64_max: "unat (- 1 :: u64) = 2 ^ 64 - 1"
  by (simp add: unsigned_minus_1_eq_mask mask_eq_exp_minus_1)

lemma unat_ucast_wchar_u64: "unat (ucast (x :: wchar) :: u64) = unat x"
  using unat_wchar_lt [of x] by (simp add: unsigned_ucast_eq take_bit_nat_eq_self)

lemma unat_of_nat_u64: "n < 2 ^ 64 \<Longrightarrow> unat (of_nat n :: u64) = n"
  by (simp add: unat_of_nat)

end
