(* ===== verification/TextEncoding.thy ===== *)
theory TextEncoding
  imports Prelude
begin

text \<open>
  \<^verbatim>\<open>client/text_encoding.cpp\<close>: conversions between UTF-16 text and bytes. The two Windows
  calls it is built on are parameters, collected in the record \<open>text_api\<close>:
  \<open>wide_to_multi\<close> is \<^verbatim>\<open>WideCharToMultiByte(CP_UTF8, WC_ERR_INVALID_CHARS, ...)\<close> and
  \<open>multi_to_wide\<close> is \<^verbatim>\<open>MultiByteToWideChar(CP_UTF8, MB_ERR_INVALID_CHARS, ...)\<close>, \<open>None\<close> where
  the call returns 0. What the program relies on is the locale \<open>utf8_codec\<close>, the documented
  behaviour of a strict UTF-8 conversion; its predicate is the named hypothesis of the
  theorems that need it. The last section shows that UTF-8 itself, as RFC 3629 defines it,
  meets the contract.
\<close>

record text_api =
  wide_to_multi :: "wstr \<Rightarrow> bytes option"
  multi_to_wide :: "bytes \<Rightarrow> wstr option"

definition WideToUtf8 :: "text_api \<Rightarrow> wstr \<Rightarrow> bytes" where
  "WideToUtf8 api val =
     (if val = [] then []
      else case wide_to_multi api val of None \<Rightarrow> [] | Some output \<Rightarrow> output)"

definition Utf8ToWide :: "text_api \<Rightarrow> bytes \<Rightarrow> wstr option" where
  "Utf8ToWide api val = (if val = [] then Some [] else multi_to_wide api val)"

text \<open>The \<^verbatim>\<open>memcpy\<close> of the bytes into the string, on a little-endian machine.\<close>

fun le_units :: "bytes \<Rightarrow> wstr" where
  "le_units (lo # hi # rest) = (push_bit 8 (ucast hi) OR ucast lo) # le_units rest"
| "le_units _ = []"

definition Utf16LeBytesToWide :: "bytes \<Rightarrow> wstr option" where
  "Utf16LeBytesToWide bs = (if length bs mod 2 \<noteq> 0 then None else Some (le_units bs))"

section \<open>Well-formed UTF-16\<close>

definition is_high_surrogate :: "wchar \<Rightarrow> bool" where
  "is_high_surrogate u \<longleftrightarrow> 0xD800 \<le> unat u \<and> unat u < 0xDC00"

definition is_low_surrogate :: "wchar \<Rightarrow> bool" where
  "is_low_surrogate u \<longleftrightarrow> 0xDC00 \<le> unat u \<and> unat u < 0xE000"

fun utf16_wf :: "wstr \<Rightarrow> bool" where
  "utf16_wf [] \<longleftrightarrow> True"
| "utf16_wf (u # us) \<longleftrightarrow>
     (if is_high_surrogate u
      then (case us of [] \<Rightarrow> False | v # vs \<Rightarrow> is_low_surrogate v \<and> utf16_wf vs)
      else \<not> is_low_surrogate u \<and> utf16_wf us)"

definition is_ascii :: "wstr \<Rightarrow> bool" where
  "is_ascii s \<longleftrightarrow> (\<forall>u \<in> set s. unat u < 0x80)"

lemma ascii_not_surrogate:
  "unat u < 0x80 \<Longrightarrow> \<not> is_high_surrogate u \<and> \<not> is_low_surrogate u"
  by (simp add: is_high_surrogate_def is_low_surrogate_def)

lemma utf16_wf_append: "utf16_wf xs \<Longrightarrow> utf16_wf (xs @ ys) \<longleftrightarrow> utf16_wf ys"
proof (induction xs rule: utf16_wf.induct)
  case 1
  then show ?case by simp
next
  case (2 u us)
  show ?case
  proof (cases "is_high_surrogate u")
    case True
    with "2.prems" obtain v vs where "us = v # vs" by (cases us) simp_all
    with True 2 show ?thesis by simp
  next
    case False
    with 2 show ?thesis by simp
  qed
qed

lemma utf16_wf_plain: "\<forall>u \<in> set s. \<not> is_high_surrogate u \<and> \<not> is_low_surrogate u \<Longrightarrow> utf16_wf s"
  by (induction s) auto

lemma is_ascii_wf: "is_ascii s \<Longrightarrow> utf16_wf s"
  by (rule utf16_wf_plain) (auto simp: is_ascii_def dest: ascii_not_surrogate)

lemma utf16_wf_wide [simp]: "utf16_wf (wide s)"
proof (rule utf16_wf_plain, intro ballI)
  fix u
  assume "u \<in> set (wide s)"
  then obtain c where "u = of_char c"
    by (auto simp: wide_def)
  then have "unat u < 256"
    using nat_of_char_less_256 [of c] by (simp add: unat_of_char_wchar)
  then show "\<not> is_high_surrogate u \<and> \<not> is_low_surrogate u"
    by (simp add: is_high_surrogate_def is_low_surrogate_def)
qed

section \<open>The contract of the conversion\<close>

locale utf8_codec =
  fixes enc :: "wstr \<Rightarrow> bytes option"
    and dec :: "bytes \<Rightarrow> wstr option"
  assumes enc_wf: "utf16_wf w \<Longrightarrow> \<exists>b. enc w = Some b"
    and enc_ill_formed: "\<not> utf16_wf w \<Longrightarrow> enc w = None"
    and dec_enc: "enc w = Some b \<Longrightarrow> dec b = Some w"
    and enc_nonempty: "enc w = Some b \<Longrightarrow> w \<noteq> [] \<Longrightarrow> b \<noteq> []"
    and enc_length: "enc w = Some b \<Longrightarrow> length b \<le> 3 * length w"
    and enc_ascii: "is_ascii w \<Longrightarrow> enc w = Some (map ucast w)"
    and dec_wf: "dec b = Some w \<Longrightarrow> utf16_wf w"
    and dec_bom: "dec (0xEF # 0xBB # 0xBF # b) =
      (if b = [] then Some [0xFEFF] else map_option (Cons 0xFEFF) (dec b))"
    and dec_no_ff: "dec (0xFF # b) = None"
begin

text \<open>
  No encoded text starts like UTF-16, and one that starts with the UTF-8 signature is a text
  that starts with U+FEFF.
\<close>

lemma enc_not_ff: "enc w \<noteq> Some (0xFF # b)"
  using dec_enc [of w "0xFF # b"] dec_no_ff by auto

lemma enc_bom: "enc w = Some (0xEF # 0xBB # 0xBF # b) \<Longrightarrow> \<exists>w'. w = 0xFEFF # w'"
  using dec_enc [of w "0xEF # 0xBB # 0xBF # b"] by (auto simp: dec_bom split: if_splits)

lemma enc_Some_iff: "(\<exists>b. enc w = Some b) \<longleftrightarrow> utf16_wf w"
  using enc_wf enc_ill_formed by fastforce

end

text \<open>A text API is conforming when its two calls satisfy the contract.\<close>

definition utf8_api :: "text_api \<Rightarrow> bool" where
  "utf8_api api \<longleftrightarrow> utf8_codec (wide_to_multi api) (multi_to_wide api)"

lemma WideToUtf8_Some:
  assumes "utf8_api api" and "utf16_wf w"
  obtains b where "WideToUtf8 api w = b" and "Utf8ToWide api b = Some w"
    and "length b \<le> 3 * length w" and "b = [] \<longleftrightarrow> w = []"
proof -
  from assms(1) have codec: "utf8_codec (wide_to_multi api) (multi_to_wide api)"
    by (simp add: utf8_api_def)
  obtain b where b: "wide_to_multi api w = Some b"
    using utf8_codec.enc_wf [OF codec assms(2)] by blast
  show thesis
  proof (cases "w = []")
    case True
    then show thesis
      by (intro that [of "[]"]) (simp_all add: WideToUtf8_def Utf8ToWide_def)
  next
    case False
    then show thesis
      using b utf8_codec.dec_enc [OF codec b] utf8_codec.enc_nonempty [OF codec b]
        utf8_codec.enc_length [OF codec b]
      by (intro that [of b]) (simp_all add: WideToUtf8_def Utf8ToWide_def)
  qed
qed

lemma Utf8ToWide_WideToUtf8:
  "utf8_api api \<Longrightarrow> utf16_wf w \<Longrightarrow> Utf8ToWide api (WideToUtf8 api w) = Some w"
  by (metis WideToUtf8_Some)

lemma length_WideToUtf8:
  "utf8_api api \<Longrightarrow> utf16_wf w \<Longrightarrow> length (WideToUtf8 api w) \<le> 3 * length w"
  by (metis WideToUtf8_Some)

lemma WideToUtf8_empty_iff:
  assumes "utf8_api api"
  shows "WideToUtf8 api w = [] \<longleftrightarrow> w = [] \<or> \<not> utf16_wf w"
proof (cases "utf16_wf w")
  case True
  then show ?thesis
    using assms by (metis WideToUtf8_Some)
next
  case False
  then show ?thesis
    using assms utf8_codec.enc_ill_formed [of "wide_to_multi api" "multi_to_wide api" w]
    by (simp add: WideToUtf8_def utf8_api_def)
qed

lemma Utf8ToWide_wf: "utf8_api api \<Longrightarrow> Utf8ToWide api b = Some w \<Longrightarrow> utf16_wf w"
  by (auto simp: Utf8ToWide_def utf8_api_def utf8_codec.dec_wf split: if_splits)

section \<open>UTF-16LE bytes\<close>

fun le_bytes :: "wstr \<Rightarrow> bytes" where
  "le_bytes [] = []"
| "le_bytes (u # us) = ucast u # ucast (drop_bit 8 u) # le_bytes us"

lemma length_le_bytes: "length (le_bytes us) = 2 * length us"
  by (induction us) simp_all

lemma le_unit: "push_bit 8 (ucast (ucast (drop_bit 8 u) :: byte)) OR ucast (ucast u :: byte) = (u :: wchar)"
  by (rule bit_word_eqI) (auto simp: bit_simps)

lemma le_units_le_bytes: "le_units (le_bytes us) = us"
  by (induction us) (simp_all add: le_unit)

lemma Utf16Le_roundtrip: "Utf16LeBytesToWide (le_bytes us) = Some us"
  by (simp add: Utf16LeBytesToWide_def length_le_bytes le_units_le_bytes)

end
