(* ===== verification/Utf8.thy ===== *)
theory Utf8
  imports TextEncoding
begin

text \<open>
  UTF-8 and UTF-16 as RFC 3629 and RFC 2781 define them, over code points as natural
  numbers. This theory models no code of the repository: it is the standard the Windows
  conversions implement, and it shows that the contract \<open>utf8_codec\<close> can be met, so that
  the theorems that assume it have witnesses that compute.
\<close>

definition valid_cp :: "nat \<Rightarrow> bool" where
  "valid_cp cp \<longleftrightarrow> cp < 0xD800 \<or> 0xE000 \<le> cp \<and> cp < 0x110000"

section \<open>Code points of UTF-16\<close>

definition cp_units :: "nat \<Rightarrow> wstr" where
  "cp_units cp =
     (if cp < 0x10000 then [of_nat cp]
      else [of_nat (0xD800 + (cp - 0x10000) div 0x400), of_nat (0xDC00 + (cp - 0x10000) mod 0x400)])"

fun units_cps :: "wstr \<Rightarrow> nat list option" where
  "units_cps [] = Some []"
| "units_cps (u # us) =
     (if is_high_surrogate u
      then (case us of
          [] \<Rightarrow> None
        | v # vs \<Rightarrow>
            if is_low_surrogate v
            then map_option (Cons (0x10000 + (unat u - 0xD800) * 0x400 + (unat v - 0xDC00))) (units_cps vs)
            else None)
      else if is_low_surrogate u then None
      else map_option (Cons (unat u)) (units_cps us))"

section \<open>Bytes of a code point\<close>

definition cp_bytes :: "nat \<Rightarrow> bytes" where
  "cp_bytes cp =
     (if cp < 0x80 then [of_nat cp]
      else if cp < 0x800 then [of_nat (0xC0 + cp div 64), of_nat (0x80 + cp mod 64)]
      else if cp < 0x10000
        then [of_nat (0xE0 + cp div 4096), of_nat (0x80 + cp div 64 mod 64), of_nat (0x80 + cp mod 64)]
      else [of_nat (0xF0 + cp div 262144), of_nat (0x80 + cp div 4096 mod 64),
            of_nat (0x80 + cp div 64 mod 64), of_nat (0x80 + cp mod 64)])"

definition cont_byte :: "byte \<Rightarrow> bool" where
  "cont_byte b \<longleftrightarrow> 0x80 \<le> unat b \<and> unat b < 0xC0"

definition cont_bits :: "byte \<Rightarrow> nat" where
  "cont_bits b = unat b - 0x80"

fun bytes_cps :: "bytes \<Rightarrow> nat list option" where
  "bytes_cps [] = Some []"
| "bytes_cps (a # r) =
     (if unat a < 0x80 then map_option (Cons (unat a)) (bytes_cps r)
      else if unat a < 0xC0 then None
      else if unat a < 0xE0
      then (case r of
          b # r' \<Rightarrow>
            let cp = (unat a - 0xC0) * 64 + cont_bits b
            in if cont_byte b \<and> 0x80 \<le> cp then map_option (Cons cp) (bytes_cps r') else None
        | _ \<Rightarrow> None)
      else if unat a < 0xF0
      then (case r of
          b # c # r' \<Rightarrow>
            let cp = (unat a - 0xE0) * 4096 + cont_bits b * 64 + cont_bits c
            in if cont_byte b \<and> cont_byte c \<and> 0x800 \<le> cp \<and> valid_cp cp
               then map_option (Cons cp) (bytes_cps r') else None
        | _ \<Rightarrow> None)
      else (case r of
          b # c # d # r' \<Rightarrow>
            let cp = (unat a - 0xF0) * 262144 + cont_bits b * 4096 + cont_bits c * 64 + cont_bits d
            in if cont_byte b \<and> cont_byte c \<and> cont_byte d \<and> 0x10000 \<le> cp \<and> valid_cp cp
               then map_option (Cons cp) (bytes_cps r') else None
        | _ \<Rightarrow> None))"

definition utf8_enc :: "wstr \<Rightarrow> bytes option" where
  "utf8_enc w = map_option (\<lambda>cps. concat (map cp_bytes cps)) (units_cps w)"

definition utf8_dec :: "bytes \<Rightarrow> wstr option" where
  "utf8_dec bs = map_option (\<lambda>cps. concat (map cp_units cps)) (bytes_cps bs)"

definition utf8_ref :: text_api where
  "utf8_ref = \<lparr>wide_to_multi = utf8_enc, multi_to_wide = utf8_dec\<rparr>"

section \<open>UTF-16\<close>

lemma unat_unit: "n < 65536 \<Longrightarrow> unat (of_nat n :: wchar) = n"
  by (simp add: unat_of_nat)

lemma unat_octet: "n < 256 \<Longrightarrow> unat (of_nat n :: byte) = n"
  by (simp add: unat_of_nat)

lemma units_cps_wf: "(\<exists>cps. units_cps w = Some cps) \<longleftrightarrow> utf16_wf w"
proof (induction w rule: units_cps.induct)
  case 1
  then show ?case by simp
next
  case (2 u us)
  then show ?case
    by (cases us) auto
qed

lemma surrogate_pair_cp:
  assumes "is_high_surrogate u" and "is_low_surrogate v"
  defines "cp \<equiv> 0x10000 + (unat u - 0xD800) * 0x400 + (unat v - 0xDC00)"
  shows "valid_cp cp \<and> cp_units cp = [u, v]"
proof -
  define x where "x = unat u - 0xD800"
  define y where "y = unat v - 0xDC00"
  have xy: "x < 0x400" "y < 0x400" "unat u = 0xD800 + x" "unat v = 0xDC00 + y"
    using assms(1,2) by (auto simp: is_high_surrogate_def is_low_surrogate_def x_def y_def)
  have cp: "cp = 0x10000 + (x * 0x400 + y)"
    by (simp add: cp_def x_def y_def)
  have "(cp - 0x10000) div 0x400 = x" "(cp - 0x10000) mod 0x400 = y"
    using xy(2) by (simp_all add: cp)
  moreover have "(of_nat (0xD800 + x) :: wchar) = u" "(of_nat (0xDC00 + y) :: wchar) = v"
    unfolding xy(3,4) [symmetric] by simp_all
  ultimately have "cp_units cp = [u, v]"
    by (simp add: cp_units_def cp del: of_nat_add of_nat_numeral)
  moreover have "valid_cp cp"
    using xy(1,2) by (simp add: valid_cp_def cp)
  ultimately show ?thesis by blast
qed

lemma plain_unit_cp:
  assumes "\<not> is_high_surrogate u" and "\<not> is_low_surrogate u"
  shows "valid_cp (unat u) \<and> cp_units (unat u) = [u]"
  using assms unat_wchar_lt [of u]
  by (auto simp: valid_cp_def cp_units_def is_high_surrogate_def is_low_surrogate_def)

lemma units_cps_Some:
  "units_cps w = Some cps \<Longrightarrow> concat (map cp_units cps) = w \<and> (\<forall>cp \<in> set cps. valid_cp cp)"
proof (induction w arbitrary: cps rule: units_cps.induct)
  case 1
  then show ?case by simp
next
  case (2 u us)
  show ?case
  proof (cases "is_high_surrogate u")
    case True
    with "2.prems" obtain v vs cps' where "us = v # vs" "is_low_surrogate v"
      "units_cps vs = Some cps'"
      "cps = (0x10000 + (unat u - 0xD800) * 0x400 + (unat v - 0xDC00)) # cps'"
      by (cases us) (auto split: if_splits)
    with True "2.IH"(1) surrogate_pair_cp [OF True, of v] show ?thesis by simp
  next
    case False
    with "2.prems" "2.IH"(2) plain_unit_cp [OF False] show ?thesis
      by (auto split: if_splits)
  qed
qed

lemma cp_units_wf: "valid_cp cp \<Longrightarrow> utf16_wf (cp_units cp)"
proof (cases "cp < 0x10000")
  case True
  assume "valid_cp cp"
  with True show ?thesis
    by (auto simp: cp_units_def valid_cp_def is_high_surrogate_def is_low_surrogate_def unat_unit
        simp del: of_nat_add)
next
  case False
  assume "valid_cp cp"
  with False have "(cp - 0x10000) div 0x400 < 0x400"
    by (simp add: valid_cp_def div_less_iff_less_mult)
  moreover have "(cp - 0x10000) mod 0x400 < 0x400" by simp
  ultimately show ?thesis
    using False
    by (simp add: cp_units_def is_high_surrogate_def is_low_surrogate_def unat_unit del: of_nat_add)
qed

lemma concat_cp_units_wf: "\<forall>cp \<in> set cps. valid_cp cp \<Longrightarrow> utf16_wf (concat (map cp_units cps))"
  by (induction cps) (simp_all add: cp_units_wf utf16_wf_append)

section \<open>UTF-8\<close>

text \<open>The decoder by the class of the lead byte.\<close>

lemma bytes_cps_lead1: "unat a < 0x80 \<Longrightarrow> bytes_cps (a # r) = map_option (Cons (unat a)) (bytes_cps r)"
  by simp

lemma bytes_cps_lead_bad: "0x80 \<le> unat a \<Longrightarrow> unat a < 0xC0 \<Longrightarrow> bytes_cps (a # r) = None"
  by simp

lemma bytes_cps_lead2:
  "0xC0 \<le> unat a \<Longrightarrow> unat a < 0xE0 \<Longrightarrow> bytes_cps (a # r) =
     (case r of
        b # r' \<Rightarrow>
          let cp = (unat a - 0xC0) * 64 + cont_bits b
          in if cont_byte b \<and> 0x80 \<le> cp then map_option (Cons cp) (bytes_cps r') else None
      | _ \<Rightarrow> None)"
  by simp

lemma bytes_cps_lead3:
  "0xE0 \<le> unat a \<Longrightarrow> unat a < 0xF0 \<Longrightarrow> bytes_cps (a # r) =
     (case r of
        b # c # r' \<Rightarrow>
          let cp = (unat a - 0xE0) * 4096 + cont_bits b * 64 + cont_bits c
          in if cont_byte b \<and> cont_byte c \<and> 0x800 \<le> cp \<and> valid_cp cp
             then map_option (Cons cp) (bytes_cps r') else None
      | _ \<Rightarrow> None)"
  by simp

lemma bytes_cps_lead4:
  "0xF0 \<le> unat a \<Longrightarrow> bytes_cps (a # r) =
     (case r of
        b # c # d # r' \<Rightarrow>
          let cp = (unat a - 0xF0) * 262144 + cont_bits b * 4096 + cont_bits c * 64 + cont_bits d
          in if cont_byte b \<and> cont_byte c \<and> cont_byte d \<and> 0x10000 \<le> cp \<and> valid_cp cp
             then map_option (Cons cp) (bytes_cps r') else None
      | _ \<Rightarrow> None)"
  by simp

declare bytes_cps.simps(2) [simp del]

lemma bytes_cps_step:
  assumes "bytes_cps (a # r) = Some cps"
  obtains cp r' cps' where "cps = cp # cps'" and "valid_cp cp" and "bytes_cps r' = Some cps'"
    and "length r' \<le> length r"
proof -
  have two: "unat a < 0xE0 \<Longrightarrow> cont_byte b \<Longrightarrow> valid_cp ((unat a - 0xC0) * 64 + cont_bits b)" for b
    unfolding valid_cp_def cont_byte_def cont_bits_def by linarith
  consider "unat a < 0x80" | "0x80 \<le> unat a" "unat a < 0xC0" | "0xC0 \<le> unat a" "unat a < 0xE0"
    | "0xE0 \<le> unat a" "unat a < 0xF0" | "0xF0 \<le> unat a" by linarith
  then show thesis
  proof cases
    case 1
    with assms obtain cps' where "bytes_cps r = Some cps'" "cps = unat a # cps'"
      by (auto simp: bytes_cps_lead1)
    with 1 show thesis by (intro that) (auto simp: valid_cp_def)
  next
    case 2
    with assms show thesis by (simp add: bytes_cps_lead_bad)
  next
    case 3
    with assms obtain b r' cps' where "r = b # r'" "cont_byte b" "bytes_cps r' = Some cps'"
      "cps = ((unat a - 0xC0) * 64 + cont_bits b) # cps'"
      by (auto simp: bytes_cps_lead2 Let_def split: list.splits if_splits)
    with 3 two show thesis by (intro that) auto
  next
    case 4
    with assms obtain b c r' cps' cp where "r = b # c # r'" "valid_cp cp" "bytes_cps r' = Some cps'"
      "cps = cp # cps'"
      by (auto simp: bytes_cps_lead3 Let_def split: list.splits if_splits)
    then show thesis by (intro that) auto
  next
    case 5
    with assms obtain b c d r' cps' cp where "r = b # c # d # r'" "valid_cp cp"
      "bytes_cps r' = Some cps'" "cps = cp # cps'"
      by (auto simp: bytes_cps_lead4 Let_def split: list.splits if_splits)
    then show thesis by (intro that) auto
  qed
qed

lemma bytes_cps_valid: "bytes_cps bs = Some cps \<Longrightarrow> \<forall>cp \<in> set cps. valid_cp cp"
proof (induction bs arbitrary: cps rule: length_induct)
  case (1 bs)
  show ?case
  proof (cases bs)
    case Nil
    with "1.prems" show ?thesis by simp
  next
    case (Cons a r)
    from "1.prems" [unfolded Cons] obtain cp r' cps' where "cps = cp # cps'" "valid_cp cp"
      "bytes_cps r' = Some cps'" "length r' \<le> length r"
      by (rule bytes_cps_step)
    with "1.IH" Cons show ?thesis by (metis le_imp_less_Suc length_Cons set_ConsD)
  qed
qed

lemma bytes_cps_1: "cp < 0x80 \<Longrightarrow> bytes_cps (cp_bytes cp @ r) = map_option (Cons cp) (bytes_cps r)"
  by (simp add: cp_bytes_def unat_octet bytes_cps_lead1)

lemma cont_octet: "n < 64 \<Longrightarrow> cont_byte (of_nat (0x80 + n)) \<and> cont_bits (of_nat (0x80 + n)) = n"
  by (simp add: cont_byte_def cont_bits_def unat_octet del: of_nat_add)

lemma bytes_cps_2:
  assumes "0x80 \<le> cp" and "cp < 0x800"
  shows "bytes_cps (cp_bytes cp @ r) = map_option (Cons cp) (bytes_cps r)"
proof -
  have a: "unat (of_nat (0xC0 + cp div 64) :: byte) = 0xC0 + cp div 64"
    using assms by (intro unat_octet) (simp add: div_less_iff_less_mult)
  have "cp div 64 < 32"
    using assms by (simp add: div_less_iff_less_mult)
  moreover have "cp div 64 * 64 + cp mod 64 = cp" by simp
  ultimately show ?thesis
    using assms cont_octet [of "cp mod 64"] a
    by (simp add: cp_bytes_def Let_def bytes_cps_lead2 del: of_nat_add of_nat_numeral)
qed

text \<open>The six-bit groups of a code point put it together again.\<close>

lemma group2: "cp div 4096 * 4096 + cp div 64 mod 64 * 64 + cp mod 64 = (cp :: nat)"
proof -
  have "cp div 4096 = cp div 64 div 64"
    using div_mult2_eq [of cp 64 64] by simp
  then have "cp div 4096 * 64 + cp div 64 mod 64 = cp div 64"
    by (simp add: div_mult_mod_eq)
  moreover have "cp div 64 * 64 + cp mod 64 = cp" by simp
  ultimately show ?thesis by linarith
qed

lemma group3:
  "cp div 262144 * 262144 + cp div 4096 mod 64 * 4096 + cp div 64 mod 64 * 64 + cp mod 64 = (cp :: nat)"
proof -
  have "cp div 262144 = cp div 4096 div 64"
    using div_mult2_eq [of cp 4096 64] by simp
  then have "cp div 262144 * 64 + cp div 4096 mod 64 = cp div 4096"
    by (simp add: div_mult_mod_eq)
  then show ?thesis using group2 [of cp] by linarith
qed

lemma bytes_cps_3:
  assumes "0x800 \<le> cp" and "cp < 0x10000" and "valid_cp cp"
  shows "bytes_cps (cp_bytes cp @ r) = map_option (Cons cp) (bytes_cps r)"
proof -
  have lead: "cp div 4096 < 16"
    using assms by (simp add: div_less_iff_less_mult)
  then have a: "unat (of_nat (0xE0 + cp div 4096) :: byte) = 0xE0 + cp div 4096"
    by (intro unat_octet) simp
  have bytes: "cp_bytes cp = [of_nat (0xE0 + cp div 4096), of_nat (0x80 + cp div 64 mod 64),
      of_nat (0x80 + cp mod 64)]"
    using assms by (simp add: cp_bytes_def)
  have "bytes_cps (cp_bytes cp @ r) =
      (let c = cp div 4096 * 4096 + cp div 64 mod 64 * 64 + cp mod 64
       in if 0x800 \<le> c \<and> valid_cp c then map_option (Cons c) (bytes_cps r) else None)"
    unfolding bytes append_Cons append_Nil
    using lead cont_octet [of "cp mod 64"] cont_octet [of "cp div 64 mod 64"]
    by (subst bytes_cps_lead3) (simp_all only: a Let_def, simp_all)
  with assms show ?thesis by (simp add: group2 Let_def)
qed

lemma bytes_cps_4:
  assumes "0x10000 \<le> cp" and "valid_cp cp"
  shows "bytes_cps (cp_bytes cp @ r) = map_option (Cons cp) (bytes_cps r)"
proof -
  have lead: "cp div 262144 < 5"
    using assms by (simp add: valid_cp_def div_less_iff_less_mult)
  then have a: "unat (of_nat (0xF0 + cp div 262144) :: byte) = 0xF0 + cp div 262144"
    by (intro unat_octet) simp
  have bytes: "cp_bytes cp = [of_nat (0xF0 + cp div 262144), of_nat (0x80 + cp div 4096 mod 64),
      of_nat (0x80 + cp div 64 mod 64), of_nat (0x80 + cp mod 64)]"
    using assms by (simp add: cp_bytes_def)
  have "bytes_cps (cp_bytes cp @ r) =
      (let c = cp div 262144 * 262144 + cp div 4096 mod 64 * 4096 + cp div 64 mod 64 * 64 + cp mod 64
       in if 0x10000 \<le> c \<and> valid_cp c then map_option (Cons c) (bytes_cps r) else None)"
    unfolding bytes append_Cons append_Nil
    using lead cont_octet [of "cp mod 64"] cont_octet [of "cp div 64 mod 64"]
      cont_octet [of "cp div 4096 mod 64"]
    by (subst bytes_cps_lead4) (simp_all only: a Let_def, simp_all)
  with assms show ?thesis by (simp add: group3 Let_def)
qed

lemma bytes_cps_cp_bytes:
  assumes "valid_cp cp"
  shows "bytes_cps (cp_bytes cp @ r) = map_option (Cons cp) (bytes_cps r)"
  using assms bytes_cps_1 [of cp r] bytes_cps_2 [of cp r] bytes_cps_3 [of cp r] bytes_cps_4 [of cp r]
  by (cases "cp < 0x80"; cases "cp < 0x800"; cases "cp < 0x10000") simp_all

lemma bytes_cps_concat:
  "\<forall>cp \<in> set cps. valid_cp cp \<Longrightarrow> bytes_cps (concat (map cp_bytes cps)) = Some cps"
  by (induction cps) (simp_all add: bytes_cps_cp_bytes)

section \<open>UTF-8 meets the contract\<close>

lemma length_units_cps:
  "units_cps w = Some cps \<Longrightarrow> length (concat (map cp_bytes cps)) \<le> 3 * length w"
proof (induction w arbitrary: cps rule: units_cps.induct)
  case 1
  then show ?case by simp
next
  case (2 u us)
  show ?case
  proof (cases "is_high_surrogate u")
    case True
    with "2.prems" obtain v vs cps' cp where "us = v # vs" "is_low_surrogate v"
      "units_cps vs = Some cps'" "cps = cp # cps'"
      by (cases us) (auto split: if_splits)
    moreover have "length (cp_bytes cp) \<le> 6" by (simp add: cp_bytes_def)
    ultimately show ?thesis
      using True "2.IH"(1) by fastforce
  next
    case False
    then obtain cps' where cps': "units_cps us = Some cps'" "cps = unat u # cps'"
      using "2.prems" by (auto split: if_splits)
    have "length (cp_bytes (unat u)) \<le> 3"
      using unat_wchar_lt [of u] by (simp add: cp_bytes_def)
    moreover have "length (concat (map cp_bytes cps')) \<le> 3 * length us"
      using "2.IH"(2) False "2.prems" cps' by (auto split: if_splits)
    ultimately show ?thesis
      using cps' by simp
  qed
qed

lemma units_cps_ascii: "is_ascii w \<Longrightarrow> units_cps w = Some (map unat w)"
  by (induction w) (auto simp: is_ascii_def dest: ascii_not_surrogate)

lemma cp_bytes_ascii: "unat (u :: wchar) < 0x80 \<Longrightarrow> cp_bytes (unat u) = [ucast u]"
  by (simp add: cp_bytes_def)

interpretation utf8: utf8_codec utf8_enc utf8_dec
proof
  fix w :: wstr
  show "\<exists>b. utf8_enc w = Some b" if "utf16_wf w"
    using that units_cps_wf [of w] by (auto simp: utf8_enc_def)
  show "utf8_enc w = None" if "\<not> utf16_wf w"
    using that units_cps_wf [of w] by (auto simp: utf8_enc_def)
  show "utf8_enc w = Some (map ucast w)" if "is_ascii w"
  proof -
    have "concat (map cp_bytes (map unat w)) = map ucast w"
      using that by (induction w) (simp_all add: is_ascii_def cp_bytes_ascii)
    then show ?thesis
      using that by (simp add: utf8_enc_def units_cps_ascii)
  qed
next
  fix w :: wstr and b :: bytes
  assume enc: "utf8_enc w = Some b"
  then obtain cps where cps: "units_cps w = Some cps" "b = concat (map cp_bytes cps)"
    by (auto simp: utf8_enc_def)
  show "utf8_dec b = Some w"
    using units_cps_Some [OF cps(1)] bytes_cps_concat [of cps] cps(2) by (simp add: utf8_dec_def)
  then show "b \<noteq> []" if "w \<noteq> []"
    using that by (auto simp: utf8_dec_def)
  show "length b \<le> 3 * length w"
    using length_units_cps [OF cps(1)] cps(2) by simp
next
  fix w :: wstr and b :: bytes
  assume "utf8_dec b = Some w"
  then show "utf16_wf w"
    using bytes_cps_valid concat_cp_units_wf by (auto simp: utf8_dec_def)
next
  fix b :: bytes
  have "bytes_cps (0xEF # 0xBB # 0xBF # b) = map_option (Cons 0xFEFF) (bytes_cps b)"
    by (subst bytes_cps_lead3) (simp_all add: cont_byte_def cont_bits_def valid_cp_def Let_def)
  then show "utf8_dec (0xEF # 0xBB # 0xBF # b) =
      (if b = [] then Some [0xFEFF] else map_option (Cons 0xFEFF) (utf8_dec b))"
    by (simp add: utf8_dec_def option.map_comp comp_def cp_units_def)
  show "utf8_dec (0xFF # b) = None"
  proof -
    have "bytes_cps (0xFF # b) = None"
      by (subst bytes_cps_lead4)
        (auto simp: cont_bits_def valid_cp_def Let_def split: list.splits)
    then show ?thesis by (simp add: utf8_dec_def)
  qed
qed

lemma utf8_api_ref: "utf8_api utf8_ref"
  by (simp add: utf8_api_def utf8_ref_def utf8.utf8_codec_axioms)

end
