(* ===== verification/StdMap.thy ===== *)
theory StdMap
  imports Prelude
begin

text \<open>
  \<^verbatim>\<open>std::map\<close>, which \<^verbatim>\<open>ProtocolMessage\<close> keeps its fields in: an association list kept in
  strictly increasing key order, because serialisation iterates over it in that order.
  \<open>smap_find\<close> is \<^verbatim>\<open>find\<close>, \<open>smap_put\<close> the assignment \<^verbatim>\<open>m[key] = value\<close>. The locale
  \<open>field_store\<close> is the contract the message code relies on.
\<close>

type_synonym ('k, 'v) smap = "('k \<times> 'v) list"

definition smap_find :: "('k, 'v) smap \<Rightarrow> 'k \<Rightarrow> 'v option" where
  "smap_find m k = map_of m k"

fun smap_put :: "'k::linorder \<Rightarrow> 'v \<Rightarrow> ('k, 'v) smap \<Rightarrow> ('k, 'v) smap" where
  "smap_put k v [] = [(k, v)]"
| "smap_put k v (f # fs) =
     (if fst f < k then f # smap_put k v fs
      else if fst f = k then (k, v) # fs
      else (k, v) # f # fs)"

definition smap_ok :: "('k::linorder, 'v) smap \<Rightarrow> bool" where
  "smap_ok m \<longleftrightarrow> sorted_wrt (<) (map fst m)"

section \<open>The interface\<close>

locale field_store =
  fixes find :: "'m \<Rightarrow> 'k \<Rightarrow> 'v option"
    and put :: "'k \<Rightarrow> 'v \<Rightarrow> 'm \<Rightarrow> 'm"
    and ok :: "'m \<Rightarrow> bool"
    and empty :: 'm
  assumes ok_empty: "ok empty"
    and find_empty: "find empty k = None"
    and ok_put: "ok m \<Longrightarrow> ok (put k v m)"
    and find_put: "find (put k v m) k' = (if k' = k then Some v else find m k')"
begin

lemma find_put_same: "find (put k v m) k = Some v"
  by (simp add: find_put)

lemma find_put_other: "k' \<noteq> k \<Longrightarrow> find (put k v m) k' = find m k'"
  by (simp add: find_put)

definition put_all :: "('k \<times> 'v) list \<Rightarrow> 'm \<Rightarrow> 'm" where
  "put_all fs m = fold (\<lambda>(k, v). put k v) fs m"

lemma put_all_Nil: "put_all [] m = m"
  by (simp add: put_all_def)

lemma put_all_Cons: "put_all ((k, v) # fs) m = put_all fs (put k v m)"
  by (simp add: put_all_def)

lemma ok_put_all: "ok m \<Longrightarrow> ok (put_all fs m)"
  by (induction fs arbitrary: m) (auto simp: put_all_def ok_put)

lemma find_put_all:
  "distinct (map fst fs) \<Longrightarrow>
   find (put_all fs m) k = (case map_of fs k of Some v \<Rightarrow> Some v | None \<Rightarrow> find m k)"
proof (induction fs arbitrary: m)
  case Nil
  then show ?case by (simp add: put_all_Nil)
next
  case (Cons f fs)
  obtain k' v where f: "f = (k', v)" by force
  with Cons.prems have "map_of fs k' = None"
    by (simp add: map_of_eq_None_iff)
  with Cons f show ?case
    by (auto simp: put_all_Cons find_put split: option.splits)
qed

end

text \<open>A store whose content determines it: \<^verbatim>\<open>std::map\<close> iterates in key order.\<close>

locale ordered_store = field_store +
  assumes content_unique: "ok m \<Longrightarrow> ok m' \<Longrightarrow> (\<And>k. find m k = find m' k) \<Longrightarrow> m = m'"
begin

lemma put_commute: "ok m \<Longrightarrow> k \<noteq> k' \<Longrightarrow> put k v (put k' v' m) = put k' v' (put k v m)"
  by (rule content_unique) (auto simp: ok_put find_put)

lemma put_put: "ok m \<Longrightarrow> put k v (put k v' m) = put k v m"
  by (rule content_unique) (auto simp: ok_put find_put)

end

section \<open>The sorted association list provides it\<close>

lemma map_of_smap_put: "map_of (smap_put k v m) k' = (if k' = k then Some v else map_of m k')"
  by (induction m) auto

lemma set_keys_smap_put: "fst ` set (smap_put k v m) = insert k (fst ` set m)"
  by (induction m) auto

lemma smap_ok_Cons: "smap_ok (f # fs) \<longleftrightarrow> (\<forall>g \<in> set fs. fst f < fst g) \<and> smap_ok fs"
  by (auto simp: smap_ok_def)

lemma smap_ok_Nil [simp]: "smap_ok []"
  by (simp add: smap_ok_def)

lemma smap_ok_put: "smap_ok m \<Longrightarrow> smap_ok (smap_put k v m)"
proof (induction m)
  case Nil
  then show ?case by (simp add: smap_ok_def)
next
  case (Cons f fs)
  have keys: "\<And>g. g \<in> set (smap_put k v fs) \<Longrightarrow> fst g = k \<or> fst g \<in> fst ` set fs"
    using set_keys_smap_put [of k v fs] by (metis image_eqI insertE)
  show ?case
  proof (cases "fst f < k")
    case True
    with Cons keys show ?thesis by (force simp: smap_ok_Cons)
  next
    case False
    with Cons.prems show ?thesis
      by (auto simp: smap_ok_Cons not_less order_le_less dest: less_trans)
  qed
qed

lemma smap_ok_distinct: "smap_ok m \<Longrightarrow> distinct (map fst m)"
  by (simp add: smap_ok_def strict_sorted_iff)

lemma smap_ok_filter: "smap_ok m \<Longrightarrow> smap_ok (filter P m)"
  by (induction m) (auto simp: smap_ok_Cons)

lemma smap_find_Cons:
  "smap_find (f # fs) k = (if k = fst f then Some (snd f) else smap_find fs k)"
  by (cases f) (auto simp: smap_find_def)

lemma smap_find_Some_key: "smap_find m k = Some v \<Longrightarrow> k \<in> fst ` set m"
  by (metis smap_find_def map_of_eq_None_iff option.distinct(1))

lemma smap_find_below: "smap_ok (f # fs) \<Longrightarrow> k \<le> fst f \<Longrightarrow> smap_find fs k = None"
  using smap_find_Some_key [of fs k] by (cases "smap_find fs k") (auto simp: smap_ok_Cons)

lemma smap_content_unique:
  assumes "smap_ok m" and "smap_ok m'" and "\<And>k. smap_find m k = smap_find m' k"
  shows "m = m'"
  using assms
proof (induction m arbitrary: m')
  case Nil
  then show ?case
    using Nil.prems(3) [of "fst (hd m')"] by (cases m') (simp_all add: smap_find_Cons smap_find_def)
next
  case (Cons f fs)
  obtain g gs where m': "m' = g # gs"
    using Cons.prems(3) [of "fst f"] by (cases m') (auto simp: smap_find_Cons smap_find_def)
  have eq: "\<And>k. smap_find (f # fs) k = smap_find (g # gs) k"
    using Cons.prems(3) m' by simp
  have ok: "smap_ok (g # gs)"
    using Cons.prems(2) m' by simp
  have key: "fst f = fst g"
    using eq [of "fst f"] eq [of "fst g"] smap_find_below [OF Cons.prems(1), of "fst g"]
      smap_find_below [OF ok, of "fst f"]
    by (cases "fst f" "fst g" rule: linorder_cases) (simp_all add: smap_find_Cons split: if_splits)
  moreover have "snd f = snd g"
    using eq [of "fst f"] key by (simp add: smap_find_Cons)
  moreover have "fs = gs"
  proof (rule Cons.IH)
    show "smap_ok fs" and "smap_ok gs"
      using Cons.prems(1) ok by (simp_all add: smap_ok_Cons)
    show "smap_find fs k = smap_find gs k" for k
      using eq [of k] key smap_find_below [OF Cons.prems(1), of k] smap_find_below [OF ok, of k]
      by (cases "k = fst f") (simp_all add: smap_find_Cons)
  qed
  ultimately show ?case
    using m' by (simp add: prod_eq_iff)
qed

interpretation fields: ordered_store smap_find smap_put smap_ok "[] :: ('k::linorder, 'v) smap"
  by unfold_locales
    (auto simp: smap_find_def map_of_smap_put smap_ok_put intro: smap_content_unique)

declare smap_put.simps [simp del]

lemmas smap_put_eval [wire_simps] = smap_put.simps

lemmas smap_simps = fields.find_put fields.find_empty fields.ok_put

end
