(* ===== verification/Json.thy ===== *)
theory Json
  imports Prelude
begin

text \<open>
  The lexical helpers of \<^verbatim>\<open>client/protocol.cpp\<close>. The C++ functions take the text and a
  pointer to an index into it; since they only ever read forward, the model passes the
  suffix that starts at the index and returns the suffix that starts at the new index.
  A \<^verbatim>\<open>false\<close> result is \<open>None\<close>: every caller gives up at once and uses neither the index
  nor the value.
\<close>

abbreviation ch_quote :: wchar where "ch_quote \<equiv> 34"
abbreviation ch_backslash :: wchar where "ch_backslash \<equiv> 92"
abbreviation ch_slash :: wchar where "ch_slash \<equiv> 47"
abbreviation ch_comma :: wchar where "ch_comma \<equiv> 44"
abbreviation ch_colon :: wchar where "ch_colon \<equiv> 58"
abbreviation ch_lbrace :: wchar where "ch_lbrace \<equiv> 123"
abbreviation ch_rbrace :: wchar where "ch_rbrace \<equiv> 125"

definition IsWhitespace :: "wchar \<Rightarrow> bool" where
  "IsWhitespace ch \<longleftrightarrow> ch = 32 \<or> ch = 9 \<or> ch = 13 \<or> ch = 10"

fun SkipWhitespace :: "wstr \<Rightarrow> wstr" where
  "SkipWhitespace [] = []"
| "SkipWhitespace (ch # rest) = (if IsWhitespace ch then SkipWhitespace rest else ch # rest)"

section \<open>Strings\<close>

text \<open>The \<^verbatim>\<open>switch\<close> on the character after a backslash.\<close>

definition json_unescape :: "wchar \<Rightarrow> wchar option" where
  "json_unescape escaped =
     (if escaped = ch_quote \<or> escaped = ch_backslash \<or> escaped = ch_slash then Some escaped
      else if escaped = 98 then Some 8
      else if escaped = 102 then Some 12
      else if escaped = 110 then Some 10
      else if escaped = 114 then Some 13
      else if escaped = 116 then Some 9
      else None)"

fun parse_string_body :: "wstr \<Rightarrow> wstr \<Rightarrow> (wstr \<times> wstr) option" where
  "parse_string_body val [] = None"
| "parse_string_body val (ch # rest) =
     (if ch = ch_quote then Some (val, rest)
      else if ch \<noteq> ch_backslash then parse_string_body (val @ [ch]) rest
      else case rest of
        [] \<Rightarrow> None
      | escaped # rest' \<Rightarrow>
          (case json_unescape escaped of
             None \<Rightarrow> None
           | Some c \<Rightarrow> parse_string_body (val @ [c]) rest'))"

definition ParseJsonString :: "wstr \<Rightarrow> (wstr \<times> wstr) option" where
  "ParseJsonString text =
     (case text of
        [] \<Rightarrow> None
      | ch # rest \<Rightarrow> if ch \<noteq> ch_quote then None else parse_string_body [] rest)"

definition escape_char :: "wchar \<Rightarrow> wstr" where
  "escape_char ch =
     (if ch = ch_quote then [ch_backslash, ch_quote]
      else if ch = ch_backslash then [ch_backslash, ch_backslash]
      else if ch = 8 then [ch_backslash, 98]
      else if ch = 12 then [ch_backslash, 102]
      else if ch = 10 then [ch_backslash, 110]
      else if ch = 13 then [ch_backslash, 114]
      else if ch = 9 then [ch_backslash, 116]
      else [ch])"

definition EscapeJsonString :: "wstr \<Rightarrow> wstr" where
  "EscapeJsonString value = concat (map escape_char value)"

section \<open>Numbers\<close>

definition iswdigit :: "wchar \<Rightarrow> bool" where
  "iswdigit ch \<longleftrightarrow> 48 \<le> ch \<and> ch \<le> 57"

definition UINT64_MAX :: u64 where
  "UINT64_MAX = - 1"

definition digit_of :: "wchar \<Rightarrow> u64" where
  "digit_of ch = ucast ch - 48"

fun parse_digits :: "u64 \<Rightarrow> wstr \<Rightarrow> (u64 \<times> wstr) option" where
  "parse_digits result [] = Some (result, [])"
| "parse_digits result (ch # rest) =
     (if iswdigit ch
      then if result > (UINT64_MAX - digit_of ch) div 10 then None
           else parse_digits (result * 10 + digit_of ch) rest
      else Some (result, ch # rest))"

definition ParseUnsigned :: "wstr \<Rightarrow> (u64 \<times> wstr) option" where
  "ParseUnsigned text =
     (case text of
        [] \<Rightarrow> None
      | ch # rest \<Rightarrow> if \<not> iswdigit ch then None else parse_digits 0 text)"

text \<open>\<^verbatim>\<open>std::wostream << uint64_t\<close>: decimal digits without leading zeros.\<close>

fun dec_digits :: "nat \<Rightarrow> wstr" where
  "dec_digits n = (if n < 10 then [of_nat (48 + n)]
                   else dec_digits (n div 10) @ [of_nat (48 + n mod 10)])"

declare dec_digits.simps [simp del]

definition stream_u64 :: "u64 \<Rightarrow> wstr" where
  "stream_u64 n = dec_digits (unat n)"

section \<open>Whitespace\<close>

lemma length_SkipWhitespace: "length (SkipWhitespace xs) \<le> length xs"
  by (induction xs) auto

lemma SkipWhitespace_id: "xs = [] \<or> \<not> IsWhitespace (hd xs) \<Longrightarrow> SkipWhitespace xs = xs"
  by (cases xs) auto

section \<open>Escaping and parsing strings are inverse\<close>

lemma parse_string_body_shorter:
  "parse_string_body val xs = Some (s, rest) \<Longrightarrow> length rest < length xs"
proof (induction val xs rule: parse_string_body.induct)
  case (1 val)
  then show ?case by simp
next
  case (2 val ch xs)
  consider "ch = ch_quote" | "ch \<noteq> ch_quote" "ch \<noteq> ch_backslash"
    | "ch = ch_backslash" "ch \<noteq> ch_quote" by blast
  then show ?case
  proof cases
    case 1
    with "2.prems" show ?thesis by simp
  next
    case 2
    with "2.prems" "2.IH"(1) show ?thesis by simp
  next
    case 3
    with "2.prems" obtain e ys c where "xs = e # ys" "json_unescape e = Some c"
      "parse_string_body (val @ [c]) ys = Some (s, rest)"
      by (auto split: list.splits option.splits)
    with 3 "2.IH"(2) have "length rest < length ys" by blast
    with \<open>xs = e # ys\<close> show ?thesis by simp
  qed
qed

lemma ParseJsonString_shorter: "ParseJsonString xs = Some (s, rest) \<Longrightarrow> length rest < length xs"
  by (auto simp: ParseJsonString_def dest: parse_string_body_shorter split: list.splits if_splits)

lemma parse_string_body_escape_char:
  "parse_string_body val (escape_char ch @ rest) = parse_string_body (val @ [ch]) rest"
  by (simp add: escape_char_def json_unescape_def)

lemma parse_string_body_escaped:
  "parse_string_body val (EscapeJsonString s @ ch_quote # rest) = Some (val @ s, rest)"
  by (induction s arbitrary: val) (simp_all add: EscapeJsonString_def parse_string_body_escape_char)

lemma ParseJsonString_escaped:
  "ParseJsonString (ch_quote # EscapeJsonString s @ ch_quote # rest) = Some (s, rest)"
  by (simp add: ParseJsonString_def parse_string_body_escaped)

lemma length_EscapeJsonString: "length (EscapeJsonString s) \<le> 2 * length s"
  by (induction s) (auto simp: EscapeJsonString_def escape_char_def)

text \<open>
  An escaped string never holds a quote that closes it: every quote is preceded by a
  backslash that is not itself escaped. Stated on the parser: without a closing quote the
  escaped text is never accepted.
\<close>

lemma escaped_has_no_closing_quote: "parse_string_body val (EscapeJsonString s) = None"
  by (induction s arbitrary: val)
    (simp_all add: EscapeJsonString_def parse_string_body_escape_char)

section \<open>Decimal numbers with overflow detection\<close>

definition digits_value :: "nat \<Rightarrow> wstr \<Rightarrow> nat" where
  "digits_value n ds = foldl (\<lambda>v ch. v * 10 + (unat ch - 48)) n ds"

lemma digits_value_Nil [simp]: "digits_value n [] = n"
  by (simp add: digits_value_def)

lemma digits_value_Cons: "digits_value n (ch # ds) = digits_value (n * 10 + (unat ch - 48)) ds"
  by (simp add: digits_value_def)

lemma digits_value_append: "digits_value n (ds @ es) = digits_value (digits_value n ds) es"
  by (simp add: digits_value_def)

lemma digits_value_ge: "n \<le> digits_value n ds"
proof (induction ds arbitrary: n)
  case Nil
  then show ?case by simp
next
  case (Cons ch ds)
  have "n \<le> n * 10 + (unat ch - 48)" by simp
  also have "\<dots> \<le> digits_value (n * 10 + (unat ch - 48)) ds" by (rule Cons.IH)
  finally show ?case by (simp add: digits_value_Cons)
qed

lemma iswdigit_unat: "iswdigit ch \<longleftrightarrow> 48 \<le> unat ch \<and> unat ch \<le> 57"
  by (simp add: iswdigit_def word_le_nat_alt)

lemma unat_digit_of:
  assumes "iswdigit ch"
  shows "unat (digit_of ch) = unat ch - 48"
proof -
  have "unat (ucast ch :: u64) = unat ch"
    by (simp add: unat_ucast_wchar_u64)
  moreover have "(48 :: u64) \<le> ucast ch"
    using assms by (simp add: iswdigit_unat word_le_nat_alt unat_ucast_wchar_u64)
  ultimately show ?thesis
    by (simp add: digit_of_def unat_sub)
qed

text \<open>The guard of the loop is exactly "one more digit would overflow".\<close>

lemma overflow_guard:
  assumes "iswdigit ch"
  shows "result > (UINT64_MAX - digit_of ch) div 10 \<longleftrightarrow>
         2 ^ 64 \<le> unat result * 10 + (unat ch - 48)"
proof -
  have d: "unat ch - 48 \<le> 9" "unat (digit_of ch) = unat ch - 48"
    using assms by (auto simp: iswdigit_unat unat_digit_of)
  have max: "unat UINT64_MAX = 2 ^ 64 - 1"
    by (simp add: UINT64_MAX_def unat_u64_max)
  have "digit_of ch \<le> UINT64_MAX"
    by (simp add: UINT64_MAX_def)
  then have "unat ((UINT64_MAX - digit_of ch) div 10) = (2 ^ 64 - 1 - (unat ch - 48)) div 10"
    by (simp add: unat_div unat_sub max d)
  then have "result > (UINT64_MAX - digit_of ch) div 10 \<longleftrightarrow>
      (2 ^ 64 - 1 - (unat ch - 48)) div 10 < unat result"
    by (simp add: word_less_nat_alt)
  also have "\<dots> \<longleftrightarrow> 2 ^ 64 \<le> unat result * 10 + (unat ch - 48)"
    using d(1) by (simp add: div_less_iff_less_mult) linarith
  finally show ?thesis .
qed

lemma parse_digits_spec:
  "parse_digits result xs =
     (let v = digits_value (unat result) (takeWhile iswdigit xs)
      in if v < 2 ^ 64 then Some (of_nat v, dropWhile iswdigit xs) else None)"
proof (induction xs arbitrary: result)
  case Nil
  then show ?case
    using unat_u64_lt [of result] by simp
next
  case (Cons ch xs)
  show ?case
  proof (cases "iswdigit ch")
    case False
    then show ?thesis
      using unat_u64_lt [of result] by simp
  next
    case True
    define n where "n = unat result * 10 + (unat ch - 48)"
    have tw: "digits_value (unat result) (takeWhile iswdigit (ch # xs)) =
        digits_value n (takeWhile iswdigit xs)"
      using True by (simp add: digits_value_Cons n_def)
    show ?thesis
    proof (cases "2 ^ 64 \<le> n")
      case over: True
      then have "2 ^ 64 \<le> digits_value n (takeWhile iswdigit xs)"
        using digits_value_ge le_trans by blast
      with True over show ?thesis
        by (simp add: tw overflow_guard [OF True] n_def [symmetric] Let_def del: takeWhile.simps)
    next
      case False
      have "unat (result * 10 + digit_of ch) = n"
        using False True
        by (simp add: n_def unat_word_ariths unat_digit_of mod_add_left_eq)
      with True False Cons.IH [of "result * 10 + digit_of ch"] show ?thesis
        by (simp add: tw overflow_guard [OF True] n_def [symmetric] Let_def del: takeWhile.simps)
    qed
  qed
qed

text \<open>
  The complete behaviour of \<^verbatim>\<open>ParseUnsigned\<close>: it reads the longest run of digits, and it
  succeeds exactly when there is one and its decimal value fits 64 bits.
\<close>

lemma ParseUnsigned_exact:
  "ParseUnsigned xs =
     (let ds = takeWhile iswdigit xs; v = digits_value 0 ds
      in if ds \<noteq> [] \<and> v < 2 ^ 64 then Some (of_nat v, dropWhile iswdigit xs) else None)"
proof (cases xs)
  case Nil
  then show ?thesis by (simp add: ParseUnsigned_def)
next
  case (Cons ch rest)
  show ?thesis
  proof (cases "iswdigit ch")
    case True
    with Cons show ?thesis
      using parse_digits_spec [of 0 "ch # rest"] by (simp add: ParseUnsigned_def Let_def)
  next
    case False
    with Cons show ?thesis by (simp add: ParseUnsigned_def)
  qed
qed

lemma ParseUnsigned_shorter:
  assumes "ParseUnsigned xs = Some (n, rest)"
  shows "length rest < length xs"
proof -
  have "takeWhile iswdigit xs \<noteq> []" and rest: "rest = dropWhile iswdigit xs"
    using assms by (auto simp: ParseUnsigned_exact Let_def split: if_splits)
  then have "0 < length (takeWhile iswdigit xs)" by simp
  moreover have "length xs = length (takeWhile iswdigit xs) + length rest"
    unfolding rest by (metis length_append takeWhile_dropWhile_id)
  ultimately show ?thesis by linarith
qed

lemma unat_digit_char: "d < 10 \<Longrightarrow> unat (of_nat (48 + d) :: wchar) = 48 + d"
  by (simp add: unat_of_nat del: of_nat_add)

lemma dec_digits_Nil [simp]: "dec_digits n \<noteq> []"
  by (subst dec_digits.simps) simp

lemma dec_digits_digits: "\<forall>c \<in> set (dec_digits n). iswdigit c"
proof (induction n rule: dec_digits.induct)
  case (1 n)
  have digit: "\<And>d. d < 10 \<Longrightarrow> iswdigit (of_nat (48 + d))"
    by (simp only: iswdigit_unat unat_digit_char) linarith
  show ?case
  proof (cases "n < 10")
    case True
    then show ?thesis
      using digit [of n] by (subst dec_digits.simps) simp
  next
    case False
    then show ?thesis
      using digit [of "n mod 10"] "1.IH" by (subst dec_digits.simps) simp
  qed
qed

lemma dec_digits_value: "digits_value 0 (dec_digits n) = n"
proof (induction n rule: dec_digits.induct)
  case (1 n)
  show ?case
  proof (cases "n < 10")
    case True
    then show ?thesis
      using unat_digit_char [of n] by (subst dec_digits.simps) (simp add: digits_value_Cons)
  next
    case False
    then have "digits_value 0 (dec_digits n) = n div 10 * 10 + n mod 10"
      using 1 unat_digit_char [of "n mod 10"]
      by (subst dec_digits.simps) (simp add: digits_value_append digits_value_Cons)
    then show ?thesis by simp
  qed
qed

lemma takeWhile_digits:
  assumes "rest = [] \<or> \<not> iswdigit (hd rest)"
  shows "takeWhile iswdigit (dec_digits n @ rest) = dec_digits n"
    and "dropWhile iswdigit (dec_digits n @ rest) = rest"
  using assms dec_digits_digits [of n]
  by (cases rest; simp add: takeWhile_append2 dropWhile_append2)+

lemma ParseUnsigned_stream:
  assumes "rest = [] \<or> \<not> iswdigit (hd rest)"
  shows "ParseUnsigned (stream_u64 n @ rest) = Some (n, rest)"
  using unat_u64_lt [of n]
  by (simp add: ParseUnsigned_exact stream_u64_def Let_def takeWhile_digits [OF assms]
      dec_digits_value)

lemma length_dec_digits: "n < 10 ^ k \<Longrightarrow> 0 < k \<Longrightarrow> length (dec_digits n) \<le> k"
proof (induction n arbitrary: k rule: dec_digits.induct)
  case (1 n)
  show ?case
  proof (cases "n < 10")
    case True
    with "1.prems" show ?thesis by (subst dec_digits.simps) simp
  next
    case False
    then obtain j where j: "k = Suc j" "0 < j"
      using "1.prems" by (cases k) (auto, metis One_nat_def gr0I power_one_right power_0 mult.right_neutral)
    then have "n div 10 < 10 ^ j"
      using "1.prems"(1) by (simp add: div_less_iff_less_mult mult.commute)
    with False j "1.IH" show ?thesis by (subst dec_digits.simps) simp
  qed
qed

lemma length_stream_u64: "length (stream_u64 n) \<le> 20"
  using unat_u64_lt [of n] by (simp add: stream_u64_def length_dec_digits)

end
