(* ===== verification/Protocol.thy ===== *)
theory Protocol
  imports StdMap Json TextEncoding
begin

text \<open>
  The messages of \<^verbatim>\<open>client/protocol.h\<close> and \<^verbatim>\<open>client/protocol.cpp\<close>: their type, the two
  field maps, and the JSON form they travel in. \<^verbatim>\<open>DeserializeMessage\<close> returns the error and
  the message it has filled in so far, as the C++ out-parameters do; the C++ result \<^verbatim>\<open>true\<close>
  is \<open>NoError\<close>.
\<close>

definition kMaxFramePayloadBytes :: nat where
  "kMaxFramePayloadBytes = 64 * 1024"

datatype message_type =
    MsgHello | MsgJoin | MsgJoinOk | MsgJoinFail | MsgInsert | MsgDelete | MsgApply
  | MsgSyncRequest | MsgSyncResponse | MsgPing | MsgPong | MsgError | MsgUnknown

datatype protocol_error =
    NoError | FrameTooLarge | InvalidUtf8 | InvalidJson | MissingRequiredField | InvalidMessageType

record protocol_message =
  msg_type :: message_type
  msg_session :: wstr
  msg_client :: wstr
  msg_strings :: "(wstr, wstr) smap"
  msg_numbers :: "(wstr, u64) smap"

definition empty_message :: protocol_message where
  "empty_message =
     \<lparr>msg_type = MsgUnknown, msg_session = [], msg_client = [], msg_strings = [], msg_numbers = []\<rparr>"

section \<open>Names\<close>

fun MessageTypeToString :: "message_type \<Rightarrow> wstr" where
  "MessageTypeToString MsgHello = wide ''HELLO''"
| "MessageTypeToString MsgJoin = wide ''JOIN''"
| "MessageTypeToString MsgJoinOk = wide ''JOIN_OK''"
| "MessageTypeToString MsgJoinFail = wide ''JOIN_FAIL''"
| "MessageTypeToString MsgInsert = wide ''INSERT''"
| "MessageTypeToString MsgDelete = wide ''DELETE''"
| "MessageTypeToString MsgApply = wide ''APPLY''"
| "MessageTypeToString MsgSyncRequest = wide ''SYNC_REQUEST''"
| "MessageTypeToString MsgSyncResponse = wide ''SYNC_RESPONSE''"
| "MessageTypeToString MsgPing = wide ''PING''"
| "MessageTypeToString MsgPong = wide ''PONG''"
| "MessageTypeToString MsgError = wide ''ERROR''"
| "MessageTypeToString MsgUnknown = wide ''UNKNOWN''"

definition MessageTypeFromString :: "wstr \<Rightarrow> message_type" where
  "MessageTypeFromString val =
     (if val = wide ''HELLO'' then MsgHello
      else if val = wide ''JOIN'' then MsgJoin
      else if val = wide ''JOIN_OK'' then MsgJoinOk
      else if val = wide ''JOIN_FAIL'' then MsgJoinFail
      else if val = wide ''INSERT'' then MsgInsert
      else if val = wide ''DELETE'' then MsgDelete
      else if val = wide ''APPLY'' then MsgApply
      else if val = wide ''SYNC_REQUEST'' then MsgSyncRequest
      else if val = wide ''SYNC_RESPONSE'' then MsgSyncResponse
      else if val = wide ''PING'' then MsgPing
      else if val = wide ''PONG'' then MsgPong
      else if val = wide ''ERROR'' then MsgError
      else MsgUnknown)"

fun ProtocolErrorToString :: "protocol_error \<Rightarrow> wstr" where
  "ProtocolErrorToString NoError = wide ''none''"
| "ProtocolErrorToString FrameTooLarge = wide ''frame_too_large''"
| "ProtocolErrorToString InvalidUtf8 = wide ''invalid_utf8''"
| "ProtocolErrorToString InvalidJson = wide ''invalid_json''"
| "ProtocolErrorToString MissingRequiredField = wide ''missing_required_field''"
| "ProtocolErrorToString InvalidMessageType = wide ''invalid_message_type''"

section \<open>Fields\<close>

definition SetString :: "wstr \<Rightarrow> wstr \<Rightarrow> protocol_message \<Rightarrow> protocol_message" where
  "SetString key val m =
     (let m' = (if key = wide ''type'' then m\<lparr>msg_type := MessageTypeFromString val\<rparr>
                else if key = wide ''session'' then m\<lparr>msg_session := val\<rparr>
                else if key = wide ''client'' then m\<lparr>msg_client := val\<rparr>
                else m)
      in m'\<lparr>msg_strings := smap_put key val (msg_strings m')\<rparr>)"

definition SetNumber :: "wstr \<Rightarrow> u64 \<Rightarrow> protocol_message \<Rightarrow> protocol_message" where
  "SetNumber key val m = m\<lparr>msg_numbers := smap_put key val (msg_numbers m)\<rparr>"

definition GetString :: "protocol_message \<Rightarrow> wstr \<Rightarrow> wstr option" where
  "GetString m key = smap_find (msg_strings m) key"

definition GetNumber :: "protocol_message \<Rightarrow> wstr \<Rightarrow> u64 option" where
  "GetNumber m key = smap_find (msg_numbers m) key"

definition IsCommonField :: "wstr \<Rightarrow> bool" where
  "IsCommonField key \<longleftrightarrow> key = wide ''type'' \<or> key = wide ''session'' \<or> key = wide ''client''"

section \<open>Serialisation\<close>

definition AppendJsonStringField :: "wstr \<Rightarrow> wstr \<Rightarrow> wstr \<times> bool \<Rightarrow> wstr \<times> bool" where
  "AppendJsonStringField key val = (\<lambda>(builder, first).
     ((if \<not> first then builder @ [ch_comma] else builder)
        @ [ch_quote] @ EscapeJsonString key @ [ch_quote, ch_colon, ch_quote]
        @ EscapeJsonString val @ [ch_quote], False))"

definition AppendJsonNumberField :: "wstr \<Rightarrow> u64 \<Rightarrow> wstr \<times> bool \<Rightarrow> wstr \<times> bool" where
  "AppendJsonNumberField key val = (\<lambda>(builder, first).
     ((if \<not> first then builder @ [ch_comma] else builder)
        @ [ch_quote] @ EscapeJsonString key @ [ch_quote, ch_colon] @ stream_u64 val, False))"

definition message_json :: "protocol_message \<Rightarrow> wstr" where
  "message_json m =
     (let b1 = AppendJsonStringField (wide ''type'') (MessageTypeToString (msg_type m)) ([ch_lbrace], True);
          b2 = AppendJsonStringField (wide ''session'') (msg_session m) b1;
          b3 = AppendJsonStringField (wide ''client'') (msg_client m) b2;
          b4 = fold (\<lambda>field b. if \<not> IsCommonField (fst field)
                              then AppendJsonStringField (fst field) (snd field) b else b)
                 (msg_strings m) b3;
          b5 = fold (\<lambda>field b. AppendJsonNumberField (fst field) (snd field) b) (msg_numbers m) b4
      in fst b5 @ [ch_rbrace])"

definition SerializeMessage :: "text_api \<Rightarrow> protocol_message \<Rightarrow> protocol_error + bytes" where
  "SerializeMessage api m =
     (if msg_type m = MsgUnknown then Inl InvalidMessageType
      else if msg_session m = [] \<or> msg_client m = [] then Inl MissingRequiredField
      else
        let utf8_json = WideToUtf8 api (message_json m)
        in if utf8_json = [] then Inl InvalidUtf8
           else if length utf8_json > kMaxFramePayloadBytes then Inl FrameTooLarge
           else Inr utf8_json)"

section \<open>Deserialisation\<close>

text \<open>The value after the colon: a string when it starts with a quote, a number otherwise.\<close>

definition parse_value :: "protocol_message \<Rightarrow> wstr \<Rightarrow> wstr \<Rightarrow> (protocol_message \<times> wstr) option" where
  "parse_value m key text =
     (if text \<noteq> [] \<and> hd text = ch_quote
      then map_option (\<lambda>(val, rest). (SetString key val m, rest)) (ParseJsonString text)
      else map_option (\<lambda>(val, rest). (SetNumber key val m, rest)) (ParseUnsigned text))"

lemma SkipWhitespace_Cons: "SkipWhitespace t = c # t' \<Longrightarrow> length t' < length t"
  using length_SkipWhitespace [of t] by simp

lemma parse_value_shorter: "parse_value m key t = Some (m', t') \<Longrightarrow> length t' < length t"
  by (auto simp: parse_value_def dest: ParseJsonString_shorter ParseUnsigned_shorter split: if_splits)

text \<open>The field loop: \<open>Inl\<close> is an early return, \<open>Inr\<close> the text and message after the loop.\<close>

function parse_fields ::
  "protocol_message \<Rightarrow> wstr \<Rightarrow> (protocol_error \<times> protocol_message) + (wstr \<times> protocol_message)" where
  "parse_fields m text =
     (if text = [] then Inr (text, m)
      else case ParseJsonString text of
        None \<Rightarrow> Inl (InvalidJson, m)
      | Some (key, t1) \<Rightarrow>
        (case SkipWhitespace t1 of
          [] \<Rightarrow> Inl (InvalidJson, m)
        | c1 # t2 \<Rightarrow>
          if c1 \<noteq> ch_colon then Inl (InvalidJson, m)
          else
            (case parse_value m key (SkipWhitespace t2) of
              None \<Rightarrow> Inl (InvalidJson, m)
            | Some (m', t3) \<Rightarrow>
              (case SkipWhitespace t3 of
                [] \<Rightarrow> Inl (InvalidJson, m')
              | c2 # t4 \<Rightarrow>
                if c2 = ch_rbrace then Inr (t4, m')
                else if c2 \<noteq> ch_comma then Inl (InvalidJson, m')
                else
                  (case SkipWhitespace t4 of
                    [] \<Rightarrow> Inl (InvalidJson, m')
                  | c3 # t5 \<Rightarrow>
                    if c3 = ch_rbrace then Inl (InvalidJson, m')
                    else parse_fields m' (SkipWhitespace t4))))))"
  by pat_completeness auto
termination
proof (relation "measure (\<lambda>(_, text). length text)", simp, simp, goal_cases)
  case (1 m tx kt key t1 c1 t2 mt m' t3 c2 t4 c3 t5)
  have "length t1 < length tx"
    using 1 by (auto dest: ParseJsonString_shorter)
  moreover have "length t2 < length t1"
    using 1 by (auto dest: SkipWhitespace_Cons)
  moreover have "length t3 < length t2"
    using 1 length_SkipWhitespace [of t2] by (auto dest: parse_value_shorter)
  moreover have "length t4 < length t3"
    using 1 by (auto dest: SkipWhitespace_Cons)
  moreover have "length (SkipWhitespace t4) \<le> length t4"
    by (rule length_SkipWhitespace)
  ultimately have "length (SkipWhitespace t4) < length tx" by linarith
  with 1 show ?case by simp
qed

declare parse_fields.simps [simp del]

definition DeserializeMessage :: "text_api \<Rightarrow> bytes \<Rightarrow> protocol_error \<times> protocol_message" where
  "DeserializeMessage api utf8_json =
     (if length utf8_json > kMaxFramePayloadBytes then (FrameTooLarge, empty_message)
      else case Utf8ToWide api utf8_json of
        None \<Rightarrow> (InvalidUtf8, empty_message)
      | Some text \<Rightarrow>
        (case SkipWhitespace text of
          [] \<Rightarrow> (InvalidJson, empty_message)
        | c # t1 \<Rightarrow>
          if c \<noteq> ch_lbrace then (InvalidJson, empty_message)
          else
            let t2 = SkipWhitespace t1
            in if t2 \<noteq> [] \<and> hd t2 = ch_rbrace then (MissingRequiredField, empty_message)
               else
                 (case parse_fields empty_message t2 of
                   Inl (e, m) \<Rightarrow> (e, m)
                 | Inr (t3, m) \<Rightarrow>
                   if SkipWhitespace t3 \<noteq> [] then (InvalidJson, m)
                   else if msg_type m = MsgUnknown then (InvalidMessageType, m)
                   else if msg_session m = [] \<or> msg_client m = [] then (MissingRequiredField, m)
                   else (NoError, m))))"

section \<open>The JSON text of a message as a list of fields\<close>

datatype field = StrField wstr wstr | NumField wstr u64

fun field_key :: "field \<Rightarrow> wstr" where
  "field_key (StrField k v) = k"
| "field_key (NumField k n) = k"

fun value_json :: "field \<Rightarrow> wstr" where
  "value_json (StrField k v) = ch_quote # EscapeJsonString v @ [ch_quote]"
| "value_json (NumField k n) = stream_u64 n"

definition field_json :: "field \<Rightarrow> wstr" where
  "field_json f = ch_quote # EscapeJsonString (field_key f) @ ch_quote # ch_colon # value_json f"

fun store_field :: "field \<Rightarrow> protocol_message \<Rightarrow> protocol_message" where
  "store_field (StrField k v) m = SetString k v m"
| "store_field (NumField k n) m = SetNumber k n m"

fun join_fields :: "field list \<Rightarrow> wstr" where
  "join_fields [] = []"
| "join_fields (f # fs) = field_json f @ concat (map (\<lambda>g. ch_comma # field_json g) fs)"

definition message_fields :: "protocol_message \<Rightarrow> field list" where
  "message_fields m =
     [StrField (wide ''type'') (MessageTypeToString (msg_type m)),
      StrField (wide ''session'') (msg_session m), StrField (wide ''client'') (msg_client m)]
     @ map (\<lambda>(k, v). StrField k v) (filter (\<lambda>f. \<not> IsCommonField (fst f)) (msg_strings m))
     @ map (\<lambda>(k, n). NumField k n) (msg_numbers m)"

lemma append_string_field:
  "AppendJsonStringField k v (b, first) =
     (b @ (if first then [] else [ch_comma]) @ field_json (StrField k v), False)"
  by (simp add: AppendJsonStringField_def field_json_def)

lemma append_number_field:
  "AppendJsonNumberField k n (b, first) =
     (b @ (if first then [] else [ch_comma]) @ field_json (NumField k n), False)"
  by (simp add: AppendJsonNumberField_def field_json_def)

lemma fold_string_fields:
  "fold (\<lambda>f b. if \<not> IsCommonField (fst f) then AppendJsonStringField (fst f) (snd f) b else b) fs (b, False) =
     (b @ concat (map (\<lambda>g. ch_comma # field_json g)
        (map (\<lambda>(k, v). StrField k v) (filter (\<lambda>f. \<not> IsCommonField (fst f)) fs))), False)"
  by (induction fs arbitrary: b) (auto simp: append_string_field split: prod.splits)

lemma fold_number_fields:
  "fold (\<lambda>f b. AppendJsonNumberField (fst f) (snd f) b) fs (b, False) =
     (b @ concat (map (\<lambda>g. ch_comma # field_json g) (map (\<lambda>(k, n). NumField k n) fs)), False)"
  by (induction fs arbitrary: b) (auto simp: append_number_field split: prod.splits)

lemma message_json_fields:
  "message_json m = ch_lbrace # join_fields (message_fields m) @ [ch_rbrace]"
  by (simp add: message_json_def message_fields_def append_string_field fold_string_fields
      fold_number_fields Let_def)

section \<open>The field loop reads back what serialisation wrote\<close>

lemma digits_head: "\<exists>c cs. stream_u64 n = c # cs \<and> iswdigit c"
  using dec_digits_digits [of "unat n"] dec_digits_Nil [of "unat n"]
  by (cases "dec_digits (unat n)") (auto simp: stream_u64_def)

lemma iswdigit_not_special: "iswdigit c \<Longrightarrow> c \<noteq> ch_quote \<and> \<not> IsWhitespace c"
  by (auto simp: iswdigit_unat IsWhitespace_def)

lemma parse_value_field:
  assumes "c = ch_comma \<or> c = ch_rbrace"
  shows "parse_value m (field_key f) (SkipWhitespace (value_json f @ c # t)) = Some (store_field f m, c # t)"
proof (cases f)
  case (StrField k v)
  have "SkipWhitespace (value_json f @ c # t) = value_json f @ c # t"
    using StrField by (intro SkipWhitespace_id) (simp add: IsWhitespace_def)
  with StrField show ?thesis
    using ParseJsonString_escaped [of v "c # t"] by (simp add: parse_value_def)
next
  case (NumField k n)
  obtain d ds where ds: "stream_u64 n = d # ds" "iswdigit d"
    using digits_head by blast
  then have "SkipWhitespace (value_json f @ c # t) = value_json f @ c # t"
    using NumField iswdigit_not_special by (intro SkipWhitespace_id) simp
  moreover have "ParseUnsigned (stream_u64 n @ c # t) = Some (n, c # t)"
    using assms by (intro ParseUnsigned_stream) (auto simp: iswdigit_unat)
  ultimately show ?thesis
    using NumField ds iswdigit_not_special [OF ds(2)] by (simp add: parse_value_def)
qed

lemma parse_fields_one:
  assumes "c = ch_comma \<or> c = ch_rbrace"
  shows "parse_fields m (field_json f @ c # t) =
     (if c = ch_rbrace then Inr (t, store_field f m)
      else case SkipWhitespace t of
        [] \<Rightarrow> Inl (InvalidJson, store_field f m)
      | c' # t' \<Rightarrow> if c' = ch_rbrace then Inl (InvalidJson, store_field f m)
                   else parse_fields (store_field f m) (SkipWhitespace t))"
proof -
  have key: "ParseJsonString (field_json f @ c # t) =
      Some (field_key f, ch_colon # value_json f @ c # t)"
    using ParseJsonString_escaped [of "field_key f" "ch_colon # value_json f @ c # t"]
    by (simp add: field_json_def)
  have ws: "SkipWhitespace (c # t) = c # t" "SkipWhitespace (ch_colon # x) = ch_colon # x" for x
    using assms by (auto simp: IsWhitespace_def)
  have "field_json f @ c # t \<noteq> []" by (simp add: field_json_def)
  then show ?thesis
    using assms by (subst parse_fields.simps)
      (auto simp: key ws parse_value_field [OF assms] split: list.splits simp del: SkipWhitespace.simps)
qed

lemma parse_fields_join:
  "parse_fields m (join_fields (f # fs) @ ch_rbrace # t) = Inr (t, fold store_field (f # fs) m)"
proof (induction fs arbitrary: f m)
  case Nil
  then show ?case by (simp add: parse_fields_one)
next
  case (Cons g gs)
  let ?rest = "join_fields (g # gs) @ ch_rbrace # t"
  obtain w where w: "?rest = ch_quote # w"
    by (simp add: field_json_def)
  then have ws: "SkipWhitespace ?rest = ?rest"
    by (intro SkipWhitespace_id) (simp add: IsWhitespace_def)
  have "parse_fields m (field_json f @ ch_comma # ?rest) = parse_fields (store_field f m) ?rest"
    using ws w by (simp add: parse_fields_one del: join_fields.simps SkipWhitespace.simps)
  then show ?case
    using Cons.IH [where f = g and m = "store_field f m"] by simp
qed

section \<open>Serialise, then deserialise\<close>

definition message_ok :: "protocol_message \<Rightarrow> bool" where
  "message_ok m \<longleftrightarrow> smap_ok (msg_strings m) \<and> smap_ok (msg_numbers m)"

text \<open>The receiver's string map also holds the three common fields.\<close>

definition received :: "protocol_message \<Rightarrow> protocol_message" where
  "received m = m\<lparr>msg_strings :=
     smap_put (wide ''client'') (msg_client m)
       (smap_put (wide ''session'') (msg_session m)
         (smap_put (wide ''type'') (MessageTypeToString (msg_type m)) (msg_strings m)))\<rparr>"

lemma MessageType_roundtrip [simp]: "MessageTypeFromString (MessageTypeToString ty) = ty"
  by (cases ty) (simp_all add: MessageTypeFromString_def)

lemma store_strings:
  "\<forall>f \<in> set fs. \<not> IsCommonField (fst f) \<Longrightarrow>
   fold store_field (map (\<lambda>(k, v). StrField k v) fs) m = m\<lparr>msg_strings := fields.put_all fs (msg_strings m)\<rparr>"
  by (induction fs arbitrary: m)
    (auto simp: fields.put_all_Nil fields.put_all_Cons SetString_def IsCommonField_def)

lemma store_numbers:
  "fold store_field (map (\<lambda>(k, n). NumField k n) fs) m = m\<lparr>msg_numbers := fields.put_all fs (msg_numbers m)\<rparr>"
  by (induction fs arbitrary: m) (auto simp: fields.put_all_Nil fields.put_all_Cons SetNumber_def)

lemma map_of_filter_keys:
  "map_of (filter (\<lambda>f. P (fst f)) m) k = (if P k then smap_find m k else None)"
  by (induction m) (auto simp: smap_find_def)

lemma put_all_sorted: "smap_ok m \<Longrightarrow> fields.put_all m [] = m"
  by (rule fields.content_unique)
    (auto simp: fields.ok_put_all fields.find_put_all smap_ok_distinct fields.find_empty
      smap_find_def [symmetric] split: option.splits)

lemma received_strings:
  assumes "smap_ok ss"
  shows "fields.put_all (filter (\<lambda>f. \<not> IsCommonField (fst f)) ss)
      (smap_put (wide ''client'') c (smap_put (wide ''session'') s (smap_put (wide ''type'') ty []))) =
    smap_put (wide ''client'') c (smap_put (wide ''session'') s (smap_put (wide ''type'') ty ss))"
proof (rule fields.content_unique)
  have ok: "smap_ok (filter (\<lambda>f. \<not> IsCommonField (fst f)) ss)"
    using assms by (rule smap_ok_filter)
  show "smap_ok (fields.put_all (filter (\<lambda>f. \<not> IsCommonField (fst f)) ss)
      (smap_put (wide ''client'') c (smap_put (wide ''session'') s (smap_put (wide ''type'') ty []))))"
    by (intro fields.ok_put_all fields.ok_put fields.ok_empty)
  show "smap_ok (smap_put (wide ''client'') c (smap_put (wide ''session'') s (smap_put (wide ''type'') ty ss)))"
    using assms by (intro fields.ok_put)
  show "smap_find (fields.put_all (filter (\<lambda>f. \<not> IsCommonField (fst f)) ss)
      (smap_put (wide ''client'') c (smap_put (wide ''session'') s (smap_put (wide ''type'') ty [])))) k =
    smap_find (smap_put (wide ''client'') c (smap_put (wide ''session'') s (smap_put (wide ''type'') ty ss))) k"
    for k
    unfolding fields.find_put_all [OF smap_ok_distinct [OF ok]] fields.find_put fields.find_empty
      map_of_filter_keys [of "\<lambda>k. \<not> IsCommonField k" ss k]
    by (auto simp: IsCommonField_def split: option.splits)
qed

lemma fold_store_message:
  assumes "message_ok m"
  shows "fold store_field (message_fields m) empty_message = received m"
proof -
  have common: "fold store_field
      [StrField (wide ''type'') (MessageTypeToString (msg_type m)),
       StrField (wide ''session'') (msg_session m), StrField (wide ''client'') (msg_client m)] empty_message =
    \<lparr>msg_type = msg_type m, msg_session = msg_session m, msg_client = msg_client m,
     msg_strings = smap_put (wide ''client'') (msg_client m) (smap_put (wide ''session'') (msg_session m)
       (smap_put (wide ''type'') (MessageTypeToString (msg_type m)) [])), msg_numbers = []\<rparr>"
    by (simp add: SetString_def empty_message_def)
  show ?thesis
    using assms unfolding message_fields_def fold_append comp_apply common
    by (simp add: store_strings store_numbers received_strings put_all_sorted message_ok_def received_def)
qed

lemma serialize_deserialize:
  assumes "utf8_api api" and "message_ok m" and "SerializeMessage api m = Inr b"
  shows "DeserializeMessage api b = (NoError, received m)"
proof -
  have req: "msg_type m \<noteq> MsgUnknown" "msg_session m \<noteq> []" "msg_client m \<noteq> []"
    and b: "b = WideToUtf8 api (message_json m)" "b \<noteq> []" "length b \<le> kMaxFramePayloadBytes"
    using assms(3) by (auto simp: SerializeMessage_def Let_def split: if_splits)
  have "utf16_wf (message_json m)"
    using b WideToUtf8_empty_iff [OF assms(1), of "message_json m"] by blast
  then have dec: "Utf8ToWide api b = Some (ch_lbrace # join_fields (message_fields m) @ [ch_rbrace])"
    unfolding b(1) using Utf8ToWide_WideToUtf8 [OF assms(1)] by (simp add: message_json_fields)
  obtain f fs where fs: "message_fields m = f # fs"
    by (simp add: message_fields_def)
  obtain w where w: "join_fields (message_fields m) @ [ch_rbrace] = ch_quote # w"
    by (simp add: fs field_json_def)
  have ws: "SkipWhitespace (ch_quote # w) = ch_quote # w" "SkipWhitespace (ch_lbrace # x) = ch_lbrace # x" for x
    by (simp_all add: IsWhitespace_def)
  have "parse_fields empty_message (ch_quote # w) = Inr ([], received m)"
    using parse_fields_join [of empty_message f fs "[]"] fold_store_message [OF assms(2)] w fs by simp
  then show ?thesis
    using req b(3) by (simp add: DeserializeMessage_def dec w ws Let_def received_def
        del: SkipWhitespace.simps(2))
qed

section \<open>Building and reading messages\<close>

lemma message_ok_empty [simp]: "message_ok empty_message"
  by (simp add: message_ok_def empty_message_def)

lemma message_ok_SetString [simp]: "message_ok m \<Longrightarrow> message_ok (SetString k v m)"
  by (simp add: message_ok_def SetString_def Let_def fields.ok_put)

lemma message_ok_SetNumber [simp]: "message_ok m \<Longrightarrow> message_ok (SetNumber k n m)"
  by (simp add: message_ok_def SetNumber_def fields.ok_put)

lemma message_ok_update [simp]:
  "message_ok (m\<lparr>msg_type := ty\<rparr>) = message_ok m"
  "message_ok (m\<lparr>msg_session := s\<rparr>) = message_ok m"
  "message_ok (m\<lparr>msg_client := c\<rparr>) = message_ok m"
  by (simp_all add: message_ok_def)

lemma GetString_simps [simp]:
  "GetString (SetString k v m) k' = (if k' = k then Some v else GetString m k')"
  "GetString (SetNumber k n m) k' = GetString m k'"
  "GetString empty_message k' = None"
  by (auto simp: GetString_def SetString_def SetNumber_def Let_def fields.find_put fields.find_empty
      empty_message_def)

lemma GetNumber_simps [simp]:
  "GetNumber (SetNumber k n m) k' = (if k' = k then Some n else GetNumber m k')"
  "GetNumber (SetString k v m) k' = GetNumber m k'"
  "GetNumber empty_message k' = None"
  by (auto simp: GetNumber_def SetString_def SetNumber_def Let_def fields.find_put fields.find_empty
      empty_message_def)

lemma Get_update [simp]:
  "GetString (m\<lparr>msg_type := ty\<rparr>) k = GetString m k"
  "GetString (m\<lparr>msg_session := s\<rparr>) k = GetString m k"
  "GetString (m\<lparr>msg_client := c\<rparr>) k = GetString m k"
  "GetNumber (m\<lparr>msg_type := ty\<rparr>) k = GetNumber m k"
  "GetNumber (m\<lparr>msg_session := s\<rparr>) k = GetNumber m k"
  "GetNumber (m\<lparr>msg_client := c\<rparr>) k = GetNumber m k"
  by (simp_all add: GetString_def GetNumber_def)

lemma Set_header [simp]:
  "msg_type (SetNumber k n m) = msg_type m"
  "msg_session (SetNumber k n m) = msg_session m"
  "msg_client (SetNumber k n m) = msg_client m"
  by (simp_all add: SetNumber_def)

lemma SetString_header [simp]:
  "\<not> IsCommonField k \<Longrightarrow> msg_type (SetString k v m) = msg_type m"
  "\<not> IsCommonField k \<Longrightarrow> msg_session (SetString k v m) = msg_session m"
  "\<not> IsCommonField k \<Longrightarrow> msg_client (SetString k v m) = msg_client m"
  by (simp_all add: SetString_def IsCommonField_def)

lemma received_header [simp]:
  "msg_type (received m) = msg_type m"
  "msg_session (received m) = msg_session m"
  "msg_client (received m) = msg_client m"
  by (simp_all add: received_def)

lemma received_number [simp]: "GetNumber (received m) k = GetNumber m k"
  by (simp add: received_def GetNumber_def)

lemma received_string [simp]: "\<not> IsCommonField k \<Longrightarrow> GetString (received m) k = GetString m k"
  by (simp add: received_def GetString_def IsCommonField_def fields.find_put)

lemma IsCommonField_wide [simp]:
  "IsCommonField (wide k) \<longleftrightarrow> k = ''type'' \<or> k = ''session'' \<or> k = ''client''"
  by (simp add: IsCommonField_def)

section \<open>When a message can be serialised\<close>

fun field_wf :: "field \<Rightarrow> bool" where
  "field_wf (StrField k v) \<longleftrightarrow> utf16_wf k \<and> utf16_wf v"
| "field_wf (NumField k n) \<longleftrightarrow> utf16_wf k"

lemma utf16_wf_sep:
  assumes "\<not> is_high_surrogate c" and "\<not> is_low_surrogate c"
  shows "utf16_wf (xs @ c # r) \<longleftrightarrow> utf16_wf xs \<and> utf16_wf r"
proof (induction xs rule: utf16_wf.induct)
  case 1
  then show ?case using assms by simp
next
  case (2 u us)
  then show ?case using assms by (cases us) auto
qed

lemma quote_plain: "\<not> is_high_surrogate ch_quote" "\<not> is_low_surrogate ch_quote"
  and comma_plain: "\<not> is_high_surrogate ch_comma" "\<not> is_low_surrogate ch_comma"
  and colon_plain: "\<not> is_high_surrogate ch_colon" "\<not> is_low_surrogate ch_colon"
  and backslash_plain: "\<not> is_high_surrogate ch_backslash" "\<not> is_low_surrogate ch_backslash"
  and brace_plain: "\<not> is_high_surrogate ch_lbrace" "\<not> is_low_surrogate ch_lbrace"
    "\<not> is_high_surrogate ch_rbrace" "\<not> is_low_surrogate ch_rbrace"
  by (simp_all add: is_high_surrogate_def is_low_surrogate_def)

lemmas plain_chars = quote_plain comma_plain colon_plain backslash_plain brace_plain

lemma escape_surrogate: "is_high_surrogate u \<or> is_low_surrogate u \<Longrightarrow> escape_char u = [u]"
  by (auto simp: escape_char_def is_high_surrogate_def is_low_surrogate_def)

lemma escape_plain:
  assumes "\<not> is_high_surrogate u" and "\<not> is_low_surrogate u"
  shows "utf16_wf (escape_char u @ r) \<longleftrightarrow> utf16_wf r"
  using assms by (simp add: escape_char_def ascii_not_surrogate)

lemma escape_head_low:
  "escape_char v @ r = w # r' \<Longrightarrow> is_low_surrogate w \<longleftrightarrow> is_low_surrogate v"
  by (auto simp: escape_char_def is_low_surrogate_def split: if_splits)

lemma utf16_wf_escape: "utf16_wf (EscapeJsonString s) \<longleftrightarrow> utf16_wf s"
proof (induction s rule: utf16_wf.induct)
  case 1
  then show ?case by (simp add: EscapeJsonString_def)
next
  case (2 u us)
  show ?case
  proof (cases "is_high_surrogate u")
    case high: True
    show ?thesis
    proof (cases us)
      case Nil
      with high show ?thesis by (simp add: EscapeJsonString_def escape_surrogate)
    next
      case (Cons v vs)
      show ?thesis
      proof (cases "is_low_surrogate v")
        case True
        with high Cons "2.IH"(1) show ?thesis
          by (simp add: EscapeJsonString_def escape_surrogate)
      next
        case False
        obtain w r' where "escape_char v @ concat (map escape_char vs) = w # r'"
          by (cases "escape_char v") (auto simp: escape_char_def split: if_splits)
        with high Cons False escape_head_low show ?thesis
          by (fastforce simp: EscapeJsonString_def escape_surrogate)
      qed
    qed
  next
    case False
    with 2 show ?thesis
      by (cases "is_low_surrogate u") (simp_all add: EscapeJsonString_def escape_surrogate escape_plain)
  qed
qed

lemma utf16_wf_stream: "utf16_wf (stream_u64 n)"
  using dec_digits_digits [of "unat n"]
  by (intro utf16_wf_plain) (auto simp: stream_u64_def iswdigit_unat is_high_surrogate_def is_low_surrogate_def)

lemma utf16_wf_field: "utf16_wf (field_json f) \<longleftrightarrow> field_wf f"
  by (cases f)
    (simp_all add: field_json_def utf16_wf_sep plain_chars utf16_wf_escape utf16_wf_stream)

lemma utf16_wf_fields:
  "utf16_wf (concat (map (\<lambda>g. ch_comma # field_json g) fs) @ [ch_rbrace]) \<longleftrightarrow> (\<forall>f \<in> set fs. field_wf f)"
proof (induction fs)
  case Nil
  then show ?case by (simp add: plain_chars)
next
  case (Cons f fs)
  obtain c r where c: "concat (map (\<lambda>g. ch_comma # field_json g) fs) @ [ch_rbrace] = c # r"
    "c = ch_comma \<or> c = ch_rbrace"
    by (cases fs) auto
  then have "utf16_wf (field_json f @ c # r) \<longleftrightarrow> utf16_wf (field_json f) \<and> utf16_wf (c # r)"
    using utf16_wf_sep [of c "field_json f" r] plain_chars by auto
  with Cons c show ?case by (simp add: utf16_wf_field plain_chars)
qed

lemma utf16_wf_message: "utf16_wf (message_json m) \<longleftrightarrow> (\<forall>f \<in> set (message_fields m). field_wf f)"
proof -
  obtain f fs where fs: "message_fields m = f # fs"
    by (simp add: message_fields_def)
  have "utf16_wf (ch_comma # field_json f @ concat (map (\<lambda>g. ch_comma # field_json g) fs) @ [ch_rbrace]) \<longleftrightarrow>
      (\<forall>f \<in> set (message_fields m). field_wf f)"
    using utf16_wf_fields [of "f # fs"] by (simp add: fs)
  then show ?thesis
    by (simp add: message_json_fields fs plain_chars)
qed

lemma SerializeMessage_Inr:
  assumes "utf8_api api" and "msg_type m \<noteq> MsgUnknown" and "msg_session m \<noteq> []" and "msg_client m \<noteq> []"
    and "\<forall>f \<in> set (message_fields m). field_wf f"
    and "3 * length (message_json m) \<le> kMaxFramePayloadBytes"
  shows "SerializeMessage api m = Inr (WideToUtf8 api (message_json m))"
proof -
  have wf: "utf16_wf (message_json m)"
    using assms(5) by (simp add: utf16_wf_message)
  then have "WideToUtf8 api (message_json m) \<noteq> []"
    using WideToUtf8_empty_iff [OF assms(1)] by (simp add: message_json_fields)
  moreover have "length (WideToUtf8 api (message_json m)) \<le> kMaxFramePayloadBytes"
    using length_WideToUtf8 [OF assms(1) wf] assms(6) by linarith
  ultimately show ?thesis
    using assms(2-4) by (simp add: SerializeMessage_def Let_def)
qed

lemma SerializeMessage_ill_formed:
  assumes "utf8_api api" and "f \<in> set (message_fields m)" and "\<not> field_wf f"
  shows "\<exists>e. SerializeMessage api m = Inl e"
proof -
  have "WideToUtf8 api (message_json m) = []"
    using assms utf16_wf_message [of m] WideToUtf8_empty_iff by blast
  then show ?thesis by (simp add: SerializeMessage_def)
qed

lemma SerializeMessage_bounded:
  "SerializeMessage api m = Inr b \<Longrightarrow> 0 < length b \<and> length b \<le> kMaxFramePayloadBytes"
  by (auto simp: SerializeMessage_def Let_def split: if_splits)

end
