(* ===== verification/Frame.thy ===== *)
theory Frame
  imports Protocol
begin

text \<open>
  The length-prefixed frames of \<^verbatim>\<open>client/protocol.cpp\<close>: \<^verbatim>\<open>EncodeFrame\<close> and the class
  \<^verbatim>\<open>FrameDecoder\<close>, whose only field is its buffer. The lemmas show that a frame is read
  back exactly, and that the decoder recovers the payloads of a stream whatever the
  segmentation, as long as no payload is so long that the buffer limit of \<^verbatim>\<open>Append\<close> can
  be hit by the bytes of the next frame.
\<close>

type_synonym frame_decoder = bytes

definition EncodeFrame :: "bytes \<Rightarrow> bytes" where
  "EncodeFrame payload =
     (let len = (of_nat (length payload) :: u32)
      in [ucast (drop_bit 24 len AND 0xFF), ucast (drop_bit 16 len AND 0xFF),
          ucast (drop_bit 8 len AND 0xFF), ucast (len AND 0xFF)] @ payload)"

definition ReadBigEndianLength :: "bytes \<Rightarrow> u32" where
  "ReadBigEndianLength bs =
     push_bit 24 (ucast (bs ! 0)) OR push_bit 16 (ucast (bs ! 1)) OR push_bit 8 (ucast (bs ! 2))
       OR ucast (bs ! 3)"

definition FrameDecoder_Append :: "bytes \<Rightarrow> frame_decoder \<Rightarrow> protocol_error \<times> frame_decoder" where
  "FrameDecoder_Append bs buffer =
     (if length buffer + length bs > kMaxFramePayloadBytes + 4 then (FrameTooLarge, [])
      else (NoError, buffer @ bs))"

text \<open>The payload is present exactly when the C++ function returns \<^verbatim>\<open>true\<close>.\<close>

definition FrameDecoder_TryReadFrame ::
  "frame_decoder \<Rightarrow> bytes option \<times> protocol_error \<times> frame_decoder" where
  "FrameDecoder_TryReadFrame buffer =
     (if length buffer < 4 then (None, NoError, buffer)
      else
        let len = ReadBigEndianLength (take 4 buffer)
        in if unat len > kMaxFramePayloadBytes then (None, FrameTooLarge, [])
           else if length buffer < unat len + 4 then (None, NoError, buffer)
           else (Some (substr 4 (unat len) buffer), NoError, drop (unat len + 4) buffer))"

definition FrameDecoder_Clear :: "frame_decoder \<Rightarrow> frame_decoder" where
  "FrameDecoder_Clear buffer = []"

section \<open>One frame\<close>

lemma length_EncodeFrame [simp]: "length (EncodeFrame p) = length p + 4"
  by (simp add: EncodeFrame_def Let_def)

lemma bit_byte_of:
  "bit (ucast (ucast (y AND 0xFF) :: byte) :: u32) n \<longleftrightarrow> n < 8 \<and> bit (y :: u32) n"
proof -
  have m: "(0xFF :: u32) = mask 8" by (simp add: mask_eq_exp_minus_1)
  show ?thesis
    unfolding m by (auto simp: bit_ucast_iff bit_and_iff bit_mask_iff dest: bit_imp_le_length)
qed

lemma big_endian_join:
  "push_bit 24 (ucast (ucast (drop_bit 24 x AND 0xFF) :: byte)) OR
   push_bit 16 (ucast (ucast (drop_bit 16 x AND 0xFF) :: byte)) OR
   push_bit 8 (ucast (ucast (drop_bit 8 x AND 0xFF) :: byte)) OR
   ucast (ucast (x AND 0xFF) :: byte) = (x :: u32)"
proof (rule bit_word_eqI)
  fix n
  assume n: "n < LENGTH(32)"
  consider "n < 8" | "8 \<le> n" "n < 16" | "16 \<le> n" "n < 24" | "24 \<le> n" by linarith
  then show "bit ((push_bit 24 (ucast (ucast (drop_bit 24 x AND 0xFF) :: byte)) OR
      push_bit 16 (ucast (ucast (drop_bit 16 x AND 0xFF) :: byte)) OR
      push_bit 8 (ucast (ucast (drop_bit 8 x AND 0xFF) :: byte)) OR
      ucast (ucast (x AND 0xFF) :: byte)) :: u32) n = bit (x :: u32) n"
    using n by cases (simp_all only: bit_or_iff bit_push_bit_iff bit_byte_of bit_drop_bit_eq comp_apply
        possible_bit_word, auto)
qed

lemma ReadBigEndianLength_EncodeFrame:
  "ReadBigEndianLength (take 4 (EncodeFrame p @ r)) = of_nat (length p)"
proof -
  have four: "take 4 (EncodeFrame p @ r) =
      [ucast (drop_bit 24 (of_nat (length p) :: u32) AND 0xFF), ucast (drop_bit 16 (of_nat (length p) :: u32) AND 0xFF),
       ucast (drop_bit 8 (of_nat (length p) :: u32) AND 0xFF), ucast ((of_nat (length p) :: u32) AND 0xFF)]"
    by (simp add: EncodeFrame_def Let_def)
  have read: "ReadBigEndianLength [a, b, c, d] =
      push_bit 24 (ucast a) OR push_bit 16 (ucast b) OR push_bit 8 (ucast c) OR ucast d" for a b c d
    unfolding ReadBigEndianLength_def by simp
  show ?thesis
    unfolding four read by (rule big_endian_join)
qed

lemma unat_frame_length: "length p \<le> kMaxFramePayloadBytes \<Longrightarrow> unat (of_nat (length p) :: u32) = length p"
  by (simp add: unat_of_nat kMaxFramePayloadBytes_def)

lemma drop_EncodeFrame: "drop (length p + 4) (EncodeFrame p @ r) = r"
  by simp

lemma substr_EncodeFrame: "substr 4 (length p) (EncodeFrame p @ r) = p"
  by (simp add: substr_def EncodeFrame_def Let_def)

lemma TryReadFrame_EncodeFrame:
  assumes "length p \<le> kMaxFramePayloadBytes"
  shows "FrameDecoder_TryReadFrame (EncodeFrame p @ r) = (Some p, NoError, r)"
  using assms
  by (simp add: FrameDecoder_TryReadFrame_def ReadBigEndianLength_EncodeFrame unat_frame_length
      substr_EncodeFrame Let_def del: take_append)

text \<open>A proper prefix of a frame is left alone until the rest arrives.\<close>

lemma TryReadFrame_partial:
  assumes "b @ rest = EncodeFrame p @ r" and "length b < length p + 4"
    and "length p \<le> kMaxFramePayloadBytes"
  shows "FrameDecoder_TryReadFrame b = (None, NoError, b)"
proof (cases "length b < 4")
  case True
  then show ?thesis by (simp add: FrameDecoder_TryReadFrame_def)
next
  case False
  have "take 4 (b @ rest) = take 4 b"
    using False by simp
  then have "ReadBigEndianLength (take 4 b) = of_nat (length p)"
    using ReadBigEndianLength_EncodeFrame [of p r] assms(1) by metis
  with False assms(2,3) show ?thesis
    by (simp add: FrameDecoder_TryReadFrame_def unat_frame_length Let_def)
qed

lemma TryReadFrame_shorter:
  "FrameDecoder_TryReadFrame b = (Some p, e, b') \<Longrightarrow> length b' < length b"
  by (auto simp: FrameDecoder_TryReadFrame_def Let_def split: if_splits)

text \<open>Conversely, what is read is what the buffer starts with.\<close>

lemma bit_join_byte:
  assumes "n < 8"
  shows "bit (push_bit 24 (ucast a) OR push_bit 16 (ucast b) OR push_bit 8 (ucast c) OR ucast d :: u32) (24 + n) = bit (a :: byte) n"
    and "bit (push_bit 24 (ucast a) OR push_bit 16 (ucast b) OR push_bit 8 (ucast c) OR ucast d :: u32) (16 + n) = bit (b :: byte) n"
    and "bit (push_bit 24 (ucast a) OR push_bit 16 (ucast b) OR push_bit 8 (ucast c) OR ucast d :: u32) (8 + n) = bit (c :: byte) n"
    and "bit (push_bit 24 (ucast a) OR push_bit 16 (ucast b) OR push_bit 8 (ucast c) OR ucast d :: u32) n = bit (d :: byte) n"
  using assms
  by (auto simp: bit_or_iff bit_push_bit_iff bit_ucast_iff dest: bit_imp_le_length)

lemma byte_of_word:
  "(ucast (y AND 0xFF) :: byte) = x \<longleftrightarrow> (\<forall>n < 8. bit (y :: u32) n = bit x n)"
proof -
  have m: "(0xFF :: u32) = mask 8" by (simp add: mask_eq_exp_minus_1)
  have "bit (ucast (y AND 0xFF) :: byte) n = bit y n" if "n < 8" for n
    using that unfolding m by (simp add: bit_ucast_iff bit_and_iff bit_mask_iff)
  then show ?thesis
    by (auto simp: bit_eq_iff dest: bit_imp_le_length)
qed

lemma EncodeFrame_ReadBigEndianLength:
  assumes "unat (ReadBigEndianLength [a, b, c, d]) = length p"
  shows "EncodeFrame p = [a, b, c, d] @ p"
proof -
  define x where "x = ReadBigEndianLength [a, b, c, d]"
  have x: "x = push_bit 24 (ucast a) OR push_bit 16 (ucast b) OR push_bit 8 (ucast c) OR ucast d"
    unfolding x_def ReadBigEndianLength_def by simp
  have len: "(of_nat (length p) :: u32) = x"
    using assms by (simp add: x_def flip: assms)
  have "(ucast (drop_bit 24 x AND 0xFF) :: byte) = a" "(ucast (drop_bit 16 x AND 0xFF) :: byte) = b"
    "(ucast (drop_bit 8 x AND 0xFF) :: byte) = c" "(ucast (x AND 0xFF) :: byte) = d"
    unfolding byte_of_word bit_drop_bit_eq comp_apply using bit_join_byte x by blast+
  then show ?thesis
    by (simp add: EncodeFrame_def Let_def len)
qed

lemma TryReadFrame_exact:
  "FrameDecoder_TryReadFrame buf = (Some p, e, r) \<longleftrightarrow>
   e = NoError \<and> length p \<le> kMaxFramePayloadBytes \<and> buf = EncodeFrame p @ r"
proof
  assume read: "FrameDecoder_TryReadFrame buf = (Some p, e, r)"
  then have four: "4 \<le> length buf"
    by (auto simp: FrameDecoder_TryReadFrame_def split: if_splits)
  then obtain a b c d rest where buf: "buf = a # b # c # d # rest"
    by (auto simp: numeral_eq_Suc Suc_le_length_iff)
  define n where "n = unat (ReadBigEndianLength [a, b, c, d])"
  have n: "n \<le> kMaxFramePayloadBytes" "n \<le> length rest" "p = take n rest" "r = drop n rest" "e = NoError"
    using read
    by (auto simp: FrameDecoder_TryReadFrame_def buf Let_def n_def substr_def eval_nat_numeral split: if_splits)
  then have "EncodeFrame p = [a, b, c, d] @ p"
    by (intro EncodeFrame_ReadBigEndianLength) (simp add: n_def)
  with n show "e = NoError \<and> length p \<le> kMaxFramePayloadBytes \<and> buf = EncodeFrame p @ r"
    by (simp add: buf)
qed (auto simp: TryReadFrame_EncodeFrame)

section \<open>A stream of frames\<close>

text \<open>The caller's loop: take complete frames until there is none.\<close>

function drain :: "frame_decoder \<Rightarrow> bytes list \<times> protocol_error \<times> frame_decoder" where
  "drain b =
     (case FrameDecoder_TryReadFrame b of
        (None, e, b') \<Rightarrow> ([], e, b')
      | (Some p, _, b') \<Rightarrow> (let (ps, e, b'') = drain b' in (p # ps, e, b'')))"
  by pat_completeness auto
termination
  by (relation "measure length") (auto dest: TryReadFrame_shorter [OF sym])

declare drain.simps [simp del]

text \<open>Feeding received segments one after the other, taking every complete frame between two.\<close>

fun feed :: "bytes list \<Rightarrow> frame_decoder \<Rightarrow> (bytes list \<times> frame_decoder) option" where
  "feed [] b = Some ([], b)"
| "feed (s # ss) b =
     (case FrameDecoder_Append s b of
        (NoError, b1) \<Rightarrow>
          (case drain b1 of
             (ps, NoError, b2) \<Rightarrow> map_option (\<lambda>(qs, b3). (ps @ qs, b3)) (feed ss b2)
           | _ \<Rightarrow> None)
      | _ \<Rightarrow> None)"

definition frames :: "bytes list \<Rightarrow> bytes" where
  "frames ps = concat (map EncodeFrame ps)"

lemma frames_simps [simp]: "frames [] = []" "frames (p # ps) = EncodeFrame p @ frames ps"
  by (simp_all add: frames_def)

lemma frames_append: "frames (ps @ qs) = frames ps @ frames qs"
  by (simp add: frames_def)

text \<open>What is left after taking frames: a proper prefix of the next one.\<close>

definition drained :: "frame_decoder \<Rightarrow> bytes list \<Rightarrow> bool" where
  "drained b ps \<longleftrightarrow> (case ps of [] \<Rightarrow> b = [] | p # _ \<Rightarrow> length b < length p + 4)"

lemma drain_stream:
  assumes "b @ rest = frames ps" and "\<forall>p \<in> set ps. length p \<le> kMaxFramePayloadBytes"
  obtains ps1 ps2 b' where "ps = ps1 @ ps2" and "drain b = (ps1, NoError, b')"
    and "b' @ rest = frames ps2" and "drained b' ps2"
  using assms
proof (induction ps arbitrary: b thesis)
  case Nil
  then show ?case
    by (intro Nil.prems(1) [of "[]" "[]" "[]"])
      (simp_all add: drain.simps FrameDecoder_TryReadFrame_def drained_def)
next
  case (Cons p ps)
  have p: "length p \<le> kMaxFramePayloadBytes" using Cons.prems(3) by simp
  have eq: "b @ rest = EncodeFrame p @ frames ps" using Cons.prems(2) by simp
  show ?case
  proof (cases "length b < length p + 4")
    case True
    have "FrameDecoder_TryReadFrame b = (None, NoError, b)"
      by (rule TryReadFrame_partial [OF eq True p])
    then have "drain b = ([], NoError, b)" by (subst drain.simps) simp
    with True eq show ?thesis
      by (intro Cons.prems(1) [of "[]" "p # ps" b]) (simp_all add: drained_def)
  next
    case False
    define c where "c = drop (length p + 4) b"
    have "take (length p + 4) (b @ rest) = EncodeFrame p"
      by (simp add: eq)
    with False have "b = EncodeFrame p @ c"
      by (simp add: c_def) (metis append_take_drop_id)
    with eq have b: "b = EncodeFrame p @ c" and rest: "c @ rest = frames ps"
      by simp_all
    obtain ps1 ps2 b' where split: "ps = ps1 @ ps2" "drain c = (ps1, NoError, b')"
      "b' @ rest = frames ps2" "drained b' ps2"
      using Cons.IH [OF _ rest] Cons.prems(3) by auto
    have "drain b = (p # ps1, NoError, b')"
      unfolding b by (subst drain.simps) (simp add: TryReadFrame_EncodeFrame [OF p] split(2))
    with split show ?thesis
      by (intro Cons.prems(1) [of "p # ps1" ps2 b']) simp_all
  qed
qed

lemma feed_stream:
  assumes "b @ concat segs = frames ps" and "drained b ps"
    and "\<forall>p \<in> set ps. length p + n \<le> kMaxFramePayloadBytes + 1" and "\<forall>s \<in> set segs. length s \<le> n"
    and "0 < n"
  shows "feed segs b = Some (ps, [])"
  using assms(1-4)
proof (induction segs arbitrary: b ps)
  case Nil
  then show ?case
    by (cases ps) (auto simp: drained_def)
next
  case (Cons s segs)
  have fits: "FrameDecoder_Append s b = (NoError, b @ s)"
    using Cons.prems by (cases ps) (auto simp: FrameDecoder_Append_def drained_def)
  have "(b @ s) @ concat segs = frames ps" using Cons.prems(1) by simp
  moreover have "\<forall>p \<in> set ps. length p \<le> kMaxFramePayloadBytes"
    using Cons.prems(3) assms(5) by fastforce
  ultimately obtain ps1 ps2 b' where split: "ps = ps1 @ ps2" "drain (b @ s) = (ps1, NoError, b')"
    "b' @ concat segs = frames ps2" "drained b' ps2"
    by (rule drain_stream)
  have "feed segs b' = Some (ps2, [])"
    using split Cons.prems(3,4) by (intro Cons.IH) simp_all
  then show ?case
    using fits split by simp
qed

end
