(* ===== verification/Socket.thy ===== *)
theory Socket
  imports Frame
begin

text \<open>
  Sending and receiving messages on a socket: the functions of the anonymous namespaces of
  \<^verbatim>\<open>client/sync_server.cpp\<close> and \<^verbatim>\<open>client/sync_client.cpp\<close> (the same code in both files).

  The environment is explicit. A connection records what the peer will have been sent
  (\<open>conn_wire\<close>) and how the coming \<^verbatim>\<open>send\<close> calls will behave (\<open>conn_script\<close>): each entry is one
  call, an empty script is a kernel that takes whatever it is given, and a closed socket fails.
  A count larger than the request is cut to it, as \<^verbatim>\<open>send\<close> documents. Received data is a list of
  \<^verbatim>\<open>recv\<close> results; \<open>None\<close> is a call that still waits when the list is exhausted.
\<close>

section \<open>Sending\<close>

datatype send_result = SendFailed | SendCount nat

record conn =
  conn_open :: bool
  conn_script :: "send_result list"
  conn_wire :: bytes

text \<open>One \<^verbatim>\<open>send\<close> call: the result as an \<^verbatim>\<open>int\<close>, 0 also standing for \<^verbatim>\<open>SOCKET_ERROR\<close>.\<close>

definition socket_send :: "bytes \<Rightarrow> conn \<Rightarrow> nat \<times> conn" where
  "socket_send bs c =
     (if \<not> conn_open c then (0, c)
      else case conn_script c of
        [] \<Rightarrow> (length bs, c\<lparr>conn_wire := conn_wire c @ bs\<rparr>)
      | SendFailed # rs \<Rightarrow> (0, c\<lparr>conn_script := rs\<rparr>)
      | SendCount n # rs \<Rightarrow>
          (min n (length bs), c\<lparr>conn_script := rs, conn_wire := conn_wire c @ take n bs\<rparr>))"

function SendAll :: "bytes \<Rightarrow> conn \<Rightarrow> bool \<times> conn" where
  "SendAll bs c =
     (if bs = [] then (True, c)
      else let (result, c') = socket_send bs c
           in if result = 0 then (False, c') else SendAll (drop result bs) c')"
  by pat_completeness auto
termination
  by (relation "measure (\<lambda>(bs, _). length bs)") auto

declare SendAll.simps [simp del]

definition SendProtocolMessage :: "text_api \<Rightarrow> protocol_message \<Rightarrow> conn \<Rightarrow> bool \<times> conn" where
  "SendProtocolMessage api m c =
     (case SerializeMessage api m of
        Inl _ \<Rightarrow> (False, c)
      | Inr json \<Rightarrow> SendAll (EncodeFrame json) c)"

text \<open>A connection on which no \<^verbatim>\<open>send\<close> fails, whatever the partial counts.\<close>

definition reliable :: "conn \<Rightarrow> bool" where
  "reliable c \<longleftrightarrow> conn_open c \<and> (\<forall>r \<in> set (conn_script c). \<exists>n. r = SendCount (Suc n))"

lemma socket_send_wire:
  "socket_send bs c = (n, c') \<Longrightarrow> n \<le> length bs \<and> conn_wire c' = conn_wire c @ take n bs"
  by (auto simp: socket_send_def min_def split: if_splits list.splits send_result.splits)

lemma socket_send_reliable:
  assumes "reliable c" and "bs \<noteq> []" and "socket_send bs c = (n, c')"
  shows "0 < n \<and> reliable c'"
  using assms
  by (auto simp: socket_send_def reliable_def split: if_splits list.splits send_result.splits)

text \<open>
  Whatever the kernel does, the wire is extended by a prefix of the buffer, and by all of it
  when the call succeeds.
\<close>

lemma SendAll_wire:
  "SendAll bs c = (ok, c') \<Longrightarrow>
   \<exists>n. conn_wire c' = conn_wire c @ take n bs \<and> (ok \<longrightarrow> length bs \<le> n)"
proof (induction bs c arbitrary: ok c' rule: SendAll.induct)
  case (1 bs c)
  show ?case
  proof (cases "bs = []")
    case True
    with "1.prems" show ?thesis by (simp add: SendAll.simps)
  next
    case False
    obtain k d where sd: "socket_send bs c = (k, d)" by force
    have w: "conn_wire d = conn_wire c @ take k bs"
      using socket_send_wire [OF sd] by simp
    show ?thesis
    proof (cases "k = 0")
      case True
      with False sd w "1.prems" show ?thesis
        by (intro exI [of _ 0]) (simp add: SendAll.simps)
    next
      case k: False
      have "SendAll (drop k bs) d = (ok, c')"
        using "1.prems" False sd k by (simp add: SendAll.simps [of bs])
      from "1.IH" [OF False sd [symmetric] refl k this] obtain n where n:
        "conn_wire c' = conn_wire d @ take n (drop k bs)" "ok \<longrightarrow> length (drop k bs) \<le> n"
        by blast
      show ?thesis
        using n w by (intro exI [of _ "k + n"]) (auto simp: take_add)
    qed
  qed
qed

lemma SendAll_success: "SendAll bs c = (True, c') \<Longrightarrow> conn_wire c' = conn_wire c @ bs"
  using SendAll_wire [of bs c True c'] by auto

lemma SendAll_reliable: "reliable c \<Longrightarrow> \<exists>c'. SendAll bs c = (True, c') \<and> reliable c' \<and> conn_wire c' = conn_wire c @ bs"
proof (induction bs c rule: SendAll.induct)
  case (1 bs c)
  show ?case
  proof (cases "bs = []")
    case True
    with "1.prems" show ?thesis by (simp add: SendAll.simps)
  next
    case False
    obtain k d where sd: "socket_send bs c = (k, d)" by force
    have k: "0 < k" and d: "reliable d"
      using socket_send_reliable [OF "1.prems" False sd] by simp_all
    from "1.IH" [OF False sd [symmetric] refl _ d] k obtain c' where c':
      "SendAll (drop k bs) d = (True, c')" "reliable c'"
      "conn_wire c' = conn_wire d @ drop k bs" by auto
    then show ?thesis
      using False sd k socket_send_wire [OF sd] by (auto simp: SendAll.simps [of bs])
  qed
qed

lemma SendProtocolMessage_ill_formed:
  "SerializeMessage api m = Inl e \<Longrightarrow> SendProtocolMessage api m c = (False, c)"
  by (simp add: SendProtocolMessage_def)

lemma SendProtocolMessage_reliable:
  assumes "SerializeMessage api m = Inr b" and "reliable c"
  shows "\<exists>c'. SendProtocolMessage api m c = (True, c') \<and> reliable c' \<and>
              conn_wire c' = conn_wire c @ EncodeFrame b"
  using assms SendAll_reliable [of c "EncodeFrame b"] by (auto simp: SendProtocolMessage_def)

text \<open>A message that was reported as sent is on the wire as one frame.\<close>

lemma SendProtocolMessage_success:
  assumes "SendProtocolMessage api m c = (True, c')"
  shows "\<exists>b. SerializeMessage api m = Inr b \<and> conn_wire c' = conn_wire c @ EncodeFrame b"
  using assms
  by (auto simp: SendProtocolMessage_def dest: SendAll_success split: sum.splits)

section \<open>Receiving\<close>

definition WSAEWOULDBLOCK :: int where "WSAEWOULDBLOCK = 10035"
definition WSAETIMEDOUT :: int where "WSAETIMEDOUT = 10060"

text \<open>\<open>Received []\<close> is the result 0 of a connection closed by the peer.\<close>

datatype recv_result = Received bytes | RecvFailed int

datatype receive_result = RecvMessage protocol_message | RecvTimeout | RecvClosed | RecvError

function ReceiveProtocolMessage ::
  "text_api \<Rightarrow> recv_result list \<Rightarrow> frame_decoder \<Rightarrow>
   (receive_result \<times> frame_decoder \<times> recv_result list) option" where
  "ReceiveProtocolMessage api input decoder =
     (case FrameDecoder_TryReadFrame decoder of
        (Some payload, _, d) \<Rightarrow>
          (case DeserializeMessage api payload of
             (NoError, message) \<Rightarrow> Some (RecvMessage message, d, input)
           | _ \<Rightarrow> Some (RecvError, d, input))
      | (None, frame_error, d) \<Rightarrow>
          if frame_error \<noteq> NoError then Some (RecvError, d, input)
          else
            (case input of
               [] \<Rightarrow> None
             | Received bs # rest \<Rightarrow>
                 if bs = [] then Some (RecvClosed, d, rest)
                 else
                   (case FrameDecoder_Append bs d of
                      (NoError, d') \<Rightarrow> ReceiveProtocolMessage api rest d'
                    | (_, d') \<Rightarrow> Some (RecvError, d', rest))
             | RecvFailed code # rest \<Rightarrow>
                 if code = WSAETIMEDOUT \<or> code = WSAEWOULDBLOCK then Some (RecvTimeout, d, rest)
                 else Some (RecvError, d, rest)))"
  by pat_completeness auto
termination
  by (relation "measure (\<lambda>(_, input, _). length input)") auto

declare ReceiveProtocolMessage.simps [simp del]

text \<open>
  \<open>clock\<close> are the successive readings of \<^verbatim>\<open>GetTickCount64\<close>, \<open>None\<close> when they run out before
  the function returns.
\<close>

fun receive_until ::
  "text_api \<Rightarrow> u64 \<Rightarrow> u64 list \<Rightarrow> recv_result list \<Rightarrow> frame_decoder \<Rightarrow>
   (protocol_message option \<times> frame_decoder \<times> recv_result list) option" where
  "receive_until api deadline [] input decoder = None"
| "receive_until api deadline (now # clock) input decoder =
     (if now \<le> deadline
      then case ReceiveProtocolMessage api input decoder of
          None \<Rightarrow> None
        | Some (RecvMessage m, d, rest) \<Rightarrow> Some (Some m, d, rest)
        | Some (RecvTimeout, d, rest) \<Rightarrow> receive_until api deadline clock rest d
        | Some (_, d, rest) \<Rightarrow> Some (None, d, rest)
      else Some (None, decoder, input))"

definition ReceiveProtocolMessageWithin ::
  "text_api \<Rightarrow> u64 list \<Rightarrow> u32 \<Rightarrow> recv_result list \<Rightarrow> frame_decoder \<Rightarrow>
   (protocol_message option \<times> frame_decoder \<times> recv_result list) option" where
  "ReceiveProtocolMessageWithin api clock timeout_ms input decoder =
     (case clock of
        [] \<Rightarrow> None
      | now # later \<Rightarrow> receive_until api (now + ucast timeout_ms) later input decoder)"

section \<open>What is received\<close>

lemma receive_cases:
  "FrameDecoder_TryReadFrame d = (Some p, e, d') \<Longrightarrow>
     ReceiveProtocolMessage api input d =
       Some ((case DeserializeMessage api p of (NoError, m) \<Rightarrow> RecvMessage m | _ \<Rightarrow> RecvError), d', input)"
  "FrameDecoder_TryReadFrame d = (None, NoError, d) \<Longrightarrow> bs \<noteq> [] \<Longrightarrow>
   FrameDecoder_Append bs d = (NoError, d') \<Longrightarrow>
     ReceiveProtocolMessage api (Received bs # rest) d = ReceiveProtocolMessage api rest d'"
  "FrameDecoder_TryReadFrame d = (None, NoError, d) \<Longrightarrow>
     ReceiveProtocolMessage api (Received [] # rest) d = Some (RecvClosed, d, rest)"
  "FrameDecoder_TryReadFrame d = (None, NoError, d) \<Longrightarrow>
     code = WSAETIMEDOUT \<or> code = WSAEWOULDBLOCK \<Longrightarrow>
     ReceiveProtocolMessage api (RecvFailed code # rest) d = Some (RecvTimeout, d, rest)"
  by (simp_all add: ReceiveProtocolMessage.simps split: prod.splits protocol_error.splits)

text \<open>
  A frame is received whole, in whatever pieces the network delivers it, if the pieces leave
  room for it in the buffer; the bytes after it stay, in the decoder or still to be received.
\<close>

lemma receive_frame:
  assumes "d @ concat segs = EncodeFrame p @ r" and "\<forall>s \<in> set segs. s \<noteq> [] \<and> length s \<le> n"
    and "length p + n \<le> kMaxFramePayloadBytes + 1" and "0 < n"
  shows "\<exists>d' segs'.
    ReceiveProtocolMessage api (map Received segs @ input) d =
      Some ((case DeserializeMessage api p of (NoError, m) \<Rightarrow> RecvMessage m | _ \<Rightarrow> RecvError),
            d', map Received segs' @ input) \<and>
    d' @ concat segs' = r \<and> (\<exists>n. segs' = drop n segs)"
  using assms(1,2)
proof (induction segs arbitrary: d)
  case Nil
  then have "d = EncodeFrame p @ r" by simp
  moreover have "length p \<le> kMaxFramePayloadBytes" using assms(3,4) by linarith
  ultimately show ?case
    using receive_cases(1) [OF TryReadFrame_EncodeFrame] by (intro exI [of _ r] exI [of _ "[]"]) simp
next
  case (Cons s segs)
  have p: "length p \<le> kMaxFramePayloadBytes" using assms(3,4) by linarith
  show ?case
  proof (cases "length d < length p + 4")
    case True
    have none: "FrameDecoder_TryReadFrame d = (None, NoError, d)"
      using TryReadFrame_partial [OF Cons.prems(1) True p] .
    have app: "FrameDecoder_Append s d = (NoError, d @ s)"
      using True Cons.prems(2) assms(3) by (auto simp: FrameDecoder_Append_def)
    have "(d @ s) @ concat segs = EncodeFrame p @ r" "\<forall>s \<in> set segs. s \<noteq> [] \<and> length s \<le> n"
      using Cons.prems by simp_all
    from Cons.IH [OF this] obtain d' segs' k where
      "ReceiveProtocolMessage api (map Received segs @ input) (d @ s) =
        Some ((case DeserializeMessage api p of (NoError, m) \<Rightarrow> RecvMessage m | _ \<Rightarrow> RecvError),
              d', map Received segs' @ input)"
      "d' @ concat segs' = r" "segs' = drop k segs" by blast
    then show ?thesis
      using receive_cases(2) [OF none _ app] Cons.prems(2)
      by (intro exI [of _ d'] exI [of _ segs'] conjI exI [of _ "Suc k"]) simp_all
  next
    case False
    define c where "c = drop (length p + 4) d"
    have "take (length p + 4) (d @ concat (s # segs)) = EncodeFrame p"
      by (simp only: Cons.prems(1)) simp
    with False have "d = EncodeFrame p @ c"
      by (simp add: c_def) (metis append_take_drop_id)
    with Cons.prems(1) have d: "d = EncodeFrame p @ c" and r: "c @ concat (s # segs) = r"
      by simp_all
    show ?thesis
      unfolding d using receive_cases(1) [OF TryReadFrame_EncodeFrame [OF p]] r
      by (intro exI [of _ c] exI [of _ "s # segs"]) (auto intro: exI [of _ 0])
  qed
qed

text \<open>
  Only silence runs into the deadline: while every \<^verbatim>\<open>recv\<close> times out, the wait ends at the first
  clock reading after the deadline and has made one call for each reading before it.
\<close>

lemma receive_until_silent:
  assumes "FrameDecoder_TryReadFrame d = (None, NoError, d)"
    and "\<forall>t \<in> set early. t \<le> deadline" and "deadline < late"
  shows "receive_until api deadline (early @ late # clock)
           (replicate (length early) (RecvFailed WSAETIMEDOUT) @ input) d = Some (None, d, input)"
  using assms(2)
  by (induction early) (use assms(1,3) in \<open>simp_all add: receive_cases(4) WSAETIMEDOUT_def flip: not_le\<close>)

text \<open>
  A peer that keeps sending is never timed out: as long as the pieces do not complete a frame,
  no clock reading is taken between them, however many there are.
\<close>

lemma receive_drip:
  assumes "concat segs @ rest = EncodeFrame p" and "rest \<noteq> []"
    and "\<forall>s \<in> set segs. s \<noteq> []" and "length p \<le> kMaxFramePayloadBytes"
  shows "ReceiveProtocolMessage api (map Received segs @ input) [] =
         ReceiveProtocolMessage api input (concat segs)"
proof -
  have step: "ReceiveProtocolMessage api (map Received (drop k segs) @ input) (concat (take k segs)) =
      ReceiveProtocolMessage api (map Received segs @ input) []" if "k \<le> length segs" for k
    using that
  proof (induction k)
    case 0
    then show ?case by simp
  next
    case (Suc k)
    define d where "d = concat (take k segs)"
    define s where "s = segs ! k"
    have sp: "drop k segs = s # drop (Suc k) segs" "concat (take (Suc k) segs) = d @ s"
      using Suc.prems by (simp_all add: Cons_nth_drop_Suc s_def d_def take_Suc_conv_app_nth)
    have whole: "d @ s @ concat (drop (Suc k) segs) @ rest = EncodeFrame p"
      using assms(1) sp by (metis append.assoc append_take_drop_id concat_append d_def concat.simps(2))
    have len: "length (d @ s) \<le> length p + 3"
      using arg_cong [OF whole, of length] assms(2) by (cases rest) simp_all
    have "FrameDecoder_TryReadFrame d = (None, NoError, d)"
      using TryReadFrame_partial [of d _ p "[]"] whole len assms(4)
        arg_cong [OF whole, of length] assms(2) by (cases rest) auto
    moreover have "FrameDecoder_Append s d = (NoError, d @ s)"
      using len assms(4) by (simp add: FrameDecoder_Append_def)
    moreover have "s \<noteq> []"
      using assms(3) Suc.prems by (simp add: s_def)
    ultimately have "ReceiveProtocolMessage api (Received s # map Received (drop (Suc k) segs) @ input) d =
        ReceiveProtocolMessage api (map Received (drop (Suc k) segs) @ input) (d @ s)"
      by (intro receive_cases(2)) simp_all
    with Suc sp show ?case by (simp add: d_def [symmetric])
  qed
  show ?thesis
    using step [of "length segs"] by simp
qed

end
