(* ===== verification/SyncEvents.thy ===== *)
theory SyncEvents
  imports Protocol
begin

text \<open>
  \<^verbatim>\<open>client/sync_events.h\<close> and the event queue that the server and the client share with the
  user interface: a \<^verbatim>\<open>std::queue\<close> guarded by a mutex, filled by \<^verbatim>\<open>PushEvent\<close> and emptied by
  \<^verbatim>\<open>TryPopEvent\<close>. The same queue contract serves the queue of frames to send.
\<close>

datatype sync_event_type = EvApply | EvSyncResponse | EvError | EvDisconnected

record sync_event =
  ev_type :: sync_event_type
  ev_message :: protocol_message
  ev_detail :: wstr

text \<open>\<^verbatim>\<open>SyncEvent event;\<close> with its default members.\<close>

definition default_event :: sync_event where
  "default_event = \<lparr>ev_type = EvError, ev_message = empty_message, ev_detail = []\<rparr>"

definition queue_push :: "'a \<Rightarrow> 'a list \<Rightarrow> 'a list" where
  "queue_push x q = q @ [x]"

fun queue_pop :: "'a list \<Rightarrow> ('a \<times> 'a list) option" where
  "queue_pop [] = None"
| "queue_pop (x # q) = Some (x, q)"

section \<open>The contract of a queue\<close>

locale fifo =
  fixes push :: "'a \<Rightarrow> 'q \<Rightarrow> 'q"
    and pop :: "'q \<Rightarrow> ('a \<times> 'q) option"
    and contents :: "'q \<Rightarrow> 'a list"
  assumes contents_push: "contents (push x q) = contents q @ [x]"
    and pop_empty: "contents q = [] \<Longrightarrow> pop q = None"
    and pop_nonempty: "contents q = x # xs \<Longrightarrow> \<exists>q'. pop q = Some (x, q') \<and> contents q' = xs"
begin

fun pop_n :: "nat \<Rightarrow> 'q \<Rightarrow> 'a list \<times> 'q" where
  "pop_n 0 q = ([], q)"
| "pop_n (Suc n) q =
     (case pop q of None \<Rightarrow> ([], q) | Some (x, q') \<Rightarrow> let (xs, q'') = pop_n n q' in (x # xs, q''))"

lemma contents_push_all: "contents (fold push xs q) = contents q @ xs"
  by (induction xs arbitrary: q) (simp_all add: contents_push)

lemma pop_n_prefix:
  "n \<le> length (contents q) \<Longrightarrow>
   fst (pop_n n q) = take n (contents q) \<and> contents (snd (pop_n n q)) = drop n (contents q)"
proof (induction n arbitrary: q)
  case 0
  then show ?case by simp
next
  case (Suc n)
  then obtain x xs where c: "contents q = x # xs"
    by (cases "contents q") auto
  then obtain q' where "pop q = Some (x, q')" "contents q' = xs"
    using pop_nonempty by blast
  with Suc c show ?case
    by (simp add: case_prod_beta)
qed

text \<open>What goes in comes out, once and in order, whatever is pushed meanwhile.\<close>

lemma push_pop_order:
  assumes "contents q = []"
  shows "fst (pop_n (length xs) (fold push (xs @ ys) q)) = xs \<and>
         contents (snd (pop_n (length xs) (fold push (xs @ ys) q))) = ys"
  using pop_n_prefix [of "length xs" "fold push (xs @ ys) q"] assms
  by (simp add: contents_push_all del: fold_append)

end

interpretation events: fifo queue_push queue_pop "\<lambda>q. q"
  by unfold_locales (auto simp: queue_push_def)

lemma queue_pop_None_iff [simp]: "queue_pop q = None \<longleftrightarrow> q = []"
  by (cases q) simp_all

end
