(* ===== verification/DocumentModel.thy ===== *)
theory DocumentModel
  imports Prelude
begin

text \<open>
  \<^verbatim>\<open>client/document_model.cpp\<close>: the two operations that change a shared document, used by
  the server on its authoritative copy and by both user interfaces on the local copy. Every
  caller passes the address of a string it owns, so the \<^verbatim>\<open>nullptr\<close> half of the first guard
  never fires and the content is passed by value; the updated content is returned next to
  the status.
\<close>

definition kMaxDocumentChars :: nat where
  "kMaxDocumentChars = 5 * 1024 * 1024"

datatype document_apply_status =
    Applied | InvalidOperation | InvalidPosition | InsertTooLarge | DocumentTooLarge

definition ApplyInsertToContent :: "wstr \<Rightarrow> nat \<Rightarrow> wstr \<Rightarrow> document_apply_status \<times> wstr" where
  "ApplyInsertToContent content position text =
     (if text = [] then (InvalidOperation, content)
      else if position > length content then (InvalidPosition, content)
      else if length content + length text > kMaxDocumentChars then (DocumentTooLarge, content)
      else (Applied, list_insert_at position text content))"

definition ApplyDeleteToContent :: "wstr \<Rightarrow> nat \<Rightarrow> nat \<Rightarrow> document_apply_status \<times> wstr" where
  "ApplyDeleteToContent content position len =
     (if len = 0 then (InvalidOperation, content)
      else if position > length content \<or> len > length content - position
        then (InvalidPosition, content)
      else (Applied, list_erase_at position len content))"

fun DocumentApplyStatusToString :: "document_apply_status \<Rightarrow> wstr" where
  "DocumentApplyStatusToString Applied = wide ''applied''"
| "DocumentApplyStatusToString InvalidOperation = wide ''invalid_operation''"
| "DocumentApplyStatusToString InvalidPosition = wide ''invalid_position''"
| "DocumentApplyStatusToString InsertTooLarge = wide ''insert_too_large''"
| "DocumentApplyStatusToString DocumentTooLarge = wide ''document_too_large''"

lemmas content_defs = ApplyInsertToContent_def ApplyDeleteToContent_def

section \<open>The operations as one splice\<close>

text \<open>
  The abstract specification both operations implement: replace \<open>n\<close> characters at position
  \<open>p\<close> by a text. It is what a revision of the shared document means.
\<close>

definition splice :: "nat \<Rightarrow> nat \<Rightarrow> 'a list \<Rightarrow> 'a list \<Rightarrow> 'a list" where
  "splice p n text doc = take p doc @ text @ drop (p + n) doc"

lemma splice_insert: "splice p 0 text doc = list_insert_at p text doc"
  by (simp add: splice_def list_insert_at_def)

lemma splice_delete: "splice p n [] doc = list_erase_at p n doc"
  by (simp add: splice_def list_erase_at_def)

lemma length_splice: "p + n \<le> length doc \<Longrightarrow> length (splice p n text doc) = length doc - n + length text"
  by (simp add: splice_def)

lemma insert_applied_iff [guard_simps]:
  "fst (ApplyInsertToContent content p text) = Applied \<longleftrightarrow>
   text \<noteq> [] \<and> p \<le> length content \<and> length content + length text \<le> kMaxDocumentChars"
  by (auto simp: ApplyInsertToContent_def)

lemma delete_applied_iff [guard_simps]:
  "fst (ApplyDeleteToContent content p n) = Applied \<longleftrightarrow> 0 < n \<and> p + n \<le> length content"
  by (auto simp: ApplyDeleteToContent_def)

lemma insert_content:
  "snd (ApplyInsertToContent content p text) =
     (if fst (ApplyInsertToContent content p text) = Applied then splice p 0 text content else content)"
  by (simp add: ApplyInsertToContent_def splice_insert)

lemma delete_content:
  "snd (ApplyDeleteToContent content p n) =
     (if fst (ApplyDeleteToContent content p n) = Applied then splice p n [] content else content)"
  by (simp add: ApplyDeleteToContent_def splice_delete)

lemma insert_applied:
  "text \<noteq> [] \<Longrightarrow> p \<le> length content \<Longrightarrow> length content + length text \<le> kMaxDocumentChars \<Longrightarrow>
   ApplyInsertToContent content p text = (Applied, splice p 0 text content)"
  by (simp add: ApplyInsertToContent_def splice_insert)

lemma delete_applied:
  "0 < n \<Longrightarrow> p + n \<le> length content \<Longrightarrow>
   ApplyDeleteToContent content p n = (Applied, splice p n [] content)"
  by (simp add: ApplyDeleteToContent_def splice_delete)

text \<open>Neither operation can push a document over the limit.\<close>

lemma insert_bounded:
  "length content \<le> kMaxDocumentChars \<Longrightarrow>
   length (snd (ApplyInsertToContent content p text)) \<le> kMaxDocumentChars"
  by (simp add: ApplyInsertToContent_def)

lemma delete_shrinks: "length (snd (ApplyDeleteToContent content p n)) \<le> length content"
  by (auto simp: ApplyDeleteToContent_def list_erase_at_def)

text \<open>An insertion is undone by deleting what it inserted, a deletion by putting it back.\<close>

lemma delete_undoes_insert:
  assumes "ApplyInsertToContent content p text = (Applied, content')"
  shows "ApplyDeleteToContent content' p (length text) = (Applied, content)"
  using assms by (auto simp: content_defs list_erase_insert split: if_splits)

lemma insert_undoes_delete:
  assumes "ApplyDeleteToContent content p n = (Applied, content')"
    and "length content \<le> kMaxDocumentChars"
  shows "ApplyInsertToContent content' p (substr p n content) = (Applied, content)"
proof -
  have n: "0 < n" "p + n \<le> length content" and c': "content' = list_erase_at p n content"
    using assms(1) by (auto simp: ApplyDeleteToContent_def split: if_splits)
  then have "length (substr p n content) = n"
    by (simp add: substr_def)
  with n c' assms(2) list_insert_erase [OF n(2)] show ?thesis
    by (auto simp: ApplyInsertToContent_def)
qed

end
