(* ===== verification/EditorDiff.thy ===== *)
theory EditorDiff
  imports DocumentModel
begin

text \<open>
  \<^verbatim>\<open>client/editor_diff.cpp\<close>: the change between two versions of the text as at most one
  deletion followed by at most one insertion at the same position. The two \<^verbatim>\<open>while\<close> loops
  that measure the common prefix and the common suffix are recursive functions on the
  loop counters.
\<close>

datatype editor_operation_type = OpInsert | OpDelete

record editor_operation =
  op_type :: editor_operation_type
  op_position :: nat
  op_text :: wstr
  op_length :: nat

record editor_diff_result =
  valid :: bool
  changed :: bool
  document_too_large :: bool
  operations :: "editor_operation list"

function scan_prefix :: "wstr \<Rightarrow> wstr \<Rightarrow> nat \<Rightarrow> nat" where
  "scan_prefix old_text new_text prefix =
     (if prefix < min (length old_text) (length new_text) \<and> old_text ! prefix = new_text ! prefix
      then scan_prefix old_text new_text (Suc prefix) else prefix)"
  by pat_completeness auto
termination
  by (relation "measure (\<lambda>(old_text, _, prefix). length old_text - prefix)") auto

function scan_suffix :: "wstr \<Rightarrow> wstr \<Rightarrow> nat \<Rightarrow> nat \<Rightarrow> nat \<Rightarrow> nat \<times> nat" where
  "scan_suffix old_text new_text prefix old_suffix new_suffix =
     (if old_suffix > prefix \<and> new_suffix > prefix \<and>
         old_text ! (old_suffix - 1) = new_text ! (new_suffix - 1)
      then scan_suffix old_text new_text prefix (old_suffix - 1) (new_suffix - 1)
      else (old_suffix, new_suffix))"
  by pat_completeness auto
termination
  by (relation "measure (\<lambda>(_, _, _, old_suffix, _). old_suffix)") auto

declare scan_prefix.simps [simp del] scan_suffix.simps [simp del]

definition ComputeEditorDiff :: "wstr \<Rightarrow> wstr \<Rightarrow> editor_diff_result" where
  "ComputeEditorDiff old_text new_text =
     (if length new_text > kMaxDocumentChars
      then \<lparr>valid = False, changed = False, document_too_large = True, operations = []\<rparr>
      else if old_text = new_text
      then \<lparr>valid = True, changed = False, document_too_large = False, operations = []\<rparr>
      else
        let prefix = scan_prefix old_text new_text 0;
            (old_suffix, new_suffix) =
              scan_suffix old_text new_text prefix (length old_text) (length new_text);
            deleted_length = old_suffix - prefix;
            inserted_text = substr prefix (new_suffix - prefix) new_text
        in \<lparr>valid = True, changed = True, document_too_large = False,
            operations =
              (if deleted_length > 0
               then [\<lparr>op_type = OpDelete, op_position = prefix, op_text = [], op_length = deleted_length\<rparr>]
               else []) @
              (if inserted_text \<noteq> []
               then [\<lparr>op_type = OpInsert, op_position = prefix, op_text = inserted_text,
                      op_length = length inserted_text\<rparr>]
               else [])\<rparr>)"

section \<open>The two scans\<close>

lemma scan_prefix_spec:
  assumes "take i old = take i new" and "i \<le> min (length old) (length new)"
  defines "p \<equiv> scan_prefix old new i"
  shows "i \<le> p \<and> p \<le> min (length old) (length new) \<and> take p old = take p new \<and>
         (p < min (length old) (length new) \<longrightarrow> old ! p \<noteq> new ! p)"
  using assms(1,2) unfolding p_def
proof (induction old new i rule: scan_prefix.induct)
  case (1 old new i)
  show ?case
  proof (cases "i < min (length old) (length new) \<and> old ! i = new ! i")
    case True
    then have "take (Suc i) old = take (Suc i) new"
      using "1.prems"(1) by (simp add: take_Suc_conv_app_nth)
    with True "1.IH" have "Suc i \<le> scan_prefix old new (Suc i) \<and>
        scan_prefix old new (Suc i) \<le> min (length old) (length new) \<and>
        take (scan_prefix old new (Suc i)) old = take (scan_prefix old new (Suc i)) new \<and>
        (scan_prefix old new (Suc i) < min (length old) (length new) \<longrightarrow>
         old ! scan_prefix old new (Suc i) \<noteq> new ! scan_prefix old new (Suc i))"
      by simp
    with True show ?thesis
      by (auto simp: scan_prefix.simps [of old new i])
  next
    case False
    with "1.prems" show ?thesis
      by (auto simp: scan_prefix.simps [of old new i])
  qed
qed

lemma scan_suffix_spec:
  assumes "a \<le> length old" and "b \<le> length new" and "p \<le> a" and "p \<le> b"
    and "drop a old = drop b new" and "length old - a = length new - b"
    and "scan_suffix old new p a b = (os, ns)"
  shows "p \<le> os \<and> os \<le> a \<and> p \<le> ns \<and> ns \<le> b \<and> drop os old = drop ns new \<and>
         length old - os = length new - ns \<and>
         (p < os \<and> p < ns \<longrightarrow> old ! (os - 1) \<noteq> new ! (ns - 1))"
  using assms
proof (induction old new p a b rule: scan_suffix.induct)
  case (1 old new p a b)
  show ?case
  proof (cases "a > p \<and> b > p \<and> old ! (a - 1) = new ! (b - 1)")
    case True
    have "drop (a - 1) old = old ! (a - 1) # drop a old"
      using True "1.prems"(1) by (metis Cons_nth_drop_Suc Suc_diff_1 Suc_le_lessD gr_zeroI less_zeroE)
    moreover have "drop (b - 1) new = new ! (b - 1) # drop b new"
      using True "1.prems"(2) by (metis Cons_nth_drop_Suc Suc_diff_1 Suc_le_lessD gr_zeroI less_zeroE)
    ultimately have "drop (a - 1) old = drop (b - 1) new"
      using True "1.prems"(5) by simp
    moreover have "length old - (a - 1) = length new - (b - 1)"
      using True "1.prems" by linarith
    moreover have "scan_suffix old new p (a - 1) (b - 1) = (os, ns)"
      using True "1.prems"(7) by (simp add: scan_suffix.simps [of old new p a b])
    moreover have "a - 1 \<le> length old" "b - 1 \<le> length new" "p \<le> a - 1" "p \<le> b - 1"
      using True "1.prems"(1,2) by linarith+
    ultimately have "p \<le> os \<and> os \<le> a - 1 \<and> p \<le> ns \<and> ns \<le> b - 1 \<and> drop os old = drop ns new \<and>
         length old - os = length new - ns \<and>
         (p < os \<and> p < ns \<longrightarrow> old ! (os - 1) \<noteq> new ! (ns - 1))"
      using "1.IH" [OF True] by blast
    then show ?thesis by auto
  next
    case False
    with "1.prems" show ?thesis
      by (auto simp: scan_suffix.simps [of old new p a b])
  qed
qed

section \<open>The shape of a diff\<close>

text \<open>What the receivers of a diff do with it: each operation goes through the document model.\<close>

definition apply_operation :: "editor_operation \<Rightarrow> wstr \<Rightarrow> document_apply_status \<times> wstr" where
  "apply_operation op doc =
     (case op_type op of
        OpInsert \<Rightarrow> ApplyInsertToContent doc (op_position op) (op_text op)
      | OpDelete \<Rightarrow> ApplyDeleteToContent doc (op_position op) (op_length op))"

fun apply_operations :: "editor_operation list \<Rightarrow> wstr \<Rightarrow> wstr option" where
  "apply_operations [] doc = Some doc"
| "apply_operations (op # ops) doc =
     (case apply_operation op doc of
        (Applied, doc') \<Rightarrow> apply_operations ops doc'
      | _ \<Rightarrow> None)"

definition delete_op :: "nat \<Rightarrow> nat \<Rightarrow> editor_operation" where
  "delete_op p n = \<lparr>op_type = OpDelete, op_position = p, op_text = [], op_length = n\<rparr>"

definition insert_op :: "nat \<Rightarrow> wstr \<Rightarrow> editor_operation" where
  "insert_op p t = \<lparr>op_type = OpInsert, op_position = p, op_text = t, op_length = length t\<rparr>"

lemma diff_decompose:
  assumes "length new \<le> kMaxDocumentChars" and "old \<noteq> new"
  obtains p d i s where "old = p @ d @ s" and "new = p @ i @ s"
    and "operations (ComputeEditorDiff old new) =
      (if d \<noteq> [] then [delete_op (length p) (length d)] else []) @
      (if i \<noteq> [] then [insert_op (length p) i] else [])"
    and "d \<noteq> [] \<and> i \<noteq> [] \<longrightarrow> hd d \<noteq> hd i \<and> last d \<noteq> last i"
proof -
  define k where "k = scan_prefix old new 0"
  obtain os ns where sc: "scan_suffix old new k (length old) (length new) = (os, ns)"
    by force
  have k: "k \<le> length old" "k \<le> length new" "take k old = take k new"
    "k < min (length old) (length new) \<longrightarrow> old ! k \<noteq> new ! k"
    using scan_prefix_spec [of 0 old new] by (simp_all add: k_def)
  have sfx: "k \<le> os" "os \<le> length old" "k \<le> ns" "ns \<le> length new" "drop os old = drop ns new"
    "k < os \<and> k < ns \<longrightarrow> old ! (os - 1) \<noteq> new ! (ns - 1)"
    using scan_suffix_spec [OF _ _ _ _ _ _ sc] k by simp_all
  define d where "d = substr k (os - k) old"
  define i where "i = substr k (ns - k) new"
  have old: "old = take k old @ d @ drop os old"
    using sfx(1) by (simp add: d_def substr_def) (metis append_take_drop_id drop_drop le_add_diff_inverse2)
  have new: "new = take k old @ i @ drop os old"
    using sfx(3) unfolding k(3) sfx(5)
    by (simp add: i_def substr_def) (metis append_take_drop_id drop_drop le_add_diff_inverse2)
  have len: "length d = os - k" "length i = ns - k" "length (take k old) = k"
    using k sfx by (simp_all add: d_def i_def substr_def)
  have ops: "operations (ComputeEditorDiff old new) =
      (if d \<noteq> [] then [delete_op (length (take k old)) (length d)] else []) @
      (if i \<noteq> [] then [insert_op (length (take k old)) i] else [])"
    using assms len
    by (auto simp: ComputeEditorDiff_def Let_def k_def [symmetric] sc i_def [symmetric]
        delete_op_def insert_op_def simp flip: length_greater_0_conv)
  have ends: "d \<noteq> [] \<and> i \<noteq> [] \<longrightarrow> hd d \<noteq> hd i \<and> last d \<noteq> last i"
  proof (intro impI, elim conjE)
    assume that: "d \<noteq> []" "i \<noteq> []"
    have lt: "k < os" "k < ns"
      using that len by (simp_all flip: length_greater_0_conv)
    have "hd d = old ! k" "hd i = new ! k"
      using lt k sfx that by (simp_all add: d_def i_def substr_def hd_conv_nth)
    moreover have "last d = old ! (os - 1)" "last i = new ! (ns - 1)"
      using lt k sfx that len by (simp_all add: last_conv_nth d_def i_def substr_def)
    ultimately show "hd d \<noteq> hd i \<and> last d \<noteq> last i"
      using lt sfx k by simp
  qed
  show thesis
    by (rule that [OF old new ops ends])
qed

lemma unchanged_no_operations: "\<not> changed (ComputeEditorDiff old new) \<Longrightarrow> operations (ComputeEditorDiff old new) = []"
  by (auto simp: ComputeEditorDiff_def Let_def split: prod.splits if_splits)

lemma diff_reproduces:
  assumes "length new \<le> kMaxDocumentChars"
  shows "apply_operations (operations (ComputeEditorDiff old new)) old = Some new"
proof (cases "old = new")
  case True
  with assms show ?thesis
    by (simp add: ComputeEditorDiff_def)
next
  case False
  obtain p d i s where old: "old = p @ d @ s" and new: "new = p @ i @ s"
    and ops: "operations (ComputeEditorDiff old new) =
      (if d \<noteq> [] then [delete_op (length p) (length d)] else []) @
      (if i \<noteq> [] then [insert_op (length p) i] else [])"
    by (rule diff_decompose [OF assms False]) (rule that)
  have "length p + length i + length s \<le> kMaxDocumentChars"
    using assms new by simp
  then show ?thesis
    unfolding ops unfolding old new
    by (auto simp: apply_operation_def delete_op_def insert_op_def delete_applied insert_applied
        splice_def)
qed

section \<open>No other single splice is smaller\<close>

lemma common_prefix_bound:
  assumes "p @ x # u = p' @ w" and "p @ y # v = p' @ w'" and "x \<noteq> y"
  shows "length p' \<le> length p"
proof (rule ccontr)
  assume "\<not> length p' \<le> length p"
  then have lt: "length p < length p'" by simp
  have "(p @ x # u) ! length p = p' ! length p"
    unfolding assms(1) using lt by (simp add: nth_append)
  moreover have "(p @ y # v) ! length p = p' ! length p"
    unfolding assms(2) using lt by (simp add: nth_append)
  ultimately show False using assms(3) by simp
qed

lemma common_suffix_bound:
  assumes "u @ x # s = w @ s'" and "v @ y # s = w' @ s'" and "x \<noteq> y"
  shows "length s' \<le> length s"
proof -
  have "rev s @ x # rev u = rev s' @ rev w" and "rev s @ y # rev v = rev s' @ rev w'"
    using arg_cong [OF assms(1), of rev] arg_cong [OF assms(2), of rev] by simp_all
  from common_prefix_bound [OF this assms(3)] show ?thesis by simp
qed

lemma splice_minimal:
  assumes old: "p @ d @ s = p' @ d' @ s'" and new: "p @ i @ s = p' @ i' @ s'"
    and ends: "d \<noteq> [] \<Longrightarrow> i \<noteq> [] \<Longrightarrow> hd d \<noteq> hd i \<and> last d \<noteq> last i"
  shows "length d \<le> length d' \<and> length i \<le> length i'"
proof -
  have lens: "length p + length d + length s = length p' + length d' + length s'"
    "length p + length i + length s = length p' + length i' + length s'"
    using arg_cong [OF old, of length] arg_cong [OF new, of length] by simp_all
  show ?thesis
  proof (cases "d = [] \<or> i = []")
    case True
    with lens show ?thesis by auto
  next
    case False
    then obtain x u y v where di: "d = x # u" "i = y # v"
      by (meson neq_Nil_conv)
    obtain u' v' where di': "d = u' @ [last d]" "i = v' @ [last i]"
      using False by (metis append_butlast_last_id)
    have "length p' \<le> length p"
      using common_prefix_bound [of p x "u @ s" p' "d' @ s'" y "v @ s" "i' @ s'"] old new ends di
      by simp
    moreover have "length s' \<le> length s"
      using common_suffix_bound [of "p @ u'" "last d" s "p' @ d'" s' "p @ v'" "last i" "p' @ i'"]
        old new ends False di' by (metis append.assoc append_Cons append_Nil)
    ultimately show ?thesis using lens by linarith
  qed
qed

fun deleted_chars :: "editor_operation list \<Rightarrow> nat" where
  "deleted_chars [] = 0"
| "deleted_chars (op # ops) =
     (case op_type op of OpDelete \<Rightarrow> op_length op | OpInsert \<Rightarrow> 0) + deleted_chars ops"

fun inserted_chars :: "editor_operation list \<Rightarrow> nat" where
  "inserted_chars [] = 0"
| "inserted_chars (op # ops) =
     (case op_type op of OpInsert \<Rightarrow> length (op_text op) | OpDelete \<Rightarrow> 0) + inserted_chars ops"

lemma diff_minimal:
  assumes "length (p @ i @ s) \<le> kMaxDocumentChars"
  shows "deleted_chars (operations (ComputeEditorDiff (p @ d @ s) (p @ i @ s))) \<le> length d \<and>
         inserted_chars (operations (ComputeEditorDiff (p @ d @ s) (p @ i @ s))) \<le> length i"
proof (cases "p @ d @ s = p @ i @ s")
  case True
  with assms show ?thesis
    by (simp add: ComputeEditorDiff_def)
next
  case False
  obtain q e j t where old: "p @ d @ s = q @ e @ t" and new: "p @ i @ s = q @ j @ t"
    and ops: "operations (ComputeEditorDiff (p @ d @ s) (p @ i @ s)) =
      (if e \<noteq> [] then [delete_op (length q) (length e)] else []) @
      (if j \<noteq> [] then [insert_op (length q) j] else [])"
    and ends: "e \<noteq> [] \<and> j \<noteq> [] \<longrightarrow> hd e \<noteq> hd j \<and> last e \<noteq> last j"
    by (rule diff_decompose [OF assms False]) (rule that)
  have "length e \<le> length d \<and> length j \<le> length i"
    using splice_minimal [OF old [symmetric] new [symmetric]] ends by blast
  then show ?thesis
    unfolding ops by (simp add: delete_op_def insert_op_def)
qed

text \<open>A text with something put in becomes one insertion of that length.\<close>

lemma pure_insertion:
  assumes "length (p @ x @ s) \<le> kMaxDocumentChars" and "x \<noteq> []"
  shows "\<exists>k i. operations (ComputeEditorDiff (p @ s) (p @ x @ s)) = [insert_op k i] \<and> length i = length x"
proof -
  have ne: "p @ s \<noteq> p @ x @ s" using assms(2) by (metis append_self_conv2 same_append_eq)
  obtain q d i u where split: "p @ s = q @ d @ u" "p @ x @ s = q @ i @ u"
    and ops: "operations (ComputeEditorDiff (p @ s) (p @ x @ s)) =
      (if d \<noteq> [] then [delete_op (length q) (length d)] else []) @ (if i \<noteq> [] then [insert_op (length q) i] else [])"
    by (rule diff_decompose [OF assms(1) ne]) (rule that)
  have "deleted_chars (operations (ComputeEditorDiff (p @ s) (p @ x @ s))) = 0"
    using diff_minimal [OF assms(1), of "[]"] by simp
  then have d: "d = []" unfolding ops by (auto simp: delete_op_def split: if_splits)
  then have len: "length i = length x"
    using arg_cong [OF split(1), of length] arg_cong [OF split(2), of length] by simp
  then have "i \<noteq> []" using assms(2) by auto
  then show ?thesis using ops d len by auto
qed

end
