(* ===== verification/LocalTime.thy ===== *)
theory LocalTime
  imports Json
begin

text \<open>
  What the two logs of the program share: the local time of \<^verbatim>\<open>GetLocalTime\<close>, the padded numbers of
  the time stamps, and how writing one line to a file can end.
\<close>

record systemtime =
  wYear :: u16
  wMonth :: u16
  wDay :: u16
  wHour :: u16
  wMinute :: u16
  wSecond :: u16
  wMilliseconds :: u16

text \<open>How the file operations behind one line of a log end.\<close>

datatype log_outcome = LogWritten | LogDirFailed | LogOpenFailed | LogWriteFailed nat

text \<open>\<^verbatim>\<open>%0<w>hu\<close>.\<close>

definition padded :: "nat \<Rightarrow> u16 \<Rightarrow> wstr" where
  "padded w n = (let ds = dec_digits (unat n) in replicate (w - length ds) 48 @ ds)"

end
