(* ===== verification/SyncServer.thy ===== *)
theory SyncServer
  imports Socket SyncEvents EditorDiff LocalTime
begin

text \<open>
  The class \<^verbatim>\<open>SyncServer\<close> of \<^verbatim>\<open>client/sync_server.cpp\<close>: the record \<open>server\<close> has its fields and,
  at the end, the environment its functions touch: the connections, the session log file, the
  local time and the next GUID. Mutexes do not appear; \<^verbatim>\<open>ServerThreads\<close> puts the functions
  into the threads that run them. A socket handle is a number that is never reused.
\<close>

type_synonym socket = nat

definition kHandshakeTimeoutMs :: u32 where "kHandshakeTimeoutMs = 5000"
definition kSyncChunkChars :: nat where "kSyncChunkChars = 8 * 1024"
definition kMaxInsertChars :: nat where "kMaxInsertChars = 32 * 1024"
definition kMaxFailedJoinAttempts :: int where "kMaxFailedJoinAttempts = 5"

record server =
  session_code :: wstr
  port :: u16
  document :: wstr
  revision :: u64
  listen_socket :: "socket option"
  peer_socket :: "socket option"
  running :: bool
  stopping :: bool
  peer_joined :: bool
  failed_join_count :: int
  event_queue :: "sync_event list"
  event_callback :: bool
  session_log_path :: wstr
  last_error :: wstr
  net :: "socket \<Rightarrow> conn"
  log_file :: bytes
  log_script :: "log_outcome list"
  local_time :: systemtime
  next_guid :: "wstr option"
  callback_calls :: nat

section \<open>Sending\<close>

definition send_to :: "text_api \<Rightarrow> socket \<Rightarrow> protocol_message \<Rightarrow> server \<Rightarrow> bool \<times> server" where
  "send_to api socket message s =
     (let (ok, c) = SendProtocolMessage api message (net s socket)
      in (ok, s\<lparr>net := (net s)(socket := c)\<rparr>))"

definition closesocket :: "socket \<Rightarrow> server \<Rightarrow> server" where
  "closesocket socket s = s\<lparr>net := (net s)(socket := (net s socket)\<lparr>conn_open := False\<rparr>)\<rparr>"

text \<open>\<^verbatim>\<open>CloseSocket(&listen_socket_)\<close> and \<^verbatim>\<open>CloseSocket(&peer_socket_)\<close>.\<close>

definition CloseListenSocket :: "server \<Rightarrow> server" where
  "CloseListenSocket s =
     (case listen_socket s of None \<Rightarrow> s
      | Some socket \<Rightarrow> (closesocket socket s)\<lparr>listen_socket := None\<rparr>)"

definition ClosePeerSocket :: "server \<Rightarrow> server" where
  "ClosePeerSocket s =
     (case peer_socket s of None \<Rightarrow> s
      | Some socket \<Rightarrow> (closesocket socket s)\<lparr>peer_socket := None\<rparr>)"

section \<open>The session log\<close>

definition SessionLogTimestamp :: "systemtime \<Rightarrow> wstr" where
  "SessionLogTimestamp now =
     padded 4 (wYear now) @ wide ''-'' @ padded 2 (wMonth now) @ wide ''-'' @ padded 2 (wDay now)
     @ wide '' '' @ padded 2 (wHour now) @ wide '':'' @ padded 2 (wMinute now) @ wide '':''
     @ padded 2 (wSecond now) @ wide ''.'' @ padded 3 (wMilliseconds now)"

definition AppendSessionLog :: "text_api \<Rightarrow> wstr \<Rightarrow> server \<Rightarrow> bool \<times> server" where
  "AppendSessionLog api message s =
     (if session_log_path s = [] then (True, s)
      else
        let (outcome, rest) = (case log_script s of [] \<Rightarrow> (LogWritten, []) | r # rs \<Rightarrow> (r, rs));
            s1 = s\<lparr>log_script := rest\<rparr>
        in if outcome = LogDirFailed
           then (False, s1\<lparr>last_error := wide ''session.log directory creation failed''\<rparr>)
           else
             let line = SessionLogTimestamp (local_time s) @ [32] @ message @ [10];
                 bs = WideToUtf8 api line
             in if bs = [] \<and> line \<noteq> []
                then (False, s1\<lparr>last_error := wide ''session.log encoding failed''\<rparr>)
                else case outcome of
                  LogOpenFailed \<Rightarrow> (False, s1\<lparr>last_error := wide ''session.log open failed''\<rparr>)
                | LogWriteFailed n \<Rightarrow>
                    (False, s1\<lparr>log_file := log_file s @ take n bs,
                               last_error := wide ''session.log write failed''\<rparr>)
                | _ \<Rightarrow> (True, s1\<lparr>log_file := log_file s @ bs\<rparr>))"

definition log_line :: "text_api \<Rightarrow> wstr \<Rightarrow> server \<Rightarrow> server" where
  "log_line api message s = snd (AppendSessionLog api message s)"

section \<open>Events\<close>

definition PushEvent :: "sync_event \<Rightarrow> server \<Rightarrow> server" where
  "PushEvent event s =
     (let s1 = s\<lparr>event_queue := queue_push event (event_queue s)\<rparr>
      in if event_callback s then s1\<lparr>callback_calls := callback_calls s + 1\<rparr> else s1)"

definition TryPopEvent :: "server \<Rightarrow> sync_event option \<times> server" where
  "TryPopEvent s =
     (case queue_pop (event_queue s) of
        None \<Rightarrow> (None, s)
      | Some (event, queue) \<Rightarrow> (Some event, s\<lparr>event_queue := queue\<rparr>))"

definition SetEventCallback :: "bool \<Rightarrow> server \<Rightarrow> server" where
  "SetEventCallback callback s = s\<lparr>event_callback := callback\<rparr>"

definition SetSessionLogPath :: "wstr \<Rightarrow> server \<Rightarrow> server" where
  "SetSessionLogPath path s = s\<lparr>session_log_path := path\<rparr>"

definition SetDocument :: "wstr \<Rightarrow> u64 \<Rightarrow> server \<Rightarrow> server" where
  "SetDocument content revn s = s\<lparr>document := content, revision := revn\<rparr>"

section \<open>Answers to a client\<close>

definition server_message :: "message_type \<Rightarrow> server \<Rightarrow> protocol_message" where
  "server_message ty s =
     empty_message\<lparr>msg_type := ty, msg_session := session_code s, msg_client := wide ''server''\<rparr>"

definition GenerateReconnectToken :: "server \<Rightarrow> wstr" where
  "GenerateReconnectToken s =
     (case next_guid s of
        None \<Rightarrow> wide ''local-token''
      | Some token \<Rightarrow>
          if length token \<ge> 2 \<and> hd token = 123 \<and> last token = 125
          then substr 1 (length token - 2) token else token)"

definition join_ok_message :: "server \<Rightarrow> protocol_message" where
  "join_ok_message s =
     SetNumber (wide ''current_rev'') 0
       (SetString (wide ''reconnect_token'') (GenerateReconnectToken s)
         (SetString (wide ''assigned_client'') (wide ''B'') (server_message MsgJoinOk s)))"

definition SendJoinOk :: "text_api \<Rightarrow> socket \<Rightarrow> bool \<Rightarrow> server \<Rightarrow> bool \<times> server" where
  "SendJoinOk api client_socket reconnecting s =
     (let response = join_ok_message s;
          s1 = log_line api (wide ''JOIN_OK assigned_client=B reconnect=''
                 @ (if reconnecting then wide ''1'' else wide ''0'')) s
      in send_to api client_socket response s1)"

definition SendJoinFail :: "text_api \<Rightarrow> socket \<Rightarrow> wstr \<Rightarrow> server \<Rightarrow> bool \<times> server" where
  "SendJoinFail api client_socket reason s =
     (let response = SetString (wide ''reason'') reason (server_message MsgJoinFail s);
          s1 = log_line api (wide ''JOIN_FAIL reason='' @ reason) s
      in send_to api client_socket response s1)"

definition SendError :: "text_api \<Rightarrow> socket \<Rightarrow> wstr \<Rightarrow> server \<Rightarrow> bool \<times> server" where
  "SendError api client_socket reason s =
     send_to api client_socket (SetString (wide ''reason'') reason (server_message MsgError s)) s"

definition RegisterJoinFailure :: "server \<Rightarrow> bool \<times> server" where
  "RegisterJoinFailure s =
     (let s1 = s\<lparr>failed_join_count := failed_join_count s + 1\<rparr>
      in (failed_join_count s1 \<ge> kMaxFailedJoinAttempts, s1))"

definition IsJoinBlocked :: "server \<Rightarrow> bool" where
  "IsJoinBlocked s \<longleftrightarrow> failed_join_count s \<ge> kMaxFailedJoinAttempts"

section \<open>The whole document\<close>

definition chunk_count :: "wstr \<Rightarrow> nat" where
  "chunk_count doc = max 1 ((length doc + kSyncChunkChars - 1) div kSyncChunkChars)"

definition sync_chunk :: "wstr \<Rightarrow> u64 \<Rightarrow> server \<Rightarrow> nat \<Rightarrow> protocol_message" where
  "sync_chunk doc revn s index =
     (let offset = index * kSyncChunkChars;
          len = min kSyncChunkChars (length doc - offset)
      in SetString (wide ''text'') (substr offset len doc)
           (SetNumber (wide ''chunk_count'') (of_nat (chunk_count doc))
             (SetNumber (wide ''chunk_index'') (of_nat index)
               (SetNumber (wide ''rev'') revn (server_message MsgSyncResponse s)))))"

fun send_chunks :: "text_api \<Rightarrow> socket \<Rightarrow> wstr \<Rightarrow> u64 \<Rightarrow> nat list \<Rightarrow> server \<Rightarrow> bool \<times> server" where
  "send_chunks api client_socket doc revn [] s = (True, s)"
| "send_chunks api client_socket doc revn (index # indices) s =
     (let (ok, s1) = send_to api client_socket (sync_chunk doc revn s index) s
      in if ok then send_chunks api client_socket doc revn indices s1 else (False, s1))"

definition SendSyncResponse :: "text_api \<Rightarrow> socket \<Rightarrow> server \<Rightarrow> bool \<times> server" where
  "SendSyncResponse api client_socket s =
     (let doc = document s; revn = revision s; count = chunk_count doc;
          s1 = log_line api (wide ''SYNC_RESPONSE rev='' @ stream_u64 revn
                 @ wide '' chunks='' @ dec_digits count) s
      in send_chunks api client_socket doc revn [0..<count] s1)"

section \<open>Edits\<close>

text \<open>The status of an edit and the document it leads to, computed while the mutex is held.\<close>

definition edit_document :: "protocol_message \<Rightarrow> u64 \<Rightarrow> wstr \<Rightarrow> document_apply_status \<times> wstr" where
  "edit_document message position_value doc =
     (if unat position_value > length doc then (InvalidPosition, doc)
      else if msg_type message = MsgInsert then
        (case GetString message (wide ''text'') of
           None \<Rightarrow> (InvalidOperation, doc)
         | Some edit_text \<Rightarrow>
             if length edit_text > kMaxInsertChars then (InsertTooLarge, doc)
             else ApplyInsertToContent doc (unat position_value) edit_text)
      else if msg_type message = MsgDelete then
        (case GetNumber message (wide ''len'') of
           None \<Rightarrow> (InvalidOperation, doc)
         | Some length_value \<Rightarrow> ApplyDeleteToContent doc (unat position_value) (unat length_value))
      else (InvalidOperation, doc))"

definition apply_message_for :: "protocol_message \<Rightarrow> u64 \<Rightarrow> u64 \<Rightarrow> server \<Rightarrow> protocol_message" where
  "apply_message_for message position_value revn s =
     (let m = SetNumber (wide ''pos'') position_value
                (SetNumber (wide ''rev'') revn
                  (empty_message\<lparr>msg_type := MsgApply, msg_session := session_code s,
                                 msg_client := msg_client message\<rparr>))
      in if msg_type message = MsgInsert
         then SetString (wide ''text'') (case GetString message (wide ''text'') of None \<Rightarrow> [] | Some t \<Rightarrow> t)
                (SetString (wide ''op'') (wide ''INSERT'') m)
         else SetNumber (wide ''len'') (case GetNumber message (wide ''len'') of None \<Rightarrow> 0 | Some n \<Rightarrow> n)
                (SetString (wide ''op'') (wide ''DELETE'') m))"

definition apply_log_line :: "protocol_message \<Rightarrow> u64 \<Rightarrow> u64 \<Rightarrow> wstr" where
  "apply_log_line message position_value revn =
     wide ''APPLY rev='' @ stream_u64 revn
     @ wide '' op='' @ (if msg_type message = MsgInsert then wide ''INSERT'' else wide ''DELETE'')
     @ wide '' client='' @ msg_client message
     @ wide '' pos='' @ stream_u64 position_value
     @ (if msg_type message = MsgInsert
        then wide '' text_len='' @ dec_digits (case GetString message (wide ''text'') of None \<Rightarrow> 0 | Some t \<Rightarrow> length t)
        else wide '' len='' @ stream_u64 (case GetNumber message (wide ''len'') of None \<Rightarrow> 0 | Some n \<Rightarrow> n))"

text \<open>\<open>Inl\<close> is the error reason of a \<^verbatim>\<open>false\<close> result, \<open>Inr\<close> the message for the peers.\<close>

definition ApplyMessageToDocument ::
  "text_api \<Rightarrow> protocol_message \<Rightarrow> server \<Rightarrow> (wstr + protocol_message) \<times> server" where
  "ApplyMessageToDocument api message s =
     (if msg_session message \<noteq> session_code s then (Inl (wide ''invalid_session''), s)
      else if msg_client message \<noteq> wide ''A'' \<and> msg_client message \<noteq> wide ''B''
        then (Inl (wide ''invalid_client''), s)
      else case GetNumber message (wide ''pos'') of
        None \<Rightarrow> (Inl (wide ''missing_position''), s)
      | Some position_value \<Rightarrow>
          (case edit_document message position_value (document s) of
             (Applied, doc) \<Rightarrow>
               let s1 = s\<lparr>document := doc, revision := revision s + 1\<rparr>
               in (Inr (apply_message_for message position_value (revision s1) s1),
                   log_line api (apply_log_line message position_value (revision s1)) s1)
           | (status, _) \<Rightarrow> (Inl (DocumentApplyStatusToString status), s)))"

definition BroadcastApply :: "text_api \<Rightarrow> protocol_message \<Rightarrow> server \<Rightarrow> bool \<times> server" where
  "BroadcastApply api apply_message s =
     (case peer_socket s of
        None \<Rightarrow> (True, s)
      | Some socket \<Rightarrow> send_to api socket apply_message s)"

definition local_request :: "editor_operation \<Rightarrow> wstr \<Rightarrow> server \<Rightarrow> protocol_message" where
  "local_request operation client_id s =
     (let m = SetNumber (wide ''pos'') (of_nat (op_position operation))
                (SetNumber (wide ''base_rev'') (revision s)
                  (empty_message\<lparr>msg_type := (case op_type operation of OpInsert \<Rightarrow> MsgInsert | OpDelete \<Rightarrow> MsgDelete),
                                 msg_session := session_code s,
                                 msg_client := (if client_id = [] then wide ''A'' else client_id)\<rparr>))
      in case op_type operation of
           OpInsert \<Rightarrow> SetString (wide ''text'') (op_text operation) m
         | OpDelete \<Rightarrow> SetNumber (wide ''len'') (of_nat (op_length operation)) m)"

definition ApplyLocalOperation ::
  "text_api \<Rightarrow> editor_operation \<Rightarrow> wstr \<Rightarrow> server \<Rightarrow> protocol_message option \<times> server" where
  "ApplyLocalOperation api operation client_id s =
     (case ApplyMessageToDocument api (local_request operation client_id s) s of
        (Inl error_reason, s1) \<Rightarrow> (None, s1\<lparr>last_error := error_reason\<rparr>)
      | (Inr apply_message, s1) \<Rightarrow> (Some apply_message, snd (BroadcastApply api apply_message s1)))"

text \<open>
  \<^verbatim>\<open>HandleEditMessage\<close> up to the moment the message to send back is known, and as a whole.
  \<open>None\<close> is an edit that was refused; the client has been told.
\<close>

definition edit_and_notify ::
  "text_api \<Rightarrow> socket \<Rightarrow> protocol_message \<Rightarrow> server \<Rightarrow> protocol_message option \<times> server" where
  "edit_and_notify api client_socket message s =
     (if msg_client message \<noteq> wide ''B''
      then (None, snd (SendError api client_socket (wide ''invalid_client'')
                   (log_line api (wide ''EDIT_REJECT reason=invalid_client'') s)))
      else case ApplyMessageToDocument api message s of
        (Inl error_reason, s1) \<Rightarrow>
          (None, snd (SendError api client_socket error_reason
                   (log_line api (wide ''EDIT_REJECT reason='' @ error_reason) s1)))
      | (Inr apply_message, s1) \<Rightarrow>
          (Some apply_message,
           PushEvent (default_event\<lparr>ev_type := EvApply, ev_message := apply_message\<rparr>) s1))"

definition HandleEditMessage ::
  "text_api \<Rightarrow> socket \<Rightarrow> protocol_message \<Rightarrow> server \<Rightarrow> bool \<times> server" where
  "HandleEditMessage api client_socket message s =
     (case edit_and_notify api client_socket message s of
        (None, s1) \<Rightarrow> (True, s1)
      | (Some apply_message, s1) \<Rightarrow> send_to api client_socket apply_message s1)"

definition pong_message :: "protocol_message \<Rightarrow> wstr \<Rightarrow> server \<Rightarrow> protocol_message" where
  "pong_message message peer_session s =
     (let m = empty_message\<lparr>msg_type := MsgPong,
                msg_session := (if peer_session = [] then session_code s else peer_session),
                msg_client := wide ''server''\<rparr>
      in case GetNumber message (wide ''time'') of
           None \<Rightarrow> m | Some time \<Rightarrow> SetNumber (wide ''time'') time m)"

section \<open>Starting and stopping\<close>

text \<open>What \<^verbatim>\<open>socket\<close>, \<^verbatim>\<open>bind\<close> and \<^verbatim>\<open>listen\<close> do for a port.\<close>

datatype bind_outcome = BindOk socket | BindFailed | SocketFailed

lemma unat_next_port: "unat (p :: u16) \<le> 7799 \<Longrightarrow> unat (p + 1) = unat p + 1"
  by (simp add: unat_word_ariths)

function BindListenSocket_from :: "(u16 \<Rightarrow> bind_outcome) \<Rightarrow> u16 \<Rightarrow> u16 \<Rightarrow> server \<Rightarrow> bool \<times> server" where
  "BindListenSocket_from bind preferred_port candidate s =
     (if unat candidate < unat preferred_port + 23 \<and> unat candidate \<le> 7799
      then case bind candidate of
          SocketFailed \<Rightarrow> (False, s\<lparr>last_error := wide ''socket creation failed''\<rparr>)
        | BindOk socket \<Rightarrow> (True, s\<lparr>listen_socket := Some socket, port := candidate, last_error := []\<rparr>)
        | BindFailed \<Rightarrow> BindListenSocket_from bind preferred_port (candidate + 1) s
      else (False, s\<lparr>last_error := wide ''no available port''\<rparr>))"
  by pat_completeness auto

termination
  by (relation "measure (\<lambda>(_, _, candidate, _). 7800 - unat candidate)") (auto simp: unat_next_port)

declare BindListenSocket_from.simps [simp del]

definition BindListenSocket :: "(u16 \<Rightarrow> bind_outcome) \<Rightarrow> u16 \<Rightarrow> server \<Rightarrow> bool \<times> server" where
  "BindListenSocket bind preferred_port s = BindListenSocket_from bind preferred_port preferred_port s"

text \<open>\<^verbatim>\<open>Stop\<close> up to the joins, which only wait.\<close>

definition Stop :: "text_api \<Rightarrow> server \<Rightarrow> server" where
  "Stop api s =
     (let s1 = (if running s then log_line api (wide ''STOP session='' @ session_code s) s else s);
          s2 = ClosePeerSocket (CloseListenSocket (s1\<lparr>stopping := True, running := False\<rparr>))
      in s2\<lparr>peer_joined := False\<rparr>)"

text \<open>The destructor.\<close>

definition SyncServer_destroy :: "text_api \<Rightarrow> server \<Rightarrow> server" where
  "SyncServer_destroy api s = Stop api s"

definition Start :: "text_api \<Rightarrow> (u16 \<Rightarrow> bind_outcome) \<Rightarrow> wstr \<Rightarrow> u16 \<Rightarrow> server \<Rightarrow> bool \<times> server" where
  "Start api bind code preferred_port s =
     (let s1 = (Stop api s)\<lparr>session_code := code, stopping := False, peer_joined := False,
                            failed_join_count := 0\<rparr>
      in case BindListenSocket bind preferred_port s1 of
           (False, s2) \<Rightarrow> (False, s2)
         | (True, s2) \<Rightarrow>
             (True, log_line api (wide ''START session='' @ code) (s2\<lparr>running := True\<rparr>)))"

end
