(* ===== verification/ServerLemmas.thy ===== *)
theory ServerLemmas
  imports SyncServer
begin

text \<open>
  Facts about the operations of \<^verbatim>\<open>SyncServer\<close>: what each leaves alone, the refinement of an
  accepted edit to a splice of the document, the port that is bound, and the serialised form
  of the whole document.
\<close>

section \<open>The object after construction\<close>

definition SyncServer_init :: server where
  "SyncServer_init =
     \<lparr>session_code = [], port = 0, document = [], revision = 0, listen_socket = None,
      peer_socket = None, running = False, stopping = False, peer_joined = False,
      failed_join_count = 0, event_queue = [], event_callback = False, session_log_path = [],
      last_error = [], net = (\<lambda>_. \<lparr>conn_open = True, conn_script = [], conn_wire = []\<rparr>),
      log_file = [], log_script = [],
      local_time = \<lparr>wYear = 2026, wMonth = 1, wDay = 1, wHour = 0, wMinute = 0, wSecond = 0, wMilliseconds = 0\<rparr>,
      next_guid = None, callback_calls = 0\<rparr>"

section \<open>What the helpers leave alone\<close>

text \<open>Everything but the log and the error text.\<close>

definition core :: "server \<Rightarrow> server" where
  "core s = s\<lparr>last_error := [], log_file := [], log_script := []\<rparr>"

lemma core_log_line [simp]: "core (log_line api m s) = core s"
  by (simp add: core_def log_line_def AppendSessionLog_def Let_def
      split: list.splits log_outcome.splits prod.splits)

lemma core_simps [simp]:
  "session_code (core s) = session_code s" "port (core s) = port s" "document (core s) = document s"
  "revision (core s) = revision s" "listen_socket (core s) = listen_socket s"
  "peer_socket (core s) = peer_socket s" "running (core s) = running s" "stopping (core s) = stopping s"
  "peer_joined (core s) = peer_joined s" "failed_join_count (core s) = failed_join_count s"
  "event_queue (core s) = event_queue s" "event_callback (core s) = event_callback s"
  "session_log_path (core s) = session_log_path s" "net (core s) = net s"
  "local_time (core s) = local_time s" "next_guid (core s) = next_guid s"
  "callback_calls (core s) = callback_calls s"
  by (simp_all add: core_def)

lemma log_line_simps [simp]:
  "session_code (log_line api m s) = session_code s" "port (log_line api m s) = port s"
  "document (log_line api m s) = document s" "revision (log_line api m s) = revision s"
  "listen_socket (log_line api m s) = listen_socket s" "peer_socket (log_line api m s) = peer_socket s"
  "running (log_line api m s) = running s" "stopping (log_line api m s) = stopping s"
  "peer_joined (log_line api m s) = peer_joined s"
  "failed_join_count (log_line api m s) = failed_join_count s"
  "event_queue (log_line api m s) = event_queue s" "event_callback (log_line api m s) = event_callback s"
  "session_log_path (log_line api m s) = session_log_path s" "net (log_line api m s) = net s"
  "local_time (log_line api m s) = local_time s" "next_guid (log_line api m s) = next_guid s"
  "callback_calls (log_line api m s) = callback_calls s"
  by (metis core_log_line core_simps)+

text \<open>Everything but the connections.\<close>

lemma send_to_net: "send_to api k m s = (ok, s') \<Longrightarrow> \<exists>c. s' = s\<lparr>net := (net s)(k := c)\<rparr>"
  by (auto simp: send_to_def Let_def split: prod.splits)

definition quiet :: "server \<Rightarrow> server" where
  "quiet s = s\<lparr>net := \<lambda>_. \<lparr>conn_open = True, conn_script = [], conn_wire = []\<rparr>\<rparr>"

lemma quiet_send_to [simp]: "quiet (snd (send_to api k m s)) = quiet s"
  by (simp add: quiet_def send_to_def Let_def split: prod.splits)

lemma quiet_simps [simp]:
  "session_code (quiet s) = session_code s" "port (quiet s) = port s" "document (quiet s) = document s"
  "revision (quiet s) = revision s" "listen_socket (quiet s) = listen_socket s"
  "peer_socket (quiet s) = peer_socket s" "running (quiet s) = running s" "stopping (quiet s) = stopping s"
  "peer_joined (quiet s) = peer_joined s" "failed_join_count (quiet s) = failed_join_count s"
  "event_queue (quiet s) = event_queue s" "event_callback (quiet s) = event_callback s"
  by (simp_all add: quiet_def)

lemma send_to_simps [simp]:
  "session_code (snd (send_to api k m s)) = session_code s"
  "document (snd (send_to api k m s)) = document s"
  "revision (snd (send_to api k m s)) = revision s"
  "listen_socket (snd (send_to api k m s)) = listen_socket s"
  "peer_socket (snd (send_to api k m s)) = peer_socket s"
  "running (snd (send_to api k m s)) = running s"
  "stopping (snd (send_to api k m s)) = stopping s"
  "peer_joined (snd (send_to api k m s)) = peer_joined s"
  "failed_join_count (snd (send_to api k m s)) = failed_join_count s"
  "event_queue (snd (send_to api k m s)) = event_queue s"
  by (metis quiet_send_to quiet_simps)+

lemma closesocket_simps [simp]:
  "session_code (closesocket k s) = session_code s" "document (closesocket k s) = document s"
  "revision (closesocket k s) = revision s" "listen_socket (closesocket k s) = listen_socket s"
  "peer_socket (closesocket k s) = peer_socket s" "running (closesocket k s) = running s"
  "stopping (closesocket k s) = stopping s" "peer_joined (closesocket k s) = peer_joined s"
  "failed_join_count (closesocket k s) = failed_join_count s"
  "event_queue (closesocket k s) = event_queue s"
  by (simp_all add: closesocket_def)

lemma PushEvent_simps [simp]:
  "session_code (PushEvent e s) = session_code s" "document (PushEvent e s) = document s"
  "revision (PushEvent e s) = revision s" "peer_socket (PushEvent e s) = peer_socket s"
  "listen_socket (PushEvent e s) = listen_socket s" "running (PushEvent e s) = running s"
  "stopping (PushEvent e s) = stopping s" "peer_joined (PushEvent e s) = peer_joined s"
  "failed_join_count (PushEvent e s) = failed_join_count s" "net (PushEvent e s) = net s"
  "event_queue (PushEvent e s) = event_queue s @ [e]"
  by (simp_all add: PushEvent_def Let_def queue_push_def)

text \<open>A message that cannot be encoded is lost without a trace on the connection.\<close>

lemma send_to_ill_formed:
  "SerializeMessage api m = Inl e \<Longrightarrow> send_to api k m s = (False, s)"
  by (simp add: send_to_def SendProtocolMessage_ill_formed)

lemma send_to_reliable:
  assumes "SerializeMessage api m = Inr b" and "reliable (net s k)"
  shows "\<exists>s'. send_to api k m s = (True, s') \<and> quiet s' = quiet s \<and> reliable (net s' k) \<and>
              conn_wire (net s' k) = conn_wire (net s k) @ EncodeFrame b \<and>
              (\<forall>j. j \<noteq> k \<longrightarrow> net s' j = net s j)"
  using SendProtocolMessage_reliable [OF assms] by (auto simp: send_to_def quiet_def)

section \<open>An accepted edit is a splice\<close>

text \<open>
  The meaning of an edit: at a position, a number of characters is replaced by a text.
  \<open>requested_edit\<close> reads it from an INSERT or DELETE, \<open>announced_edit\<close> from an APPLY.
\<close>

type_synonym edit = "nat \<times> nat \<times> wstr"

definition requested_edit :: "protocol_message \<Rightarrow> edit option" where
  "requested_edit m =
     (case GetNumber m (wide ''pos'') of None \<Rightarrow> None
      | Some p \<Rightarrow>
        (case msg_type m of
           MsgInsert \<Rightarrow> map_option (\<lambda>t. (unat p, 0, t)) (GetString m (wide ''text''))
         | MsgDelete \<Rightarrow> map_option (\<lambda>n. (unat p, unat n, [])) (GetNumber m (wide ''len''))
         | _ \<Rightarrow> None))"

definition announced_edit :: "protocol_message \<Rightarrow> edit option" where
  "announced_edit m =
     (case GetNumber m (wide ''pos'') of None \<Rightarrow> None
      | Some p \<Rightarrow>
        if GetString m (wide ''op'') = Some (wide ''INSERT'')
        then map_option (\<lambda>t. (unat p, 0, t)) (GetString m (wide ''text''))
        else if GetString m (wide ''op'') = Some (wide ''DELETE'')
        then map_option (\<lambda>n. (unat p, unat n, [])) (GetNumber m (wide ''len''))
        else None)"

definition do_edit :: "edit \<Rightarrow> wstr \<Rightarrow> wstr" where
  "do_edit e doc = (case e of (p, n, t) \<Rightarrow> splice p n t doc)"

text \<open>The edits the server accepts.\<close>

definition edit_allowed :: "edit \<Rightarrow> wstr \<Rightarrow> bool" where
  "edit_allowed e doc \<longleftrightarrow>
     (case e of (p, n, t) \<Rightarrow>
        p + n \<le> length doc \<and> (0 < n \<or> t \<noteq> []) \<and> length t \<le> kMaxInsertChars \<and>
        (t \<noteq> [] \<longrightarrow> length doc + length t \<le> kMaxDocumentChars))"

lemma edit_document_applied:
  "edit_document m pos doc = (Applied, doc') \<and> GetNumber m (wide ''pos'') = Some pos \<longleftrightarrow>
   (\<exists>e. requested_edit m = Some e \<and> edit_allowed e doc \<and> doc' = do_edit e doc \<and>
        GetNumber m (wide ''pos'') = Some pos)"
  by (cases "msg_type m")
    (auto simp: edit_document_def requested_edit_def edit_allowed_def do_edit_def
      ApplyInsertToContent_def ApplyDeleteToContent_def splice_insert splice_delete kMaxInsertChars_def
      split: option.splits if_splits)

lemma announced_apply_message:
  assumes "requested_edit m = Some e" and "GetNumber m (wide ''pos'') = Some pos"
  shows "announced_edit (apply_message_for m pos r s) = Some e"
  using assms
  by (cases "msg_type m")
    (auto simp: requested_edit_def announced_edit_def apply_message_for_def Let_def)

lemma apply_message_for_header:
  "msg_type (apply_message_for m pos r s) = MsgApply"
  "msg_session (apply_message_for m pos r s) = session_code s"
  "msg_client (apply_message_for m pos r s) = msg_client m"
  "GetNumber (apply_message_for m pos r s) (wide ''rev'') = Some r"
  by (simp_all add: apply_message_for_def Let_def)

definition edit_accepted :: "protocol_message \<Rightarrow> server \<Rightarrow> bool" where
  "edit_accepted m s \<longleftrightarrow>
     msg_session m = session_code s \<and> msg_client m \<in> {wide ''A'', wide ''B''} \<and>
     (\<exists>e. requested_edit m = Some e \<and> edit_allowed e (document s))"

lemma requested_edit_pos: "requested_edit m = Some e \<Longrightarrow> \<exists>pos. GetNumber m (wide ''pos'') = Some pos"
  by (auto simp: requested_edit_def split: option.splits)

lemma edit_document_unchanged:
  "fst (edit_document m pos doc) \<noteq> Applied \<Longrightarrow> snd (edit_document m pos doc) = doc"
  by (auto simp: edit_document_def ApplyInsertToContent_def ApplyDeleteToContent_def split: option.splits)

lemma ApplyMessageToDocument_accepted:
  assumes "edit_accepted m s" and "requested_edit m = Some e"
  shows "\<exists>a s'. ApplyMessageToDocument api m s = (Inr a, s') \<and>
      core s' = core (s\<lparr>document := do_edit e (document s), revision := revision s + 1\<rparr>) \<and>
      announced_edit a = Some e \<and> msg_type a = MsgApply \<and> msg_session a = session_code s \<and>
      msg_client a = msg_client m \<and> GetNumber a (wide ''rev'') = Some (revision s + 1)"
proof -
  obtain pos where pos: "GetNumber m (wide ''pos'') = Some pos"
    using requested_edit_pos [OF assms(2)] by blast
  have "edit_document m pos (document s) = (Applied, do_edit e (document s))"
    using edit_document_applied [of m pos "document s" "do_edit e (document s)"] assms pos
    by (auto simp: edit_accepted_def)
  then show ?thesis
    using assms pos announced_apply_message [OF assms(2) pos]
    by (auto simp: ApplyMessageToDocument_def edit_accepted_def apply_message_for_header Let_def)
qed

text \<open>The same, field by field.\<close>

lemma accepted_edit:
  assumes "edit_accepted m s" and "requested_edit m = Some e"
  obtains a s' where "ApplyMessageToDocument api m s = (Inr a, s')"
    and "document s' = do_edit e (document s)" and "revision s' = revision s + 1"
    and "session_code s' = session_code s" and "net s' = net s"
    and "announced_edit a = Some e" and "msg_type a = MsgApply" and "msg_client a = msg_client m"
    and "GetNumber a (wide ''rev'') = Some (revision s + 1)"
proof -
  obtain a s' where a: "ApplyMessageToDocument api m s = (Inr a, s')"
    "core s' = core (s\<lparr>document := do_edit e (document s), revision := revision s + 1\<rparr>)"
    "announced_edit a = Some e" "msg_type a = MsgApply" "msg_client a = msg_client m"
    "GetNumber a (wide ''rev'') = Some (revision s + 1)"
    using ApplyMessageToDocument_accepted [OF assms, of api] by blast
  have "document s' = do_edit e (document s)" "revision s' = revision s + 1"
    "session_code s' = session_code s" "net s' = net s"
    using arg_cong [OF a(2), of document] arg_cong [OF a(2), of revision]
      arg_cong [OF a(2), of session_code] arg_cong [OF a(2), of net] by simp_all
  with a show thesis by (intro that [of a s'])
qed

lemma ApplyMessageToDocument_refused:
  assumes "\<not> edit_accepted m s"
  shows "\<exists>reason. ApplyMessageToDocument api m s = (Inl reason, s)"
proof (cases "msg_session m = session_code s \<and> msg_client m \<in> {wide ''A'', wide ''B''}")
  case False
  then show ?thesis by (auto simp: ApplyMessageToDocument_def)
next
  case True
  show ?thesis
  proof (cases "GetNumber m (wide ''pos'')")
    case None
    with True show ?thesis by (auto simp: ApplyMessageToDocument_def)
  next
    case (Some pos)
    obtain st doc where ed: "edit_document m pos (document s) = (st, doc)" by force
    have "st \<noteq> Applied"
      using edit_document_applied [of m pos "document s" doc] ed Some True assms
      by (auto simp: edit_accepted_def)
    with True Some ed show ?thesis
      by (cases st) (auto simp: ApplyMessageToDocument_def)
  qed
qed

lemma do_edit_bounded:
  "edit_allowed e doc \<Longrightarrow> length doc \<le> kMaxDocumentChars \<Longrightarrow> length (do_edit e doc) \<le> kMaxDocumentChars"
  by (auto simp: edit_allowed_def do_edit_def length_splice split: prod.splits)

text \<open>What \<^verbatim>\<open>ApplyMessageToDocument\<close> can change at all.\<close>

lemma ApplyMessageToDocument_frame:
  assumes "ApplyMessageToDocument api m s = (r, s')"
  shows "core s' = core (s\<lparr>document := document s', revision := revision s'\<rparr>)"
    and "r = Inl x \<Longrightarrow> s' = s"
proof -
  have "core s' = core (s\<lparr>document := document s', revision := revision s'\<rparr>) \<and> (r = Inl x \<longrightarrow> s' = s)"
  proof (cases "edit_accepted m s")
    case True
    then obtain e where e: "requested_edit m = Some e" by (auto simp: edit_accepted_def)
    obtain a s'' where *: "ApplyMessageToDocument api m s = (Inr a, s'')"
      "core s'' = core (s\<lparr>document := do_edit e (document s), revision := revision s + 1\<rparr>)"
      using ApplyMessageToDocument_accepted [OF True e] by blast
    have "document s'' = do_edit e (document s)" "revision s'' = revision s + 1"
      using arg_cong [OF *(2), of document] arg_cong [OF *(2), of revision] by simp_all
    with * assms show ?thesis by simp
  next
    case False
    then show ?thesis
      using ApplyMessageToDocument_refused [OF False, of api] assms by auto
  qed
  then show "core s' = core (s\<lparr>document := document s', revision := revision s'\<rparr>)" "r = Inl x \<Longrightarrow> s' = s"
    by simp_all
qed

section \<open>Binding\<close>

lemma BindListenSocket_found:
  assumes "unat preferred \<le> unat q" and "unat q < unat preferred + 23" and "unat q \<le> 7799"
    and "bind q = BindOk k" and "\<And>p. preferred \<le> p \<Longrightarrow> p < q \<Longrightarrow> bind p = BindFailed"
  shows "BindListenSocket bind preferred s =
         (True, s\<lparr>listen_socket := Some k, port := q, last_error := []\<rparr>)"
proof -
  have "BindListenSocket_from bind preferred c s =
      (True, s\<lparr>listen_socket := Some k, port := q, last_error := []\<rparr>)" if "preferred \<le> c" "c \<le> q" for c
    using that
  proof (induction "unat q - unat c" arbitrary: c)
    case 0
    then have "unat c = unat q" by (simp add: word_le_nat_alt)
    then have "c = q" by (rule unsigned_word_eqI)
    with assms show ?case by (simp add: BindListenSocket_from.simps)
  next
    case (Suc n)
    then have lt: "c < q" by (auto simp: word_less_nat_alt)
    then have u: "unat (c + 1) = unat c + 1"
      using assms(3) by (intro unat_next_port) (simp add: word_less_nat_alt)
    have "BindListenSocket_from bind preferred (c + 1) s =
        (True, s\<lparr>listen_socket := Some k, port := q, last_error := []\<rparr>)"
      using Suc lt u by (intro Suc.hyps(1)) (simp_all add: word_le_nat_alt word_less_nat_alt)
    with lt assms Suc.prems show ?case
      by (subst BindListenSocket_from.simps) (simp add: word_less_nat_alt)
  qed
  then show ?thesis
    using assms(1) by (simp add: BindListenSocket_def word_le_nat_alt)
qed

lemma BindListenSocket_none:
  assumes "\<And>p. preferred \<le> p \<Longrightarrow> unat p < unat preferred + 23 \<Longrightarrow> unat p \<le> 7799 \<Longrightarrow> bind p = BindFailed"
  shows "BindListenSocket bind preferred s = (False, s\<lparr>last_error := wide ''no available port''\<rparr>)"
proof -
  have "BindListenSocket_from bind preferred c s = (False, s\<lparr>last_error := wide ''no available port''\<rparr>)"
    if "preferred \<le> c" for c
    using that
  proof (induction "7800 - unat c" arbitrary: c rule: less_induct)
    case less
    show ?case
    proof (cases "unat c < unat preferred + 23 \<and> unat c \<le> 7799")
      case True
      then have u: "unat (c + 1) = unat c + 1"
        by (intro unat_next_port) simp
      have "BindListenSocket_from bind preferred (c + 1) s =
          (False, s\<lparr>last_error := wide ''no available port''\<rparr>)"
        using less.prems u True by (intro less.hyps) (auto simp: word_le_nat_alt)
      with True assms [of c] less.prems show ?thesis
        by (subst BindListenSocket_from.simps) simp
    next
      case False
      then show ?thesis by (subst BindListenSocket_from.simps) auto
    qed
  qed
  then show ?thesis by (simp add: BindListenSocket_def)
qed

end
