(* ===== verification/ServerThreads.thy ===== *)
theory ServerThreads
  imports ServerLemmas
begin

text \<open>
  The threads of the server: \<^verbatim>\<open>HandleClient\<close>, one thread for each connection, as a machine
  whose phases are the stretches of code between two points where another thread can get in;
  the accept loop; and the user-interface thread, which starts, stops and edits. The step
  relation interleaves them. The lemmas are the safety of the session: one peer at a time, and
  nothing but the joined peer and the host changes the document.
\<close>

datatype phase =
    AwaitHello
  | AwaitJoin
  | CheckBlocked protocol_message
  | CheckCode protocol_message
  | Claim protocol_message
  | JoinOk protocol_message
  | Serving protocol_message
  | SendApply protocol_message protocol_message
  | Cleanup
  | Returned

record client_thread =
  th_socket :: socket
  th_decoder :: frame_decoder
  th_input :: "recv_result list"
  th_joined :: bool
  th_phase :: phase

section \<open>One thread\<close>

definition refuse :: "text_api \<Rightarrow> wstr \<Rightarrow> client_thread \<Rightarrow> server \<Rightarrow> client_thread \<times> server" where
  "refuse api reason t s =
     (t\<lparr>th_phase := Returned\<rparr>,
      closesocket (th_socket t) (snd (SendJoinFail api (th_socket t) reason s)))"

text \<open>The two handshake messages: anything but the expected type counts as a failed join.\<close>

definition handshake ::
  "text_api \<Rightarrow> u64 list \<Rightarrow> message_type \<Rightarrow> (protocol_message \<Rightarrow> phase) \<Rightarrow> client_thread \<Rightarrow> server \<Rightarrow>
   (client_thread \<times> server) option" where
  "handshake api clock expected next t s =
     (case ReceiveProtocolMessageWithin api clock kHandshakeTimeoutMs (th_input t) (th_decoder t) of
        None \<Rightarrow> None
      | Some (outcome, decoder, input) \<Rightarrow>
          let t1 = t\<lparr>th_decoder := decoder, th_input := input\<rparr>
          in Some (case outcome of
                None \<Rightarrow> refuse api (wide ''protocol_mismatch'') t1 (snd (RegisterJoinFailure s))
              | Some m \<Rightarrow>
                  if msg_type m \<noteq> expected
                  then refuse api (wide ''protocol_mismatch'') t1 (snd (RegisterJoinFailure s))
                  else (t1\<lparr>th_phase := next m\<rparr>, s)))"

definition optional_string :: "protocol_message \<Rightarrow> string \<Rightarrow> wstr" where
  "optional_string m key = (case GetString m (wide key) of None \<Rightarrow> [] | Some v \<Rightarrow> v)"

text \<open>One round of the message loop.\<close>

definition serve ::
  "text_api \<Rightarrow> protocol_message \<Rightarrow> client_thread \<Rightarrow> server \<Rightarrow> (client_thread \<times> server) option" where
  "serve api join t s =
     (if stopping s then Some (t\<lparr>th_phase := Cleanup\<rparr>, s)
      else case ReceiveProtocolMessage api (th_input t) (th_decoder t) of
        None \<Rightarrow> None
      | Some (result, decoder, input) \<Rightarrow>
          let t1 = t\<lparr>th_decoder := decoder, th_input := input\<rparr>;
              leave = t1\<lparr>th_phase := Cleanup\<rparr>
          in Some (case result of
                RecvTimeout \<Rightarrow> (t1, s)
              | RecvMessage message \<Rightarrow>
                  if msg_session message \<noteq> session_code s
                  then (t1, snd (SendError api (th_socket t) (wide ''invalid_session'') s))
                  else if msg_type message = MsgPing
                  then (let (ok, s1) = send_to api (th_socket t) (pong_message message (msg_session join) s) s
                        in (if ok then t1 else leave, s1))
                  else if msg_type message = MsgInsert \<or> msg_type message = MsgDelete
                  then (case edit_and_notify api (th_socket t) message s of
                          (None, s1) \<Rightarrow> (t1, s1)
                        | (Some apply_message, s1) \<Rightarrow> (t1\<lparr>th_phase := SendApply join apply_message\<rparr>, s1))
                  else if msg_type message = MsgSyncRequest
                  then (let (ok, s1) = SendSyncResponse api (th_socket t) s
                        in (if ok then t1 else leave, s1))
                  else (t1, snd (SendError api (th_socket t) (wide ''unsupported_message'') s))
              | _ \<Rightarrow> (leave, s)))"

definition cleanup :: "client_thread \<Rightarrow> server \<Rightarrow> client_thread \<times> server" where
  "cleanup t s =
     (let s1 = (if peer_socket s = Some (th_socket t)
                then closesocket (th_socket t) (s\<lparr>peer_socket := None, peer_joined := False\<rparr>)
                else s);
          s2 = (if th_joined t \<and> \<not> stopping s
                then PushEvent (default_event\<lparr>ev_type := EvDisconnected,
                                              ev_detail := wide ''peer disconnected''\<rparr>) s1
                else s1)
      in (t\<lparr>th_phase := Returned\<rparr>, s2))"

definition HandleClient ::
  "text_api \<Rightarrow> u64 list \<Rightarrow> client_thread \<Rightarrow> server \<Rightarrow> (client_thread \<times> server) option" where
  "HandleClient api clock t s =
     (case th_phase t of
        AwaitHello \<Rightarrow> handshake api clock MsgHello (\<lambda>_. AwaitJoin) t s
      | AwaitJoin \<Rightarrow> handshake api clock MsgJoin CheckBlocked t s
      | CheckBlocked join \<Rightarrow>
          Some (if IsJoinBlocked s then refuse api (wide ''blocked'') t s
                else (t\<lparr>th_phase := CheckCode join\<rparr>, s))
      | CheckCode join \<Rightarrow>
          Some (if optional_string join ''join_code'' \<noteq> session_code s
                then (let (blocked, s1) = RegisterJoinFailure s
                      in refuse api (if blocked then wide ''blocked'' else wide ''invalid_code'') t s1)
                else (t\<lparr>th_phase := Claim join\<rparr>, s))
      | Claim join \<Rightarrow>
          Some (if peer_joined s then refuse api (wide ''room_full'') t s
                else (t\<lparr>th_phase := JoinOk join, th_joined := True\<rparr>,
                      s\<lparr>peer_joined := True, peer_socket := Some (th_socket t)\<rparr>))
      | JoinOk join \<Rightarrow>
          (let (ok, s1) = SendJoinOk api (th_socket t) (optional_string join ''reconnect_token'' \<noteq> []) s
           in Some (if ok then (t\<lparr>th_phase := Serving join\<rparr>, s1)
                    else (t\<lparr>th_phase := Returned\<rparr>, (ClosePeerSocket s1)\<lparr>peer_joined := False\<rparr>)))
      | Serving join \<Rightarrow> serve api join t s
      | SendApply join apply_message \<Rightarrow>
          (let (ok, s1) = send_to api (th_socket t) apply_message s
           in Some (if ok then (t\<lparr>th_phase := Serving join\<rparr>, s1) else (t\<lparr>th_phase := Cleanup\<rparr>, s1)))
      | Cleanup \<Rightarrow> Some (cleanup t s)
      | Returned \<Rightarrow> None)"

text \<open>The thread the accept loop creates for a connection.\<close>

definition new_thread :: "socket \<Rightarrow> client_thread" where
  "new_thread socket =
     \<lparr>th_socket = socket, th_decoder = [], th_input = [], th_joined = False, th_phase = AwaitHello\<rparr>"

section \<open>All threads\<close>

text \<open>
  \<open>UiBroadcast\<close> is the user-interface thread inside \<^verbatim>\<open>ApplyLocalOperation\<close>, between the edit and
  the send; \<open>UiJoining\<close> is inside \<^verbatim>\<open>Stop\<close>, waiting for the threads.
\<close>

datatype ui_state = UiIdle | UiBroadcast protocol_message | UiJoining

record system =
  srv :: server
  threads :: "client_thread list"
  accepting :: bool
  ui :: ui_state

inductive step :: "text_api \<Rightarrow> system \<Rightarrow> system \<Rightarrow> bool" for api :: text_api where
  accept: "accepting y \<Longrightarrow> socket \<notin> th_socket ` set (threads y) \<Longrightarrow>
     peer_socket (srv y) \<noteq> Some socket \<Longrightarrow> listen_socket (srv y) \<noteq> Some socket \<Longrightarrow>
     step api y (y\<lparr>threads := threads y @ [new_thread socket]\<rparr>)"
| accept_failed: "accepting y \<Longrightarrow>
     step api y (y\<lparr>accepting := False,
       srv := (if stopping (srv y) then srv y else (srv y)\<lparr>last_error := wide ''accept failed''\<rparr>)\<rparr>)"
| network: "i < length (threads y) \<Longrightarrow>
     step api y (y\<lparr>threads := (threads y)[i := (threads y ! i)\<lparr>th_input := th_input (threads y ! i) @ rs\<rparr>]\<rparr>)"
| handle: "i < length (threads y) \<Longrightarrow> HandleClient api clock (threads y ! i) (srv y) = Some (t, s) \<Longrightarrow>
     step api y (y\<lparr>threads := (threads y)[i := t], srv := s\<rparr>)"
| local_edit: "ui y = UiIdle \<Longrightarrow>
     ApplyMessageToDocument api (local_request op client_id (srv y)) (srv y) = (Inr m, s) \<Longrightarrow>
     step api y (y\<lparr>srv := s, ui := UiBroadcast m\<rparr>)"
| local_refused: "ui y = UiIdle \<Longrightarrow>
     ApplyMessageToDocument api (local_request op client_id (srv y)) (srv y) = (Inl reason, s) \<Longrightarrow>
     step api y (y\<lparr>srv := s\<lparr>last_error := reason\<rparr>\<rparr>)"
| broadcast: "ui y = UiBroadcast m \<Longrightarrow>
     step api y (y\<lparr>srv := snd (BroadcastApply api m (srv y)), ui := UiIdle\<rparr>)"
| set_document: "ui y = UiIdle \<Longrightarrow> step api y (y\<lparr>srv := SetDocument content r (srv y)\<rparr>)"
| pop_event: "step api y (y\<lparr>srv := snd (TryPopEvent (srv y))\<rparr>)"
| stop: "ui y = UiIdle \<Longrightarrow> step api y (y\<lparr>srv := Stop api (srv y), ui := UiJoining\<rparr>)"
| joined: "ui y = UiJoining \<Longrightarrow> \<not> accepting y \<Longrightarrow> \<forall>t \<in> set (threads y). th_phase t = Returned \<Longrightarrow>
     step api y (y\<lparr>threads := [], ui := UiIdle\<rparr>)"
| start: "ui y = UiIdle \<Longrightarrow> threads y = [] \<Longrightarrow> \<not> accepting y \<Longrightarrow>
     Start api bind code preferred (srv y) = (ok, s) \<Longrightarrow>
     step api y (y\<lparr>srv := s, accepting := ok\<rparr>)"

definition initial_system :: system where
  "initial_system = \<lparr>srv = SyncServer_init, threads = [], accepting = False, ui = UiIdle\<rparr>"

inductive reachable :: "text_api \<Rightarrow> system \<Rightarrow> bool" for api :: text_api where
  init: "reachable api initial_system"
| step: "reachable api y \<Longrightarrow> step api y z \<Longrightarrow> reachable api z"

inductive_cases stepE: "step api y z"

section \<open>The peer slot\<close>

text \<open>The phases in which a thread owns the peer slot.\<close>

fun owner_phase :: "phase \<Rightarrow> bool" where
  "owner_phase (JoinOk join) = True"
| "owner_phase (Serving join) = True"
| "owner_phase (SendApply join m) = True"
| "owner_phase Cleanup = True"
| "owner_phase _ = False"

fun phase_join :: "phase \<Rightarrow> protocol_message option" where
  "phase_join (Claim join) = Some join"
| "phase_join (JoinOk join) = Some join"
| "phase_join (Serving join) = Some join"
| "phase_join (SendApply join m) = Some join"
| "phase_join _ = None"

definition owners :: "system \<Rightarrow> nat set" where
  "owners y = {i. i < length (threads y) \<and> owner_phase (th_phase (threads y ! i))}"

definition code_ok :: "system \<Rightarrow> bool" where
  "code_ok y \<longleftrightarrow> (\<forall>t \<in> set (threads y). \<forall>join. phase_join (th_phase t) = Some join \<longrightarrow>
     optional_string join ''join_code'' = session_code (srv y))"

text \<open>
  While the server is not stopping, the slot is taken exactly when one thread owns it, and the
  peer socket is that thread's.
\<close>

definition slot_ok :: "system \<Rightarrow> bool" where
  "slot_ok y \<longleftrightarrow>
     \<not> stopping (srv y) \<longrightarrow>
       (if peer_joined (srv y)
        then \<exists>i. owners y = {i} \<and> peer_socket (srv y) = Some (th_socket (threads y ! i))
        else owners y = {} \<and> peer_socket (srv y) = None)"

text \<open>Outside \<^verbatim>\<open>Stop\<close>, a stopped server has no threads.\<close>

definition idle_ok :: "system \<Rightarrow> bool" where
  "idle_ok y \<longleftrightarrow> stopping (srv y) \<and> ui y \<noteq> UiJoining \<longrightarrow> threads y = [] \<and> \<not> accepting y"

section \<open>What one step of a thread can do\<close>

text \<open>The fields the slot depends on.\<close>

definition slot :: "server \<Rightarrow> wstr \<times> bool \<times> bool \<times> socket option" where
  "slot s = (session_code s, stopping s, peer_joined s, peer_socket s)"

lemma slot_send_to [simp]: "slot (snd (send_to api k m s)) = slot s"
  by (simp add: slot_def)

lemma slot_send_to_eq: "send_to api k m s = (ok, s') \<Longrightarrow> slot s' = slot s"
  by (metis slot_send_to snd_conv)

lemma slot_log_line [simp]: "slot (log_line api m s) = slot s"
  by (simp add: slot_def)

lemma slot_PushEvent [simp]: "slot (PushEvent e s) = slot s"
  by (simp add: slot_def)

lemma slot_closesocket [simp]: "slot (closesocket k s) = slot s"
  by (simp add: slot_def)

lemma slot_SendError [simp]: "slot (snd (SendError api k reason s)) = slot s"
  by (simp add: SendError_def)

lemma slot_SendJoinFail [simp]: "slot (snd (SendJoinFail api k reason s)) = slot s"
  by (simp add: SendJoinFail_def Let_def)

lemma slot_SendJoinOk: "SendJoinOk api k b s = (ok, s') \<Longrightarrow> slot s' = slot s"
  by (simp add: SendJoinOk_def Let_def slot_send_to_eq)

lemma slot_RegisterJoinFailure [simp]: "slot (snd (RegisterJoinFailure s)) = slot s"
  by (simp add: RegisterJoinFailure_def slot_def Let_def)

lemma slot_send_chunks: "send_chunks api k doc r is s = (ok, s') \<Longrightarrow> slot s' = slot s"
proof (induction "is" arbitrary: s)
  case (Cons i js)
  then show ?case
    using slot_send_to_eq [of api k "sync_chunk doc r s i" s]
    by (fastforce simp: Let_def split: prod.splits if_splits)
qed simp

lemma slot_SendSyncResponse: "SendSyncResponse api k s = (ok, s') \<Longrightarrow> slot s' = slot s"
  using slot_send_chunks by (fastforce simp: SendSyncResponse_def Let_def)

lemma slot_ApplyMessageToDocument: "ApplyMessageToDocument api m s = (r, s') \<Longrightarrow> slot s' = slot s"
proof -
  assume "ApplyMessageToDocument api m s = (r, s')"
  then have *: "core s' = core (s\<lparr>document := document s', revision := revision s'\<rparr>)"
    by (rule ApplyMessageToDocument_frame)
  show "slot s' = slot s"
    using arg_cong [OF *, of session_code] arg_cong [OF *, of stopping]
      arg_cong [OF *, of peer_joined] arg_cong [OF *, of peer_socket] by (simp add: slot_def)
qed

lemma slot_edit_and_notify: "edit_and_notify api k m s = (r, s') \<Longrightarrow> slot s' = slot s"
  using slot_ApplyMessageToDocument
  by (fastforce simp: edit_and_notify_def split: if_splits prod.splits sum.splits)

lemma refuse_effect:
  assumes "refuse api reason t s = (t', s')"
  shows "t' = t\<lparr>th_phase := Returned\<rparr>" and "slot s' = slot s"
  using assms by (auto simp: refuse_def)

text \<open>The four ways a step of a thread can treat the peer slot.\<close>

definition slot_step :: "client_thread \<Rightarrow> server \<Rightarrow> client_thread \<Rightarrow> server \<Rightarrow> bool" where
  "slot_step t s t' s' \<longleftrightarrow>
     th_socket t' = th_socket t \<and> session_code s' = session_code s \<and> stopping s' = stopping s \<and>
     (slot s' = slot s \<and> owner_phase (th_phase t') = owner_phase (th_phase t) \<or>
      \<not> owner_phase (th_phase t) \<and> owner_phase (th_phase t') \<and> \<not> peer_joined s \<and> peer_joined s' \<and>
        peer_socket s' = Some (th_socket t) \<or>
      owner_phase (th_phase t) \<and> \<not> owner_phase (th_phase t') \<and>
        (peer_socket s = Some (th_socket t) \<longrightarrow> \<not> peer_joined s' \<and> peer_socket s' = None))"

text \<open>Only the check of the join code lets a thread carry a join message past it.\<close>

definition code_step :: "client_thread \<Rightarrow> server \<Rightarrow> client_thread \<Rightarrow> bool" where
  "code_step t s t' \<longleftrightarrow>
     (\<forall>join. phase_join (th_phase t') = Some join \<longrightarrow>
        phase_join (th_phase t) = Some join \<or> optional_string join ''join_code'' = session_code s)"

lemma slot_eq_fields:
  "slot s' = slot s \<longleftrightarrow> session_code s' = session_code s \<and> stopping s' = stopping s \<and>
     peer_joined s' = peer_joined s \<and> peer_socket s' = peer_socket s"
  by (auto simp: slot_def)

lemma refuse_step:
  assumes "(t', s') = refuse api reason t s1" and "slot s1 = slot s" and "\<not> owner_phase (th_phase t)"
  shows "slot_step t s t' s' \<and> code_step t s t'"
  using refuse_effect [OF assms(1) [symmetric]] assms(2,3)
  by (simp add: slot_step_def code_step_def slot_eq_fields)

lemma handshake_step:
  assumes "handshake api clock expected nxt t s = Some (t', s')"
    and "\<not> owner_phase (th_phase t)" and "\<And>m. \<not> owner_phase (nxt m) \<and> phase_join (nxt m) = None"
  shows "slot_step t s t' s' \<and> code_step t s t'"
  using assms
  by (auto simp: handshake_def slot_step_def code_step_def refuse_def Let_def slot_eq_fields
      RegisterJoinFailure_def SendJoinFail_def split: option.splits prod.splits if_splits)

lemma serve_step:
  assumes "serve api join t s = Some (t', s')" and "th_phase t = Serving join"
  shows "slot s' = slot s \<and> th_socket t' = th_socket t \<and>
    (th_phase t' = Serving join \<or> th_phase t' = Cleanup \<or> (\<exists>m. th_phase t' = SendApply join m))"
  using assms
  by (auto simp: serve_def Let_def dest: slot_send_to_eq slot_SendSyncResponse slot_edit_and_notify
      split: option.splits prod.splits if_splits receive_result.splits)

lemma cleanup_effect:
  assumes "cleanup t s = (t', s')"
  shows "t' = t\<lparr>th_phase := Returned\<rparr>" and "session_code s' = session_code s"
    and "stopping s' = stopping s"
    and "peer_socket s = Some (th_socket t) \<longrightarrow> \<not> peer_joined s' \<and> peer_socket s' = None"
proof -
  define s1 where "s1 = (if peer_socket s = Some (th_socket t)
    then closesocket (th_socket t) (s\<lparr>peer_socket := None, peer_joined := False\<rparr>) else s)"
  have s': "slot s' = slot s1" and "t' = t\<lparr>th_phase := Returned\<rparr>"
    using assms by (auto simp: cleanup_def Let_def s1_def [symmetric])
  then show "t' = t\<lparr>th_phase := Returned\<rparr>" "session_code s' = session_code s" "stopping s' = stopping s"
    "peer_socket s = Some (th_socket t) \<longrightarrow> \<not> peer_joined s' \<and> peer_socket s' = None"
    by (simp_all add: slot_eq_fields s1_def)
qed

lemma HandleClient_step:
  assumes "HandleClient api clock t s = Some (t', s')"
  shows "slot_step t s t' s' \<and> code_step t s t'"
proof (cases "th_phase t")
  case AwaitHello
  then show ?thesis
    using assms by (intro handshake_step) (auto simp: HandleClient_def)
next
  case AwaitJoin
  then show ?thesis
    using assms by (intro handshake_step) (auto simp: HandleClient_def)
next
  case (CheckBlocked join)
  show ?thesis
  proof (cases "IsJoinBlocked s")
    case True
    then show ?thesis
      using assms CheckBlocked
      by (intro refuse_step [where ?s1.0 = s and api = api and reason = "wide ''blocked''"]) (auto simp: HandleClient_def)
  next
    case False
    then show ?thesis
      using assms CheckBlocked by (auto simp: HandleClient_def slot_step_def code_step_def)
  qed
next
  case (CheckCode join)
  obtain blocked s1 where r: "RegisterJoinFailure s = (blocked, s1)" by force
  have s1: "slot s1 = slot s"
    using slot_RegisterJoinFailure [of s] r by simp
  show ?thesis
  proof (cases "optional_string join ''join_code'' = session_code s")
    case False
    then show ?thesis
      using assms CheckCode r s1
      by (intro refuse_step [OF _ s1, where api = api and reason = "if blocked then wide ''blocked'' else wide ''invalid_code''"])
        (auto simp: HandleClient_def)
  next
    case True
    then show ?thesis
      using assms CheckCode by (auto simp: HandleClient_def slot_step_def code_step_def)
  qed
next
  case (Claim join)
  show ?thesis
  proof (cases "peer_joined s")
    case True
    then show ?thesis
      using assms Claim
      by (intro refuse_step [where ?s1.0 = s and api = api and reason = "wide ''room_full''"]) (auto simp: HandleClient_def)
  next
    case False
    then show ?thesis
      using assms Claim by (auto simp: HandleClient_def slot_step_def code_step_def)
  qed
next
  case (JoinOk join)
  obtain ok s1 where sj: "SendJoinOk api (th_socket t) (optional_string join ''reconnect_token'' \<noteq> []) s = (ok, s1)"
    by force
  show ?thesis
    using assms JoinOk sj slot_SendJoinOk [OF sj]
    by (auto simp: HandleClient_def slot_step_def code_step_def slot_eq_fields ClosePeerSocket_def
        split: if_splits option.splits)
next
  case (Serving join)
  then have "serve api join t s = Some (t', s')"
    using assms by (simp add: HandleClient_def)
  from serve_step [OF this Serving] Serving show ?thesis
    by (auto simp: slot_step_def code_step_def slot_eq_fields)
next
  case (SendApply join m)
  obtain ok s1 where st: "send_to api (th_socket t) m s = (ok, s1)" by force
  show ?thesis
    using assms SendApply st slot_send_to_eq [OF st]
    by (auto simp: HandleClient_def slot_step_def code_step_def slot_eq_fields split: if_splits)
next
  case Cleanup
  then have "cleanup t s = (t', s')"
    using assms by (simp add: HandleClient_def)
  with Cleanup show ?thesis
    using cleanup_effect [of t s t' s'] by (simp add: slot_step_def code_step_def)
next
  case Returned
  then show ?thesis using assms by (simp add: HandleClient_def)
qed

section \<open>Reachable states\<close>

definition session_inv :: "system \<Rightarrow> bool" where
  "session_inv y \<longleftrightarrow> slot_ok y \<and> idle_ok y \<and> code_ok y"

lemma owners_update:
  assumes "i < length ts"
  shows "owners (y\<lparr>threads := ts[i := t]\<rparr>) =
    (if owner_phase (th_phase t) then insert i (owners (y\<lparr>threads := ts\<rparr>)) else owners (y\<lparr>threads := ts\<rparr>) - {i})"
  using assms by (auto simp: owners_def nth_list_update split: if_splits)

lemma session_inv_handle:
  assumes inv: "session_inv y" and i: "i < length (threads y)"
    and h: "HandleClient api clock (threads y ! i) (srv y) = Some (t, s)"
  shows "session_inv (y\<lparr>threads := (threads y)[i := t], srv := s\<rparr>)"
proof -
  define u where "u = threads y ! i"
  have st: "slot_step u (srv y) t s" and co: "code_step u (srv y) t"
    using HandleClient_step [OF h] by (simp_all add: u_def)
  have own: "owners (y\<lparr>threads := (threads y)[i := t], srv := s\<rparr>) =
      (if owner_phase (th_phase t) then insert i (owners y) else owners y - {i})"
    using owners_update [OF i, where y = y and t = t] by (simp add: owners_def)
  have iu: "i \<in> owners y \<longleftrightarrow> owner_phase (th_phase u)"
    using i by (simp add: owners_def u_def)
  have same: "\<And>j. j \<noteq> i \<Longrightarrow> (threads y)[i := t] ! j = threads y ! j"
    by simp
  have keys: "session_code s = session_code (srv y)" "stopping s = stopping (srv y)" "th_socket t = th_socket u"
    using st by (simp_all add: slot_step_def)
  have "slot_ok (y\<lparr>threads := (threads y)[i := t], srv := s\<rparr>)"
  proof (cases "stopping (srv y)")
    case True
    then show ?thesis by (simp add: slot_ok_def keys)
  next
    case False
    with inv have old: "if peer_joined (srv y)
        then \<exists>j. owners y = {j} \<and> peer_socket (srv y) = Some (th_socket (threads y ! j))
        else owners y = {} \<and> peer_socket (srv y) = None"
      by (simp add: session_inv_def slot_ok_def)
    consider (same) "slot s = slot (srv y)" "owner_phase (th_phase t) = owner_phase (th_phase u)"
      | (take) "\<not> owner_phase (th_phase u)" "owner_phase (th_phase t)" "\<not> peer_joined (srv y)" "peer_joined s"
          "peer_socket s = Some (th_socket u)"
      | (leave) "owner_phase (th_phase u)" "\<not> owner_phase (th_phase t)"
          "peer_socket (srv y) = Some (th_socket u) \<longrightarrow> \<not> peer_joined s \<and> peer_socket s = None"
      using st by (auto simp: slot_step_def)
    then show ?thesis
    proof cases
      case same
      then have "owners (y\<lparr>threads := (threads y)[i := t], srv := s\<rparr>) = owners y"
        using own iu by auto
      moreover have "\<And>j. th_socket ((threads y)[i := t] ! j) = th_socket (threads y ! j)"
        using keys(3) i by (case_tac "j = i") (simp_all add: u_def)
      ultimately show ?thesis
        using old same False keys by (simp add: slot_ok_def slot_eq_fields)
    next
      case take
      then show ?thesis
        using old own keys i by (simp add: slot_ok_def)
    next
      case leave
      then have "i \<in> owners y" using iu by simp
      with old have "owners y = {i}" "peer_socket (srv y) = Some (th_socket u)"
        by (auto simp: u_def split: if_splits)
      with leave own show ?thesis by (simp add: slot_ok_def)
    qed
  qed
  moreover have "idle_ok (y\<lparr>threads := (threads y)[i := t], srv := s\<rparr>)"
    using inv i by (auto simp: session_inv_def idle_ok_def keys)
  moreover have "code_ok (y\<lparr>threads := (threads y)[i := t], srv := s\<rparr>)"
    unfolding code_ok_def
  proof (intro ballI allI impI)
    fix v join
    assume v: "v \<in> set (threads (y\<lparr>threads := (threads y)[i := t], srv := s\<rparr>))"
      and j: "phase_join (th_phase v) = Some join"
    have old: "\<And>w. w \<in> set (threads y) \<Longrightarrow> phase_join (th_phase w) = Some join \<Longrightarrow>
        optional_string join ''join_code'' = session_code (srv y)"
      using inv by (auto simp: session_inv_def code_ok_def)
    from v have "v = t \<or> v \<in> set (threads y)"
      using set_update_subset_insert [of "threads y" i t] by auto
    then show "optional_string join ''join_code'' = session_code (srv (y\<lparr>threads := (threads y)[i := t], srv := s\<rparr>))"
      using old [of u] old [of v] j co i keys(1) by (auto simp: code_step_def u_def)
  qed
  ultimately show ?thesis by (simp add: session_inv_def)
qed

lemma owners_simps [simp]:
  "owners (y\<lparr>srv := s\<rparr>) = owners y" "owners (y\<lparr>ui := u\<rparr>) = owners y" "owners (y\<lparr>accepting := a\<rparr>) = owners y"
  by (simp_all add: owners_def)

text \<open>The steps of the user-interface thread that leave the threads and the slot alone.\<close>

lemma session_inv_cong:
  assumes "session_inv y" and "slot s = slot (srv y)" and "u = UiJoining \<longleftrightarrow> ui y = UiJoining"
  shows "session_inv (y\<lparr>srv := s, ui := u\<rparr>)"
  using assms
  by (simp add: session_inv_def slot_ok_def idle_ok_def code_ok_def slot_eq_fields)

lemma session_inv_srv:
  assumes "session_inv y" and "slot s = slot (srv y)"
  shows "session_inv (y\<lparr>srv := s\<rparr>)"
  using session_inv_cong [OF assms, of "ui y"] by simp

lemma slot_Stop: "slot (Stop api s) = (session_code s, True, False, None)"
  by (simp add: Stop_def Let_def ClosePeerSocket_def CloseListenSocket_def slot_def split: option.splits)

lemma slot_BindListenSocket: "BindListenSocket bind p s = (ok, s') \<Longrightarrow> slot s' = slot s"
proof -
  have "BindListenSocket_from bind p c s = (ok, s') \<Longrightarrow> slot s' = slot s" for c
  proof (induction bind p c s rule: BindListenSocket_from.induct)
    case (1 bind p c s)
    from "1.prems" "1.IH" show ?case
      by (subst (asm) BindListenSocket_from.simps) (auto simp: slot_def split: if_splits bind_outcome.splits)
  qed
  then show "BindListenSocket bind p s = (ok, s') \<Longrightarrow> slot s' = slot s"
    by (simp add: BindListenSocket_def)
qed

lemma slot_Start: "Start api bind code p s = (ok, s') \<Longrightarrow> slot s' = (code, False, False, None)"
  using slot_BindListenSocket slot_Stop [of api s]
  by (fastforce simp: Start_def Let_def slot_def split: prod.splits bool.splits)

lemma slot_BroadcastApply [simp]: "slot (snd (BroadcastApply api m s)) = slot s"
  by (simp add: BroadcastApply_def split: option.splits)

lemma session_inv_step:
  assumes "session_inv y" and "step api y z"
  shows "session_inv z"
  using assms(2)
proof (cases rule: step.cases)
  case (accept socket)
  have "owners z = owners y"
    unfolding accept(1) by (auto simp: owners_def nth_append new_thread_def)
  moreover have "\<And>i. i \<in> owners y \<Longrightarrow> th_socket (threads z ! i) = th_socket (threads y ! i)"
    unfolding accept(1) by (simp add: owners_def nth_append)
  ultimately show ?thesis
    using assms(1) accept
    by (auto simp: session_inv_def slot_ok_def idle_ok_def code_ok_def new_thread_def split: if_splits)
next
  case accept_failed
  then show ?thesis
    using assms(1) by (auto simp: session_inv_def slot_ok_def idle_ok_def code_ok_def owners_def)
next
  case (network i rs)
  have phase: "\<And>j. th_phase (threads z ! j) = th_phase (threads y ! j)"
    unfolding network(1) using network(2) by (case_tac "j = i") simp_all
  have "owners z = owners y"
    unfolding owners_def phase by (simp add: network(1))
  moreover have "\<And>j. th_socket (threads z ! j) = th_socket (threads y ! j)"
    unfolding network(1) using network(2) by (case_tac "j = i") simp_all
  moreover have "code_ok z"
    using assms(1) network(2) unfolding network(1) code_ok_def session_inv_def
    by (fastforce simp: code_ok_def dest!: subsetD [OF set_update_subset_insert])
  moreover have "threads y = [] \<Longrightarrow> False" using network(2) by simp
  ultimately show ?thesis
    using assms(1) network(1) by (auto simp: session_inv_def slot_ok_def idle_ok_def)
next
  case (handle i clock t s)
  then show ?thesis using session_inv_handle [OF assms(1)] by simp
next
  case (local_edit op client_id m s)
  then show ?thesis
    using session_inv_cong [OF assms(1) slot_ApplyMessageToDocument] by simp
next
  case (local_refused op client_id reason s)
  then have "slot (s\<lparr>last_error := reason\<rparr>) = slot (srv y)"
    using slot_ApplyMessageToDocument [OF local_refused(3)] by (simp add: slot_def)
  then show ?thesis
    using session_inv_srv [OF assms(1)] local_refused(1) by blast
next
  case (broadcast m)
  then show ?thesis
    using session_inv_cong [OF assms(1) slot_BroadcastApply] by simp
next
  case (set_document content r)
  then show ?thesis
    using session_inv_srv [OF assms(1)] by (auto simp: SetDocument_def slot_def)
next
  case pop_event
  have "slot (snd (TryPopEvent (srv y))) = slot (srv y)"
    by (simp add: TryPopEvent_def slot_def split: option.splits)
  then show ?thesis
    using session_inv_srv [OF assms(1)] pop_event by blast
next
  case stop
  then show ?thesis
    using assms(1) slot_Stop [of api "srv y"]
    by (auto simp: session_inv_def slot_ok_def idle_ok_def code_ok_def slot_def)
next
  case joined
  have "owners y = {}"
    using joined(4) by (auto simp: owners_def)
  moreover have "owners z = {}"
    by (simp add: joined(1) owners_def)
  ultimately show ?thesis
    using assms(1) joined(1-3)
    by (auto simp: session_inv_def slot_ok_def idle_ok_def code_ok_def split: if_splits)
next
  case (start bind code preferred ok s)
  then show ?thesis
    using slot_Start [OF start(5)]
    by (auto simp: session_inv_def slot_ok_def idle_ok_def code_ok_def owners_def slot_def)
qed

lemma session_inv_reachable: "reachable api y \<Longrightarrow> session_inv y"
proof (induction rule: reachable.induct)
  case init
  then show ?case
    by (simp add: session_inv_def initial_system_def SyncServer_init_def slot_ok_def idle_ok_def
        code_ok_def owners_def)
next
  case (step y z)
  then show ?case by (blast intro: session_inv_step)
qed

end
