(* ===== verification/FullSync.thy ===== *)
theory FullSync
  imports ServerLemmas
begin

text \<open>
  The SYNC_RESPONSE stream of \<^verbatim>\<open>SyncServer::SendSyncResponse\<close>: the chunks, what they look like
  on the wire, and when the whole document can be sent. The session codes of the program have
  six characters; the lemmas allow a thousand.
\<close>

section \<open>The size of a message\<close>

lemma length_str_field: "length (field_json (StrField k v)) \<le> 2 * length k + 2 * length v + 5"
  using length_EscapeJsonString [of k] length_EscapeJsonString [of v] by (simp add: field_json_def)

lemma length_num_field: "length (field_json (NumField k n)) \<le> 2 * length k + 23"
  using length_EscapeJsonString [of k] length_stream_u64 [of n] by (simp add: field_json_def)

fun field_bound :: "field \<Rightarrow> nat" where
  "field_bound (StrField k v) = 2 * length k + 2 * length v + 6"
| "field_bound (NumField k n) = 2 * length k + 24"

lemma length_field_json: "length (field_json f) < field_bound f"
proof (cases f)
  case (StrField k v)
  then show ?thesis using length_str_field [of k v] by simp
next
  case (NumField k n)
  then show ?thesis using length_num_field [of k n] by simp
qed

lemma length_fields:
  "length (concat (map (\<lambda>g. ch_comma # field_json g) fs)) \<le> sum_list (map field_bound fs)"
proof (induction fs)
  case (Cons f fs)
  then show ?case using length_field_json [of f] by simp
qed simp

lemma length_message_json: "length (message_json m) \<le> 2 + sum_list (map field_bound (message_fields m))"
proof -
  obtain f fs where fs: "message_fields m = f # fs"
    by (simp add: message_fields_def)
  show ?thesis
    using length_fields [of fs] length_field_json [of f] by (simp add: message_json_fields fs)
qed

section \<open>The chunks of a document\<close>

lemma kSyncChunkChars_pos: "0 < kSyncChunkChars"
  by (simp add: kSyncChunkChars_def)

lemma chunk_count_covers: "length doc \<le> chunk_count doc * kSyncChunkChars"
proof -
  have "length doc \<le> (length doc + kSyncChunkChars - 1) div kSyncChunkChars * kSyncChunkChars"
    by (simp add: kSyncChunkChars_def)
  then show ?thesis
    by (metis chunk_count_def max.cobounded2 mult_le_mono1 order_trans)
qed

lemma concat_sync_chunks: "concat (map (chunk kSyncChunkChars doc) [0..<chunk_count doc]) = doc"
  by (rule concat_chunks [OF chunk_count_covers])

lemma sync_chunk_text:
  "substr (i * kSyncChunkChars) (min kSyncChunkChars (length doc - i * kSyncChunkChars)) doc =
   chunk kSyncChunkChars doc i"
  by (simp add: substr_def chunk_def min_def)

lemma sync_chunk_fields:
  "message_fields (sync_chunk doc r s i) =
     [StrField (wide ''type'') (wide ''SYNC_RESPONSE''), StrField (wide ''session'') (session_code s),
      StrField (wide ''client'') (wide ''server''),
      StrField (wide ''text'') (chunk kSyncChunkChars doc i),
      NumField (wide ''chunk_count'') (of_nat (chunk_count doc)),
      NumField (wide ''chunk_index'') (of_nat i), NumField (wide ''rev'') r]"
  unfolding sync_chunk_def Let_def sync_chunk_text
  by (simp add: server_message_def empty_message_def SetString_def SetNumber_def message_fields_def
      IsCommonField_def wire_simps del: wide_eq_iff)

lemma sync_chunk_get:
  "msg_type (sync_chunk doc r s i) = MsgSyncResponse"
  "msg_session (sync_chunk doc r s i) = session_code s"
  "msg_client (sync_chunk doc r s i) = wide ''server''"
  "GetNumber (sync_chunk doc r s i) (wide ''rev'') = Some r"
  "GetNumber (sync_chunk doc r s i) (wide ''chunk_index'') = Some (of_nat i)"
  "GetNumber (sync_chunk doc r s i) (wide ''chunk_count'') = Some (of_nat (chunk_count doc))"
  "GetString (sync_chunk doc r s i) (wide ''text'') = Some (chunk kSyncChunkChars doc i)"
  by (simp_all add: sync_chunk_def Let_def sync_chunk_text server_message_def)

lemma message_ok_sync_chunk: "message_ok (sync_chunk doc r s i)"
  by (simp add: sync_chunk_def Let_def server_message_def)

definition session_ok :: "wstr \<Rightarrow> bool" where
  "session_ok code \<longleftrightarrow> code \<noteq> [] \<and> utf16_wf code \<and> length code \<le> 1000"

lemma sync_chunk_serialises:
  assumes "utf8_api api" and "session_ok (session_code s)" and "utf16_wf (chunk kSyncChunkChars doc i)"
  shows "SerializeMessage api (sync_chunk doc r s i) = Inr (WideToUtf8 api (message_json (sync_chunk doc r s i)))"
proof (rule SerializeMessage_Inr [OF assms(1)])
  have "length (chunk kSyncChunkChars doc i) \<le> kSyncChunkChars"
    by (simp add: chunk_def)
  then show "3 * length (message_json (sync_chunk doc r s i)) \<le> kMaxFramePayloadBytes"
    using length_message_json [of "sync_chunk doc r s i"] assms(2)
    by (simp add: sync_chunk_fields session_ok_def kSyncChunkChars_def kMaxFramePayloadBytes_def)
  show "\<forall>f \<in> set (message_fields (sync_chunk doc r s i)). field_wf f"
    using assms(2,3) by (simp add: sync_chunk_fields session_ok_def utf16_wf_wide)
qed (use assms(2) in \<open>simp_all add: sync_chunk_get session_ok_def\<close>)

lemma sync_chunk_payload_bound:
  assumes "utf8_api api" and "session_ok (session_code s)" and "utf16_wf (chunk kSyncChunkChars doc i)"
  shows "length (WideToUtf8 api (message_json (sync_chunk doc r s i))) + 4096 \<le> kMaxFramePayloadBytes + 1"
proof -
  have "\<forall>f \<in> set (message_fields (sync_chunk doc r s i)). field_wf f"
    using assms(2,3) by (simp add: sync_chunk_fields session_ok_def utf16_wf_wide)
  then have wf: "utf16_wf (message_json (sync_chunk doc r s i))"
    by (simp add: utf16_wf_message)
  have "length (chunk kSyncChunkChars doc i) \<le> kSyncChunkChars"
    by (simp add: chunk_def)
  then show ?thesis
    using length_WideToUtf8 [OF assms(1) wf] length_message_json [of "sync_chunk doc r s i"] assms(2)
    by (simp add: sync_chunk_fields session_ok_def kSyncChunkChars_def kMaxFramePayloadBytes_def)
qed

text \<open>The payloads of a full synchronisation.\<close>

definition sync_payloads :: "text_api \<Rightarrow> wstr \<Rightarrow> u64 \<Rightarrow> server \<Rightarrow> bytes list" where
  "sync_payloads api doc r s =
     map (\<lambda>i. WideToUtf8 api (message_json (sync_chunk doc r s i))) [0..<chunk_count doc]"

definition chunks_wf :: "wstr \<Rightarrow> bool" where
  "chunks_wf doc \<longleftrightarrow> (\<forall>i < chunk_count doc. utf16_wf (chunk kSyncChunkChars doc i))"

lemma sync_chunk_cong: "session_code s = session_code s' \<Longrightarrow> sync_chunk doc r s i = sync_chunk doc r s' i"
  by (simp add: sync_chunk_def server_message_def)

lemma send_chunks_reliable:
  assumes "utf8_api api" and "session_ok (session_code s)" and "reliable (net s k)"
    and "\<forall>i \<in> set is. utf16_wf (chunk kSyncChunkChars doc i)"
  shows "\<exists>s'. send_chunks api k doc r is s = (True, s') \<and> quiet s' = quiet s \<and> reliable (net s' k) \<and>
     conn_wire (net s' k) = conn_wire (net s k) @
       frames (map (\<lambda>i. WideToUtf8 api (message_json (sync_chunk doc r s i))) is)"
  using assms(2-4)
proof (induction "is" arbitrary: s)
  case Nil
  then show ?case by simp
next
  case (Cons i js)
  have "SerializeMessage api (sync_chunk doc r s i) =
      Inr (WideToUtf8 api (message_json (sync_chunk doc r s i)))"
    using Cons.prems by (intro sync_chunk_serialises [OF assms(1)]) simp_all
  from send_to_reliable [OF this Cons.prems(2)] obtain s1 where s1:
    "send_to api k (sync_chunk doc r s i) s = (True, s1)" "quiet s1 = quiet s" "reliable (net s1 k)"
    "conn_wire (net s1 k) = conn_wire (net s k) @ EncodeFrame (WideToUtf8 api (message_json (sync_chunk doc r s i)))"
    by blast
  have code: "session_code s1 = session_code s"
    using arg_cong [OF s1(2), of session_code] by simp
  obtain s2 where s2: "send_chunks api k doc r js s1 = (True, s2)" "quiet s2 = quiet s1" "reliable (net s2 k)"
    "conn_wire (net s2 k) = conn_wire (net s1 k) @
       frames (map (\<lambda>i. WideToUtf8 api (message_json (sync_chunk doc r s1 i))) js)"
    using Cons.IH [of s1] Cons.prems s1(3) code by auto
  then show ?case
    using s1 sync_chunk_cong [OF code] by simp
qed

lemma SendSyncResponse_reliable:
  assumes "utf8_api api" and "session_ok (session_code s)" and "reliable (net s k)"
    and "chunks_wf (document s)"
  shows "\<exists>s'. SendSyncResponse api k s = (True, s') \<and> reliable (net s' k) \<and>
     session_code s' = session_code s \<and> document s' = document s \<and> revision s' = revision s \<and>
     peer_socket s' = peer_socket s \<and> event_queue s' = event_queue s \<and>
     conn_wire (net s' k) = conn_wire (net s k) @ frames (sync_payloads api (document s) (revision s) s)"
proof -
  define s0 where "s0 = log_line api (wide ''SYNC_RESPONSE rev='' @ stream_u64 (revision s)
    @ wide '' chunks='' @ dec_digits (chunk_count (document s))) s"
  have s0: "session_code s0 = session_code s" "net s0 = net s" "document s0 = document s" "revision s0 = revision s"
    "peer_socket s0 = peer_socket s" "event_queue s0 = event_queue s"
    by (simp_all add: s0_def)
  have "\<exists>s'. send_chunks api k (document s) (revision s) [0..<chunk_count (document s)] s0 = (True, s') \<and>
      quiet s' = quiet s0 \<and> reliable (net s' k) \<and>
      conn_wire (net s' k) = conn_wire (net s0 k) @
       frames (map (\<lambda>i. WideToUtf8 api (message_json (sync_chunk (document s) (revision s) s0 i)))
         [0..<chunk_count (document s)])"
    using assms s0 by (intro send_chunks_reliable) (simp_all add: chunks_wf_def)
  then obtain s' where s': "send_chunks api k (document s) (revision s) [0..<chunk_count (document s)] s0 = (True, s')"
    "quiet s' = quiet s0" "reliable (net s' k)"
    "conn_wire (net s' k) = conn_wire (net s0 k) @
       frames (map (\<lambda>i. WideToUtf8 api (message_json (sync_chunk (document s) (revision s) s0 i))) [0..<chunk_count (document s)])"
    by blast
  have keep: "session_code s' = session_code s" "document s' = document s" "revision s' = revision s"
    "peer_socket s' = peer_socket s" "event_queue s' = event_queue s"
    using arg_cong [OF s'(2), of session_code] arg_cong [OF s'(2), of document] arg_cong [OF s'(2), of revision]
      arg_cong [OF s'(2), of peer_socket] arg_cong [OF s'(2), of event_queue] s0 by simp_all
  then show ?thesis
    using s0 s'(1,3,4) sync_chunk_cong [OF s0(1)]
    by (intro exI [of _ s']) (simp add: SendSyncResponse_def Let_def s0_def [symmetric] sync_payloads_def)
qed

section \<open>A surrogate pair on a chunk boundary\<close>

lemma sync_chunk_split_fails:
  assumes "utf8_api api" and "\<not> utf16_wf (chunk kSyncChunkChars doc i)"
  shows "\<exists>e. SerializeMessage api (sync_chunk doc r s i) = Inl e"
  by (rule SerializeMessage_ill_formed [OF assms(1), of "StrField (wide ''text'') (chunk kSyncChunkChars doc i)"])
    (simp_all add: sync_chunk_fields assms(2))

lemma send_chunks_split:
  assumes "utf8_api api" and "i \<in> set is" and "\<not> utf16_wf (chunk kSyncChunkChars doc i)"
  shows "fst (send_chunks api k doc r is s) = False"
  using assms(2)
proof (induction "is" arbitrary: s)
  case Nil
  then show ?case by simp
next
  case (Cons j js)
  obtain ok s1 where st: "send_to api k (sync_chunk doc r s j) s = (ok, s1)" by force
  show ?case
  proof (cases "j = i")
    case True
    obtain e where "SerializeMessage api (sync_chunk doc r s i) = Inl e"
      using sync_chunk_split_fails [OF assms(1,3)] by blast
    with True show ?thesis by (simp add: send_to_ill_formed)
  next
    case False
    with Cons st show ?thesis by simp
  qed
qed

lemma SendSyncResponse_split:
  assumes "utf8_api api" and "\<not> chunks_wf (document s)"
  shows "fst (SendSyncResponse api k s) = False"
proof -
  obtain i where "i < chunk_count (document s)" "\<not> utf16_wf (chunk kSyncChunkChars (document s) i)"
    using assms(2) by (auto simp: chunks_wf_def)
  then show ?thesis
    by (simp add: SendSyncResponse_def Let_def send_chunks_split [OF assms(1), of i])
qed

end
