(* ===== verification/SyncClient.thy ===== *)
theory SyncClient
  imports Socket SyncEvents
begin

text \<open>
  The class \<^verbatim>\<open>SyncClient\<close> of \<^verbatim>\<open>client/sync_client.cpp\<close>. The record \<open>client\<close> has its fields; the
  connection behind \<^verbatim>\<open>socket_\<close> is the field itself (\<open>None\<close> is \<^verbatim>\<open>INVALID_SOCKET\<close>), and
  \<open>c_decoder\<close> is the local decoder of the receive thread. Each of the three worker loops is one
  function for one round; the result \<open>False\<close> says that the loop has ended. What the operating
  system answers during \<^verbatim>\<open>Connect\<close> is the record \<open>connect_env\<close>.
\<close>

definition kJoinResponseTimeoutMs :: u32 where "kJoinResponseTimeoutMs = 5000"
definition kHeartbeatIntervalMs :: u64 where "kHeartbeatIntervalMs = 5000"
definition kHeartbeatTimeoutMs :: u64 where "kHeartbeatTimeoutMs = 15000"

record client =
  c_socket :: "conn option"
  c_connected :: bool
  c_stopping :: bool
  c_pong_count :: u64
  c_last_pong :: u64
  c_last_ping :: u64
  c_workers :: bool
  c_send_queue :: "bytes list"
  c_events :: "sync_event list"
  c_callback :: bool
  c_callback_calls :: nat
  c_session_code :: wstr
  c_assigned :: wstr
  c_token :: wstr
  c_fail_reason :: wstr
  c_last_error :: wstr
  c_decoder :: frame_decoder
  c_input :: "recv_result list"

definition SyncClient_init :: client where
  "SyncClient_init =
     \<lparr>c_socket = None, c_connected = False, c_stopping = False, c_pong_count = 0, c_last_pong = 0,
      c_last_ping = 0, c_workers = False, c_send_queue = [], c_events = [], c_callback = False,
      c_callback_calls = 0, c_session_code = [], c_assigned = [], c_token = [], c_fail_reason = [],
      c_last_error = [], c_decoder = [], c_input = []\<rparr>"

definition CloseSocket :: "client \<Rightarrow> client" where
  "CloseSocket c = c\<lparr>c_socket := None\<rparr>"

definition PushClientEvent :: "sync_event \<Rightarrow> client \<Rightarrow> client" where
  "PushClientEvent event c =
     (let c1 = c\<lparr>c_events := queue_push event (c_events c)\<rparr>
      in if c_callback c then c1\<lparr>c_callback_calls := c_callback_calls c + 1\<rparr> else c1)"

definition TryPopClientEvent :: "client \<Rightarrow> sync_event option \<times> client" where
  "TryPopClientEvent c =
     (case queue_pop (c_events c) of
        None \<Rightarrow> (None, c)
      | Some (event, queue) \<Rightarrow> (Some event, c\<lparr>c_events := queue\<rparr>))"

definition SetClientEventCallback :: "bool \<Rightarrow> client \<Rightarrow> client" where
  "SetClientEventCallback callback c = c\<lparr>c_callback := callback\<rparr>"

definition StopWorkers :: "client \<Rightarrow> client" where
  "StopWorkers c = c\<lparr>c_workers := False, c_send_queue := []\<rparr>"

definition Disconnect :: "client \<Rightarrow> client" where
  "Disconnect c = CloseSocket (StopWorkers (c\<lparr>c_connected := False, c_stopping := True\<rparr>))"

text \<open>The destructor.\<close>

definition SyncClient_destroy :: "client \<Rightarrow> client" where
  "SyncClient_destroy c = Disconnect c"

section \<open>Requests\<close>

definition EnqueueMessage :: "text_api \<Rightarrow> protocol_message \<Rightarrow> client \<Rightarrow> bool \<times> client" where
  "EnqueueMessage api message c =
     (case SerializeMessage api message of
        Inl _ \<Rightarrow> (False, c\<lparr>c_last_error := wide ''message serialize failed''\<rparr>)
      | Inr json \<Rightarrow>
          if \<not> c_connected c \<or> c_stopping c
          then (False, c\<lparr>c_last_error := wide ''client is not connected''\<rparr>)
          else (True, c\<lparr>c_send_queue := queue_push (EncodeFrame json) (c_send_queue c)\<rparr>))"

definition client_message :: "message_type \<Rightarrow> client \<Rightarrow> protocol_message" where
  "client_message ty c =
     empty_message\<lparr>msg_type := ty, msg_session := c_session_code c,
                   msg_client := (if c_assigned c = [] then wide ''B'' else c_assigned c)\<rparr>"

definition SendPing :: "text_api \<Rightarrow> u64 \<Rightarrow> client \<Rightarrow> bool \<times> client" where
  "SendPing api timestamp c =
     (let ping = (client_message MsgPing c)
                   \<lparr>msg_session := (if c_session_code c = [] then wide ''connected'' else c_session_code c)\<rparr>
      in EnqueueMessage api (SetNumber (wide ''time'') timestamp ping) c)"

definition insert_message :: "u64 \<Rightarrow> nat \<Rightarrow> wstr \<Rightarrow> client \<Rightarrow> protocol_message" where
  "insert_message base_revision position edit_text c =
     SetString (wide ''text'') edit_text
       (SetNumber (wide ''pos'') (of_nat position)
         (SetNumber (wide ''base_rev'') base_revision (client_message MsgInsert c)))"

definition delete_message :: "u64 \<Rightarrow> nat \<Rightarrow> nat \<Rightarrow> client \<Rightarrow> protocol_message" where
  "delete_message base_revision position len c =
     SetNumber (wide ''len'') (of_nat len)
       (SetNumber (wide ''pos'') (of_nat position)
         (SetNumber (wide ''base_rev'') base_revision (client_message MsgDelete c)))"

definition SendInsert :: "text_api \<Rightarrow> u64 \<Rightarrow> nat \<Rightarrow> wstr \<Rightarrow> client \<Rightarrow> bool \<times> client" where
  "SendInsert api base_revision position edit_text c =
     (if edit_text = [] then (False, c\<lparr>c_last_error := wide ''empty insert''\<rparr>)
      else EnqueueMessage api (insert_message base_revision position edit_text c) c)"

definition SendDelete :: "text_api \<Rightarrow> u64 \<Rightarrow> nat \<Rightarrow> nat \<Rightarrow> client \<Rightarrow> bool \<times> client" where
  "SendDelete api base_revision position len c =
     (if len = 0 then (False, c\<lparr>c_last_error := wide ''empty delete''\<rparr>)
      else EnqueueMessage api (delete_message base_revision position len c) c)"

definition SendSyncRequest :: "text_api \<Rightarrow> u64 \<Rightarrow> client \<Rightarrow> bool \<times> client" where
  "SendSyncRequest api current_revision c =
     EnqueueMessage api (SetNumber (wide ''current_rev'') current_revision (client_message MsgSyncRequest c)) c"

section \<open>Connecting\<close>

datatype connect_result = Connected | ConnectTimeout | ConnectFailed

text \<open>
  What \<^verbatim>\<open>ioctlsocket\<close>, \<^verbatim>\<open>connect\<close>, \<^verbatim>\<open>select\<close> and \<^verbatim>\<open>getsockopt\<close> answer: \<open>connect_error\<close> is \<open>None\<close>
  when \<^verbatim>\<open>connect\<close> returns 0; \<open>select_result\<close> is negative for \<^verbatim>\<open>SOCKET_ERROR\<close>.
\<close>

record connect_calls =
  ioctl_ok :: bool
  connect_error :: "int option"
  select_result :: int
  writable :: bool
  sockopt_ok :: bool
  so_error :: int

definition ConnectWithTimeout :: "connect_calls \<Rightarrow> connect_result" where
  "ConnectWithTimeout k =
     (if \<not> ioctl_ok k then ConnectFailed
      else case connect_error k of
        None \<Rightarrow> Connected
      | Some code \<Rightarrow>
          if code \<noteq> WSAEWOULDBLOCK \<and> code \<noteq> 10036 \<and> code \<noteq> 10022 then ConnectFailed
          else if select_result k = 0 then ConnectTimeout
          else if select_result k < 0 \<or> \<not> writable k then ConnectFailed
          else if \<not> sockopt_ok k \<or> so_error k \<noteq> 0 then ConnectFailed
          else Connected)"

record connect_env =
  env_socket :: "conn option"
  env_host_ok :: bool
  env_calls :: connect_calls
  env_now :: u64
  env_clock :: "u64 list"
  env_input :: "recv_result list"

definition send_on_socket :: "text_api \<Rightarrow> protocol_message \<Rightarrow> client \<Rightarrow> bool \<times> client" where
  "send_on_socket api m c =
     (case c_socket c of
        None \<Rightarrow> (False, c)
      | Some k \<Rightarrow> let (ok, k') = SendProtocolMessage api m k in (ok, c\<lparr>c_socket := Some k'\<rparr>))"

definition hello_message :: "wstr \<Rightarrow> wstr \<Rightarrow> wstr \<Rightarrow> protocol_message" where
  "hello_message code device_id nickname =
     SetString (wide ''nickname'') nickname
       (SetString (wide ''device_id'') device_id
         (SetNumber (wide ''protocol'') 1
           (empty_message\<lparr>msg_type := MsgHello, msg_session := code, msg_client := wide ''B''\<rparr>)))"

definition join_message :: "wstr \<Rightarrow> wstr \<Rightarrow> protocol_message" where
  "join_message code token =
     SetString (wide ''reconnect_token'') token
       (SetString (wide ''join_code'') code
         (empty_message\<lparr>msg_type := MsgJoin, msg_session := code, msg_client := wide ''B''\<rparr>))"

definition SendHelloAndJoin :: "text_api \<Rightarrow> wstr \<Rightarrow> wstr \<Rightarrow> wstr \<Rightarrow> client \<Rightarrow> bool \<times> client" where
  "SendHelloAndJoin api code device_id nickname c =
     (let (ok, c1) = send_on_socket api (hello_message code device_id nickname) c
      in if ok then send_on_socket api (join_message code (c_token c1)) c1 else (False, c1))"

text \<open>
  The response is received with a decoder of its own; what that decoder still holds when the
  function returns is dropped. \<open>None\<close>: the call is still waiting.
\<close>

definition ReadJoinResponse :: "text_api \<Rightarrow> u64 list \<Rightarrow> client \<Rightarrow> (bool \<times> client) option" where
  "ReadJoinResponse api clock c =
     (case ReceiveProtocolMessageWithin api clock kJoinResponseTimeoutMs (c_input c) [] of
        None \<Rightarrow> None
      | Some (None, _, input) \<Rightarrow>
          Some (False, CloseSocket (c\<lparr>c_input := input, c_last_error := wide ''join response failed''\<rparr>))
      | Some (Some response, _, input) \<Rightarrow>
          let c1 = c\<lparr>c_input := input\<rparr>
          in Some (case msg_type response of
                MsgJoinOk \<Rightarrow>
                  (True, c1\<lparr>c_assigned := (case GetString response (wide ''assigned_client'') of
                               None \<Rightarrow> c_assigned c1 | Some v \<Rightarrow> v),
                             c_token := (case GetString response (wide ''reconnect_token'') of
                               None \<Rightarrow> c_token c1 | Some v \<Rightarrow> v),
                             c_connected := True\<rparr>)
              | MsgJoinFail \<Rightarrow>
                  (False, CloseSocket (c1\<lparr>c_fail_reason := (case GetString response (wide ''reason'') of
                                             None \<Rightarrow> c_fail_reason c1 | Some v \<Rightarrow> v),
                                           c_connected := False\<rparr>))
              | _ \<Rightarrow> (False, CloseSocket (c1\<lparr>c_last_error := wide ''unexpected join response''\<rparr>))))"

definition StartWorkers :: "client \<Rightarrow> client" where
  "StartWorkers c = c\<lparr>c_workers := True, c_decoder := []\<rparr>"

definition Connect ::
  "text_api \<Rightarrow> connect_env \<Rightarrow> wstr \<Rightarrow> wstr \<Rightarrow> wstr \<Rightarrow> client \<Rightarrow> (bool \<times> client) option" where
  "Connect api env code device_id nickname c =
     (let previous_session = c_session_code c;
          previous_token = c_token c;
          c1 = (Disconnect c)
                 \<lparr>c_fail_reason := [], c_last_error := [], c_assigned := [],
                  c_token := (if previous_session = code then previous_token else []),
                  c_session_code := code, c_pong_count := 0, c_last_pong := env_now env,
                  c_last_ping := env_now env, c_stopping := False, c_socket := env_socket env,
                  c_input := env_input env\<rparr>
      in if env_socket env = None
         then Some (False, c1\<lparr>c_last_error := wide ''socket creation failed''\<rparr>)
         else if \<not> env_host_ok env
         then Some (False, CloseSocket (c1\<lparr>c_last_error := wide ''invalid host address''\<rparr>))
         else case ConnectWithTimeout (env_calls env) of
           ConnectTimeout \<Rightarrow> Some (False, CloseSocket (c1\<lparr>c_last_error := wide ''connect timeout''\<rparr>))
         | ConnectFailed \<Rightarrow> Some (False, CloseSocket (c1\<lparr>c_last_error := wide ''connect failed''\<rparr>))
         | Connected \<Rightarrow>
             let (ok, c2) = SendHelloAndJoin api code device_id nickname c1
             in (case ReadJoinResponse api (env_clock env) c2 of
                   None \<Rightarrow> None
                 | Some (joined, c3) \<Rightarrow>
                     if \<not> ok
                     then (if c_fail_reason c3 \<noteq> [] then Some (False, c3)
                           else Some (False, CloseSocket (c3\<lparr>c_last_error := wide ''join request failed''\<rparr>)))
                     else if \<not> joined then Some (False, c3)
                     else Some (True, snd (SendSyncRequest api 0 (StartWorkers c3)))))"

section \<open>The worker loops\<close>

text \<open>
  One round of \<^verbatim>\<open>SendLoop\<close>, entered when the condition variable lets it go on: the server is
  stopping or the queue is not empty.
\<close>

definition SendLoop :: "client \<Rightarrow> bool \<times> client" where
  "SendLoop c =
     (if c_stopping c then (False, c)
      else case queue_pop (c_send_queue c) of
        None \<Rightarrow> (True, c)
      | Some (frame, queue) \<Rightarrow>
          let c1 = c\<lparr>c_send_queue := queue\<rparr>;
              failed = (\<lambda>d. CloseSocket (d\<lparr>c_last_error := wide ''send failed'', c_connected := False\<rparr>))
          in (case c_socket c1 of
                None \<Rightarrow> (False, failed c1)
              | Some k \<Rightarrow>
                  let (ok, k') = SendAll frame k; c2 = c1\<lparr>c_socket := Some k'\<rparr>
                  in if ok then (True, c2) else (False, failed c2)))"

definition receive_failed :: "wstr \<Rightarrow> client \<Rightarrow> client" where
  "receive_failed reason c =
     (let c1 = (if \<not> c_stopping c then c\<lparr>c_last_error := reason\<rparr> else c);
          c2 = CloseSocket (c1\<lparr>c_connected := False\<rparr>)
      in if \<not> c_stopping c
         then PushClientEvent (default_event\<lparr>ev_type := EvDisconnected, ev_detail := c_last_error c2\<rparr>) c2
         else c2)"

text \<open>What the receive loop does with a message; \<open>now\<close> is the clock.\<close>

definition receive_message :: "u64 \<Rightarrow> protocol_message \<Rightarrow> client \<Rightarrow> client" where
  "receive_message now message c =
     (case msg_type message of
        MsgPong \<Rightarrow> c\<lparr>c_pong_count := c_pong_count c + 1, c_last_pong := now\<rparr>
      | MsgApply \<Rightarrow> PushClientEvent (default_event\<lparr>ev_type := EvApply, ev_message := message\<rparr>) c
      | MsgSyncResponse \<Rightarrow> PushClientEvent (default_event\<lparr>ev_type := EvSyncResponse, ev_message := message\<rparr>) c
      | MsgError \<Rightarrow>
          PushClientEvent (default_event\<lparr>ev_type := EvError, ev_message := message,
             ev_detail := (case GetString message (wide ''reason'') of None \<Rightarrow> [] | Some v \<Rightarrow> v)\<rparr>) c
      | _ \<Rightarrow> c)"

definition ReceiveLoop :: "text_api \<Rightarrow> u64 \<Rightarrow> client \<Rightarrow> (bool \<times> client) option" where
  "ReceiveLoop api now c =
     (if c_stopping c then Some (False, c)
      else if c_socket c = None then Some (False, c\<lparr>c_connected := False\<rparr>)
      else case ReceiveProtocolMessage api (c_input c) (c_decoder c) of
        None \<Rightarrow> None
      | Some (result, decoder, input) \<Rightarrow>
          let c1 = c\<lparr>c_decoder := decoder, c_input := input\<rparr>
          in Some (case result of
                RecvTimeout \<Rightarrow> (True, c1)
              | RecvMessage message \<Rightarrow> (True, receive_message now message c1)
              | RecvClosed \<Rightarrow> (False, receive_failed (wide ''connection closed'') c1)
              | RecvError \<Rightarrow> (False, receive_failed (wide ''receive failed'') c1)))"

text \<open>One round of \<^verbatim>\<open>HeartbeatLoop\<close> after its sleep; \<open>now\<close> was read before the fields are.\<close>

definition HeartbeatLoop :: "text_api \<Rightarrow> u64 \<Rightarrow> client \<Rightarrow> bool \<times> client" where
  "HeartbeatLoop api now c =
     (if c_stopping c \<or> \<not> c_connected c then (\<not> c_stopping c, c)
      else if now - c_last_pong c > kHeartbeatTimeoutMs
      then
        let c1 = CloseSocket (c\<lparr>c_last_error := wide ''heartbeat timeout'', c_connected := False\<rparr>)
        in (False, PushClientEvent (default_event\<lparr>ev_type := EvDisconnected, ev_detail := c_last_error c1\<rparr>) c1)
      else if now - c_last_ping c \<ge> kHeartbeatIntervalMs
      then (True, snd (SendPing api now (c\<lparr>c_last_ping := now\<rparr>)))
      else (True, c))"

section \<open>Requests and the send queue\<close>

lemma EnqueueMessage_result:
  "fst (EnqueueMessage api m c) \<longleftrightarrow>
     (\<exists>b. SerializeMessage api m = Inr b) \<and> c_connected c \<and> \<not> c_stopping c"
  by (simp add: EnqueueMessage_def split: sum.splits)

lemma EnqueueMessage_queue:
  "c_send_queue (snd (EnqueueMessage api m c)) =
     (case SerializeMessage api m of
        Inr b \<Rightarrow> if c_connected c \<and> \<not> c_stopping c then c_send_queue c @ [EncodeFrame b] else c_send_queue c
      | Inl _ \<Rightarrow> c_send_queue c)"
  by (simp add: EnqueueMessage_def queue_push_def split: sum.splits)

text \<open>Draining the queue puts the frames on the wire in the order they were queued.\<close>

fun send_rounds :: "nat \<Rightarrow> client \<Rightarrow> client" where
  "send_rounds 0 c = c"
| "send_rounds (Suc n) c = send_rounds n (snd (SendLoop c))"

lemma SendLoop_rounds:
  assumes "\<not> c_stopping c" and "c_socket c = Some k" and "reliable k"
  shows "\<exists>k'. send_rounds (length (c_send_queue c)) c = c\<lparr>c_send_queue := [], c_socket := Some k'\<rparr> \<and>
              reliable k' \<and> conn_wire k' = conn_wire k @ concat (c_send_queue c)"
  using assms
proof (induction "c_send_queue c" arbitrary: c k)
  case Nil
  then have "c\<lparr>c_send_queue := [], c_socket := Some k\<rparr> = c"
    by (cases c) simp
  with Nil show ?case by (intro exI [of _ k]) simp
next
  case (Cons f q)
  note queue = Cons.hyps(2) [symmetric]
  obtain k1 where k1: "SendAll f k = (True, k1)" "reliable k1" "conn_wire k1 = conn_wire k @ f"
    using SendAll_reliable [OF Cons.prems(3)] by blast
  define d where "d = c\<lparr>c_send_queue := q, c_socket := Some k1\<rparr>"
  have round: "SendLoop c = (True, d)"
    using Cons.prems k1 queue by (simp add: SendLoop_def d_def)
  obtain k' where "send_rounds (length q) d = d\<lparr>c_send_queue := [], c_socket := Some k'\<rparr>"
    "reliable k'" "conn_wire k' = conn_wire k1 @ concat q"
    using Cons.hyps(1) [of d k1] Cons.prems k1 by (auto simp: d_def)
  then show ?case
    using queue round k1 by (intro exI [of _ k']) (simp add: d_def)
qed

section \<open>Receiving a stream\<close>

fun receive_rounds :: "text_api \<Rightarrow> u64 \<Rightarrow> nat \<Rightarrow> client \<Rightarrow> client option" where
  "receive_rounds api now 0 c = Some c"
| "receive_rounds api now (Suc n) c =
     (case ReceiveLoop api now c of
        Some (True, c1) \<Rightarrow> receive_rounds api now n c1
      | _ \<Rightarrow> None)"

lemma receive_message_simps [simp]:
  "c_stopping (receive_message now m c) = c_stopping c"
  "c_socket (receive_message now m c) = c_socket c"
  "c_decoder (receive_message now m c) = c_decoder c"
  "c_input (receive_message now m c) = c_input c"
  by (simp_all add: receive_message_def PushClientEvent_def Let_def split: message_type.splits)

lemma receive_message_decoder:
  "receive_message now m (c\<lparr>c_decoder := d, c_input := i\<rparr>) =
   (receive_message now m c)\<lparr>c_decoder := d, c_input := i\<rparr>"
  by (simp add: receive_message_def PushClientEvent_def Let_def split: message_type.splits)

lemma receive_rounds_stream:
  assumes "\<forall>(p, m) \<in> set pms. DeserializeMessage api p = (NoError, m) \<and>
             length p + n \<le> kMaxFramePayloadBytes + 1"
    and "0 < n"
    and "\<not> c_stopping c" and "c_socket c = Some k" and "c_input c = map Received segs"
    and "c_decoder c @ concat segs = frames (map fst pms)"
    and "\<forall>s \<in> set segs. s \<noteq> [] \<and> length s \<le> n"
  shows "\<exists>d i. receive_rounds api now (length pms) c =
           Some ((fold (receive_message now) (map snd pms) c)\<lparr>c_decoder := d, c_input := i\<rparr>)"
  using assms
proof (induction pms arbitrary: c segs)
  case Nil
  have "c\<lparr>c_decoder := c_decoder c, c_input := c_input c\<rparr> = c"
    by (cases c) simp
  then show ?case by (intro exI [of _ "c_decoder c"] exI [of _ "c_input c"]) simp
next
  case (Cons pm pms)
  obtain p m where pm: "pm = (p, m)" by force
  have p: "DeserializeMessage api p = (NoError, m)" "length p + n \<le> kMaxFramePayloadBytes + 1"
    using Cons.prems(1) pm by auto
  have "c_decoder c @ concat segs = EncodeFrame p @ frames (map fst pms)"
    using Cons.prems(6) pm by simp
  from receive_frame [OF this Cons.prems(7) p(2) Cons.prems(2), of api "[]"] p(1)
  obtain d segs' j where r: "ReceiveProtocolMessage api (c_input c) (c_decoder c) =
      Some (RecvMessage m, d, map Received segs')"
    and rest: "d @ concat segs' = frames (map fst pms)" and segs': "segs' = drop j segs"
    using Cons.prems(5) by auto
  define c1 where "c1 = receive_message now m (c\<lparr>c_decoder := d, c_input := map Received segs'\<rparr>)"
  have round: "ReceiveLoop api now c = Some (True, c1)"
    using Cons.prems(3,4) r by (simp add: ReceiveLoop_def c1_def)
  have segs'_ok: "\<forall>s \<in> set segs'. s \<noteq> [] \<and> length s \<le> n"
    using Cons.prems(7) segs' by (auto dest: in_set_dropD)
  have "\<exists>d' i. receive_rounds api now (length pms) c1 =
      Some ((fold (receive_message now) (map snd pms) c1)\<lparr>c_decoder := d', c_input := i\<rparr>)"
    by (rule Cons.IH [OF _ Cons.prems(2) _ _ _ _ segs'_ok])
      (use Cons.prems rest in \<open>auto simp: c1_def\<close>)
  moreover have "fold (receive_message now) ms (x\<lparr>c_decoder := d', c_input := i\<rparr>) =
      (fold (receive_message now) ms x)\<lparr>c_decoder := d', c_input := i\<rparr>" for ms x d' i
    by (induction ms arbitrary: x) (simp_all add: receive_message_decoder)
  ultimately show ?case
    using round pm by (auto simp: c1_def receive_message_decoder)
qed

text \<open>Messages for the user interface become events, in order.\<close>

definition message_event :: "protocol_message \<Rightarrow> sync_event" where
  "message_event m =
     \<lparr>ev_type = (case msg_type m of MsgApply \<Rightarrow> EvApply | MsgSyncResponse \<Rightarrow> EvSyncResponse | _ \<Rightarrow> EvError),
      ev_message = m, ev_detail = []\<rparr>"

lemma receive_messages_events:
  "\<forall>m \<in> set ms. msg_type m = MsgApply \<or> msg_type m = MsgSyncResponse \<Longrightarrow>
   c_events (fold (receive_message now) ms c) = c_events c @ map message_event ms"
proof (induction ms arbitrary: c)
  case (Cons m ms)
  have "c_events (receive_message now m c) = c_events c @ [message_event m]"
    using Cons.prems
    by (auto simp: receive_message_def PushClientEvent_def Let_def queue_push_def message_event_def
        default_event_def)
  with Cons show ?case by simp
qed simp

section \<open>The heartbeat\<close>

lemma HeartbeatLoop_timeout:
  assumes "c_connected c" and "\<not> c_stopping c" and "now - c_last_pong c > kHeartbeatTimeoutMs"
  shows "fst (HeartbeatLoop api now c) = False \<and>
         c_connected (snd (HeartbeatLoop api now c)) = False \<and>
         c_socket (snd (HeartbeatLoop api now c)) = None \<and>
         c_events (snd (HeartbeatLoop api now c)) =
           c_events c @ [\<lparr>ev_type = EvDisconnected, ev_message = empty_message,
                          ev_detail = wide ''heartbeat timeout''\<rparr>]"
  using assms
  by (simp add: HeartbeatLoop_def Let_def CloseSocket_def PushClientEvent_def queue_push_def
      default_event_def)

lemma EnqueueMessage_connected [simp]:
  "c_connected (snd (EnqueueMessage api m c)) = c_connected c"
  "c_socket (snd (EnqueueMessage api m c)) = c_socket c"
  "c_events (snd (EnqueueMessage api m c)) = c_events c"
  "c_stopping (snd (EnqueueMessage api m c)) = c_stopping c"
  by (simp_all add: EnqueueMessage_def split: sum.splits)

lemma HeartbeatLoop_alive:
  assumes "c_connected c" and "\<not> c_stopping c" and "now - c_last_pong c \<le> kHeartbeatTimeoutMs"
  shows "fst (HeartbeatLoop api now c) = True \<and>
         c_connected (snd (HeartbeatLoop api now c)) = True \<and>
         c_socket (snd (HeartbeatLoop api now c)) = c_socket c \<and>
         c_events (snd (HeartbeatLoop api now c)) = c_events c"
  using assms by (simp add: HeartbeatLoop_def SendPing_def Let_def)

end
