(* ===== verification/Handshake.thy ===== *)
theory Handshake
  imports ServerThreads FullSync SyncClient
begin

text \<open>
  Both ends of a join: what \<^verbatim>\<open>SyncClient::SendHelloAndJoin\<close> writes is accepted by
  \<^verbatim>\<open>SyncServer::HandleClient\<close>, and what that answers is accepted by
  \<^verbatim>\<open>SyncClient::ReadJoinResponse\<close>. Texts of the handshake are limited to a thousand characters,
  far above what the program produces, so that the frames fit.
\<close>

definition text_ok :: "wstr \<Rightarrow> bool" where
  "text_ok v \<longleftrightarrow> utf16_wf v \<and> length v \<le> 1000"

lemma session_ok_text: "session_ok code \<longleftrightarrow> code \<noteq> [] \<and> text_ok code"
  by (auto simp: session_ok_def text_ok_def)

text \<open>A message of bounded size is serialised to a payload that leaves room for one \<^verbatim>\<open>recv\<close>.\<close>

definition small_message :: "protocol_message \<Rightarrow> bool" where
  "small_message m \<longleftrightarrow> message_ok m \<and> msg_type m \<noteq> MsgUnknown \<and> msg_session m \<noteq> [] \<and> msg_client m \<noteq> [] \<and>
     (\<forall>f \<in> set (message_fields m). field_wf f) \<and> sum_list (map field_bound (message_fields m)) \<le> 20000"

lemma small_message_sent:
  assumes "utf8_api api" and "small_message m"
  obtains b where "SerializeMessage api m = Inr b" and "DeserializeMessage api b = (NoError, received m)"
    and "length b + 4096 \<le> kMaxFramePayloadBytes + 1"
proof
  define b where "b = WideToUtf8 api (message_json m)"
  have wf: "utf16_wf (message_json m)"
    using assms(2) by (simp add: small_message_def utf16_wf_message)
  have len: "length (message_json m) \<le> 20002"
    using length_message_json [of m] assms(2) by (simp add: small_message_def)
  show s: "SerializeMessage api m = Inr b"
    unfolding b_def using assms(2) len
    by (intro SerializeMessage_Inr [OF assms(1)]) (auto simp: small_message_def kMaxFramePayloadBytes_def)
  show "DeserializeMessage api b = (NoError, received m)"
    using serialize_deserialize [OF assms(1) _ s] assms(2) by (simp add: small_message_def)
  show "length b + 4096 \<le> kMaxFramePayloadBytes + 1"
    using length_WideToUtf8 [OF assms(1) wf] len by (simp add: b_def kMaxFramePayloadBytes_def)
qed

lemma hello_fields:
  "message_fields (hello_message code device_id nickname) =
     [StrField (wide ''type'') (wide ''HELLO''), StrField (wide ''session'') code, StrField (wide ''client'') (wide ''B''),
      StrField (wide ''device_id'') device_id, StrField (wide ''nickname'') nickname, NumField (wide ''protocol'') 1]"
  by (simp add: hello_message_def empty_message_def SetString_def SetNumber_def message_fields_def
      IsCommonField_def wire_simps del: wide_eq_iff)

lemma join_fields_of:
  "message_fields (join_message code token) =
     [StrField (wide ''type'') (wide ''JOIN''), StrField (wide ''session'') code, StrField (wide ''client'') (wide ''B''),
      StrField (wide ''join_code'') code, StrField (wide ''reconnect_token'') token]"
  by (simp add: join_message_def empty_message_def SetString_def message_fields_def
      IsCommonField_def wire_simps del: wide_eq_iff)

lemma join_ok_fields:
  "message_fields (join_ok_message s) =
     [StrField (wide ''type'') (wide ''JOIN_OK''), StrField (wide ''session'') (session_code s),
      StrField (wide ''client'') (wide ''server''), StrField (wide ''assigned_client'') (wide ''B''),
      StrField (wide ''reconnect_token'') (GenerateReconnectToken s), NumField (wide ''current_rev'') 0]"
  by (simp add: join_ok_message_def server_message_def empty_message_def SetString_def SetNumber_def
      message_fields_def IsCommonField_def wire_simps del: wide_eq_iff)

lemma small_hello:
  "session_ok code \<Longrightarrow> text_ok device_id \<Longrightarrow> text_ok nickname \<Longrightarrow> small_message (hello_message code device_id nickname)"
  unfolding small_message_def hello_fields
  by (simp add: hello_message_def session_ok_def text_ok_def)

lemma small_join: "session_ok code \<Longrightarrow> text_ok token \<Longrightarrow> small_message (join_message code token)"
  unfolding small_message_def join_fields_of
  by (simp add: join_message_def session_ok_def text_ok_def)

lemma small_join_ok:
  "session_ok (session_code s) \<Longrightarrow> text_ok (GenerateReconnectToken s) \<Longrightarrow> small_message (join_ok_message s)"
  unfolding small_message_def join_ok_fields
  by (simp add: join_ok_message_def server_message_def session_ok_def text_ok_def)

lemma insert_fields:
  "c_assigned c \<noteq> [] \<Longrightarrow> message_fields (insert_message base p t c) =
     [StrField (wide ''type'') (wide ''INSERT''), StrField (wide ''session'') (c_session_code c),
      StrField (wide ''client'') (c_assigned c), StrField (wide ''text'') t,
      NumField (wide ''base_rev'') base, NumField (wide ''pos'') (of_nat p)]"
  by (simp add: insert_message_def client_message_def empty_message_def SetString_def SetNumber_def message_fields_def
      IsCommonField_def wire_simps del: wide_eq_iff)

lemma delete_fields:
  "c_assigned c \<noteq> [] \<Longrightarrow> message_fields (delete_message base p n c) =
     [StrField (wide ''type'') (wide ''DELETE''), StrField (wide ''session'') (c_session_code c),
      StrField (wide ''client'') (c_assigned c),
      NumField (wide ''base_rev'') base, NumField (wide ''len'') (of_nat n), NumField (wide ''pos'') (of_nat p)]"
  by (simp add: delete_message_def client_message_def empty_message_def SetString_def SetNumber_def message_fields_def
      IsCommonField_def wire_simps del: wide_eq_iff)

definition sync_request :: "u64 \<Rightarrow> client \<Rightarrow> protocol_message" where
  "sync_request r c = SetNumber (wide ''current_rev'') r (client_message MsgSyncRequest c)"

lemma sync_request_fields:
  "c_assigned c \<noteq> [] \<Longrightarrow> message_fields (sync_request r c) =
     [StrField (wide ''type'') (wide ''SYNC_REQUEST''), StrField (wide ''session'') (c_session_code c),
      StrField (wide ''client'') (c_assigned c), NumField (wide ''current_rev'') r]"
  by (simp add: sync_request_def client_message_def empty_message_def SetNumber_def message_fields_def
      IsCommonField_def wire_simps del: wide_eq_iff)

lemma apply_insert_fields:
  assumes "msg_type m = MsgInsert" and "GetString m (wide ''text'') = Some t"
  shows "message_fields (apply_message_for m pos r s) =
     [StrField (wide ''type'') (wide ''APPLY''), StrField (wide ''session'') (session_code s),
      StrField (wide ''client'') (msg_client m), StrField (wide ''op'') (wide ''INSERT''), StrField (wide ''text'') t,
      NumField (wide ''pos'') pos, NumField (wide ''rev'') r]"
  using assms
  by (simp add: apply_message_for_def Let_def empty_message_def SetString_def SetNumber_def message_fields_def
      IsCommonField_def wire_simps del: wide_eq_iff)

lemma apply_delete_fields:
  assumes "msg_type m = MsgDelete" and "GetNumber m (wide ''len'') = Some n"
  shows "message_fields (apply_message_for m pos r s) =
     [StrField (wide ''type'') (wide ''APPLY''), StrField (wide ''session'') (session_code s),
      StrField (wide ''client'') (msg_client m), StrField (wide ''op'') (wide ''DELETE''),
      NumField (wide ''len'') n, NumField (wide ''pos'') pos, NumField (wide ''rev'') r]"
  using assms
  by (simp add: apply_message_for_def Let_def empty_message_def SetString_def SetNumber_def message_fields_def
      IsCommonField_def wire_simps del: wide_eq_iff)

text \<open>A text that a person types or pastes and that fits a frame with everything around it.\<close>

definition typed_ok :: "wstr \<Rightarrow> bool" where
  "typed_ok t \<longleftrightarrow> utf16_wf t \<and> length t \<le> 7000"

lemma small_insert:
  "session_ok (c_session_code c) \<Longrightarrow> c_assigned c \<noteq> [] \<Longrightarrow> text_ok (c_assigned c) \<Longrightarrow> typed_ok t \<Longrightarrow>
   small_message (insert_message base p t c)"
  by (simp add: small_message_def insert_fields)
    (simp add: insert_message_def client_message_def session_ok_def text_ok_def typed_ok_def)

lemma small_delete:
  "session_ok (c_session_code c) \<Longrightarrow> c_assigned c \<noteq> [] \<Longrightarrow> text_ok (c_assigned c) \<Longrightarrow>
   small_message (delete_message base p n c)"
  by (simp add: small_message_def delete_fields)
    (simp add: delete_message_def client_message_def session_ok_def text_ok_def)

lemma small_sync_request:
  "session_ok (c_session_code c) \<Longrightarrow> c_assigned c \<noteq> [] \<Longrightarrow> text_ok (c_assigned c) \<Longrightarrow> small_message (sync_request r c)"
  by (simp add: small_message_def sync_request_fields)
    (simp add: sync_request_def client_message_def session_ok_def text_ok_def)

lemma small_apply_insert:
  "msg_type m = MsgInsert \<Longrightarrow> GetString m (wide ''text'') = Some t \<Longrightarrow> session_ok (session_code s) \<Longrightarrow>
   msg_client m \<noteq> [] \<Longrightarrow> text_ok (msg_client m) \<Longrightarrow> typed_ok t \<Longrightarrow> small_message (apply_message_for m pos r s)"
  by (simp add: small_message_def apply_insert_fields apply_message_for_header)
    (simp add: apply_message_for_def Let_def session_ok_def text_ok_def typed_ok_def)

lemma small_apply_delete:
  "msg_type m = MsgDelete \<Longrightarrow> GetNumber m (wide ''len'') = Some n \<Longrightarrow> session_ok (session_code s) \<Longrightarrow>
   msg_client m \<noteq> [] \<Longrightarrow> text_ok (msg_client m) \<Longrightarrow> small_message (apply_message_for m pos r s)"
  by (simp add: small_message_def apply_delete_fields apply_message_for_header)
    (simp add: apply_message_for_def Let_def session_ok_def text_ok_def)

section \<open>The client's side of the request\<close>

lemma SendHelloAndJoin_reliable:
  assumes "utf8_api api" and "session_ok code" and "text_ok device_id" and "text_ok nickname"
    and "text_ok (c_token c)" and "c_socket c = Some k" and "reliable k"
  shows "\<exists>k' b1 b2. SendHelloAndJoin api code device_id nickname c = (True, c\<lparr>c_socket := Some k'\<rparr>) \<and>
     reliable k' \<and> conn_wire k' = conn_wire k @ frames [b1, b2] \<and>
     DeserializeMessage api b1 = (NoError, received (hello_message code device_id nickname)) \<and>
     DeserializeMessage api b2 = (NoError, received (join_message code (c_token c))) \<and>
     length b1 + 4096 \<le> kMaxFramePayloadBytes + 1 \<and> length b2 + 4096 \<le> kMaxFramePayloadBytes + 1"
proof -
  obtain b1 where b1: "SerializeMessage api (hello_message code device_id nickname) = Inr b1"
    "DeserializeMessage api b1 = (NoError, received (hello_message code device_id nickname))"
    "length b1 + 4096 \<le> kMaxFramePayloadBytes + 1"
    by (rule small_message_sent [OF assms(1) small_hello [OF assms(2-4)]])
  obtain b2 where b2: "SerializeMessage api (join_message code (c_token c)) = Inr b2"
    "DeserializeMessage api b2 = (NoError, received (join_message code (c_token c)))"
    "length b2 + 4096 \<le> kMaxFramePayloadBytes + 1"
    by (rule small_message_sent [OF assms(1) small_join [OF assms(2,5)]])
  obtain k1 where k1: "SendProtocolMessage api (hello_message code device_id nickname) k = (True, k1)"
    "reliable k1" "conn_wire k1 = conn_wire k @ EncodeFrame b1"
    using SendProtocolMessage_reliable [OF b1(1) assms(7)] by blast
  obtain k2 where k2: "SendProtocolMessage api (join_message code (c_token c)) k1 = (True, k2)"
    "reliable k2" "conn_wire k2 = conn_wire k1 @ EncodeFrame b2"
    using SendProtocolMessage_reliable [OF b2(1) k1(2)] by blast
  have "SendHelloAndJoin api code device_id nickname c = (True, c\<lparr>c_socket := Some k2\<rparr>)"
    using k1 k2 assms(6) by (simp add: SendHelloAndJoin_def send_on_socket_def)
  then show ?thesis
    using b1 b2 k1 k2 by (intro exI [of _ k2] exI [of _ b1] exI [of _ b2]) simp
qed

section \<open>The server's side\<close>

text \<open>A clock that has not passed the deadline when the message is awaited.\<close>

definition in_time :: "u32 \<Rightarrow> u64 list \<Rightarrow> bool" where
  "in_time timeout clock \<longleftrightarrow> (\<exists>t t' rest. clock = t # t' # rest \<and> t' \<le> t + ucast timeout)"

lemma receive_within_frame:
  assumes "d @ concat segs = EncodeFrame p @ r" and "\<forall>s \<in> set segs. s \<noteq> [] \<and> length s \<le> 4096"
    and "length p + 4096 \<le> kMaxFramePayloadBytes + 1" and "DeserializeMessage api p = (NoError, m)"
    and "in_time timeout clock"
  obtains d' segs' where
    "ReceiveProtocolMessageWithin api clock timeout (map Received segs @ input) d = Some (Some m, d', map Received segs' @ input)"
    and "d' @ concat segs' = r" and "\<forall>s \<in> set segs'. s \<noteq> [] \<and> length s \<le> 4096"
proof -
  obtain t t' rest where clock: "clock = t # t' # rest" "t' \<le> t + ucast timeout"
    using assms(5) by (auto simp: in_time_def)
  obtain d' segs' n where r: "ReceiveProtocolMessage api (map Received segs @ input) d =
      Some (RecvMessage m, d', map Received segs' @ input)" "d' @ concat segs' = r" "segs' = drop n segs"
    using receive_frame [OF assms(1-3), of api input] assms(4) by auto
  have "\<forall>s \<in> set segs'. s \<noteq> [] \<and> length s \<le> 4096"
    using assms(2) r(3) by (auto dest: in_set_dropD)
  then show thesis
    using that [of d' segs'] r clock by (simp add: ReceiveProtocolMessageWithin_def)
qed

fun handle_rounds ::
  "text_api \<Rightarrow> u64 list \<Rightarrow> nat \<Rightarrow> client_thread \<Rightarrow> server \<Rightarrow> (client_thread \<times> server) option" where
  "handle_rounds api clock 0 t s = Some (t, s)"
| "handle_rounds api clock (Suc n) t s =
     (case HandleClient api clock t s of None \<Rightarrow> None | Some (t', s') \<Rightarrow> handle_rounds api clock n t' s')"

lemma handshake_accepts:
  assumes "th_decoder t @ concat segs = EncodeFrame p @ r" and "\<forall>x \<in> set segs. x \<noteq> [] \<and> length x \<le> 4096"
    and "th_input t = map Received segs" and "length p + 4096 \<le> kMaxFramePayloadBytes + 1"
    and "DeserializeMessage api p = (NoError, m)" and "msg_type m = expected"
    and "in_time kHandshakeTimeoutMs clock"
  obtains d' segs' where
    "handshake api clock expected nxt t s =
       Some (t\<lparr>th_decoder := d', th_input := map Received segs', th_phase := nxt m\<rparr>, s)"
    and "d' @ concat segs' = r" and "\<forall>x \<in> set segs'. x \<noteq> [] \<and> length x \<le> 4096"
proof -
  obtain d' segs' where "ReceiveProtocolMessageWithin api clock kHandshakeTimeoutMs (map Received segs @ []) (th_decoder t) =
      Some (Some m, d', map Received segs' @ [])" "d' @ concat segs' = r" "\<forall>x \<in> set segs'. x \<noteq> [] \<and> length x \<le> 4096"
    by (rule receive_within_frame [OF assms(1,2,4,5,7)])
  then show thesis
    using that [of segs' d'] assms(3,6) by (simp add: handshake_def)
qed

text \<open>The three checks between the join message and the answer.\<close>

lemma join_checks:
  assumes "\<not> IsJoinBlocked s" and "optional_string join ''join_code'' = session_code s" and "\<not> peer_joined s"
    and "th_phase t = CheckBlocked join"
  shows "handle_rounds api clock 3 t s =
     Some (t\<lparr>th_phase := JoinOk join, th_joined := True\<rparr>,
           s\<lparr>peer_joined := True, peer_socket := Some (th_socket t)\<rparr>)"
  using assms by (simp add: HandleClient_def eval_nat_numeral)

lemma join_ok_sent:
  assumes "utf8_api api" and "session_ok (session_code s)" and "text_ok (GenerateReconnectToken s)"
    and "reliable (net s (th_socket t))" and "th_phase t = JoinOk join"
  obtains b s' where "HandleClient api clock t s = Some (t\<lparr>th_phase := Serving join\<rparr>, s')"
    and "DeserializeMessage api b = (NoError, received (join_ok_message s))"
    and "length b + 4096 \<le> kMaxFramePayloadBytes + 1"
    and "conn_wire (net s' (th_socket t)) = conn_wire (net s (th_socket t)) @ EncodeFrame b"
    and "quiet s' = quiet (log_line api (wide ''JOIN_OK assigned_client=B reconnect='' @
           (if optional_string join ''reconnect_token'' \<noteq> [] then wide ''1'' else wide ''0'')) s)"
    and "reliable (net s' (th_socket t))"
proof -
  obtain b where b: "SerializeMessage api (join_ok_message s) = Inr b"
    "DeserializeMessage api b = (NoError, received (join_ok_message s))"
    "length b + 4096 \<le> kMaxFramePayloadBytes + 1"
    by (rule small_message_sent [OF assms(1) small_join_ok [OF assms(2,3)]])
  define s1 where "s1 = log_line api (wide ''JOIN_OK assigned_client=B reconnect='' @
    (if optional_string join ''reconnect_token'' \<noteq> [] then wide ''1'' else wide ''0'')) s"
  obtain s' where s': "send_to api (th_socket t) (join_ok_message s) s1 = (True, s')" "quiet s' = quiet s1"
    "conn_wire (net s' (th_socket t)) = conn_wire (net s1 (th_socket t)) @ EncodeFrame b" "reliable (net s' (th_socket t))"
    using send_to_reliable [OF b(1), of s1 "th_socket t"] assms(4) by (auto simp: s1_def)
  show thesis
    using that [of s' b] b(2,3) s' assms(5)
    by (simp add: HandleClient_def SendJoinOk_def Let_def s1_def)
qed

end
