(* ===== verification/SessionSafety.thy ===== *)
theory SessionSafety
  imports Handshake
begin

text \<open>
  What a step of a connection can do to the document and to the count of failed joins: only a
  joined peer edits, and the count only grows. Then a complete join of a client, as steps of
  the system.
\<close>

section \<open>The document and the failure count\<close>

definition books :: "server \<Rightarrow> wstr \<times> u64 \<times> int" where
  "books s = (document s, revision s, failed_join_count s)"

lemma books_send_to [simp]: "books (snd (send_to api k m s)) = books s"
  by (simp add: books_def)

lemma books_send_to_eq: "send_to api k m s = (ok, s') \<Longrightarrow> books s' = books s"
  by (metis books_send_to snd_conv)

lemma books_frame [simp]:
  "books (log_line api m s) = books s" "books (closesocket k s) = books s" "books (PushEvent e s) = books s"
  "books (snd (SendError api k r s)) = books s" "books (snd (SendJoinFail api k r s)) = books s"
  by (simp_all add: SendError_def SendJoinFail_def Let_def) (simp_all add: books_def)

lemma books_SendJoinOk: "SendJoinOk api k b s = (ok, s') \<Longrightarrow> books s' = books s"
  by (simp add: SendJoinOk_def Let_def books_send_to_eq)

lemma books_send_chunks: "send_chunks api k doc r is s = (ok, s') \<Longrightarrow> books s' = books s"
proof (induction "is" arbitrary: s)
  case (Cons i js)
  then show ?case
    using books_send_to_eq [of api k "sync_chunk doc r s i" s]
    by (fastforce simp: Let_def split: prod.splits if_splits)
qed simp

lemma books_SendSyncResponse: "SendSyncResponse api k s = (ok, s') \<Longrightarrow> books s' = books s"
  using books_send_chunks by (fastforce simp: SendSyncResponse_def Let_def)

lemma refuse_books: "refuse api reason t s = (t', s') \<Longrightarrow> books s' = books s \<and> th_phase t' = Returned"
  by (auto simp: refuse_def)

lemma books_RegisterJoinFailure:
  "RegisterJoinFailure s = (blocked, s') \<Longrightarrow>
   document s' = document s \<and> revision s' = revision s \<and> failed_join_count s' = failed_join_count s + 1"
  by (auto simp: RegisterJoinFailure_def Let_def)

lemma ApplyMessageToDocument_count:
  assumes "ApplyMessageToDocument api m s = (r, s')"
  shows "failed_join_count s' = failed_join_count s"
  using arg_cong [OF ApplyMessageToDocument_frame(1) [OF assms], of failed_join_count] by simp

text \<open>An edit through a connection, with everything the code has checked.\<close>

definition peer_edit :: "server \<Rightarrow> server \<Rightarrow> protocol_message \<Rightarrow> bool" where
  "peer_edit s s' a \<longleftrightarrow>
     (\<exists>m e. msg_client m = wide ''B'' \<and> msg_session m = session_code s \<and> requested_edit m = Some e \<and>
        edit_allowed e (document s) \<and> document s' = do_edit e (document s) \<and>
        revision s' = revision s + 1 \<and> failed_join_count s' = failed_join_count s \<and>
        announced_edit a = Some e \<and> GetNumber a (wide ''rev'') = Some (revision s + 1))"

lemma edit_and_notify_books:
  assumes "edit_and_notify api k m s = (r, s')" and "msg_session m = session_code s"
  shows "case r of None \<Rightarrow> books s' = books s | Some a \<Rightarrow> peer_edit s s' a"
proof (cases "msg_client m = wide ''B'' \<and> edit_accepted m s")
  case True
  then obtain e where e: "requested_edit m = Some e" "edit_allowed e (document s)"
    by (auto simp: edit_accepted_def)
  obtain a s1 where a: "ApplyMessageToDocument api m s = (Inr a, s1)"
    "core s1 = core (s\<lparr>document := do_edit e (document s), revision := revision s + 1\<rparr>)"
    "announced_edit a = Some e" "GetNumber a (wide ''rev'') = Some (revision s + 1)"
    using ApplyMessageToDocument_accepted [of m s e api] True e(1) by blast
  have "document s1 = do_edit e (document s)" "revision s1 = revision s + 1"
    "failed_join_count s1 = failed_join_count s"
    using arg_cong [OF a(2), of document] arg_cong [OF a(2), of revision]
      arg_cong [OF a(2), of failed_join_count] by simp_all
  then have "peer_edit s (PushEvent (default_event\<lparr>ev_type := EvApply, ev_message := a\<rparr>) s1) a"
    unfolding peer_edit_def using True a e assms(2) by (intro exI [of _ m] exI [of _ e]) simp
  then show ?thesis
    using assms True a by (auto simp: edit_and_notify_def)
next
  case False
  show ?thesis
  proof (cases "msg_client m = wide ''B''")
    case True
    with False obtain reason where "ApplyMessageToDocument api m s = (Inl reason, s)"
      using ApplyMessageToDocument_refused by blast
    with True assms show ?thesis
      by (auto simp: edit_and_notify_def)
  next
    case False
    with assms show ?thesis by (auto simp: edit_and_notify_def)
  qed
qed

lemma serve_books:
  assumes "serve api join t s = Some (t', s')"
  shows "books s' = books s \<or> (\<exists>a. th_phase t' = SendApply join a \<and> peer_edit s s' a)"
  using assms
  by (auto simp: serve_def Let_def dest: books_send_to_eq books_SendSyncResponse edit_and_notify_books
      split: option.splits prod.splits if_splits receive_result.splits)

lemma handshake_books:
  assumes "handshake api clock expected nxt t s = Some (t', s')"
  shows "document s' = document s \<and> revision s' = revision s \<and> failed_join_count s \<le> failed_join_count s' \<and>
    (th_phase t' = Returned \<or> (\<exists>m. th_phase t' = nxt m))"
  using assms books_RegisterJoinFailure [of s]
  by (auto simp: handshake_def Let_def refuse_def RegisterJoinFailure_def SendJoinFail_def
      split: option.splits prod.splits if_splits)

lemma cleanup_books: "cleanup t s = (t', s') \<Longrightarrow> books s' = books s"
  by (auto simp: cleanup_def Let_def books_def)

lemma HandleClient_books:
  assumes "HandleClient api clock t s = Some (t', s')"
  shows "failed_join_count s \<le> failed_join_count s' \<and>
    (document s' = document s \<and> revision s' = revision s \<or>
     (\<exists>join a. th_phase t = Serving join \<and> th_phase t' = SendApply join a \<and> peer_edit s s' a))"
proof (cases "th_phase t")
  case AwaitHello
  then show ?thesis
    using assms handshake_books [of api clock MsgHello "\<lambda>_. AwaitJoin" t s t' s'] by (simp add: HandleClient_def)
next
  case AwaitJoin
  then show ?thesis
    using assms handshake_books [of api clock MsgJoin CheckBlocked t s t' s'] by (simp add: HandleClient_def)
next
  case (CheckBlocked join)
  then show ?thesis
    using assms refuse_books [of api "wide ''blocked''" t s t' s']
    by (auto simp: HandleClient_def books_def split: if_splits)
next
  case (CheckCode join)
  obtain blocked s1 where r: "RegisterJoinFailure s = (blocked, s1)" by force
  show ?thesis
    using assms CheckCode r books_RegisterJoinFailure [OF r]
      refuse_books [of api "if blocked then wide ''blocked'' else wide ''invalid_code''" t s1 t' s']
    by (auto simp: HandleClient_def books_def split: if_splits)
next
  case (Claim join)
  then show ?thesis
    using assms refuse_books [of api "wide ''room_full''" t s t' s']
    by (auto simp: HandleClient_def books_def split: if_splits)
next
  case (JoinOk join)
  obtain ok s1 where sj: "SendJoinOk api (th_socket t) (optional_string join ''reconnect_token'' \<noteq> []) s = (ok, s1)"
    by force
  show ?thesis
    using assms JoinOk sj books_SendJoinOk [OF sj]
    by (auto simp: HandleClient_def books_def ClosePeerSocket_def split: if_splits option.splits)
next
  case (Serving join)
  then have "serve api join t s = Some (t', s')"
    using assms by (simp add: HandleClient_def)
  from serve_books [OF this] Serving show ?thesis
    by (auto simp: books_def peer_edit_def)
next
  case (SendApply join m)
  obtain ok s1 where st: "send_to api (th_socket t) m s = (ok, s1)" by force
  show ?thesis
    using assms SendApply st books_send_to_eq [OF st]
    by (auto simp: HandleClient_def books_def split: if_splits)
next
  case Cleanup
  then show ?thesis
    using assms cleanup_books [of t s t' s'] by (simp add: HandleClient_def books_def)
next
  case Returned
  then show ?thesis using assms by (simp add: HandleClient_def)
qed

section \<open>The gate\<close>

text \<open>Past the check of the failure count.\<close>

fun past_gate :: "phase \<Rightarrow> bool" where
  "past_gate AwaitHello = False"
| "past_gate AwaitJoin = False"
| "past_gate (CheckBlocked join) = False"
| "past_gate Returned = False"
| "past_gate _ = True"

lemma HandleClient_gate:
  assumes "HandleClient api clock t s = Some (t', s')" and "IsJoinBlocked s" and "past_gate (th_phase t')"
  shows "past_gate (th_phase t)"
proof (cases "th_phase t")
  case AwaitHello
  then show ?thesis
    using assms handshake_books [of api clock MsgHello "\<lambda>_. AwaitJoin" t s t' s'] by (auto simp: HandleClient_def)
next
  case AwaitJoin
  then show ?thesis
    using assms handshake_books [of api clock MsgJoin CheckBlocked t s t' s'] by (auto simp: HandleClient_def)
next
  case (CheckBlocked join)
  then show ?thesis
    using assms refuse_books [of api "wide ''blocked''" t s t' s'] by (auto simp: HandleClient_def)
qed (use assms in \<open>simp_all add: HandleClient_def\<close>)

definition connections_past_gate :: "system \<Rightarrow> nat set" where
  "connections_past_gate y = {i. i < length (threads y) \<and> past_gate (th_phase (threads y ! i))}"

lemma connections_past_gate_simps [simp]:
  "connections_past_gate (y\<lparr>srv := s\<rparr>) = connections_past_gate y"
  "connections_past_gate (y\<lparr>ui := u\<rparr>) = connections_past_gate y"
  "connections_past_gate (y\<lparr>accepting := a\<rparr>) = connections_past_gate y"
  by (simp_all add: connections_past_gate_def)

lemma step_gate:
  assumes "step api y z" and "IsJoinBlocked (srv y)"
  shows "connections_past_gate z \<subseteq> connections_past_gate y"
  using assms(1)
proof (cases rule: step.cases)
  case (accept socket)
  then show ?thesis
    by (auto simp: connections_past_gate_def nth_append new_thread_def split: if_splits)
next
  case (network i rs)
  have "\<And>j. th_phase (threads z ! j) = th_phase (threads y ! j)"
    unfolding network(1) using network(2) by (case_tac "j = i") simp_all
  then show ?thesis
    by (simp add: connections_past_gate_def network(1))
next
  case (handle i clock t s)
  then show ?thesis
    using HandleClient_gate [OF handle(3) assms(2)]
    by (auto simp: connections_past_gate_def nth_list_update split: if_splits)
qed (auto simp: connections_past_gate_def)

lemma step_count:
  assumes "step api y z"
  shows "failed_join_count (srv y) \<le> failed_join_count (srv z) \<or> threads z = [] \<and> ui z = UiIdle"
  using assms
proof (cases rule: step.cases)
  case (handle i clock t s)
  then show ?thesis using HandleClient_books [OF handle(3)] by simp
next
  case (local_edit op client_id m s)
  then show ?thesis using ApplyMessageToDocument_count [OF local_edit(3)] by simp
next
  case (local_refused op client_id reason s)
  then show ?thesis using ApplyMessageToDocument_count [OF local_refused(3)] by simp
next
  case (broadcast m)
  then show ?thesis by (simp add: BroadcastApply_def split: option.splits)
next
  case (set_document content r)
  then show ?thesis by (simp add: SetDocument_def)
next
  case pop_event
  then show ?thesis by (simp add: TryPopEvent_def split: option.splits)
next
  case stop
  then show ?thesis
    by (simp add: Stop_def Let_def ClosePeerSocket_def CloseListenSocket_def split: option.splits)
qed simp_all

section \<open>A join, step by step\<close>

lemma reachable_rounds:
  assumes "reachable api y" and "i < length (threads y)"
    and "handle_rounds api clock n (threads y ! i) (srv y) = Some (t, s)"
  shows "reachable api (y\<lparr>threads := (threads y)[i := t], srv := s\<rparr>)"
  using assms
proof (induction n arbitrary: y)
  case 0
  have "y\<lparr>threads := (threads y)[i := threads y ! i], srv := srv y\<rparr> = y"
    by (cases y) simp
  with 0 show ?case by auto
next
  case (Suc n)
  obtain t1 s1 where h: "HandleClient api clock (threads y ! i) (srv y) = Some (t1, s1)"
    "handle_rounds api clock n t1 s1 = Some (t, s)"
    using Suc.prems(3) by (auto split: option.splits)
  have "reachable api (y\<lparr>threads := (threads y)[i := t1], srv := s1\<rparr>)"
    using reachable.step [OF Suc.prems(1) step.handle [OF Suc.prems(2) h(1)]] .
  from Suc.IH [OF this] Suc.prems(2) h(2) show ?case by simp
qed

lemma handle_rounds_add:
  "handle_rounds api clock (m + n) t s =
     (case handle_rounds api clock m t s of None \<Rightarrow> None | Some (t', s') \<Rightarrow> handle_rounds api clock n t' s')"
  by (induction m arbitrary: t s) (auto split: option.splits)

text \<open>HELLO and JOIN are read, the three checks pass, JOIN_OK goes out.\<close>

lemma join_rounds:
  assumes "utf8_api api"
    and b1: "DeserializeMessage api b1 = (NoError, hello)" "msg_type hello = MsgHello" "length b1 + 4096 \<le> kMaxFramePayloadBytes + 1"
    and b2: "DeserializeMessage api b2 = (NoError, join)" "msg_type join = MsgJoin" "length b2 + 4096 \<le> kMaxFramePayloadBytes + 1"
    and segs: "concat segs = frames [b1, b2]" "\<forall>x \<in> set segs. x \<noteq> [] \<and> length x \<le> 4096"
    and s: "session_ok (session_code s)" "text_ok (GenerateReconnectToken s)" "reliable (net s j)"
      "\<not> IsJoinBlocked s" "\<not> peer_joined s" "optional_string join ''join_code'' = session_code s"
    and clock: "in_time kHandshakeTimeoutMs clock"
  shows "\<exists>t' s' b. handle_rounds api clock 6 ((new_thread j)\<lparr>th_input := map Received segs\<rparr>) s = Some (t', s') \<and>
    th_phase t' = Serving join \<and> th_socket t' = j \<and> peer_joined s' \<and> peer_socket s' = Some j \<and>
    th_decoder t' = [] \<and> th_input t' = [] \<and> session_code s' = session_code s \<and>
    stopping s' = stopping s \<and> document s' = document s \<and> revision s' = revision s \<and>
    event_queue s' = event_queue s \<and> reliable (net s' j) \<and>
    DeserializeMessage api b = (NoError, received (join_ok_message s)) \<and> length b + 4096 \<le> kMaxFramePayloadBytes + 1 \<and>
    conn_wire (net s' j) = conn_wire (net s j) @ EncodeFrame b"
proof -
  define t0 where "t0 = (new_thread j)\<lparr>th_input := map Received segs\<rparr>"
  have t0: "th_decoder t0 = []" "th_input t0 = map Received segs" "th_phase t0 = AwaitHello" "th_socket t0 = j"
    by (simp_all add: t0_def new_thread_def)
  obtain d1 segs1 where h1: "handshake api clock MsgHello (\<lambda>_. AwaitJoin) t0 s =
      Some (t0\<lparr>th_decoder := d1, th_input := map Received segs1, th_phase := AwaitJoin\<rparr>, s)"
    "d1 @ concat segs1 = EncodeFrame b2" "\<forall>x \<in> set segs1. x \<noteq> [] \<and> length x \<le> 4096"
    by (rule handshake_accepts [of t0 segs b1 "EncodeFrame b2" api hello MsgHello clock "\<lambda>_. AwaitJoin" s])
      (use t0 segs b1 clock in simp_all)
  define t1 where "t1 = t0\<lparr>th_decoder := d1, th_input := map Received segs1, th_phase := AwaitJoin\<rparr>"
  have t1: "th_decoder t1 = d1" "th_input t1 = map Received segs1"
    by (simp_all add: t1_def)
  have in1: "th_decoder t1 @ concat segs1 = EncodeFrame b2 @ []"
    using h1(2) t1 by simp
  obtain d2 segs2 where h2: "handshake api clock MsgJoin CheckBlocked t1 s =
      Some (t1\<lparr>th_decoder := d2, th_input := map Received segs2, th_phase := CheckBlocked join\<rparr>, s)"
    "d2 @ concat segs2 = []" "\<forall>x \<in> set segs2. x \<noteq> [] \<and> length x \<le> 4096"
    using handshake_accepts [OF in1 h1(3) t1(2) b2(3,1,2) clock, of CheckBlocked s] by metis
  have rest: "d2 = []" "segs2 = []"
    using h2(2,3) by (cases segs2; auto)+
  define t2 where "t2 = t1\<lparr>th_decoder := d2, th_input := map Received segs2, th_phase := CheckBlocked join\<rparr>"
  have two: "handle_rounds api clock 2 t0 s = Some (t2, s)"
    using h1(1) h2(1) t0 by (simp add: eval_nat_numeral HandleClient_def t1_def t2_def)
  define t3 where "t3 = t2\<lparr>th_phase := JoinOk join, th_joined := True\<rparr>"
  define s3 where "s3 = s\<lparr>peer_joined := True, peer_socket := Some (th_socket t2)\<rparr>"
  have three: "handle_rounds api clock 3 t2 s = Some (t3, s3)"
    unfolding t3_def s3_def by (rule join_checks) (use s in \<open>simp_all add: t2_def\<close>)
  have j: "th_socket t2 = j" "th_socket t3 = j"
    by (simp_all add: t3_def t2_def t1_def t0)
  obtain b s' where ok: "HandleClient api clock t3 s3 = Some (t3\<lparr>th_phase := Serving join\<rparr>, s')"
    "DeserializeMessage api b = (NoError, received (join_ok_message s3))" "length b + 4096 \<le> kMaxFramePayloadBytes + 1"
    "conn_wire (net s' (th_socket t3)) = conn_wire (net s3 (th_socket t3)) @ EncodeFrame b"
    "quiet s' = quiet (log_line api (wide ''JOIN_OK assigned_client=B reconnect='' @
           (if optional_string join ''reconnect_token'' \<noteq> [] then wide ''1'' else wide ''0'')) s3)"
    "reliable (net s' (th_socket t3))"
    by (rule join_ok_sent [OF assms(1), of s3 t3 join clock])
      (use s j in \<open>simp_all add: s3_def t3_def GenerateReconnectToken_def\<close>)
  have same: "join_ok_message s3 = join_ok_message s"
    by (simp add: s3_def join_ok_message_def server_message_def GenerateReconnectToken_def)
  have keep: "peer_joined s'" "peer_socket s' = Some j" "session_code s' = session_code s" "stopping s' = stopping s" "document s' = document s"
    "revision s' = revision s" "event_queue s' = event_queue s"
    using arg_cong [OF ok(5), of event_queue] arg_cong [OF ok(5), of peer_joined] arg_cong [OF ok(5), of peer_socket] arg_cong [OF ok(5), of session_code] arg_cong [OF ok(5), of stopping]
      arg_cong [OF ok(5), of document] arg_cong [OF ok(5), of revision] j
    by (simp_all add: s3_def)
  have "handle_rounds api clock 4 t2 s = Some (t3\<lparr>th_phase := Serving join\<rparr>, s')"
    using handle_rounds_add [of api clock 3 1 t2 s] three ok(1) by simp
  then have "handle_rounds api clock 6 t0 s = Some (t3\<lparr>th_phase := Serving join\<rparr>, s')"
    using handle_rounds_add [of api clock 2 4 t0 s] two by simp
  moreover have "th_decoder t3 = []" "th_input t3 = []"
    by (simp_all add: t3_def t2_def rest)
  ultimately show ?thesis
    using ok keep same j
    by (intro exI [of _ "t3\<lparr>th_phase := Serving join\<rparr>"] exI [of _ s'] exI [of _ b])
      (simp add: t0_def s3_def)
qed

end
