(* ===== verification/Follower.thy ===== *)
theory Follower
  imports ServerLemmas
begin

text \<open>
  What the two user interfaces promise about the APPLY messages of the host, as an interface:
  a window that handles the announcement of an allowed edit under the next revision performs
  that edit. From this alone a window that only watches stays equal to the server's document.
  \<open>WebLemmas\<close> and \<open>NativeLemmas\<close> show that both windows are such followers.
\<close>

lemma announced_edit_fields:
  "announced_edit m = Some e \<Longrightarrow>
   \<exists>pos operation. GetNumber m (wide ''pos'') = Some pos \<and> GetString m (wide ''op'') = Some operation"
  by (auto simp: announced_edit_def split: option.splits if_splits)

lemma next_revision: "unat (r :: u64) + 1 < 2 ^ 64 \<Longrightarrow> unat (r + 1) = unat r + 1"
  by (simp add: unat_word_ariths)

text \<open>The host types; \<open>host_edits\<close> collects what it announces.\<close>

fun host_edits :: "text_api \<Rightarrow> editor_operation list \<Rightarrow> server \<Rightarrow> protocol_message list \<times> server" where
  "host_edits api [] s = ([], s)"
| "host_edits api (op # ops) s =
     (case ApplyLocalOperation api op (wide ''A'') s of
        (None, s1) \<Rightarrow> host_edits api ops s1
      | (Some m, s1) \<Rightarrow> let (ms, s2) = host_edits api ops s1 in (m # ms, s2))"

lemma BroadcastApply_frame [simp]:
  "document (snd (BroadcastApply api m s)) = document s"
  "revision (snd (BroadcastApply api m s)) = revision s"
  "session_code (snd (BroadcastApply api m s)) = session_code s"
  by (simp_all add: BroadcastApply_def split: option.splits)

lemma ApplyLocalOperation_cases:
  obtains (refused) s' where "ApplyLocalOperation api op (wide ''A'') s = (None, s')"
      and "document s' = document s" and "revision s' = revision s"
    | (applied) m e s' where "ApplyLocalOperation api op (wide ''A'') s = (Some m, s')"
      and "announced_edit m = Some e" and "edit_allowed e (document s)"
      and "document s' = do_edit e (document s)" and "revision s' = revision s + 1"
      and "GetNumber m (wide ''rev'') = Some (revision s + 1)" and "msg_client m = wide ''A''"
proof (cases "edit_accepted (local_request op (wide ''A'') s) s")
  case False
  then obtain reason where "ApplyMessageToDocument api (local_request op (wide ''A'') s) s = (Inl reason, s)"
    using ApplyMessageToDocument_refused by blast
  then show thesis
    by (intro refused [of "s\<lparr>last_error := reason\<rparr>"]) (simp_all add: ApplyLocalOperation_def)
next
  case True
  then obtain e where e: "requested_edit (local_request op (wide ''A'') s) = Some e" "edit_allowed e (document s)"
    by (auto simp: edit_accepted_def)
  obtain m s1 where m: "ApplyMessageToDocument api (local_request op (wide ''A'') s) s = (Inr m, s1)"
    "core s1 = core (s\<lparr>document := do_edit e (document s), revision := revision s + 1\<rparr>)"
    "announced_edit m = Some e" "msg_client m = msg_client (local_request op (wide ''A'') s)"
    "GetNumber m (wide ''rev'') = Some (revision s + 1)"
    using ApplyMessageToDocument_accepted [OF True e(1), of api] by blast
  have "document s1 = do_edit e (document s)" "revision s1 = revision s + 1"
    using arg_cong [OF m(2), of document] arg_cong [OF m(2), of revision] by simp_all
  moreover have "msg_client (local_request op (wide ''A'') s) = wide ''A''"
    by (simp add: local_request_def Let_def split: editor_operation_type.splits)
  ultimately show thesis
    using m e(2) by (intro applied [of m "snd (BroadcastApply api m s1)" e]) (simp_all add: ApplyLocalOperation_def)
qed

text \<open>An operation that the document model applies, and that is not too long, is accepted.\<close>

lemma local_operation_applied:
  assumes "apply_operation op (document s) = (Applied, doc')" and "length (op_text op) \<le> kMaxInsertChars"
    and "length (document s) \<le> kMaxDocumentChars"
  shows "\<exists>a s1. ApplyLocalOperation api op (wide ''A'') s = (Some a, s1) \<and> document s1 = doc' \<and>
    revision s1 = revision s + 1 \<and> GetNumber a (wide ''rev'') = Some (revision s + 1)"
proof -
  define m where "m = local_request op (wide ''A'') s"
  have small: "n \<le> length (document s) \<Longrightarrow> unat (of_nat n :: u64) = n" for n
    using assms(3) by (intro unat_of_nat_u64) (simp add: kMaxDocumentChars_def)
  have hdr: "msg_session m = session_code s" "msg_client m = wide ''A''"
    "GetNumber m (wide ''pos'') = Some (of_nat (op_position op))"
    by (simp_all add: m_def local_request_def Let_def split: editor_operation_type.splits)
  obtain e where e: "requested_edit m = Some e" "edit_allowed e (document s)" "doc' = do_edit e (document s)"
  proof (cases "op_type op")
    case OpInsert
    have p: "op_position op \<le> length (document s)" "op_text op \<noteq> []"
      "length (document s) + length (op_text op) \<le> kMaxDocumentChars"
      "doc' = splice (op_position op) 0 (op_text op) (document s)"
      using assms(1) OpInsert
      by (auto simp: apply_operation_def ApplyInsertToContent_def splice_insert split: if_splits)
    have "msg_type m = MsgInsert" "GetString m (wide ''text'') = Some (op_text op)"
      using OpInsert by (simp_all add: m_def local_request_def Let_def)
    then show thesis
      using that [of "(op_position op, 0, op_text op)"] p hdr small [OF p(1)] assms(2)
      by (simp add: requested_edit_def edit_allowed_def do_edit_def)
  next
    case OpDelete
    have p: "op_position op + op_length op \<le> length (document s)" "0 < op_length op"
      "doc' = splice (op_position op) (op_length op) [] (document s)"
      using assms(1) OpDelete
      by (auto simp: apply_operation_def ApplyDeleteToContent_def splice_delete split: if_splits)
    have "msg_type m = MsgDelete" "GetNumber m (wide ''len'') = Some (of_nat (op_length op))"
      using OpDelete by (simp_all add: m_def local_request_def Let_def)
    then show thesis
      using that [of "(op_position op, op_length op, [])"] p hdr small
      by (simp add: requested_edit_def edit_allowed_def do_edit_def)
  qed
  have "edit_accepted m s" using hdr e by (simp add: edit_accepted_def)
  then obtain a s1 where "ApplyMessageToDocument api m s = (Inr a, s1)"
    "document s1 = do_edit e (document s)" "revision s1 = revision s + 1"
    "GetNumber a (wide ''rev'') = Some (revision s + 1)"
    by (rule accepted_edit [OF _ e(1), of s api])
  then show ?thesis
    using e(3) by (simp add: ApplyLocalOperation_def m_def)
qed

lemma announced_edit_received: "announced_edit (received m) = announced_edit m"
  by (cases "GetNumber m (wide ''pos'')") (simp_all add: announced_edit_def)

text \<open>
  \<open>ready\<close> is whatever else a window needs to handle edits; the handler has to keep it.
\<close>

locale edit_follower =
  fixes handle :: "protocol_message \<Rightarrow> 'w \<Rightarrow> 'w"
    and text_of :: "'w \<Rightarrow> wstr"
    and revision_of :: "'w \<Rightarrow> u64"
    and own_id :: "'w \<Rightarrow> wstr"
    and ready :: "'w \<Rightarrow> bool"
  assumes follows: "announced_edit m = Some e \<Longrightarrow> edit_allowed e (text_of w) \<Longrightarrow>
      GetNumber m (wide ''rev'') = Some (revision_of w + 1) \<Longrightarrow> unat (revision_of w) + 1 < 2 ^ 64 \<Longrightarrow>
      msg_client m \<noteq> own_id w \<Longrightarrow> ready w \<Longrightarrow>
      text_of (handle m w) = do_edit e (text_of w) \<and> revision_of (handle m w) = revision_of w + 1 \<and>
      own_id (handle m w) = own_id w \<and> ready (handle m w)"
begin

lemma follow_host:
  assumes "host_edits api ops s = (ms, s')" and "text_of w = document s" and "revision_of w = revision s"
    and "own_id w \<noteq> wide ''A''" and "unat (revision s) + length ops < 2 ^ 64" and "ready w"
  shows "text_of (fold (\<lambda>m. handle (received m)) ms w) = document s' \<and>
         revision_of (fold (\<lambda>m. handle (received m)) ms w) = revision s'"
  using assms
proof (induction ops arbitrary: s w ms)
  case Nil
  then show ?case by simp
next
  case (Cons op ops)
  show ?case
  proof (cases rule: ApplyLocalOperation_cases [of api op s])
    case (refused s1)
    then show ?thesis
      using Cons.IH [of s1 ms w] Cons.prems by simp
  next
    case (applied m e s1)
    obtain ms' where ms: "ms = m # ms'" "host_edits api ops s1 = (ms', s')"
      using Cons.prems(1) applied(1) by (auto split: prod.splits)
    have lt: "unat (revision s) + 1 < 2 ^ 64"
      using Cons.prems(5) by simp
    have "text_of (handle (received m) w) = document s1 \<and>
        revision_of (handle (received m) w) = revision s1 \<and>
        own_id (handle (received m) w) = own_id w \<and> ready (handle (received m) w)"
      using follows [of "received m" e w] applied Cons.prems lt
      by (auto simp: announced_edit_received)
    then show ?thesis
      using Cons.IH [OF ms(2), of "handle (received m) w"] Cons.prems applied ms(1)
        next_revision [OF lt] by auto
  qed
qed

end


section \<open>The host's own window\<close>

text \<open>
  The other direction: a hosting window hands an operation of the user to its server and takes
  over the revision of the answer. Then the operations of a change, one after the other, bring
  the server to the changed text.
\<close>

locale host_editor =
  fixes api :: text_api
    and send :: "editor_operation \<Rightarrow> 'w \<Rightarrow> 'w"
    and server_of :: "'w \<Rightarrow> server"
    and revision_of :: "'w \<Rightarrow> u64"
    and hosting :: "'w \<Rightarrow> bool"
  assumes sends: "hosting w \<Longrightarrow> ApplyLocalOperation api op (wide ''A'') (server_of w) = (Some a, s1) \<Longrightarrow>
      GetNumber a (wide ''rev'') = Some r \<Longrightarrow>
      server_of (send op w) = s1 \<and> revision_of (send op w) = r \<and> hosting (send op w)"
begin

lemma send_applied:
  assumes "hosting w" and "apply_operation op (document (server_of w)) = (Applied, doc')"
    and "length (op_text op) \<le> kMaxInsertChars" and "length (document (server_of w)) \<le> kMaxDocumentChars"
  shows "document (server_of (send op w)) = doc' \<and> revision_of (send op w) = revision (server_of (send op w)) \<and>
    hosting (send op w)"
proof -
  obtain a s1 where a: "ApplyLocalOperation api op (wide ''A'') (server_of w) = (Some a, s1)"
    "document s1 = doc'" "revision s1 = revision (server_of w) + 1"
    "GetNumber a (wide ''rev'') = Some (revision (server_of w) + 1)"
    using local_operation_applied [OF assms(2-4), of api] by blast
  from sends [OF assms(1) a(1,4)] a(2,3) show ?thesis by simp
qed

lemma host_operations:
  assumes "hosting w" and "apply_operations ops (document (server_of w)) = Some doc'"
    and "\<forall>op \<in> set ops. length (op_text op) \<le> kMaxInsertChars"
    and "length (document (server_of w)) \<le> kMaxDocumentChars" and "revision_of w = revision (server_of w)"
  shows "document (server_of (fold send ops w)) = doc' \<and>
         revision_of (fold send ops w) = revision (server_of (fold send ops w)) \<and> hosting (fold send ops w)"
  using assms
proof (induction ops arbitrary: w)
  case Nil
  then show ?case by simp
next
  case (Cons op ops)
  obtain doc1 where op: "apply_operation op (document (server_of w)) = (Applied, doc1)"
    "apply_operations ops doc1 = Some doc'"
    using Cons.prems(2) by (auto split: prod.splits document_apply_status.splits)
  have bound: "length doc1 \<le> kMaxDocumentChars"
    using op(1) Cons.prems(4) insert_bounded [OF Cons.prems(4), of "op_position op" "op_text op"]
      delete_shrinks [of "document (server_of w)" "op_position op" "op_length op"]
    by (auto simp: apply_operation_def split: editor_operation_type.splits)
  have "length (op_text op) \<le> kMaxInsertChars" using Cons.prems(3) by simp
  from send_applied [OF Cons.prems(1) op(1) this Cons.prems(4)] show ?case
    using Cons.IH [of "send op w"] Cons.prems(3) op(2) bound by simp
qed

text \<open>What the user types, compared with what the server has, becomes the server's document.\<close>

lemma host_types:
  assumes "hosting w" and "revision_of w = revision (server_of w)"
    and "length (document (server_of w)) \<le> kMaxDocumentChars" and "length new_text \<le> kMaxDocumentChars"
    and "\<forall>op \<in> set (operations (ComputeEditorDiff (document (server_of w)) new_text)). length (op_text op) \<le> kMaxInsertChars"
  shows "document (server_of (fold send (operations (ComputeEditorDiff (document (server_of w)) new_text)) w)) = new_text \<and>
    revision_of (fold send (operations (ComputeEditorDiff (document (server_of w)) new_text)) w) =
      revision (server_of (fold send (operations (ComputeEditorDiff (document (server_of w)) new_text)) w)) \<and>
    hosting (fold send (operations (ComputeEditorDiff (document (server_of w)) new_text)) w)"
  using host_operations [OF assms(1) _ assms(5,3,2), of new_text]
    diff_reproduces [OF assms(4), of "document (server_of w)"] by simp

end

end
