(* ===== verification/Assembly.thy ===== *)
theory Assembly
  imports FullSync
begin

text \<open>
  The chunks of a SYNC_RESPONSE, put together by a window: both windows keep the revision the
  collection belongs to, the texts and a flag for each. The interface \<open>chunk_collector\<close> says what a
  window does with one chunk; from it follows that chunks may come in any order and more than once.
\<close>

definition is_chunk :: "wstr \<Rightarrow> u64 \<Rightarrow> nat \<Rightarrow> protocol_message \<Rightarrow> bool" where
  "is_chunk doc r i m \<longleftrightarrow>
     GetString m (wide ''text'') = Some (chunk kSyncChunkChars doc i) \<and>
     GetNumber m (wide ''rev'') = Some r \<and>
     GetNumber m (wide ''chunk_index'') = Some (of_nat i) \<and>
     GetNumber m (wide ''chunk_count'') = Some (of_nat (chunk_count doc))"

lemma is_chunk_sync_chunk: "is_chunk doc r i (received (sync_chunk doc r s i))"
  by (simp add: is_chunk_def sync_chunk_get)

lemma chunk_count_pos: "0 < chunk_count doc"
  by (simp add: chunk_count_def)

lemma chunk_count_bound: "length doc \<le> kMaxDocumentChars \<Longrightarrow> chunk_count doc < 2 ^ 64"
  by (simp add: chunk_count_def kMaxDocumentChars_def kSyncChunkChars_def)

type_synonym chunk_buffers = "u64 \<times> wstr list \<times> bool list"

fun store_in_buffers :: "u64 \<Rightarrow> nat \<Rightarrow> nat \<Rightarrow> wstr \<Rightarrow> chunk_buffers \<Rightarrow> chunk_buffers" where
  "store_in_buffers r n i t (sync_revision, chunks, flags) =
     (if sync_revision \<noteq> r \<or> length chunks \<noteq> n
      then (r, (replicate n [])[i := t], (replicate n False)[i := True])
      else (sync_revision, chunks[i := t], flags[i := True]))"

text \<open>
  The chunks in \<open>S\<close> have arrived; buffers that belong to another response stand for the empty set.
\<close>

fun assembling :: "wstr \<Rightarrow> u64 \<Rightarrow> nat set \<Rightarrow> chunk_buffers \<Rightarrow> bool" where
  "assembling doc r S (sync_revision, chunks, flags) \<longleftrightarrow>
     (if sync_revision \<noteq> r \<or> length chunks \<noteq> chunk_count doc then S = {}
      else length flags = chunk_count doc \<and>
           (\<forall>i < chunk_count doc. (flags ! i \<longleftrightarrow> i \<in> S) \<and> (i \<in> S \<longrightarrow> chunks ! i = chunk kSyncChunkChars doc i)))"

lemma assembling_store:
  assumes "assembling doc r S b" and "i < chunk_count doc"
    and "store_in_buffers r (chunk_count doc) i (chunk kSyncChunkChars doc i) b = (sr, cs, fs)"
  shows "if insert i S \<supseteq> {..<chunk_count doc} then list_all id fs \<and> concat cs = doc
         else \<not> list_all id fs \<and> assembling doc r (insert i S) (sr, cs, fs)"
proof -
  have b: "sr = r" "length cs = chunk_count doc" "length fs = chunk_count doc"
    "\<forall>j < chunk_count doc. (fs ! j \<longleftrightarrow> j \<in> insert i S) \<and> (j \<in> insert i S \<longrightarrow> cs ! j = chunk kSyncChunkChars doc j)"
    using assms by (cases b; auto simp: nth_list_update split: if_splits)+
  have full: "list_all id fs \<longleftrightarrow> insert i S \<supseteq> {..<chunk_count doc}"
    using b by (auto simp: list_all_length subset_iff)
  show ?thesis
  proof (cases "insert i S \<supseteq> {..<chunk_count doc}")
    case True
    have "cs = map (chunk kSyncChunkChars doc) [0..<chunk_count doc]"
      using True b(2,4) by (intro nth_equalityI) auto
    with True full show ?thesis by (simp add: concat_sync_chunks)
  next
    case False
    with full b show ?thesis by simp
  qed
qed

locale chunk_collector =
  fixes handle :: "protocol_message \<Rightarrow> 'w \<Rightarrow> 'w"
    and text_of :: "'w \<Rightarrow> wstr"
    and revision_of :: "'w \<Rightarrow> u64"
    and buffers :: "'w \<Rightarrow> chunk_buffers"
  assumes whole: "GetString m (wide ''text'') = Some t \<Longrightarrow> GetNumber m (wide ''rev'') = Some r \<Longrightarrow>
      GetNumber m (wide ''chunk_index'') = Some 0 \<Longrightarrow> GetNumber m (wide ''chunk_count'') = Some 1 \<Longrightarrow>
      text_of (handle m w) = t \<and> revision_of (handle m w) = r"
    and part: "GetString m (wide ''text'') = Some t \<Longrightarrow> GetNumber m (wide ''rev'') = Some r \<Longrightarrow>
      GetNumber m (wide ''chunk_index'') = Some i \<Longrightarrow> GetNumber m (wide ''chunk_count'') = Some n \<Longrightarrow> 1 < n \<Longrightarrow> i < n \<Longrightarrow>
      store_in_buffers r (unat n) (unat i) t (buffers w) = (sr, cs, fs) \<Longrightarrow>
      if list_all id fs then text_of (handle m w) = concat cs \<and> revision_of (handle m w) = r
      else buffers (handle m w) = (sr, cs, fs)"
begin

lemma collect_one:
  assumes "is_chunk doc r 0 m" and "chunk_count doc = 1"
  shows "text_of (handle m w) = doc \<and> revision_of (handle m w) = r"
proof -
  have "chunk kSyncChunkChars doc 0 = doc" using concat_sync_chunks [of doc] assms(2) by simp
  then show ?thesis using whole [of m doc r w] assms by (simp add: is_chunk_def)
qed

lemma collect_step:
  assumes "is_chunk doc r i m" and "i < chunk_count doc" and "chunk_count doc < 2 ^ 64" and "1 < chunk_count doc"
    and "assembling doc r S (buffers w)"
  shows "if insert i S \<supseteq> {..<chunk_count doc} then text_of (handle m w) = doc \<and> revision_of (handle m w) = r
         else assembling doc r (insert i S) (buffers (handle m w))"
proof -
  obtain sr cs fs where st: "store_in_buffers r (chunk_count doc) i (chunk kSyncChunkChars doc i) (buffers w) = (sr, cs, fs)"
    by (cases "store_in_buffers r (chunk_count doc) i (chunk kSyncChunkChars doc i) (buffers w)")
  have u: "unat (of_nat (chunk_count doc) :: u64) = chunk_count doc" "unat (of_nat i :: u64) = i"
    using assms(2,3) by (simp_all add: unat_of_nat_u64)
  have "1 < (of_nat (chunk_count doc) :: u64)" "(of_nat i :: u64) < of_nat (chunk_count doc)"
    using u assms(2,4) by (simp_all add: word_less_nat_alt)
  then have "if list_all id fs then text_of (handle m w) = concat cs \<and> revision_of (handle m w) = r
      else buffers (handle m w) = (sr, cs, fs)"
    using part [of m "chunk kSyncChunkChars doc i" r "of_nat i" "of_nat (chunk_count doc)" w sr cs fs] st u assms(1)
    by (simp add: is_chunk_def)
  then show ?thesis
    using assembling_store [OF assms(5,2) st] by (auto split: if_splits)
qed

lemma assemble:
  assumes "list_all2 (is_chunk doc r) js ms" and "is_chunk doc r k m"
    and "chunk_count doc < 2 ^ 64" and "assembling doc r S (buffers w)"
    and "insert k (set js \<union> S) = {..<chunk_count doc}" and "k \<notin> set js" and "k \<notin> S"
  shows "text_of (handle m (fold handle ms w)) = doc \<and> revision_of (handle m (fold handle ms w)) = r"
  using assms
proof (induction js arbitrary: ms S w)
  case Nil
  show ?case
  proof (cases "chunk_count doc = 1")
    case True
    then have "k = 0" using Nil.prems(5) by auto
    with Nil True show ?thesis
      using collect_one by auto
  next
    case False
    then have "1 < chunk_count doc"
      using chunk_count_pos [of doc] by linarith
    moreover have "k < chunk_count doc" using Nil.prems(5) by auto
    ultimately show ?thesis
      using collect_step [OF Nil.prems(2) _ Nil.prems(3) _ Nil.prems(4)] Nil.prems(1,5) by auto
  qed
next
  case (Cons j js)
  obtain m' ms' where ms: "ms = m' # ms'" "is_chunk doc r j m'" "list_all2 (is_chunk doc r) js ms'"
    using Cons.prems(1) by (auto simp: list_all2_Cons1)
  have jk: "j < chunk_count doc" "k < chunk_count doc" "j \<noteq> k"
    using Cons.prems(5,6) by auto
  then have two: "1 < chunk_count doc" by linarith
  have part: "\<not> insert j S \<supseteq> {..<chunk_count doc}"
    using Cons.prems(7) jk by auto
  have "assembling doc r (insert j S) (buffers (handle m' w))"
    using collect_step [OF ms(2) jk(1) Cons.prems(3) two Cons.prems(4)] part by simp
  then show ?case
    using Cons.IH [OF ms(3) Cons.prems(2,3), of "insert j S" "handle m' w"] Cons.prems(5-7) jk ms(1) by auto
qed

text \<open>The whole response, in order, by a window that holds nothing.\<close>

lemma assemble_response:
  assumes "chunk_count doc < 2 ^ 64" and "snd (buffers w) = ([], x)"
  shows "text_of (fold handle (map (\<lambda>i. received (sync_chunk doc r s i)) [0..<chunk_count doc]) w) = doc \<and>
    revision_of (fold handle (map (\<lambda>i. received (sync_chunk doc r s i)) [0..<chunk_count doc]) w) = r"
proof -
  define n where "n = chunk_count doc"
  define f where "f = (\<lambda>i. received (sync_chunk doc r s i))"
  have n: "0 < n" using chunk_count_pos by (simp add: n_def)
  have split: "[0..<n] = [0..<n - 1] @ [n - 1]"
    using n by (metis Suc_diff_1 upt_Suc_append zero_le)
  have "text_of (handle (f (n - 1)) (fold handle (map f [0..<n - 1]) w)) = doc \<and>
      revision_of (handle (f (n - 1)) (fold handle (map f [0..<n - 1]) w)) = r"
  proof (rule assemble [where js = "[0..<n - 1]" and k = "n - 1" and S = "{}"])
    show "list_all2 (is_chunk doc r) [0..<n - 1] (map f [0..<n - 1])"
      by (simp add: list_all2_conv_all_nth f_def is_chunk_sync_chunk)
    show "is_chunk doc r (n - 1) (f (n - 1))"
      by (simp add: f_def is_chunk_sync_chunk)
    show "assembling doc r {} (buffers w)"
      using assms(2) n by (cases "buffers w") (auto simp: n_def)
    show "insert (n - 1) (set [0..<n - 1] \<union> {}) = {..<chunk_count doc}"
      using n by (auto simp: n_def)
  qed (use assms(1) in simp_all)
  then show ?thesis unfolding n_def [symmetric] f_def [symmetric] split by simp
qed

end

end
