(* ===== verification/Texts.thy ===== *)
theory Texts
  imports Prelude
begin

text \<open>
  The Korean status and error texts of the user interfaces, as the UTF-16 code units the wide
  literals have: \<open>hangul\<close> builds a text from their numbers.
\<close>

definition hangul :: "nat list \<Rightarrow> wstr" where
  "hangul ns = map of_nat ns"

definition txt_autosave_ready :: wstr where
  "txt_autosave_ready = hangul [51088, 46041, 51200, 51109, 32, 51456, 48708]"

definition txt_autosave_done :: wstr where
  "txt_autosave_done = hangul [51088, 46041, 51200, 51109, 32, 50756, 47308]"

definition txt_autosave_failed :: wstr where
  "txt_autosave_failed = hangul [51088, 46041, 51200, 51109, 32, 49892, 54056]"

definition txt_offline :: wstr where
  "txt_offline = hangul [50724, 54532, 46972, 51064]"

definition txt_connected :: wstr where
  "txt_connected = hangul [50672, 44208, 46120]"

definition txt_document_too_large :: wstr where
  "txt_document_too_large = hangul [47928, 49436, 32, 53356, 44592, 32, 52488, 44284]"

definition txt_edit_failed :: wstr where
  "txt_edit_failed = hangul [54200, 51665, 32, 48152, 50689, 32, 49892, 54056]"

definition txt_save_waiting :: wstr where
  "txt_save_waiting = hangul [51200, 51109, 32, 45824, 44592]"

definition txt_create_failed :: wstr where
  "txt_create_failed = hangul [48169, 32, 47564, 46308, 44592, 32, 49892, 54056]"

definition txt_waiting_peer :: wstr where
  "txt_waiting_peer = hangul [50672, 44208, 32, 45824, 44592]"

definition txt_code_needed :: wstr where
  "txt_code_needed = hangul [52488, 45824, 32, 53076, 46300, 32, 54596, 50836]"

definition txt_searching :: wstr where
  "txt_searching = hangul [48169, 32, 52286, 45716, 32, 51473]"

definition txt_not_found :: wstr where
  "txt_not_found = hangul [44057, 51008, 32, 45348, 53944, 50892, 53356, 50640, 49436, 32, 48169, 51012, 32, 52286,
      51648, 32, 47803, 54632]"

definition txt_connect_failed :: wstr where
  "txt_connect_failed = hangul [50672, 44208, 32, 49892, 54056]"

definition txt_disconnected :: wstr where
  "txt_disconnected = hangul [45130, 44608]"

definition txt_sync_error :: wstr where
  "txt_sync_error = hangul [46041, 44592, 54868, 32, 50724, 47448]"

definition txt_syncing :: wstr where
  "txt_syncing = hangul [51204, 52404, 32, 46041, 44592, 54868, 32, 51473]"

definition txt_sync_requested :: wstr where
  "txt_sync_requested = hangul [51204, 52404, 32, 46041, 44592, 54868, 32, 50836, 52397]"

definition txt_store_dir_failed :: wstr where
  "txt_store_dir_failed = hangul [51200, 51109, 32, 54260, 45908, 47484, 32, 47564, 46308, 32, 49688, 32, 50630, 49845,
      45768, 45796, 46]"

definition txt_store_open_failed :: wstr where
  "txt_store_open_failed = hangul [99, 117, 114, 114, 101, 110, 116, 46, 116, 120, 116, 47484, 32, 50676, 32, 49688, 32,
      50630, 49845, 45768, 45796, 46]"

definition txt_store_decode_failed :: wstr where
  "txt_store_decode_failed = hangul [99, 117, 114, 114, 101, 110, 116, 46, 116, 120, 116, 51032, 32, 47928, 51088, 32, 51064,
      53076, 46377, 51012, 32, 51069, 51012, 32, 49688, 32, 50630, 49845, 45768, 45796, 46]"

definition txt_store_encode_failed :: wstr where
  "txt_store_encode_failed = hangul [47928, 49436, 47484, 32, 85, 84, 70, 45, 56, 47196, 32, 48320, 54872, 54624, 32, 49688,
      32, 50630, 49845, 45768, 45796, 46]"

definition txt_store_temp_failed :: wstr where
  "txt_store_temp_failed = hangul [51076, 49884, 32, 51200, 51109, 32, 54028, 51068, 51012, 32, 47564, 46308, 32, 49688,
      32, 50630, 49845, 45768, 45796, 46]"

definition txt_store_write_failed :: wstr where
  "txt_store_write_failed = hangul [51076, 49884, 32, 51200, 51109, 32, 54028, 51068, 50640, 32, 50424, 32, 49688, 32,
      50630, 49845, 45768, 45796, 46]"

definition txt_store_move_failed :: wstr where
  "txt_store_move_failed = hangul [99, 117, 114, 114, 101, 110, 116, 46, 116, 120, 116, 47484, 32, 44368, 52404, 54624, 32,
      49688, 32, 50630, 49845, 45768, 45796, 46]"

definition txt_config_dir_failed :: wstr where
  "txt_config_dir_failed = hangul [49444, 51221, 32, 54260, 45908, 47484, 32, 47564, 46308, 32, 49688, 32, 50630, 49845,
      45768, 45796, 46]"

definition txt_config_encode_failed :: wstr where
  "txt_config_encode_failed = hangul [49444, 51221, 51012, 32, 85, 84, 70, 45, 56, 47196, 32, 48320, 54872, 54624, 32, 49688,
      32, 50630, 49845, 45768, 45796, 46]"

definition txt_config_save_failed :: wstr where
  "txt_config_save_failed = hangul [99, 111, 110, 102, 105, 103, 46, 105, 110, 105, 47484, 32, 51200, 51109, 54624, 32,
      49688, 32, 50630, 49845, 45768, 45796, 46]"

definition txt_config_write_failed :: wstr where
  "txt_config_write_failed = hangul [99, 111, 110, 102, 105, 103, 46, 105, 110, 105, 32, 50416, 44592, 50640, 32, 49892,
      54056, 54664, 49845, 45768, 45796, 46]"

definition txt_config_read_failed :: wstr where
  "txt_config_read_failed = hangul [99, 111, 110, 102, 105, 103, 46, 105, 110, 105, 47484, 32, 51069, 51012, 32, 49688, 32,
      50630, 49845, 45768, 45796, 46]"

definition txt_log_dir_failed :: wstr where
  "txt_log_dir_failed = hangul [47196, 44536, 32, 54260, 45908, 47484, 32, 47564, 46308, 32, 49688, 32, 50630, 49845,
      45768, 45796, 46]"

definition txt_log_encode_failed :: wstr where
  "txt_log_encode_failed = hangul [47196, 44536, 32, 47700, 49884, 51648, 47484, 32, 85, 84, 70, 45, 56, 47196, 32, 48320,
      54872, 54624, 32, 49688, 32, 50630, 49845, 45768, 45796, 46]"

definition txt_log_open_failed :: wstr where
  "txt_log_open_failed = hangul [115, 104, 97, 114, 101, 110, 111, 116, 101, 112, 97, 100, 46, 108, 111, 103, 47484, 32,
      50676, 32, 49688, 32, 50630, 49845, 45768, 45796, 46]"

definition txt_log_write_failed :: wstr where
  "txt_log_write_failed = hangul [115, 104, 97, 114, 101, 110, 111, 116, 101, 112, 97, 100, 46, 108, 111, 103, 32, 50416,
      44592, 50640, 32, 49892, 54056, 54664, 49845, 45768, 45796, 46]"

definition nt_idle_local :: wstr where
  "nt_idle_local = hangul [73, 100, 108, 101, 32, 124, 32, 47196, 52972, 32, 47700, 47784, 51109]"

definition nt_tab_busy :: wstr where
  "nt_tab_busy = hangul [44277, 50976, 32, 51473, 50640, 45716, 32, 53485, 32, 51204, 54872, 51012, 32, 51648,
      50896, 54616, 51648, 32, 50506, 49845, 45768, 45796, 46, 32, 44277, 50976, 47484, 32,
      51473, 51648, 54620, 32, 46244, 32, 51204, 54872, 54616, 49464, 50836, 46]"

definition nt_tab_switched :: wstr where
  "nt_tab_switched = hangul [53485, 32, 51204, 54872, 32, 124, 32]"

definition nt_newtab_busy :: wstr where
  "nt_newtab_busy = hangul [44277, 50976, 32, 51473, 50640, 45716, 32, 49352, 32, 53485, 51012, 32, 47564, 46308,
      32, 49688, 32, 50630, 49845, 45768, 45796, 46, 32, 44277, 50976, 47484, 32, 51473,
      51648, 54620, 32, 46244, 32, 52628, 44032, 54616, 49464, 50836, 46]"

definition nt_tab_limit :: wstr where
  "nt_tab_limit = hangul [77, 86, 80, 50640, 49436, 45716, 32, 53485, 51012, 32, 51, 44060, 44620, 51648, 32,
      51648, 50896, 54633, 45768, 45796, 46]"

definition nt_new_tab :: wstr where
  "nt_new_tab = hangul [49352, 32, 53485, 32]"

definition nt_join_prompt :: wstr where
  "nt_join_prompt = hangul [73, 100, 108, 101, 32, 124, 32, 52488, 45824, 32, 53076, 46300, 47484, 32, 51077, 47141,
      54616, 49464, 50836, 46]"

definition nt_too_large :: wstr where
  "nt_too_large = hangul [47928, 49436, 32, 53356, 44592, 32, 51228, 54620, 51012, 32, 52488, 44284, 54664, 49845,
      45768, 45796, 46]"

definition nt_editing :: wstr where
  "nt_editing = hangul [54200, 51665, 32, 51473, 32, 124, 32, 51088, 46041, 51200, 51109, 32, 45824, 44592]"

definition nt_peer_gone :: wstr where
  "nt_peer_gone = hangul [68, 105, 115, 99, 111, 110, 110, 101, 99, 116, 101, 100, 32, 124, 32, 49345, 45824, 32,
      50672, 44208, 51060, 32, 45130, 44220, 49845, 45768, 45796, 46]"

definition nt_no_reconnect :: wstr where
  "nt_no_reconnect = hangul [68, 105, 115, 99, 111, 110, 110, 101, 99, 116, 101, 100, 32, 124, 32, 51116, 50672,
      44208, 32, 51221, 48372, 44032, 32, 50630, 49845, 45768, 45796, 46]"

definition nt_reconnecting :: wstr where
  "nt_reconnecting = hangul [82, 101, 99, 111, 110, 110, 101, 99, 116, 105, 110, 103, 32, 124, 32, 51116, 50672,
      44208, 32, 51473]"

definition nt_reconnected :: wstr where
  "nt_reconnected = hangul [67, 111, 110, 110, 101, 99, 116, 101, 100, 32, 124, 32, 51116, 50672, 44208, 46120]"

definition nt_reconnect_failed :: wstr where
  "nt_reconnect_failed = hangul [68, 105, 115, 99, 111, 110, 110, 101, 99, 116, 101, 100, 32, 124, 32, 51116, 50672,
      44208, 32, 49892, 54056]"

definition nt_reconnect_try :: wstr where
  "nt_reconnect_try = hangul [82, 101, 99, 111, 110, 110, 101, 99, 116, 105, 110, 103, 32, 124, 32, 51116, 50672,
      44208, 32]"

definition nt_syncing :: wstr where
  "nt_syncing = hangul [83, 121, 110, 99, 105, 110, 103, 32, 124, 32, 51204, 52404, 32, 47928, 49436, 32, 46041,
      44592, 54868, 32, 51473]"

definition nt_synced :: wstr where
  "nt_synced = hangul [67, 111, 110, 110, 101, 99, 116, 101, 100, 32, 124, 32, 46041, 44592, 54868, 32, 50756,
      47308]"

definition nt_sync_requested :: wstr where
  "nt_sync_requested = hangul [83, 121, 110, 99, 105, 110, 103, 32, 124, 32, 51204, 52404, 32, 46041, 44592, 54868, 32,
      50836, 52397]"

definition nt_resynced :: wstr where
  "nt_resynced = hangul [67, 111, 110, 110, 101, 99, 116, 101, 100, 32, 124, 32, 51116, 46041, 44592, 54868, 32,
      50756, 47308]"

definition nt_tab_not_saved :: wstr where
  "nt_tab_not_saved = hangul [49352, 32, 53485, 51008, 32, 54788, 51116, 32, 49892, 54665, 32, 51473, 50640, 47564,
      32, 48372, 44288, 46121, 45768, 45796, 46, 32, 54028, 51068, 32, 51200, 51109, 51008,
      32, 51060, 54980, 32, 45800, 44228, 50640, 49436, 32, 52628, 44032, 54633, 45768,
      45796, 46]"

definition nt_saved :: wstr where
  "nt_saved = hangul [47196, 52972, 32, 51200, 51109, 46120]"

definition nt_new_document :: wstr where
  "nt_new_document = hangul [73, 100, 108, 101, 32, 124, 32, 49352, 32, 47928, 49436]"

definition nt_create_failed :: wstr where
  "nt_create_failed = hangul [48169, 51012, 32, 47564, 46308, 32, 49688, 32, 50630, 49845, 45768, 45796, 46, 32,
      54252, 53944, 44032, 32, 49324, 50857, 32, 51473, 51068, 32, 49688, 32, 51080, 49845,
      45768, 45796, 46]"

definition nt_hosting :: wstr where
  "nt_hosting = hangul [72, 111, 115, 116, 105, 110, 103, 32, 124, 32, 48169, 32, 53076, 46300, 32]"

definition nt_waiting_port :: wstr where
  "nt_waiting_port = hangul [32, 124, 32, 50672, 44208, 32, 45824, 44592, 32, 51473, 32, 124, 32, 54252, 53944, 32]"

definition nt_code_needed :: wstr where
  "nt_code_needed = hangul [52488, 45824, 32, 53076, 46300, 47484, 32, 51077, 47141, 54616, 49464, 50836, 46]"

definition nt_searching :: wstr where
  "nt_searching = hangul [67, 111, 110, 110, 101, 99, 116, 105, 110, 103, 32, 124, 32, 48169, 51012, 32, 51088,
      46041, 32, 44160, 49353, 32, 51473, 46, 46, 46]"

definition nt_address_needed :: wstr where
  "nt_address_needed = hangul [51452, 49548, 50752, 32, 54252, 53944, 47484, 32, 51077, 47141, 54616, 49464, 50836, 46]"

definition nt_bad_port :: wstr where
  "nt_bad_port = hangul [54252, 53944, 32, 48264, 54840, 44032, 32, 50732, 48148, 47476, 51648, 32, 50506, 49845,
      45768, 45796, 46]"

definition nt_not_found :: wstr where
  "nt_not_found = hangul [44057, 51008, 32, 45348, 53944, 50892, 53356, 50640, 49436, 32, 48169, 51012, 32, 52286,
      51012, 32, 49688, 32, 50630, 49845, 45768, 45796, 46]"

definition nt_connecting :: wstr where
  "nt_connecting = hangul [67, 111, 110, 110, 101, 99, 116, 105, 110, 103, 32, 124, 32, 50672, 44208, 32, 51473,
      46, 46, 46]"

definition nt_connected_code :: wstr where
  "nt_connected_code = hangul [67, 111, 110, 110, 101, 99, 116, 101, 100, 32, 124, 32, 53076, 46300, 32]"

definition nt_port :: wstr where
  "nt_port = hangul [32, 124, 32, 54252, 53944, 32]"

definition nt_nothing_to_copy :: wstr where
  "nt_nothing_to_copy = hangul [48373, 49324, 54624, 32, 52488, 45824, 32, 53076, 46300, 44032, 32, 50630, 49845, 45768,
      45796, 46, 32, 44277, 50976, 32, 62, 32, 48169, 32, 47564, 46308, 44592, 47484, 32,
      47676, 51200, 32, 49892, 54665, 54616, 49464, 50836, 46]"

definition nt_copy_failed :: wstr where
  "nt_copy_failed = hangul [52488, 45824, 32, 53076, 46300, 47484, 32, 48373, 49324, 54624, 32, 49688, 32, 50630,
      49845, 45768, 45796, 46]"

definition nt_clipboard_closed :: wstr where
  "nt_clipboard_closed = hangul [53364, 47549, 48372, 46300, 47484, 32, 50676, 32, 49688, 32, 50630, 49845, 45768, 45796,
      46]"

definition nt_copied :: wstr where
  "nt_copied = hangul [52488, 45824, 32, 53076, 46300, 44032, 32, 48373, 49324, 46104, 50632, 49845, 45768,
      45796, 46]"

definition nt_heading :: wstr where
  "nt_heading = hangul [77, 97, 114, 107, 100, 111, 119, 110, 32, 124, 32, 51228, 47785, 32, 49828, 53440,
      51068, 32, 51201, 50857]"

definition nt_bullet :: wstr where
  "nt_bullet = hangul [77, 97, 114, 107, 100, 111, 119, 110, 32, 124, 32, 47785, 47197, 32, 49828, 53440,
      51068, 32, 51201, 50857]"

definition nt_quote :: wstr where
  "nt_quote = hangul [77, 97, 114, 107, 100, 111, 119, 110, 32, 124, 32, 51064, 50857, 32, 49828, 53440,
      51068, 32, 51201, 50857]"

definition nt_code :: wstr where
  "nt_code = hangul [77, 97, 114, 107, 100, 111, 119, 110, 32, 124, 32, 53076, 46300, 32, 49828, 53440,
      51068, 32, 51201, 50857]"

definition nt_fail_code :: wstr where
  "nt_fail_code = hangul [52488, 45824, 32, 53076, 46300, 44032, 32, 50732, 48148, 47476, 51648, 32, 50506, 49845,
      45768, 45796, 46]"

definition nt_fail_blocked :: wstr where
  "nt_fail_blocked = hangul [51096, 47803, 46108, 32, 51217, 49549, 51060, 32, 48152, 48373, 46104, 50612, 32, 51060,
      32, 48169, 32, 51217, 49549, 51060, 32, 51104, 49884, 32, 52264, 45800, 46104, 50632,
      49845, 45768, 45796, 46]"

definition nt_fail_full :: wstr where
  "nt_fail_full = hangul [48169, 51060, 32, 44032, 46301, 32, 52284, 49845, 45768, 45796, 46, 32, 83, 104, 97,
      114, 101, 78, 111, 116, 101, 112, 97, 100, 32, 77, 86, 80, 45716, 32, 50, 47749,
      44620, 51648, 47564, 32, 51648, 50896, 54633, 45768, 45796, 46]"

definition nt_fail_protocol :: wstr where
  "nt_fail_protocol = hangul [54532, 47196, 44536, 47016, 32, 48260, 51204, 32, 46608, 45716, 32, 53685, 49888, 32,
      48169, 49885, 51060, 32, 47582, 51648, 32, 50506, 49845, 45768, 45796, 46]"

definition nt_fail_prefix :: wstr where
  "nt_fail_prefix = hangul [50672, 44208, 32, 49892, 54056, 58, 32]"

definition nt_err_timeout :: wstr where
  "nt_err_timeout = hangul [50672, 44208, 32, 49884, 44036, 51060, 32, 52488, 44284, 46104, 50632, 49845, 45768,
      45796, 46]"

definition nt_err_connect :: wstr where
  "nt_err_connect = hangul [50672, 44208, 54624, 32, 49688, 32, 50630, 49845, 45768, 45796, 46, 32, 44057, 51008,
      32, 45348, 53944, 50892, 53356, 51064, 51648, 32, 54869, 51064, 54616, 49464, 50836,
      46]"

definition nt_err_closed :: wstr where
  "nt_err_closed = hangul [49345, 45824, 32, 50672, 44208, 51060, 32, 51333, 47308, 46104, 50632, 49845, 45768,
      45796, 46]"

definition nt_err_heartbeat :: wstr where
  "nt_err_heartbeat = hangul [49345, 45824, 32, 51025, 45813, 51060, 32, 50630, 50612, 32, 50672, 44208, 51060, 32,
      45130, 44220, 49845, 45768, 45796, 46]"

definition nt_err_insert :: wstr where
  "nt_err_insert = hangul [54620, 32, 48264, 50640, 32, 48537, 50668, 45347, 45716, 32, 45236, 50857, 51060, 32,
      45320, 47924, 32, 53373, 45768, 45796, 46]"

definition nt_err_session :: wstr where
  "nt_err_session = hangul [49464, 49496, 32, 51221, 48372, 44032, 32, 47582, 51648, 32, 50506, 50500, 32, 46041,
      44592, 54868, 47484, 32, 44144, 51208, 54664, 49845, 45768, 45796, 46]"

definition nt_err_client :: wstr where
  "nt_err_client = hangul [50508, 32, 49688, 32, 50630, 45716, 32, 53364, 46972, 51060, 50616, 53944, 32, 50836,
      52397, 51012, 32, 44144, 51208, 54664, 49845, 45768, 45796, 46]"

definition nt_err_position :: wstr where
  "nt_err_position = hangul [47928, 49436, 32, 50948, 52824, 44032, 32, 47582, 51648, 32, 50506, 50500, 32, 51204,
      52404, 32, 46041, 44592, 54868, 47484, 32, 50836, 52397, 54633, 45768, 45796, 46]"

definition nt_err_unknown :: wstr where
  "nt_err_unknown = hangul [50724, 47448, 44032, 32, 48156, 49373, 54664, 49845, 45768, 45796, 46]"

definition nt_err_prefix :: wstr where
  "nt_err_prefix = hangul [50724, 47448, 58, 32]"

definition nt_hint_list :: wstr where
  "nt_hint_list = hangul [77, 97, 114, 107, 100, 111, 119, 110, 32, 124, 32, 39, 45, 39, 32, 43, 32, 83, 112, 97,
      99, 101, 47196, 32, 47785, 47197, 51012, 32, 49884, 51089, 54616, 49464, 50836, 46]"

definition nt_hint_bold :: wstr where
  "nt_hint_bold = hangul [77, 97, 114, 107, 100, 111, 119, 110, 32, 124, 32, 39, 42, 42, 44405, 44172, 42, 42, 39,
      32, 47928, 48277, 51012, 32, 49324, 50857, 54624, 32, 49688, 32, 51080, 49845, 45768,
      45796, 46]"

definition nt_hint_italic :: wstr where
  "nt_hint_italic = hangul [77, 97, 114, 107, 100, 111, 119, 110, 32, 124, 32, 39, 42, 44592, 50872, 51076, 42, 39,
      32, 47928, 48277, 51012, 32, 49324, 50857, 54624, 32, 49688, 32, 51080, 49845, 45768,
      45796, 46]"

definition nt_hint_strike :: wstr where
  "nt_hint_strike = hangul [77, 97, 114, 107, 100, 111, 119, 110, 32, 124, 32, 39, 126, 126, 52712, 49548, 49440,
      126, 126, 39, 32, 47928, 48277, 51008, 32, 51060, 54980, 32, 45800, 44228, 50640,
      49436, 32, 44053, 54868, 54633, 45768, 45796, 46]"

definition nt_hint_link :: wstr where
  "nt_hint_link = hangul [77, 97, 114, 107, 100, 111, 119, 110, 32, 124, 32, 91, 53581, 49828, 53944, 93, 40,
      51452, 49548, 41, 32, 54805, 49885, 51004, 47196, 32, 47553, 53356, 47484, 32, 51077,
      47141, 54616, 49464, 50836, 46]"

definition nt_hint_table :: wstr where
  "nt_hint_table = hangul [77, 97, 114, 107, 100, 111, 119, 110, 32, 124, 32, 54364, 32, 51077, 47141, 51008, 32,
      51060, 54980, 32, 45800, 44228, 50640, 49436, 32, 52628, 44032, 54633, 45768, 45796,
      46]"

definition si_missing_file :: wstr where
  "si_missing_file = hangul [54596, 49688, 32, 54028, 51068, 51012, 32, 52286, 51012, 32, 49688, 32, 50630, 49845,
      45768, 45796, 58, 32]"

definition si_copy_failed :: wstr where
  "si_copy_failed = hangul [54028, 51068, 32, 48373, 49324, 32, 49892, 54056, 58, 32]"

definition si_missing_dir :: wstr where
  "si_missing_dir = hangul [54596, 49688, 32, 54260, 45908, 47484, 32, 52286, 51012, 32, 49688, 32, 50630, 49845,
      45768, 45796, 58, 32]"

definition si_clean_failed :: wstr where
  "si_clean_failed = hangul [44592, 51316, 32, 85, 73, 32, 54260, 45908, 32, 51221, 47532, 32, 49892, 54056, 58, 32]"

definition si_dir_copy_failed :: wstr where
  "si_dir_copy_failed = hangul [54260, 45908, 32, 48373, 49324, 32, 49892, 54056, 58, 32]"

definition si_no_folder :: wstr where
  "si_no_folder = hangul [49324, 50857, 51088, 32, 49444, 52824, 32, 44221, 47196, 47484, 32, 52286, 51012, 32,
      49688, 32, 50630, 49845, 45768, 45796, 46]"

definition si_mkdir_failed :: wstr where
  "si_mkdir_failed = hangul [49444, 52824, 32, 54260, 45908, 47484, 32, 47564, 46308, 32, 49688, 32, 50630, 49845,
      45768, 45796, 58, 32]"

definition si_close_running :: wstr where
  "si_close_running = hangul [10, 10, 51060, 48120, 32, 49892, 54665, 32, 51473, 51064, 32, 83, 104, 97, 114, 101, 78,
      111, 116, 101, 112, 97, 100, 44032, 32, 51080, 45796, 47732, 32, 45803, 44256, 32,
      45796, 49884, 32, 49892, 54665, 54644, 32, 51452, 49464, 50836, 46]"

definition si_launch_failed :: wstr where
  "si_launch_failed = hangul [49444, 52824, 46108, 32, 83, 104, 97, 114, 101, 78, 111, 116, 101, 112, 97, 100, 47484,
      32, 49892, 54665, 54624, 32, 49688, 32, 50630, 49845, 45768, 45796, 58, 32]"

definition nt_share_wide :: wstr where
  "nt_share_wide = hangul [44277, 50976, 8964]"

definition nt_share :: wstr where
  "nt_share = hangul [44277, 50976]"

definition wv_error :: wstr where
  "wv_error = hangul [87, 101, 98, 86, 105, 101, 119, 50, 32, 52488, 44592, 54868, 50640, 32, 49892, 54056,
      54664, 49845, 45768, 45796, 46, 10, 10, 77, 105, 99, 114, 111, 115, 111, 102, 116,
      32, 69, 100, 103, 101, 32, 87, 101, 98, 86, 105, 101, 119, 50, 32, 82, 117, 110, 116,
      105, 109, 101, 51060, 32, 49444, 52824, 46104, 50612, 32, 51080, 45716, 51648, 32,
      54869, 51064, 54644, 51452, 49464, 50836, 46, 10, 10, 50724, 47448, 58, 32]"

definition ct_tab_1 :: wstr where
  "ct_tab_1 = hangul [32, 32, 49352, 32, 53485, 32, 49]"

definition ct_tab_2 :: wstr where
  "ct_tab_2 = hangul [32, 32, 49352, 32, 53485, 32, 50]"

definition ct_file :: wstr where
  "ct_file = hangul [54028, 51068]"

definition ct_edit :: wstr where
  "ct_edit = hangul [54200, 51665]"

definition ct_view :: wstr where
  "ct_view = hangul [48372, 44592]"

definition ct_style :: wstr where
  "ct_style = hangul [51228, 47785]"

definition ct_list :: wstr where
  "ct_list = hangul [47785, 47197]"

definition ct_bold :: wstr where
  "ct_bold = hangul [44405, 44172]"

definition ct_italic :: wstr where
  "ct_italic = hangul [44592, 50872, 51076]"

definition ct_strike :: wstr where
  "ct_strike = hangul [52712, 49548, 49440]"

definition ct_link :: wstr where
  "ct_link = hangul [47553, 53356]"

definition ct_table :: wstr where
  "ct_table = hangul [54364]"

definition ct_markdown :: wstr where
  "ct_markdown = hangul [77, 68, 32, 48372, 44592]"

definition ct_account :: wstr where
  "ct_account = hangul [51221, 48372]"

definition ct_settings :: wstr where
  "ct_settings = hangul [49444, 51221]"

definition ct_host :: wstr where
  "ct_host = hangul [48169, 32, 47564, 46308, 44592]"

definition ct_join :: wstr where
  "ct_join = hangul [48169, 32, 46308, 50612, 44032, 44592]"

definition ct_recent :: wstr where
  "ct_recent = hangul [52572, 44540, 32, 47928, 49436, 58, 32, 99, 117, 114, 114, 101, 110, 116, 46, 116, 120,
      116]"

definition ct_code :: wstr where
  "ct_code = hangul [52488, 45824, 32, 53076, 46300]"

definition ct_address :: wstr where
  "ct_address = hangul [50672, 44208, 32, 51452, 49548]"

definition ct_port :: wstr where
  "ct_port = hangul [54252, 53944]"

definition ct_connect :: wstr where
  "ct_connect = hangul [50672, 44208]"

definition ct_back :: wstr where
  "ct_back = hangul [46244, 47196]"

definition ct_advanced :: wstr where
  "ct_advanced = hangul [44256, 44553, 32, 50672, 44208]"

definition ct_advanced_hide :: wstr where
  "ct_advanced_hide = hangul [44256, 44553, 32, 49704, 44592, 44592]"

definition ct_ready :: wstr where
  "ct_ready = hangul [51456, 48708, 46120]"

definition mn_file_new :: wstr where
  "mn_file_new = hangul [49352, 32, 53485, 40, 38, 84, 41, 9, 67, 116, 114, 108, 43, 84]"

definition mn_file_save :: wstr where
  "mn_file_save = hangul [51200, 51109, 40, 38, 83, 41, 9, 67, 116, 114, 108, 43, 83]"

definition mn_file_exit :: wstr where
  "mn_file_exit = hangul [45149, 45236, 44592, 40, 38, 88, 41]"

definition mn_edit_undo :: wstr where
  "mn_edit_undo = hangul [49892, 54665, 32, 52712, 49548, 40, 38, 85, 41, 9, 67, 116, 114, 108, 43, 90]"

definition mn_edit_cut :: wstr where
  "mn_edit_cut = hangul [51096, 46972, 45236, 44592, 40, 38, 84, 41, 9, 67, 116, 114, 108, 43, 88]"

definition mn_edit_copy :: wstr where
  "mn_edit_copy = hangul [48373, 49324, 40, 38, 67, 41, 9, 67, 116, 114, 108, 43, 67]"

definition mn_edit_paste :: wstr where
  "mn_edit_paste = hangul [48537, 50668, 45347, 44592, 40, 38, 80, 41, 9, 67, 116, 114, 108, 43, 86]"

definition mn_edit_delete :: wstr where
  "mn_edit_delete = hangul [49325, 51228, 40, 38, 68, 41, 9, 68, 101, 108]"

definition mn_edit_select_all :: wstr where
  "mn_edit_select_all = hangul [47784, 46160, 32, 49440, 53469, 40, 38, 65, 41, 9, 67, 116, 114, 108, 43, 65]"

definition mn_view_preview :: wstr where
  "mn_view_preview = hangul [47560, 53356, 45796, 50868, 32, 48120, 47532, 48372, 44592, 40, 38, 77, 41]"

definition mn_share_host :: wstr where
  "mn_share_host = hangul [48169, 32, 47564, 46308, 44592, 40, 38, 72, 41]"

definition mn_share_join :: wstr where
  "mn_share_join = hangul [48169, 32, 46308, 50612, 44032, 44592, 40, 38, 74, 41]"

definition mn_share_copy :: wstr where
  "mn_share_copy = hangul [52488, 45824, 32, 53076, 46300, 32, 48373, 49324, 40, 38, 67, 41]"

definition mn_share_leave :: wstr where
  "mn_share_leave = hangul [44277, 50976, 32, 51473, 51648, 40, 38, 76, 41]"

definition mn_help_about :: wstr where
  "mn_help_about = hangul [83, 104, 97, 114, 101, 78, 111, 116, 101, 112, 97, 100, 32, 51221, 48372, 40, 38, 65, 41]"

definition mn_file :: wstr where
  "mn_file = hangul [54028, 51068, 40, 38, 70, 41]"

definition mn_edit :: wstr where
  "mn_edit = hangul [54200, 51665, 40, 38, 69, 41]"

definition mn_view :: wstr where
  "mn_view = hangul [48372, 44592, 40, 38, 86, 41]"

definition mn_share :: wstr where
  "mn_share = hangul [44277, 50976, 40, 38, 83, 41]"

definition mn_help :: wstr where
  "mn_help = hangul [46020, 50880, 47568, 40, 38, 72, 41]"

definition ct_about :: wstr where
  "ct_about = hangul [83, 104, 97, 114, 101, 78, 111, 116, 101, 112, 97, 100, 10, 10, 47700, 47784, 51109,
      52376, 47100, 32, 50416, 47732, 49436, 32, 44057, 51008, 32, 45348, 53944, 50892,
      53356, 51032, 32, 54620, 32, 47749, 44284, 32, 49892, 49884, 44036, 51004, 47196, 32,
      44277, 50976, 54616, 45716, 32, 52488, 44221, 47049, 32, 47700, 47784, 51109, 51077,
      45768, 45796, 46]"

definition ct_about_title :: wstr where
  "ct_about_title = hangul [83, 104, 97, 114, 101, 78, 111, 116, 101, 112, 97, 100, 32, 51221, 48372]"

end
