(* ===== verification/Storage.thy ===== *)
theory Storage
  imports TextEncoding Texts
begin

text \<open>
  \<^verbatim>\<open>client/storage.cpp\<close>: the document on disk. The state holds the two files of the data
  directory and the last error; \<open>st_faults\<close> says how the file operations of the coming calls
  fail, one entry for each call, no entry for a call that goes well.
\<close>

datatype io_fault = NoFault | DirFault | OpenFault | WriteFault nat | MoveFault

record storage =
  st_current :: "bytes option"
  st_temp :: "bytes option"
  st_error :: wstr
  st_faults :: "io_fault list"

definition next_fault :: "storage \<Rightarrow> io_fault \<times> storage" where
  "next_fault st =
     (case st_faults st of [] \<Rightarrow> (NoFault, st) | f # fs \<Rightarrow> (f, st\<lparr>st_faults := fs\<rparr>))"

definition HasPrefix :: "bytes \<Rightarrow> bytes \<Rightarrow> bool" where
  "HasPrefix bs pre \<longleftrightarrow> length pre \<le> length bs \<and> (\<forall>i < length pre. bs ! i = pre ! i)"

definition EnsureDataDirectory :: "io_fault \<Rightarrow> storage \<Rightarrow> bool \<times> storage" where
  "EnsureDataDirectory fault st =
     (if fault = DirFault then (False, st\<lparr>st_error := txt_store_dir_failed\<rparr>) else (True, st))"

definition decode_current :: "text_api \<Rightarrow> bytes \<Rightarrow> storage \<Rightarrow> wstr option \<times> storage" where
  "decode_current api payload st =
     (if HasPrefix payload [0xEF, 0xBB, 0xBF] then (Utf8ToWide api (drop 3 payload), st)
      else if HasPrefix payload [0xFF, 0xFE] then (Utf16LeBytesToWide (drop 2 payload), st)
      else case Utf8ToWide api payload of
        None \<Rightarrow> (None, st\<lparr>st_error := txt_store_decode_failed\<rparr>)
      | Some content \<Rightarrow> (Some content, st))"

text \<open>\<open>None\<close> is the result \<^verbatim>\<open>false\<close>; the content is then empty.\<close>

definition LoadCurrent :: "text_api \<Rightarrow> storage \<Rightarrow> wstr option \<times> storage" where
  "LoadCurrent api st =
     (let (fault, st0) = next_fault st; (ok, st1) = EnsureDataDirectory fault st0
      in if \<not> ok then (None, st1)
         else case st_current st1 of
           None \<Rightarrow> (Some [], st1)
         | Some bs \<Rightarrow>
             if fault = OpenFault then (None, st1\<lparr>st_error := txt_store_open_failed\<rparr>)
             else decode_current api bs st1)"

definition SaveCurrent :: "text_api \<Rightarrow> wstr \<Rightarrow> storage \<Rightarrow> bool \<times> storage" where
  "SaveCurrent api content st =
     (let (fault, st0) = next_fault st; (ok, st1) = EnsureDataDirectory fault st0
      in if \<not> ok then (False, st1)
         else
           let bs = WideToUtf8 api content
           in if content \<noteq> [] \<and> bs = [] then (False, st1\<lparr>st_error := txt_store_encode_failed\<rparr>)
              else case fault of
                OpenFault \<Rightarrow> (False, st1\<lparr>st_error := txt_store_temp_failed\<rparr>)
              | WriteFault n \<Rightarrow>
                  (False, st1\<lparr>st_temp := Some (take n bs), st_error := txt_store_write_failed\<rparr>)
              | MoveFault \<Rightarrow> (False, st1\<lparr>st_temp := Some bs, st_error := txt_store_move_failed\<rparr>)
              | _ \<Rightarrow> (True, st1\<lparr>st_current := Some bs, st_temp := None, st_error := []\<rparr>))"

section \<open>Saving is all or nothing\<close>

lemma SaveCurrent_atomic:
  "SaveCurrent api content st = (ok, st') \<Longrightarrow>
   st_current st' = (if ok then Some (WideToUtf8 api content) else st_current st)"
  by (auto simp: SaveCurrent_def next_fault_def EnsureDataDirectory_def Let_def
      split: list.splits io_fault.splits if_splits)

lemma SaveCurrent_ok:
  assumes "utf8_api api" and "st_faults st = []"
  shows "fst (SaveCurrent api content st) \<longleftrightarrow> utf16_wf content"
  using WideToUtf8_empty_iff [OF assms(1), of content] assms(2)
  by (auto simp: SaveCurrent_def next_fault_def EnsureDataDirectory_def Let_def)

section \<open>Loading what was saved\<close>

lemma HasPrefix_append: "HasPrefix bs pre \<longleftrightarrow> (\<exists>r. bs = pre @ r)"
proof
  assume p: "HasPrefix bs pre"
  then have "take (length pre) bs = pre"
    by (intro nth_equalityI) (auto simp: HasPrefix_def)
  then show "\<exists>r. bs = pre @ r"
    by (metis append_take_drop_id)
qed (auto simp: HasPrefix_def nth_append)

lemma no_signature:
  assumes "utf8_api api" and "utf16_wf content"
  shows "\<not> HasPrefix (WideToUtf8 api content) [0xFF, 0xFE]"
    and "HasPrefix (WideToUtf8 api content) [0xEF, 0xBB, 0xBF] \<Longrightarrow> \<exists>w. content = 0xFEFF # w"
proof -
  have codec: "utf8_codec (wide_to_multi api) (multi_to_wide api)"
    using assms(1) by (simp add: utf8_api_def)
  have *: "WideToUtf8 api content = x # xs \<Longrightarrow> wide_to_multi api content = Some (x # xs)" for x xs
    by (auto simp: WideToUtf8_def split: if_splits option.splits)
  show "\<not> HasPrefix (WideToUtf8 api content) [0xFF, 0xFE]"
    using * utf8_codec.enc_not_ff [OF codec] by (auto simp: HasPrefix_append)
  show "HasPrefix (WideToUtf8 api content) [0xEF, 0xBB, 0xBF] \<Longrightarrow> \<exists>w. content = 0xFEFF # w"
    using * utf8_codec.enc_bom [OF codec] by (auto simp: HasPrefix_append)
qed

lemma save_load:
  assumes "utf8_api api" and "SaveCurrent api content st = (True, st')" and "st_faults st' = []"
    and "\<nexists>w. content = 0xFEFF # w"
  shows "LoadCurrent api st' = (Some content, st')"
proof -
  have cur: "st_current st' = Some (WideToUtf8 api content)"
    using SaveCurrent_atomic [OF assms(2)] by simp
  have wf: "utf16_wf content"
  proof (rule ccontr)
    assume "\<not> utf16_wf content"
    then have "content \<noteq> []" "WideToUtf8 api content = []"
      using WideToUtf8_empty_iff [OF assms(1)] by auto
    with assms(2) show False
      by (auto simp: SaveCurrent_def Let_def split: prod.splits if_splits)
  qed
  have "\<not> HasPrefix (WideToUtf8 api content) [0xEF, 0xBB, 0xBF]"
    "\<not> HasPrefix (WideToUtf8 api content) [0xFF, 0xFE]"
    using no_signature [OF assms(1) wf] assms(4) by auto
  then show ?thesis
    using Utf8ToWide_WideToUtf8 [OF assms(1) wf] assms(3)
    by (simp add: LoadCurrent_def next_fault_def EnsureDataDirectory_def Let_def cur decode_current_def)
qed

text \<open>A document that starts with U+FEFF comes back without it.\<close>

lemma save_load_signature:
  assumes "utf8_api api" and "SaveCurrent api (0xFEFF # w) st = (True, st')" and "st_faults st' = []"
    and "WideToUtf8 api (0xFEFF # w) = 0xEF # 0xBB # 0xBF # WideToUtf8 api w" and "utf16_wf w"
  shows "fst (LoadCurrent api st') = Some w"
proof -
  have cur: "st_current st' = Some (0xEF # 0xBB # 0xBF # WideToUtf8 api w)"
    using SaveCurrent_atomic [OF assms(2)] assms(4) by simp
  have "HasPrefix (0xEF # 0xBB # 0xBF # WideToUtf8 api w) [0xEF, 0xBB, 0xBF]"
    by (simp add: HasPrefix_append)
  then show ?thesis
    using Utf8ToWide_WideToUtf8 [OF assms(1,5)] assms(3)
    by (simp add: LoadCurrent_def next_fault_def EnsureDataDirectory_def Let_def cur decode_current_def)
qed

end
