(* ===== verification/WebBridge.thy ===== *)
theory WebBridge
  imports Json
begin

text \<open>
  The JSON the native side exchanges with the web page, in the anonymous namespace of
  \<^verbatim>\<open>client/webview_window.cpp\<close>: \<^verbatim>\<open>EscapeJson\<close> writes a string, \<^verbatim>\<open>ExtractJsonString\<close> finds
  one by searching for its key, \<^verbatim>\<open>HasMessageType\<close> searches for a type, and \<^verbatim>\<open>FilePathToUri\<close>
  builds the address of the page. Searching forward is modelled on the remaining text.
\<close>

definition hex_digit :: "nat \<Rightarrow> wchar" where
  "hex_digit d = (if d < 10 then of_nat (48 + d) else of_nat (87 + d))"

text \<open>\<^verbatim>\<open>\u\<close> and four hexadecimal digits, for a character below 32.\<close>

definition escape_control :: "wchar \<Rightarrow> wstr" where
  "escape_control ch = [ch_backslash, 117, 48, 48, hex_digit (unat ch div 16), hex_digit (unat ch mod 16)]"

definition web_escape_char :: "wchar \<Rightarrow> wstr" where
  "web_escape_char ch =
     (if ch = ch_backslash then [ch_backslash, ch_backslash]
      else if ch = ch_quote then [ch_backslash, ch_quote]
      else if ch = 8 then [ch_backslash, 98]
      else if ch = 12 then [ch_backslash, 102]
      else if ch = 10 then [ch_backslash, 110]
      else if ch = 13 then [ch_backslash, 114]
      else if ch = 9 then [ch_backslash, 116]
      else if ch < 0x20 then escape_control ch
      else [ch])"

definition EscapeJson :: "wstr \<Rightarrow> wstr" where
  "EscapeJson val = concat (map web_escape_char val)"

text \<open>The text after the first occurrence of a pattern.\<close>

fun find_after :: "wstr \<Rightarrow> wstr \<Rightarrow> wstr option" where
  "find_after pat [] = (if pat = [] then Some [] else None)"
| "find_after pat (x # xs) =
     (if take (length pat) (x # xs) = pat then Some (drop (length pat) (x # xs)) else find_after pat xs)"

definition web_unescape :: "wchar \<Rightarrow> wchar" where
  "web_unescape ch =
     (if ch = 98 then 8 else if ch = 102 then 12 else if ch = 110 then 10
      else if ch = 114 then 13 else if ch = 116 then 9 else ch)"

fun extract_body :: "wstr \<Rightarrow> bool \<Rightarrow> wstr \<Rightarrow> wstr option" where
  "extract_body val escaping [] = None"
| "extract_body val escaping (ch # rest) =
     (if escaping then extract_body (val @ [web_unescape ch]) False rest
      else if ch = ch_backslash then extract_body val True rest
      else if ch = ch_quote then Some val
      else extract_body (val @ [ch]) False rest)"

definition ExtractJsonString :: "wstr \<Rightarrow> wstr \<Rightarrow> wstr option" where
  "ExtractJsonString json key =
     (case find_after ([ch_quote] @ key @ [ch_quote]) json of
        None \<Rightarrow> None
      | Some t1 \<Rightarrow>
        (case find_after [ch_colon] t1 of
           None \<Rightarrow> None
         | Some t2 \<Rightarrow>
           (case find_after [ch_quote] t2 of
              None \<Rightarrow> None
            | Some t3 \<Rightarrow> extract_body [] False t3)))"

definition HasMessageType :: "wstr \<Rightarrow> wstr \<Rightarrow> bool" where
  "HasMessageType json ty \<longleftrightarrow>
     find_after ([ch_quote] @ wide ''type'' @ [ch_quote, ch_colon, ch_quote] @ ty @ [ch_quote]) json \<noteq> None"

definition uri_char :: "wchar \<Rightarrow> wstr" where
  "uri_char ch =
     (if ch = 32 then wide ''%20'' else if ch = 37 then wide ''%25'' else if ch = 35 then wide ''%23'' else [ch])"

definition FilePathToUri :: "wstr \<Rightarrow> wstr" where
  "FilePathToUri path =
     wide ''file:///'' @ concat (map uri_char (map (\<lambda>ch. if ch = ch_backslash then ch_slash else ch) path))"

section \<open>Reading back what was written\<close>

text \<open>The characters whose escape the reader understands.\<close>

definition plain_char :: "wchar \<Rightarrow> bool" where
  "plain_char ch \<longleftrightarrow> 0x20 \<le> ch \<or> ch \<in> {8, 9, 10, 12, 13}"

lemma extract_body_char:
  "plain_char ch \<Longrightarrow> extract_body val False (web_escape_char ch @ rest) = extract_body (val @ [ch]) False rest"
  by (auto simp: web_escape_char_def plain_char_def web_unescape_def not_less)

lemma extract_body_escaped:
  "\<forall>ch \<in> set s. plain_char ch \<Longrightarrow>
   extract_body val False (EscapeJson s @ ch_quote # rest) = Some (val @ s)"
  by (induction s arbitrary: val) (simp_all add: EscapeJson_def extract_body_char)

text \<open>A control character written as \<^verbatim>\<open>\u00xx\<close> comes back as five characters.\<close>

lemma extract_body_control:
  assumes "ch < 0x20" and "\<not> plain_char ch"
  shows "extract_body val False (web_escape_char ch @ rest) =
         extract_body (val @ [117, 48, 48, hex_digit (unat ch div 16), hex_digit (unat ch mod 16)]) False rest"
proof -
  have u: "unat ch < 32"
    using assms(1) by (simp add: word_less_nat_alt)
  have "hex_digit d \<noteq> ch_backslash \<and> hex_digit d \<noteq> ch_quote" if "d < 16" for d
    using that by (auto simp: hex_digit_def word_unat_eq_iff unat_of_nat simp del: of_nat_add)
  then have h: "hex_digit (unat ch div 16) \<noteq> ch_backslash" "hex_digit (unat ch div 16) \<noteq> ch_quote"
    "hex_digit (unat ch mod 16) \<noteq> ch_backslash" "hex_digit (unat ch mod 16) \<noteq> ch_quote"
    using u by simp_all
  have "web_escape_char ch = escape_control ch"
    using assms u by (auto simp: web_escape_char_def plain_char_def word_less_nat_alt)
  with h show ?thesis
    by (simp add: escape_control_def web_unescape_def)
qed

end
