(* ===== verification/WebSync.thy ===== *)
theory WebSync
  imports FullSync SyncClient Storage WebBridge
begin

text \<open>
  The synchronisation half of \<^verbatim>\<open>client/webview_window.cpp\<close>, the user interface that runs in a
  web view: the record \<open>web\<close> has the fields of \<^verbatim>\<open>WebViewWindow\<close> that take part, \<open>w_posted\<close> the
  messages posted to the page. Log lines written to \<^verbatim>\<open>Logger\<close> are left out. Everything here
  runs on the user-interface thread; the server and client objects it owns are modelled by
  \<^verbatim>\<open>SyncServer\<close> and \<^verbatim>\<open>SyncClient\<close>.
\<close>

datatype sync_role = Offline | Host | Guest

record web =
  w_server :: server
  w_client :: client
  w_announced :: "(wstr \<times> u16) option"
  w_storage :: storage
  w_role :: sync_role
  w_session :: wstr
  w_local :: wstr
  w_revision :: u64
  w_sync_revision :: u64
  w_chunks :: "wstr list"
  w_received :: "bool list"
  w_text :: wstr
  w_webview :: bool
  w_posted :: "wstr list"
  w_closing :: bool

section \<open>Messages to the page\<close>

definition post :: "wstr \<Rightarrow> web \<Rightarrow> web" where
  "post json w = (if w_webview w then w\<lparr>w_posted := w_posted w @ [json]\<rparr> else w)"

definition json_key :: "string \<Rightarrow> wstr" where
  "json_key key = [ch_quote] @ wide key @ [ch_quote, ch_colon]"

definition json_text :: "wstr \<Rightarrow> wstr" where
  "json_text val = [ch_quote] @ EscapeJson val @ [ch_quote]"

definition page_message :: "string \<Rightarrow> wstr \<Rightarrow> wstr" where
  "page_message ty payload =
     [ch_lbrace] @ json_key ''type'' @ [ch_quote] @ wide ty @ [ch_quote, ch_comma]
     @ json_key ''payload'' @ [ch_lbrace] @ payload @ [ch_rbrace, ch_rbrace]"

definition PostStatus :: "wstr \<Rightarrow> wstr \<Rightarrow> web \<Rightarrow> web" where
  "PostStatus save_status connection_status w =
     post (page_message ''statusChanged''
       (json_key ''saveStatus'' @ json_text save_status @ [ch_comma]
        @ json_key ''connectionStatus'' @ json_text connection_status)) w"

definition PostRoomCreated :: "wstr \<Rightarrow> web \<Rightarrow> web" where
  "PostRoomCreated code w = post (page_message ''roomCreated'' (json_key ''code'' @ json_text code)) w"

definition PostDocument :: "wstr \<Rightarrow> web \<Rightarrow> web" where
  "PostDocument doc w = post (page_message ''hydrateDocument'' (json_key ''text'' @ json_text doc)) w"

definition save_current :: "text_api \<Rightarrow> wstr \<Rightarrow> web \<Rightarrow> bool \<times> web" where
  "save_current api doc w =
     (let (ok, st) = SaveCurrent api doc (w_storage w) in (ok, w\<lparr>w_storage := st\<rparr>))"

section \<open>The whole document arrives\<close>

definition ApplyFullSyncDocument :: "text_api \<Rightarrow> wstr \<Rightarrow> u64 \<Rightarrow> web \<Rightarrow> web" where
  "ApplyFullSyncDocument api doc r w =
     (let w1 = w\<lparr>w_text := doc, w_revision := r\<rparr>;
          w2 = snd (save_current api doc w1)
      in PostStatus txt_autosave_done txt_connected (PostDocument doc w2))"

definition RequestFullSync :: "text_api \<Rightarrow> web \<Rightarrow> web" where
  "RequestFullSync api w =
     (case w_role w of
        Guest \<Rightarrow>
          PostStatus txt_autosave_ready txt_sync_requested
            (w\<lparr>w_client := snd (SendSyncRequest api (w_revision w) (w_client w))\<rparr>)
      | Host \<Rightarrow> ApplyFullSyncDocument api (document (w_server w)) (revision (w_server w)) w
      | Offline \<Rightarrow> w)"

definition optional_number :: "protocol_message \<Rightarrow> string \<Rightarrow> u64 \<Rightarrow> u64" where
  "optional_number m key dflt = (case GetNumber m (wide key) of None \<Rightarrow> dflt | Some n \<Rightarrow> n)"

text \<open>A chunk of another response starts the collection anew.\<close>

definition start_response :: "u64 \<Rightarrow> nat \<Rightarrow> web \<Rightarrow> web" where
  "start_response r count w =
     (if w_sync_revision w \<noteq> r \<or> length (w_chunks w) \<noteq> count
      then w\<lparr>w_sync_revision := r, w_chunks := replicate count [], w_received := replicate count False\<rparr>
      else w)"

definition store_chunk :: "nat \<Rightarrow> wstr \<Rightarrow> web \<Rightarrow> web" where
  "store_chunk index chunk_text w =
     w\<lparr>w_chunks := (w_chunks w)[index := chunk_text], w_received := (w_received w)[index := True]\<rparr>"

definition ApplySyncResponse :: "text_api \<Rightarrow> protocol_message \<Rightarrow> web \<Rightarrow> web" where
  "ApplySyncResponse api message w =
     (case (GetString message (wide ''text''), GetNumber message (wide ''rev'')) of
        (Some chunk_text, Some r) \<Rightarrow>
          let chunk_index = optional_number message ''chunk_index'' 0;
              count = optional_number message ''chunk_count'' 1
          in if count = 0 \<or> chunk_index \<ge> count then w
             else if count > 1 then
               let w2 = store_chunk (unat chunk_index) chunk_text (start_response r (unat count) w)
               in if \<not> list_all id (w_received w2)
                  then PostStatus txt_autosave_ready txt_syncing w2
                  else ApplyFullSyncDocument api (concat (w_chunks w2)) r
                         (w2\<lparr>w_chunks := [], w_received := []\<rparr>)
             else ApplyFullSyncDocument api chunk_text r (w\<lparr>w_chunks := [], w_received := []\<rparr>)
      | _ \<Rightarrow> w)"

section \<open>One edit arrives\<close>

definition remote_edit :: "protocol_message \<Rightarrow> wstr \<Rightarrow> nat \<Rightarrow> wstr \<Rightarrow> document_apply_status \<times> wstr" where
  "remote_edit message operation position doc =
     (if operation = wide ''INSERT'' then
        (case GetString message (wide ''text'') of
           None \<Rightarrow> (InvalidOperation, doc)
         | Some inserted \<Rightarrow> ApplyInsertToContent doc position inserted)
      else if operation = wide ''DELETE'' then
        (case GetNumber message (wide ''len'') of
           None \<Rightarrow> (InvalidOperation, doc)
         | Some len \<Rightarrow> ApplyDeleteToContent doc position (unat len))
      else (InvalidOperation, doc))"

definition ApplySyncApply :: "text_api \<Rightarrow> protocol_message \<Rightarrow> web \<Rightarrow> web" where
  "ApplySyncApply api message w =
     (case (GetNumber message (wide ''rev''), GetNumber message (wide ''pos''), GetString message (wide ''op'')) of
        (Some r, Some position, Some operation) \<Rightarrow>
          if r \<le> w_revision w then w
          else if msg_client message = w_local w then w\<lparr>w_revision := r\<rparr>
          else if r \<noteq> w_revision w + 1 then RequestFullSync api w
          else
            (case remote_edit message operation (unat position) (w_text w) of
               (Applied, doc) \<Rightarrow>
                 let w1 = w\<lparr>w_text := doc, w_revision := r\<rparr>;
                     w2 = snd (save_current api doc w1)
                 in PostStatus txt_autosave_done txt_connected (PostDocument doc w2)
             | _ \<Rightarrow> RequestFullSync api w)
      | _ \<Rightarrow> w)"

definition HandleSyncEvent :: "text_api \<Rightarrow> sync_event \<Rightarrow> web \<Rightarrow> web" where
  "HandleSyncEvent api event w =
     (case ev_type event of
        EvApply \<Rightarrow> ApplySyncApply api (ev_message event) w
      | EvSyncResponse \<Rightarrow> ApplySyncResponse api (ev_message event) w
      | EvDisconnected \<Rightarrow> PostStatus txt_autosave_ready txt_disconnected w
      | EvError \<Rightarrow> PostStatus txt_autosave_ready
                    (if ev_detail event = [] then txt_sync_error else ev_detail event) w)"

section \<open>Local edits\<close>

definition send_local_operation :: "text_api \<Rightarrow> editor_operation \<Rightarrow> web \<Rightarrow> web" where
  "send_local_operation api operation w =
     (if w_role w = Host then
        (case ApplyLocalOperation api operation (w_local w) (w_server w) of
           (None, s) \<Rightarrow> RequestFullSync api (w\<lparr>w_server := s\<rparr>)
         | (Some apply_message, s) \<Rightarrow>
             w\<lparr>w_server := s, w_revision := optional_number apply_message ''rev'' (w_revision w)\<rparr>)
      else
        let base_revision = w_revision w
        in w\<lparr>w_client := snd (case op_type operation of
               OpInsert \<Rightarrow> SendInsert api base_revision (op_position operation) (op_text operation) (w_client w)
             | OpDelete \<Rightarrow> SendDelete api base_revision (op_position operation) (op_length operation) (w_client w))\<rparr>)"

definition SendLocalOperations :: "text_api \<Rightarrow> editor_diff_result \<Rightarrow> web \<Rightarrow> web" where
  "SendLocalOperations api diff w =
     (if \<not> changed diff \<or> w_role w = Offline then w
      else fold (send_local_operation api) (operations diff) w)"

section \<open>Draining the event queues\<close>

lemma post_frame [simp]:
  "w_server (post j w) = w_server w" "w_client (post j w) = w_client w" "w_text (post j w) = w_text w"
  "w_revision (post j w) = w_revision w" "w_role (post j w) = w_role w" "w_local (post j w) = w_local w"
  "w_chunks (post j w) = w_chunks w" "w_received (post j w) = w_received w"
  "w_sync_revision (post j w) = w_sync_revision w" "w_storage (post j w) = w_storage w"
  "w_session (post j w) = w_session w"
  by (simp_all add: post_def)

lemma save_current_frame [simp]:
  "w_server (snd (save_current api d w)) = w_server w"
  "w_client (snd (save_current api d w)) = w_client w"
  "w_text (snd (save_current api d w)) = w_text w"
  "w_revision (snd (save_current api d w)) = w_revision w"
  "w_role (snd (save_current api d w)) = w_role w"
  "w_local (snd (save_current api d w)) = w_local w"
  "w_chunks (snd (save_current api d w)) = w_chunks w"
  "w_received (snd (save_current api d w)) = w_received w"
  "w_sync_revision (snd (save_current api d w)) = w_sync_revision w"
  "w_session (snd (save_current api d w)) = w_session w"
  by (simp_all add: save_current_def split: prod.splits)

lemmas post_defs = PostStatus_def PostDocument_def PostRoomCreated_def

lemma ApplyFullSyncDocument_effect [simp]:
  "w_server (ApplyFullSyncDocument api d r w) = w_server w"
  "w_client (ApplyFullSyncDocument api d r w) = w_client w"
  "w_text (ApplyFullSyncDocument api d r w) = d"
  "w_revision (ApplyFullSyncDocument api d r w) = r"
  "w_role (ApplyFullSyncDocument api d r w) = w_role w"
  "w_local (ApplyFullSyncDocument api d r w) = w_local w"
  "w_chunks (ApplyFullSyncDocument api d r w) = w_chunks w"
  "w_received (ApplyFullSyncDocument api d r w) = w_received w"
  "w_sync_revision (ApplyFullSyncDocument api d r w) = w_sync_revision w"
  by (simp_all add: ApplyFullSyncDocument_def Let_def post_defs)

lemma RequestFullSync_queues [simp]:
  "w_server (RequestFullSync api w) = w_server w"
  "c_events (w_client (RequestFullSync api w)) = c_events (w_client w)"
  by (simp_all add: RequestFullSync_def post_defs SendSyncRequest_def split: sync_role.splits)

lemma ApplySyncApply_queues [simp]:
  "w_server (ApplySyncApply api m w) = w_server w"
  "c_events (w_client (ApplySyncApply api m w)) = c_events (w_client w)"
  by (simp_all add: ApplySyncApply_def post_defs Let_def
      split: option.splits prod.splits document_apply_status.splits)

lemma start_response_frame [simp]:
  "w_server (start_response r n w) = w_server w" "w_client (start_response r n w) = w_client w"
  "w_server (store_chunk i d w) = w_server w" "w_client (store_chunk i d w) = w_client w"
  by (simp_all add: start_response_def store_chunk_def)

lemma ApplySyncResponse_queues [simp]:
  "w_server (ApplySyncResponse api m w) = w_server w"
  "w_client (ApplySyncResponse api m w) = w_client w"
  by (simp_all add: ApplySyncResponse_def post_defs Let_def split: option.splits prod.splits)

lemma HandleSyncEvent_queues [simp]:
  "w_server (HandleSyncEvent api e w) = w_server w"
  "c_events (w_client (HandleSyncEvent api e w)) = c_events (w_client w)"
  by (simp_all add: HandleSyncEvent_def post_defs split: sync_event_type.splits)

lemma TryPopEvent_shorter: "TryPopEvent s = (Some e, s') \<Longrightarrow> length (event_queue s') < length (event_queue s)"
  by (cases "event_queue s") (auto simp: TryPopEvent_def)

lemma TryPopClientEvent_shorter: "TryPopClientEvent c = (Some e, c') \<Longrightarrow> length (c_events c') < length (c_events c)"
  by (cases "c_events c") (auto simp: TryPopClientEvent_def)

function drain_server_events :: "text_api \<Rightarrow> web \<Rightarrow> web" where
  "drain_server_events api w =
     (case TryPopEvent (w_server w) of
        (None, s) \<Rightarrow> w\<lparr>w_server := s\<rparr>
      | (Some event, s) \<Rightarrow> drain_server_events api (HandleSyncEvent api event (w\<lparr>w_server := s\<rparr>)))"
  by pat_completeness auto
termination
  by (relation "measure (\<lambda>(_, w). length (event_queue (w_server w)))")
    (auto dest: TryPopEvent_shorter [OF sym])

function drain_client_events :: "text_api \<Rightarrow> web \<Rightarrow> web" where
  "drain_client_events api w =
     (case TryPopClientEvent (w_client w) of
        (None, c) \<Rightarrow> w\<lparr>w_client := c\<rparr>
      | (Some event, c) \<Rightarrow> drain_client_events api (HandleSyncEvent api event (w\<lparr>w_client := c\<rparr>)))"
  by pat_completeness auto
termination
  by (relation "measure (\<lambda>(_, w). length (c_events (w_client w)))")
    (auto dest: TryPopClientEvent_shorter [OF sym])

declare drain_server_events.simps [simp del] drain_client_events.simps [simp del]

definition DrainSyncEvents :: "text_api \<Rightarrow> web \<Rightarrow> web" where
  "DrainSyncEvents api w = drain_client_events api (drain_server_events api w)"

end
