(* ===== verification/WebLemmas.thy ===== *)
theory WebLemmas
  imports Follower Assembly WebSync
begin

text \<open>
  What the web user interface makes of the messages of the server: the chunks of a
  SYNC_RESPONSE are put together in whatever order they come, an APPLY stream keeps a guest
  equal to the server, and the two together with the transport deliver a document end to end.
\<close>

section \<open>Assembling chunks\<close>

definition web_buffers :: "web \<Rightarrow> chunk_buffers" where
  "web_buffers w = (w_sync_revision w, w_chunks w, w_received w)"

interpretation web_collector: chunk_collector "ApplySyncResponse api" w_text w_revision web_buffers for api
proof
  fix m t r and w :: web
  assume "GetString m (wide ''text'') = Some t" "GetNumber m (wide ''rev'') = Some r"
    "GetNumber m (wide ''chunk_index'') = Some 0" "GetNumber m (wide ''chunk_count'') = Some 1"
  then show "w_text (ApplySyncResponse api m w) = t \<and> w_revision (ApplySyncResponse api m w) = r"
    by (simp add: ApplySyncResponse_def optional_number_def Let_def)
next
  fix m t r i n sr cs fs and w :: web
  assume m: "GetString m (wide ''text'') = Some t" "GetNumber m (wide ''rev'') = Some r"
    "GetNumber m (wide ''chunk_index'') = Some i" "GetNumber m (wide ''chunk_count'') = Some n" "1 < n" "i < n"
    and st: "store_in_buffers r (unat n) (unat i) t (web_buffers w) = (sr, cs, fs)"
  define w2 where "w2 = store_chunk (unat i) t (start_response r (unat n) w)"
  have b: "w_sync_revision w2 = sr" "w_chunks w2 = cs" "w_received w2 = fs"
    using st by (auto simp: web_buffers_def w2_def store_chunk_def start_response_def split: if_splits)
  have "n \<noteq> 0" "\<not> n \<le> i" using m(5,6) by auto
  then have "ApplySyncResponse api m w =
      (if \<not> list_all id (w_received w2) then PostStatus txt_autosave_ready txt_syncing w2
       else ApplyFullSyncDocument api (concat (w_chunks w2)) r (w2\<lparr>w_chunks := [], w_received := []\<rparr>))"
    using m by (simp add: ApplySyncResponse_def optional_number_def Let_def w2_def [symmetric])
  then show "if list_all id fs then w_text (ApplySyncResponse api m w) = concat cs \<and> w_revision (ApplySyncResponse api m w) = r
      else web_buffers (ApplySyncResponse api m w) = (sr, cs, fs)"
    using b by (simp add: web_buffers_def post_defs)
qed

section \<open>Following the edits of the host\<close>

lemma remote_edit_announced:
  assumes "announced_edit m = Some e" and "edit_allowed e doc"
    and "GetNumber m (wide ''pos'') = Some pos" and "GetString m (wide ''op'') = Some operation"
  shows "remote_edit m operation (unat pos) doc = (Applied, do_edit e doc)"
  using assms
  by (auto simp: announced_edit_def remote_edit_def edit_allowed_def do_edit_def
      insert_applied delete_applied split: if_splits option.splits)

lemma ApplySyncApply_follows:
  assumes "announced_edit m = Some e" and "edit_allowed e (w_text w)"
    and "GetNumber m (wide ''rev'') = Some (w_revision w + 1)"
    and "unat (w_revision w) + 1 < 2 ^ 64" and "msg_client m \<noteq> w_local w"
  shows "w_text (ApplySyncApply api m w) = do_edit e (w_text w) \<and>
         w_revision (ApplySyncApply api m w) = w_revision w + 1 \<and>
         w_local (ApplySyncApply api m w) = w_local w \<and> w_role (ApplySyncApply api m w) = w_role w"
proof -
  obtain pos operation where f: "GetNumber m (wide ''pos'') = Some pos" "GetString m (wide ''op'') = Some operation"
    using announced_edit_fields [OF assms(1)] by blast
  have "\<not> w_revision w + 1 \<le> w_revision w"
    using next_revision [OF assms(4)] by (simp add: word_le_nat_alt)
  with assms(3,5) f remote_edit_announced [OF assms(1,2) f] show ?thesis
    by (simp add: ApplySyncApply_def post_defs Let_def)
qed

text \<open>The web window is a follower of the host's edits.\<close>

interpretation web_follower: edit_follower "ApplySyncApply api" w_text w_revision w_local "\<lambda>_ :: web. True" for api
proof
  fix m e and w :: web
  assume "announced_edit m = Some e" "edit_allowed e (w_text w)"
    "GetNumber m (wide ''rev'') = Some (w_revision w + 1)" "unat (w_revision w) + 1 < 2 ^ 64" "msg_client m \<noteq> w_local w"
  then show "w_text (ApplySyncApply api m w) = do_edit e (w_text w) \<and>
      w_revision (ApplySyncApply api m w) = w_revision w + 1 \<and>
      w_local (ApplySyncApply api m w) = w_local w \<and> True"
    using ApplySyncApply_follows by blast
qed

section \<open>Events\<close>

lemma drain_server_events_Nil: "event_queue (w_server w) = [] \<Longrightarrow> drain_server_events api w = w"
proof -
  assume "event_queue (w_server w) = []"
  then have "TryPopEvent (w_server w) = (None, w_server w)"
    by (simp add: TryPopEvent_def)
  then show ?thesis by (cases w) (simp add: drain_server_events.simps)
qed

text \<open>
  Draining handles the queued events in order. Only the client object changes besides, so the
  statement is about what the handlers compute from the rest.
\<close>

lemma drain_client_events_Cons:
  assumes "c_events (w_client w) = e # es"
  shows "drain_client_events api w =
         drain_client_events api (HandleSyncEvent api e (w\<lparr>w_client := (w_client w)\<lparr>c_events := es\<rparr>\<rparr>))"
  using assms by (subst drain_client_events.simps) (simp add: TryPopClientEvent_def)

lemma drain_client_events_Nil: "c_events (w_client w) = [] \<Longrightarrow> drain_client_events api w = w"
proof -
  assume "c_events (w_client w) = []"
  then have "TryPopClientEvent (w_client w) = (None, w_client w)"
    by (simp add: TryPopClientEvent_def)
  then show ?thesis by (cases w) (simp add: drain_client_events.simps)
qed

lemma SaveCurrent_client: "snd (save_current api d (w\<lparr>w_client := c\<rparr>)) = (snd (save_current api d w))\<lparr>w_client := c\<rparr>"
  by (simp add: save_current_def split: prod.splits)

lemma post_client: "post j (w\<lparr>w_client := c\<rparr>) = (post j w)\<lparr>w_client := c\<rparr>"
  by (simp add: post_def)

lemma ApplySyncResponse_client:
  "ApplySyncResponse api m (w\<lparr>w_client := c\<rparr>) = (ApplySyncResponse api m w)\<lparr>w_client := c\<rparr>"
proof -
  have swap: "w\<lparr>w_client := c, w_text := d, w_revision := r\<rparr> = w\<lparr>w_text := d, w_revision := r, w_client := c\<rparr>"
    for w :: web and d r by simp
  have full: "ApplyFullSyncDocument api d r (w\<lparr>w_client := c\<rparr>) = (ApplyFullSyncDocument api d r w)\<lparr>w_client := c\<rparr>"
    for d r w
    using SaveCurrent_client [where w = "w\<lparr>w_text := d, w_revision := r\<rparr>" and d = d and c = c and api = api]
    by (simp add: ApplyFullSyncDocument_def Let_def post_defs swap flip: post_client)
  have parts: "store_chunk i d (start_response r n (w\<lparr>w_client := c\<rparr>)) =
      (store_chunk i d (start_response r n w))\<lparr>w_client := c\<rparr>"
    "w\<lparr>w_client := c, w_chunks := a, w_received := b\<rparr> = w\<lparr>w_chunks := a, w_received := b, w_client := c\<rparr>"
    for w :: web and a b i d r n
    by (simp_all add: store_chunk_def start_response_def)
  show ?thesis
    unfolding ApplySyncResponse_def Let_def
    using full by (auto simp: PostStatus_def post_client parts split: option.splits)
qed

lemma drain_sync_responses:
  assumes "c_events (w_client w) = map message_event ms" and "\<forall>m \<in> set ms. msg_type m = MsgSyncResponse"
  shows "\<exists>c. drain_client_events api w = (fold (ApplySyncResponse api) ms w)\<lparr>w_client := c\<rparr>"
  using assms
proof (induction ms arbitrary: w)
  case Nil
  have "w\<lparr>w_client := w_client w\<rparr> = w" by simp
  with Nil show ?case
    using drain_client_events_Nil [of w api] by (intro exI [of _ "w_client w"]) simp
next
  case (Cons m ms)
  define w1 where "w1 = w\<lparr>w_client := (w_client w)\<lparr>c_events := map message_event ms\<rparr>\<rparr>"
  have "HandleSyncEvent api (message_event m) w1 = ApplySyncResponse api m w1"
    using Cons.prems by (simp add: HandleSyncEvent_def message_event_def)
  then have *: "drain_client_events api w = drain_client_events api (ApplySyncResponse api m w1)"
    using drain_client_events_Cons [of w "message_event m" "map message_event ms" api] Cons.prems(1)
    by (simp add: w1_def)
  have fold_client: "fold (ApplySyncResponse api) xs (v\<lparr>w_client := c\<rparr>) =
      (fold (ApplySyncResponse api) xs v)\<lparr>w_client := c\<rparr>" for xs v c
    by (induction xs arbitrary: v) (simp_all add: ApplySyncResponse_client)
  have "\<exists>c. drain_client_events api (ApplySyncResponse api m w1) =
      (fold (ApplySyncResponse api) ms (ApplySyncResponse api m w1))\<lparr>w_client := c\<rparr>"
    using Cons.prems(2) by (intro Cons.IH) (simp_all add: w1_def)
  then show ?case
    unfolding * by (auto simp: w1_def ApplySyncResponse_client fold_client)
qed

end
