(* ===== verification/Delivery.thy ===== *)
theory Delivery
  imports WebLemmas
begin

text \<open>
  From the document of the server, over the wire, to the text of a guest: the pieces of a full
  synchronisation put together.
\<close>

lemma wide_type_SYNC: "received (sync_chunk doc r s i) = m \<Longrightarrow> msg_type m = MsgSyncResponse"
  by (auto simp: sync_chunk_get)

text \<open>Every payload of the response is read back as its chunk.\<close>

lemma sync_payloads_read:
  assumes "utf8_api api" and "session_ok (session_code s)" and "chunks_wf doc"
  shows "\<forall>(p, m) \<in> set (zip (sync_payloads api doc r s)
            (map (\<lambda>i. received (sync_chunk doc r s i)) [0..<chunk_count doc])).
          DeserializeMessage api p = (NoError, m) \<and> length p + 4096 \<le> kMaxFramePayloadBytes + 1"
proof -
  have "DeserializeMessage api (WideToUtf8 api (message_json (sync_chunk doc r s i))) =
      (NoError, received (sync_chunk doc r s i)) \<and>
      length (WideToUtf8 api (message_json (sync_chunk doc r s i))) + 4096 \<le> kMaxFramePayloadBytes + 1"
    if "i < chunk_count doc" for i
  proof -
    have wf: "utf16_wf (chunk kSyncChunkChars doc i)"
      using assms(3) that by (simp add: chunks_wf_def)
    show ?thesis
      using serialize_deserialize [OF assms(1) message_ok_sync_chunk sync_chunk_serialises [OF assms(1,2) wf]]
        sync_chunk_payload_bound [OF assms(1,2) wf] by blast
  qed
  then show ?thesis
    by (auto simp: sync_payloads_def zip_map_map set_zip)
qed

lemma fold_receive_client:
  "\<forall>m \<in> set ms. msg_type m = MsgSyncResponse \<Longrightarrow>
   c_events (fold (receive_message now) ms c) = c_events c @ map message_event ms"
  by (rule receive_messages_events) simp

text \<open>However the bytes of a response are cut, the receive loop takes every chunk.\<close>

lemma response_frames_received:
  assumes "utf8_api api" and "session_ok (session_code s)" and "chunks_wf doc"
    and "concat segs = frames (sync_payloads api doc r s)" and "\<forall>seg \<in> set segs. seg \<noteq> [] \<and> length seg \<le> 4096"
    and "\<not> c_stopping c" and "c_socket c = Some j" and "c_decoder c = []" and "c_input c = map Received segs"
  shows "\<exists>d i. receive_rounds api now (chunk_count doc) c =
    Some ((fold (receive_message now) (map (\<lambda>i. received (sync_chunk doc r s i)) [0..<chunk_count doc]) c)
      \<lparr>c_decoder := d, c_input := i\<rparr>)"
proof -
  define ms where "ms = map (\<lambda>i. received (sync_chunk doc r s i)) [0..<chunk_count doc]"
  define ps where "ps = sync_payloads api doc r s"
  have len: "length ps = length ms" "length ms = chunk_count doc"
    by (simp_all add: ps_def ms_def sync_payloads_def)
  have "\<exists>d i. receive_rounds api now (length (zip ps ms)) c =
      Some ((fold (receive_message now) (map snd (zip ps ms)) c)\<lparr>c_decoder := d, c_input := i\<rparr>)"
  proof (rule receive_rounds_stream)
    show "\<forall>(p, m) \<in> set (zip ps ms). DeserializeMessage api p = (NoError, m) \<and>
        length p + 4096 \<le> kMaxFramePayloadBytes + 1"
      unfolding ps_def ms_def by (rule sync_payloads_read [OF assms(1,2,3)])
    show "c_decoder c @ concat segs = frames (map fst (zip ps ms))"
      using assms(4,8) len by (simp add: ps_def)
  qed (use assms in simp_all)
  then show ?thesis using len by (simp add: ms_def)
qed

text \<open>The response of a server as it arrives: all of it is sent, and there is one event for each chunk.\<close>

lemma response_received:
  assumes "utf8_api api" and "session_ok (session_code s)" and "reliable (net s k)"
    and "conn_wire (net s k) = []" and "chunks_wf (document s)"
    and "concat segs = conn_wire (net (snd (SendSyncResponse api k s)) k)"
    and "\<forall>seg \<in> set segs. seg \<noteq> [] \<and> length seg \<le> 4096"
    and "\<not> c_stopping c" and "c_socket c = Some j" and "c_decoder c = []" and "c_events c = []"
    and "c_input c = map Received segs"
  shows "fst (SendSyncResponse api k s)"
    and "\<exists>c'. receive_rounds api now (chunk_count (document s)) c = Some c' \<and>
      c_events c' = map message_event (map (\<lambda>i. received (sync_chunk (document s) (revision s) s i)) [0..<chunk_count (document s)])"
proof -
  define ms where "ms = map (\<lambda>i. received (sync_chunk (document s) (revision s) s i)) [0..<chunk_count (document s)]"
  obtain s' where s': "SendSyncResponse api k s = (True, s')"
    "conn_wire (net s' k) = frames (sync_payloads api (document s) (revision s) s)"
    using SendSyncResponse_reliable [OF assms(1-3,5)] assms(4) by auto
  have cut: "concat segs = frames (sync_payloads api (document s) (revision s) s)"
    using assms(6) s' by simp
  obtain d i where "receive_rounds api now (chunk_count (document s)) c =
      Some ((fold (receive_message now) ms c)\<lparr>c_decoder := d, c_input := i\<rparr>)"
    using response_frames_received [OF assms(1,2,5) cut assms(7-10,12), of now] by (auto simp: ms_def)
  moreover have "c_events ((fold (receive_message now) ms c)\<lparr>c_decoder := d, c_input := i\<rparr>) = map message_event ms"
    using fold_receive_client [of ms now c] assms(11) by (auto simp: ms_def sync_chunk_get)
  ultimately show "fst (SendSyncResponse api k s)" "\<exists>c'. receive_rounds api now (chunk_count (document s)) c = Some c' \<and>
      c_events c' = map message_event (map (\<lambda>i. received (sync_chunk (document s) (revision s) s i)) [0..<chunk_count (document s)])"
    using s' by (auto simp: ms_def)
qed

text \<open>What the window holds after draining the events of a whole response.\<close>

lemma drain_response:
  assumes "length doc \<le> kMaxDocumentChars" and "w_chunks w = []" and "event_queue (w_server w) = []"
    and "c_events (w_client w) =
           map message_event (map (\<lambda>i. received (sync_chunk doc r s i)) [0..<chunk_count doc])"
  shows "w_text (DrainSyncEvents api w) = doc \<and> w_revision (DrainSyncEvents api w) = r"
proof -
  define ms where "ms = map (\<lambda>i. received (sync_chunk doc r s i)) [0..<chunk_count doc]"
  obtain c where c: "drain_client_events api w = (fold (ApplySyncResponse api) ms w)\<lparr>w_client := c\<rparr>"
    using drain_sync_responses [of w ms api] assms(4) by (auto simp: ms_def sync_chunk_get)
  show ?thesis
    using web_collector.assemble_response [OF chunk_count_bound [OF assms(1)], of w "w_received w" api r s] assms(2)
    unfolding DrainSyncEvents_def drain_server_events_Nil [OF assms(3)] c by (simp add: ms_def web_buffers_def)
qed

end
