(* ===== verification/Examples.thy ===== *)
theory Examples
  imports Utf8 SessionSafety Delivery
begin

text \<open>
  Concrete states for the witnesses of the properties: a connection that takes one byte, then
  seven, then everything; a server with the document \<^verbatim>\<open>hi\<close>; a client and a window of a guest;
  and a run of the system in which a guest has joined.
\<close>

definition ready_conn :: conn where
  "ready_conn = \<lparr>conn_open = True, conn_script = [SendCount 1, SendCount 7], conn_wire = []\<rparr>"

definition example_server :: server where
  "example_server = SyncServer_init
     \<lparr>session_code := wide ''123456'', document := wide ''hi'', revision := 4, net := \<lambda>_. ready_conn,
      peer_socket := Some 1, peer_joined := True, running := True\<rparr>"

definition example_client :: client where
  "example_client = SyncClient_init
     \<lparr>c_socket := Some ready_conn, c_connected := True, c_session_code := wide ''123456'',
      c_assigned := wide ''B''\<rparr>"

definition example_web :: web where
  "example_web =
     \<lparr>w_server = SyncServer_init, w_client = example_client, w_announced = None,
      w_storage = \<lparr>st_current = None, st_temp = None, st_error = [], st_faults = []\<rparr>,
      w_role = Guest, w_session = wide ''123456'', w_local = wide ''B'', w_revision = 0,
      w_sync_revision = 0, w_chunks = [], w_received = [], w_text = [], w_webview = True,
      w_posted = [], w_closing = False\<rparr>"

lemmas example_defs = example_server_def example_client_def example_web_def SyncServer_init_def SyncClient_init_def

lemma reliable_ready_conn: "reliable ready_conn"
proof -
  have "SendCount 1 = SendCount (Suc 0)" "SendCount 7 = SendCount (Suc 6)" by simp_all
  then show ?thesis unfolding reliable_def ready_conn_def by auto
qed

lemma session_ok_example: "session_ok (wide ''123456'')"
  by (simp add: session_ok_def)

lemma text_ok_wide: "length s \<le> 1000 \<Longrightarrow> text_ok (wide s)"
  by (simp add: text_ok_def)

lemma typed_ok_wide: "length s \<le> 7000 \<Longrightarrow> typed_ok (wide s)"
  by (simp add: typed_ok_def)

lemma chunks_wf_short: "length doc \<le> kSyncChunkChars \<Longrightarrow> utf16_wf doc \<Longrightarrow> chunks_wf doc"
  by (auto simp: chunks_wf_def chunk_count_def chunk_def kSyncChunkChars_def)

section \<open>A run with a joined guest\<close>

lemma token_example: "GenerateReconnectToken SyncServer_init = wide ''local-token''"
  by (simp add: GenerateReconnectToken_def SyncServer_init_def)

lemma token_ok: "next_guid s = None \<Longrightarrow> text_ok (GenerateReconnectToken s)"
  by (simp add: GenerateReconnectToken_def text_ok_wide)

text \<open>HELLO and JOIN arrive one byte at a time.\<close>

lemma joined_run:
  "\<exists>y. reachable utf8_ref y \<and> \<not> stopping (srv y) \<and> peer_joined (srv y) \<and> length (threads y) = 1 \<and>
       th_decoder (threads y ! 0) = [] \<and> th_input (threads y ! 0) = [] \<and> document (srv y) = [] \<and>
       session_code (srv y) = wide ''123456'' \<and> (\<exists>join. th_phase (threads y ! 0) = Serving join)"
proof -
  let ?code = "wide ''123456''"
  obtain ok s0 where s0: "Start utf8_ref (\<lambda>_. BindOk 0) ?code 7777 SyncServer_init = (ok, s0)" by force
  have st: "session_code s0 = ?code" "stopping s0 = False" "peer_joined s0 = False" "failed_join_count s0 = 0"
    "next_guid s0 = None" "\<And>j. reliable (net s0 j)" "peer_socket s0 = None" "ok = True"
    "listen_socket s0 = Some 0" "document s0 = []"
    using s0
    by (auto simp: Start_def Stop_def SyncServer_init_def BindListenSocket_def BindListenSocket_from.simps
        Let_def ClosePeerSocket_def CloseListenSocket_def reliable_def split: prod.splits bool.splits)
  have c0: "c_socket example_client = Some ready_conn" "text_ok (c_token example_client)"
    by (simp_all add: example_defs text_ok_def)
  obtain k' b1 b2 where b: "DeserializeMessage utf8_ref b1 = (NoError, received (hello_message ?code (wide ''d'') (wide ''n'')))"
    "DeserializeMessage utf8_ref b2 = (NoError, received (join_message ?code (c_token example_client)))"
    "length b1 + 4096 \<le> kMaxFramePayloadBytes + 1" "length b2 + 4096 \<le> kMaxFramePayloadBytes + 1"
    using SendHelloAndJoin_reliable [OF utf8_api_ref session_ok_example text_ok_wide text_ok_wide c0(2,1) reliable_ready_conn,
        of "''d''" "''n''"] by auto
  define segs where "segs = map (\<lambda>x. [x]) (frames [b1, b2])"
  have segs: "concat segs = frames [b1, b2]" "\<forall>x \<in> set segs. x \<noteq> [] \<and> length x \<le> 4096"
    by (auto simp: segs_def)
  have clock: "in_time kHandshakeTimeoutMs [0, 10]"
    by (simp add: in_time_def kHandshakeTimeoutMs_def)
  have types: "msg_type (received (hello_message ?code (wide ''d'') (wide ''n''))) = MsgHello"
    "msg_type (received (join_message ?code (c_token example_client))) = MsgJoin"
    "optional_string (received (join_message ?code (c_token example_client))) ''join_code'' = session_code s0"
    by (simp_all add: hello_message_def join_message_def optional_string_def st(1))
  obtain t' s' where run: "handle_rounds utf8_ref [0, 10] 6 ((new_thread 1)\<lparr>th_input := map Received segs\<rparr>) s0 = Some (t', s')"
    "th_phase t' = Serving (received (join_message ?code (c_token example_client)))" "peer_joined s'" "stopping s' = stopping s0"
    "th_decoder t' = []" "th_input t' = []" "document s' = document s0" "session_code s' = session_code s0"
    using join_rounds [OF utf8_api_ref b(1) types(1) b(3) b(2) types(2) b(4) segs, of s0 1 "[0, 10]"] st types(3) clock
      session_ok_example token_ok [OF st(5)]
    by (auto simp: IsJoinBlocked_def kMaxFailedJoinAttempts_def)
  define y0 where "y0 = initial_system\<lparr>srv := s0, accepting := True\<rparr>"
  define y1 where "y1 = y0\<lparr>threads := [new_thread 1]\<rparr>"
  define y2 where "y2 = y1\<lparr>threads := [(new_thread 1)\<lparr>th_input := map Received segs\<rparr>]\<rparr>"
  have r0: "reachable utf8_ref y0"
    using reachable.step [OF reachable.init step.start, of utf8_ref "\<lambda>_. BindOk 0" ?code 7777 ok s0] s0 st(8)
    by (simp add: y0_def initial_system_def)
  have r1: "reachable utf8_ref y1"
    using reachable.step [OF r0 step.accept, of 1] st by (simp add: y0_def y1_def initial_system_def)
  have r2: "reachable utf8_ref y2"
    using reachable.step [OF r1 step.network, of 0 "map Received segs"]
    by (simp add: y1_def y2_def new_thread_def)
  have "reachable utf8_ref (y2\<lparr>threads := (threads y2)[0 := t'], srv := s'\<rparr>)"
    by (rule reachable_rounds [OF r2]) (use run in \<open>simp_all add: y2_def y1_def y0_def\<close>)
  then show ?thesis
    using run st(1,2,10) by (intro exI [of _ "y2\<lparr>threads := (threads y2)[0 := t'], srv := s'\<rparr>"]) (simp add: y2_def)
qed

text \<open>The guest then inserts a character: the INSERT arrives in one piece, and the next step of its thread applies it.\<close>

lemma edited_run:
  "\<exists>y t s. reachable utf8_ref y \<and> length (threads y) = 1 \<and> \<not> stopping (srv y) \<and>
     HandleClient utf8_ref [] (threads y ! 0) (srv y) = Some (t, s) \<and> document (srv y) = [] \<and> document s = wide ''x''"
proof -
  obtain y0 join where y0: "reachable utf8_ref y0" "\<not> stopping (srv y0)" "length (threads y0) = 1"
    "th_decoder (threads y0 ! 0) = []" "th_input (threads y0 ! 0) = []" "document (srv y0) = []"
    "session_code (srv y0) = wide ''123456''" "th_phase (threads y0 ! 0) = Serving join"
    using joined_run by blast
  let ?m = "insert_message 0 0 (wide ''x'') example_client"
  have m: "msg_client ?m = wide ''B''" "msg_session ?m = wide ''123456''" "msg_type ?m = MsgInsert"
    by (simp_all add: insert_message_def client_message_def example_defs)
  obtain b where b: "DeserializeMessage utf8_ref b = (NoError, received ?m)" "length b + 4096 \<le> kMaxFramePayloadBytes + 1"
    by (rule small_message_sent [OF utf8_api_ref small_insert [of example_client "wide ''x''" 0 0]])
      (simp_all add: example_defs session_ok_example text_ok_wide typed_ok_wide)
  define segs where "segs = map (\<lambda>x. [x]) (EncodeFrame b)"
  define t0 where "t0 = (threads y0 ! 0)\<lparr>th_input := map Received segs\<rparr>"
  define y where "y = y0\<lparr>threads := [t0]\<rparr>"
  obtain t1 where t1: "threads y0 = [t1]" using y0(3) by (cases "threads y0") auto
  have reach: "reachable utf8_ref y"
    using reachable.step [OF y0(1) step.network, of 0 "map Received segs"] y0(5)
    by (simp add: t1 t0_def y_def)
  have "th_decoder t0 @ concat segs = EncodeFrame b @ []" "\<forall>x \<in> set segs. x \<noteq> [] \<and> length x \<le> 4096"
    using y0(4) by (auto simp: t0_def segs_def)
  then obtain d i where recv: "ReceiveProtocolMessage utf8_ref (th_input t0) (th_decoder t0) = Some (RecvMessage (received ?m), d, i)"
    using receive_frame [of "th_decoder t0" segs b "[]" 4096 utf8_ref "[]"] b by (auto simp: t0_def)
  have r: "requested_edit (received ?m) = Some (0, 0, wide ''x'')"
    by (simp add: requested_edit_def insert_message_def client_message_def)
  have acc: "edit_accepted (received ?m) (srv y0)"
    using r m y0(6,7) by (simp add: edit_accepted_def edit_allowed_def kMaxInsertChars_def kMaxDocumentChars_def)
  obtain a s1 where a: "ApplyMessageToDocument utf8_ref (received ?m) (srv y0) = (Inr a, s1)"
    "document s1 = do_edit (0, 0, wide ''x'') (document (srv y0))"
    by (rule accepted_edit [OF acc r, of utf8_ref])
  have doc: "document s1 = wide ''x''"
    using a(2) y0(6) by (simp add: do_edit_def splice_def wide_def)
  have "HandleClient utf8_ref [] t0 (srv y0) = Some (t0\<lparr>th_decoder := d, th_input := i, th_phase := SendApply join a\<rparr>,
      PushEvent (default_event\<lparr>ev_type := EvApply, ev_message := a\<rparr>) s1)"
    using y0(2,7,8) recv m a(1) by (simp add: t0_def HandleClient_def serve_def edit_and_notify_def)
  then show ?thesis
    using reach y0(2,6) doc by (intro exI [of _ y]) (simp add: y_def)
qed

end
