(* ===== verification/TransportProps.thy ===== *)
theory TransportProps
  imports Examples
begin

text \<open>
  Properties of the wire: JSON, messages, frames, sending and receiving, and of the change
  detection that feeds it.
\<close>

text \<open>
  C12: what one side serialises, the other side reads back: the same type, session and client, the
  same value for every string field besides those three, and the same numbers, whatever
  characters the strings contain.
\<close>

theorem message_roundtrip:
  assumes "utf8_api api" and "message_ok m" and "SerializeMessage api m = Inr b"
  shows "\<exists>m'. DeserializeMessage api b = (NoError, m') \<and> msg_type m' = msg_type m \<and>
    msg_session m' = msg_session m \<and> msg_client m' = msg_client m \<and>
    (\<forall>k. IsCommonField k \<or> GetString m' k = GetString m k) \<and> (\<forall>k. GetNumber m' k = GetNumber m k)"
proof -
  have "IsCommonField k \<or> GetString (received m) k = GetString m k" for k
    by (cases "IsCommonField k") simp_all
  then show ?thesis
    using serialize_deserialize [OF assms] by (intro exI [of _ "received m"]) simp
qed

lemma message_roundtrip_witness:
  "\<exists>b m'. SerializeMessage utf8_ref (join_message (wide ''123456'') (wide ''\"a,b}'')) = Inr b \<and>
     DeserializeMessage utf8_ref b = (NoError, m') \<and>
     GetString m' (wide ''reconnect_token'') = Some (wide ''\"a,b}'')"
proof -
  let ?m = "join_message (wide ''123456'') (wide ''\"a,b}'')"
  have small: "small_message ?m"
    by (rule small_join [OF session_ok_example text_ok_wide]) simp
  obtain b where b: "SerializeMessage utf8_ref ?m = Inr b"
    by (rule small_message_sent [OF utf8_api_ref small])
  have ok: "message_ok ?m" using small by (simp add: small_message_def)
  obtain m' where "DeserializeMessage utf8_ref b = (NoError, m')"
    "\<forall>k. IsCommonField k \<or> GetString m' k = GetString ?m k"
    using message_roundtrip [OF utf8_api_ref ok b] by blast
  then show ?thesis
    using b by (intro exI [of _ b] exI [of _ m']) (auto simp: join_message_def dest: spec [of _ "wide ''reconnect_token''"])
qed

text \<open>
  The complete condition for sending: a message is serialised exactly when its type is known,
  session and client are not empty, no field contains half of a surrogate pair, and its UTF-8
  form fits a frame; the payload is then between 1 and 65536 bytes.
\<close>

theorem serialize_condition:
  assumes "utf8_api api"
  shows "(\<exists>b. SerializeMessage api m = Inr b \<and> 0 < length b \<and> length b \<le> kMaxFramePayloadBytes) \<longleftrightarrow>
    msg_type m \<noteq> MsgUnknown \<and> msg_session m \<noteq> [] \<and> msg_client m \<noteq> [] \<and>
    list_all field_wf (message_fields m) \<and>
    length (WideToUtf8 api (message_json m)) \<le> kMaxFramePayloadBytes"
proof -
  have ne: "message_json m \<noteq> []" by (simp add: message_json_fields)
  have "WideToUtf8 api (message_json m) \<noteq> [] \<longleftrightarrow> list_all field_wf (message_fields m)"
    using WideToUtf8_empty_iff [OF assms, of "message_json m"] ne utf16_wf_message [of m]
    by (auto simp: list_all_iff)
  then show ?thesis
    by (auto simp: SerializeMessage_def Let_def)
qed

lemma serialize_condition_witness:
  "\<not> (\<exists>b. SerializeMessage utf8_ref (join_message (wide ''1'') [0xD800]) = Inr b \<and>
         0 < length b \<and> length b \<le> kMaxFramePayloadBytes)"
  using serialize_condition [OF utf8_api_ref, of "join_message (wide ''1'') [0xD800]"]
  by (simp add: join_fields_of is_high_surrogate_def)

text \<open>
  C25: \<^verbatim>\<open>ParseUnsigned\<close> reads the longest run of digits and succeeds exactly when there is one and
  its decimal value fits 64 bits; the value is then exact, with no wrap-around.
\<close>

theorem parse_unsigned_exact:
  "ParseUnsigned xs =
     (if takeWhile iswdigit xs \<noteq> [] \<and> digits_value 0 (takeWhile iswdigit xs) < 2 ^ 64
      then Some (of_nat (digits_value 0 (takeWhile iswdigit xs)), dropWhile iswdigit xs) else None)"
  using ParseUnsigned_exact [of xs] by (simp add: Let_def)

text \<open>
  An escaped string is read back unchanged and the reader stops right after its closing
  quote, whatever follows; the escaped form itself never ends the string early.
\<close>

theorem json_string_roundtrip:
  "ParseJsonString (ch_quote # EscapeJsonString s @ ch_quote # rest) = Some (s, rest) \<and>
   parse_string_body val (EscapeJsonString s) = None"
  using ParseJsonString_escaped [of s rest] escaped_has_no_closing_quote [of val s] by simp

text \<open>
  The decoder takes a frame out of its buffer exactly when the buffer starts with one whose
  payload is within the limit, and what stays is exactly the rest.
\<close>

theorem decoder_exact:
  "FrameDecoder_TryReadFrame buf = (Some p, e, r) \<longleftrightarrow>
   e = NoError \<and> length p \<le> kMaxFramePayloadBytes \<and> buf = EncodeFrame p @ r"
  by (rule TryReadFrame_exact)

text \<open>
  C11: framing does not depend on how the stream is cut. Fed with the pieces of a stream of frames,
  the decoder gives exactly the payloads and is empty at the end, provided that a payload and a
  piece together stay within the buffer limit: with the pieces of up to 4096 bytes the program
  receives, payloads up to 61441 bytes.
\<close>

theorem frames_any_segmentation:
  assumes "concat segs = frames ps" and "\<forall>s \<in> set segs. length s \<le> n"
    and "\<forall>p \<in> set ps. length p + n \<le> kMaxFramePayloadBytes + 1" and "0 < n"
  shows "feed segs [] = Some (ps, [])"
  by (rule feed_stream [of "[]" segs ps n]) (use assms in \<open>auto simp: drained_def split: list.splits\<close>)

lemma frames_any_segmentation_witness:
  "feed [[0, 0], [0, 2, 7, 8, 0, 0], [0, 1, 9]] [] = Some ([[7, 8], [9]], [])"
proof -
  have "frames [[7, 8], [9]] = [0, 0, 0, 2, 7, 8, 0, 0, 0, 1, 9]"
    by (simp add: EncodeFrame_def Let_def)
  then show ?thesis
    using frames_any_segmentation [of "[[0, 0], [0, 2, 7, 8, 0, 0], [0, 1, 9]]" "[[7, 8], [9]]" 6]
    by (simp add: kMaxFramePayloadBytes_def)
qed

text \<open>
  Beyond that bound the decoder rejects streams both sides consider valid. When all of a frame
  but its last byte is buffered and the next piece brings more bytes than the limit leaves
  room for, the append fails and the buffer is lost, although every frame is within the limit.
\<close>

theorem decoder_rejects_valid_stream:
  assumes "length p \<le> kMaxFramePayloadBytes" and "b @ s = EncodeFrame p @ r" and "length b = length p + 3"
    and "kMaxFramePayloadBytes + 1 < length p + length s"
  shows "FrameDecoder_TryReadFrame b = (None, NoError, b) \<and> FrameDecoder_Append s b = (FrameTooLarge, []) \<and>
         FrameDecoder_TryReadFrame (b @ s) = (Some p, NoError, r)"
  using TryReadFrame_partial [OF assms(2) _ assms(1)] TryReadFrame_EncodeFrame [OF assms(1), of r] assms
  by (simp add: FrameDecoder_Append_def)

lemma decoder_rejects_valid_stream_witness:
  "\<exists>b s. FrameDecoder_Append s b = (FrameTooLarge, []) \<and> length s = 2 \<and>
         FrameDecoder_TryReadFrame (b @ s) = (Some (replicate kMaxFramePayloadBytes 65), NoError, [0])"
proof -
  let ?p = "replicate kMaxFramePayloadBytes (65 :: byte)"
  let ?f = "EncodeFrame ?p @ [0]"
  have "FrameDecoder_Append (drop (kMaxFramePayloadBytes + 3) ?f) (take (kMaxFramePayloadBytes + 3) ?f) = (FrameTooLarge, []) \<and>
      FrameDecoder_TryReadFrame (take (kMaxFramePayloadBytes + 3) ?f @ drop (kMaxFramePayloadBytes + 3) ?f) = (Some ?p, NoError, [0])"
    using decoder_rejects_valid_stream [of ?p "take (kMaxFramePayloadBytes + 3) ?f" "drop (kMaxFramePayloadBytes + 3) ?f" "[0]"]
    by (simp add: min_def del: take_append drop_append)
  then show ?thesis
    by (intro exI [of _ "take (kMaxFramePayloadBytes + 3) ?f"] exI [of _ "drop (kMaxFramePayloadBytes + 3) ?f"])
      (simp del: take_append drop_append)
qed

text \<open>
  \<^verbatim>\<open>SendAll\<close> copes with partial sends. Whatever the counts \<^verbatim>\<open>send\<close> returns, a prefix of the
  buffer has been sent; when it reports success, exactly the buffer; and it does report success
  when no call fails.
\<close>

theorem send_all_exact:
  "(\<exists>n. conn_wire (snd (SendAll bs c)) = conn_wire c @ take n bs \<and> (\<not> fst (SendAll bs c) \<or> length bs \<le> n)) \<and>
   (fst (SendAll bs c) \<or> \<not> reliable c)"
  using SendAll_wire [of bs c "fst (SendAll bs c)" "snd (SendAll bs c)"] SendAll_reliable [of c bs] by auto

lemma send_all_exact_witness:
  "conn_wire (snd (SendAll [1, 2, 3, 4, 5, 6, 7, 8, 9] ready_conn)) = [1, 2, 3, 4, 5, 6, 7, 8, 9]"
  using send_all_exact [of "[1, 2, 3, 4, 5, 6, 7, 8, 9]" ready_conn] reliable_ready_conn
  by (auto simp: ready_conn_def)

text \<open>
  C26: the handshake timeout bounds silence: while every \<^verbatim>\<open>recv\<close> times out, the wait makes one call
  for each clock reading up to the deadline and gives up at the first reading after it, with the
  decoder as it was.
\<close>

theorem handshake_timeout:
  assumes "FrameDecoder_TryReadFrame d = (None, NoError, d)"
    and "\<forall>t \<in> set early. t \<le> start + ucast timeout" and "start + ucast timeout < late"
  shows "ReceiveProtocolMessageWithin api (start # early @ late # clock) timeout
           (replicate (length early) (RecvFailed WSAETIMEDOUT) @ input) d = Some (None, d, input)"
  using receive_until_silent [OF assms] by (simp add: ReceiveProtocolMessageWithin_def)

lemma handshake_timeout_witness:
  "ReceiveProtocolMessageWithin utf8_ref [100, 1100, 4100, 5101] kHandshakeTimeoutMs
     [RecvFailed WSAETIMEDOUT, RecvFailed WSAETIMEDOUT, Received [1]] [0, 0] = Some (None, [0, 0], [Received [1]])"
proof -
  have "FrameDecoder_TryReadFrame [0, 0] = (None, NoError, [0, 0])"
    by (simp add: FrameDecoder_TryReadFrame_def)
  moreover have "\<forall>t \<in> set [1100, 4100 :: u64]. t \<le> 100 + ucast kHandshakeTimeoutMs"
    "100 + ucast kHandshakeTimeoutMs < (5101 :: u64)"
    by (simp_all add: kHandshakeTimeoutMs_def)
  ultimately show ?thesis
    using handshake_timeout [of "[0, 0]" "[1100, 4100]" 100 kHandshakeTimeoutMs 5101 utf8_ref "[]" "[Received [1]]"]
    by simp
qed

text \<open>
  It does not bound a slow peer. However many pieces of an incomplete frame arrive, the call
  goes on to the next \<^verbatim>\<open>recv\<close> without looking at the clock, so the deadline is never reached
  while they keep coming.
\<close>

theorem handshake_drip:
  assumes "concat segs @ rest = EncodeFrame p" and "rest \<noteq> []" and "\<forall>s \<in> set segs. s \<noteq> []"
    and "length p \<le> kMaxFramePayloadBytes" and "now \<le> start + ucast timeout"
  shows "ReceiveProtocolMessageWithin api (start # now # clock) timeout (map Received segs @ input) [] =
         ReceiveProtocolMessageWithin api (start # now # clock) timeout input (concat segs)"
  using receive_drip [OF assms(1-4), of api input] assms(5) by (simp add: ReceiveProtocolMessageWithin_def)

lemma handshake_drip_witness:
  "ReceiveProtocolMessageWithin utf8_ref [0, 0] kHandshakeTimeoutMs
     [Received [0], Received [0], Received [0], Received [9], Received [1], Received [2], Received []] [] =
   Some (None, [0, 0, 0, 9, 1, 2], [])"
proof -
  have frame: "[0, 0, 0, 9, 1, 2] @ [3, 4, 5, 6, 7, 8, 9] = EncodeFrame [1, 2, 3, 4, 5, 6, 7, 8, 9]"
    by (simp add: EncodeFrame_def Let_def)
  have "FrameDecoder_TryReadFrame [0, 0, 0, 9, 1, 2] = (None, NoError, [0, 0, 0, 9, 1, 2])"
    by (rule TryReadFrame_partial [of _ "[3, 4, 5, 6, 7, 8, 9]" "[1, 2, 3, 4, 5, 6, 7, 8, 9]" "[]"])
      (simp_all only: frame append_Nil2, simp_all add: kMaxFramePayloadBytes_def)
  then have closed: "ReceiveProtocolMessageWithin utf8_ref [0, 0] kHandshakeTimeoutMs [Received []] [0, 0, 0, 9, 1, 2] =
      Some (None, [0, 0, 0, 9, 1, 2], [])"
    by (simp add: ReceiveProtocolMessageWithin_def receive_cases(3))
  have "ReceiveProtocolMessageWithin utf8_ref [0, 0] kHandshakeTimeoutMs
      (map Received [[0], [0], [0], [9], [1], [2]] @ [Received []]) [] =
    ReceiveProtocolMessageWithin utf8_ref [0, 0] kHandshakeTimeoutMs [Received []] (concat [[0], [0], [0], [9], [1], [2]])"
    by (rule handshake_drip [where rest = "[3, 4, 5, 6, 7, 8, 9]" and p = "[1, 2, 3, 4, 5, 6, 7, 8, 9]"])
      (use frame in \<open>simp_all add: kMaxFramePayloadBytes_def\<close>)
  then show ?thesis using closed by simp
qed

text \<open>
  C14: the operations \<^verbatim>\<open>ComputeEditorDiff\<close> returns for a text within the document limit,
  applied in order to the old text, are all accepted and give exactly the new text.
\<close>

theorem editor_diff_correct:
  assumes "length new_text \<le> kMaxDocumentChars"
  shows "valid (ComputeEditorDiff old_text new_text) \<and>
         apply_operations (operations (ComputeEditorDiff old_text new_text)) old_text = Some new_text"
  using assms diff_reproduces [OF assms, of old_text] by (auto simp: ComputeEditorDiff_def Let_def split: prod.splits)

lemma editor_diff_correct_witness:
  "apply_operations (operations (ComputeEditorDiff [1, 2, 3] [1, 9, 8, 3])) [1, 2, 3] = Some [1, 9, 8, 3]"
  using editor_diff_correct [of "[1, 9, 8, 3]" "[1, 2, 3]"] by (simp add: kMaxDocumentChars_def)

text \<open>
  C15: the difference is minimal: no way of replacing one stretch of the old text by another one
  deletes fewer characters or inserts fewer than the operations of \<^verbatim>\<open>ComputeEditorDiff\<close> do.
\<close>

theorem editor_diff_minimal:
  assumes "length (p @ i @ s) \<le> kMaxDocumentChars"
  shows "deleted_chars (operations (ComputeEditorDiff (p @ d @ s) (p @ i @ s))) \<le> length d \<and>
         inserted_chars (operations (ComputeEditorDiff (p @ d @ s) (p @ i @ s))) \<le> length i"
  by (rule diff_minimal [OF assms])

lemma editor_diff_minimal_witness:
  "deleted_chars (operations (ComputeEditorDiff ([1] @ [2, 3] @ [4]) ([1] @ [2] @ [4]))) \<le> 2"
  using editor_diff_minimal [of "[1]" "[2]" "[4]" "[2, 3]"] by (simp add: kMaxDocumentChars_def)

end
