(* ===== verification/ServerProps.thy ===== *)
theory ServerProps
  imports TransportProps
begin

text \<open>
  Properties of the server: edits, the session, joining, binding and the whole document.
\<close>

section \<open>An edit that is accepted but cannot be sent\<close>

lemma is_ascii_simps [simp]:
  "is_ascii []" "is_ascii (u # us) \<longleftrightarrow> unat u < 0x80 \<and> is_ascii us"
  "is_ascii (us @ vs) \<longleftrightarrow> is_ascii us \<and> is_ascii vs"
  by (auto simp: is_ascii_def)

lemma is_ascii_escape: "is_ascii (EscapeJsonString s) \<longleftrightarrow> is_ascii s"
  by (induction s) (simp_all add: EscapeJsonString_def escape_char_def)

lemma is_ascii_stream: "is_ascii (stream_u64 n)"
  using dec_digits_digits [of "unat n"] by (auto simp: is_ascii_def stream_u64_def iswdigit_unat)

fun field_ascii :: "field \<Rightarrow> bool" where
  "field_ascii (StrField k v) \<longleftrightarrow> is_ascii k \<and> is_ascii v"
| "field_ascii (NumField k n) \<longleftrightarrow> is_ascii k"

lemma is_ascii_field: "field_ascii f \<Longrightarrow> is_ascii (field_json f)"
  by (cases f) (simp_all add: field_json_def is_ascii_escape is_ascii_stream)

lemma is_ascii_message: "\<forall>f \<in> set (message_fields m). field_ascii f \<Longrightarrow> is_ascii (message_json m)"
proof -
  assume all: "\<forall>f \<in> set (message_fields m). field_ascii f"
  obtain f fs where fs: "message_fields m = f # fs" by (simp add: message_fields_def)
  have "is_ascii (concat (map (\<lambda>g. ch_comma # field_json g) gs))" if "\<forall>g \<in> set gs. field_ascii g" for gs
    using that by (induction gs) (simp_all add: is_ascii_field)
  with all fs show ?thesis by (simp add: message_json_fields is_ascii_field)
qed

lemma length_field_in_message: "f \<in> set (message_fields m) \<Longrightarrow> length (field_json f) < length (message_json m)"
proof -
  assume f: "f \<in> set (message_fields m)"
  obtain g gs where gs: "message_fields m = g # gs" by (simp add: message_fields_def)
  have "f \<in> set gs \<Longrightarrow> length (field_json f) \<le> length (concat (map (\<lambda>g. ch_comma # field_json g) gs))" for gs
    by (induction gs) auto
  with f gs show ?thesis by (fastforce simp: message_json_fields)
qed

lemma SerializeMessage_too_large:
  assumes "utf8_api api" and "\<forall>f \<in> set (message_fields m). field_ascii f" and "f \<in> set (message_fields m)"
    and "kMaxFramePayloadBytes \<le> length (field_json f)"
  shows "\<exists>e. SerializeMessage api m = Inl e"
proof -
  have "wide_to_multi api (message_json m) = Some (map ucast (message_json m))"
    using assms(1) is_ascii_message [OF assms(2)] utf8_codec.enc_ascii by (auto simp: utf8_api_def)
  then have "length (WideToUtf8 api (message_json m)) = length (message_json m)"
    by (simp add: WideToUtf8_def)
  then show ?thesis
    using length_field_in_message [OF assms(3)] assms(4) by (auto simp: SerializeMessage_def Let_def)
qed

lemma length_newlines: "length (EscapeJsonString (replicate n 10)) = 2 * n"
  by (induction n) (simp_all add: EscapeJsonString_def escape_char_def)

text \<open>
  A local insertion of 32768 line breaks is within every limit the server checks: it changes
  the document and the revision. Its APPLY message does not fit a frame, so nothing at all is
  sent to the joined peer, and \<^verbatim>\<open>ApplyLocalOperation\<close> reports success.
\<close>

theorem large_insert_not_sent:
  assumes "utf8_api api" and "is_ascii (session_code s)" and "p \<le> length (document s)"
    and "length (document s) + kMaxInsertChars \<le> kMaxDocumentChars"
  shows "\<exists>m s'. ApplyLocalOperation api (insert_op p (replicate kMaxInsertChars 10)) (wide ''A'') s = (Some m, s') \<and>
     document s' = splice p 0 (replicate kMaxInsertChars 10) (document s) \<and> revision s' = revision s + 1 \<and>
     net s' = net s"
proof -
  let ?t = "replicate kMaxInsertChars (10 :: wchar)"
  define m where "m = local_request (insert_op p ?t) (wide ''A'') s"
  have pos: "unat (of_nat p :: u64) = p"
    using assms(3,4) by (intro unat_of_nat_u64) (simp add: kMaxDocumentChars_def)
  have m: "msg_type m = MsgInsert" "msg_session m = session_code s" "msg_client m = wide ''A''"
    "GetNumber m (wide ''pos'') = Some (of_nat p)" "GetString m (wide ''text'') = Some ?t"
    by (simp_all add: m_def local_request_def insert_op_def)
  have edit: "edit_document m (of_nat p) (document s) = (Applied, splice p 0 ?t (document s))"
    using m pos assms(3,4) by (simp add: edit_document_def kMaxInsertChars_def insert_applied)
  define s1 where "s1 = s\<lparr>document := splice p 0 ?t (document s), revision := revision s + 1\<rparr>"
  define a where "a = apply_message_for m (of_nat p) (revision s + 1) s1"
  define s2 where "s2 = log_line api (apply_log_line m (of_nat p) (revision s + 1)) s1"
  have ap: "ApplyMessageToDocument api m s = (Inr a, s2)"
    using m edit by (simp add: ApplyMessageToDocument_def Let_def a_def s1_def s2_def)
  have fields: "message_fields a =
     [StrField (wide ''type'') (wide ''APPLY''), StrField (wide ''session'') (session_code s1),
      StrField (wide ''client'') (msg_client m), StrField (wide ''op'') (wide ''INSERT''), StrField (wide ''text'') ?t,
      NumField (wide ''pos'') (of_nat p), NumField (wide ''rev'') (revision s + 1)]"
    unfolding a_def by (rule apply_insert_fields [OF m(1,5)])
  have "is_ascii ?t" by (simp add: is_ascii_def)
  then have ascii: "\<forall>f \<in> set (message_fields a). field_ascii f"
    unfolding fields using assms(2) m(3)
    by (simp add: s1_def) (simp add: wide_def)
  have "\<exists>e. SerializeMessage api a = Inl e"
    by (rule SerializeMessage_too_large [OF assms(1) ascii, of "StrField (wide ''text'') ?t"])
      (simp_all add: fields field_json_def length_newlines kMaxInsertChars_def kMaxFramePayloadBytes_def)
  then have "snd (BroadcastApply api a s2) = s2"
    by (auto simp: BroadcastApply_def send_to_ill_formed split: option.splits)
  then have "ApplyLocalOperation api (insert_op p ?t) (wide ''A'') s = (Some a, s2)"
    using ap by (simp add: ApplyLocalOperation_def m_def)
  then show ?thesis by (simp add: s1_def s2_def)
qed

lemma large_insert_not_sent_witness:
  "\<exists>m s'. ApplyLocalOperation utf8_ref (insert_op 1 (replicate kMaxInsertChars 10)) (wide ''A'') example_server = (Some m, s') \<and>
     net s' = net example_server \<and> peer_socket example_server = Some 1"
proof -
  have "is_ascii (wide ''123456'')" by (simp add: wide_def)
  then show ?thesis
    using large_insert_not_sent [OF utf8_api_ref, of example_server 1]
    by (auto simp: example_defs kMaxInsertChars_def kMaxDocumentChars_def)
qed

section \<open>Edits and the session\<close>

text \<open>
  C7: what an edit request does. It is accepted exactly when its session is the one of the server,
  its client is A or B, and it asks for a change that is allowed: a place inside the
  document, something to do, at most 32768 characters and no document above the limit. Then the
  document is changed by exactly that splice, the revision goes up by one, and the message for
  the peer announces the same splice under the new revision; otherwise nothing changes at all.
\<close>

theorem apply_message_refines_splice:
  "case ApplyMessageToDocument api m s of
     (Inr a, s') \<Rightarrow>
       edit_accepted m s \<and>
       (\<exists>e. requested_edit m = Some e \<and> document s' = do_edit e (document s) \<and> announced_edit a = Some e) \<and>
       revision s' = revision s + 1 \<and> GetNumber a (wide ''rev'') = Some (revision s') \<and>
       msg_type a = MsgApply \<and> msg_client a = msg_client m \<and> net s' = net s
   | (Inl reason, s') \<Rightarrow> \<not> edit_accepted m s \<and> s' = s"
proof (cases "edit_accepted m s")
  case True
  then obtain e where e: "requested_edit m = Some e" by (auto simp: edit_accepted_def)
  show ?thesis
    by (rule accepted_edit [OF True e, of api]) (use e True in auto)
next
  case False
  then show ?thesis
    using ApplyMessageToDocument_refused [OF False, of api] by auto
qed

text \<open>
  The document never exceeds its limit: an edit, accepted or not, leaves a document within
  5242880 characters within it.
\<close>

theorem document_stays_bounded:
  assumes "length (document s) \<le> kMaxDocumentChars"
  shows "length (document (snd (ApplyMessageToDocument api m s))) \<le> kMaxDocumentChars"
proof (cases "edit_accepted m s")
  case True
  then obtain e where e: "requested_edit m = Some e" "edit_allowed e (document s)"
    by (auto simp: edit_accepted_def)
  show ?thesis
    by (rule accepted_edit [OF True e(1), of api]) (use do_edit_bounded [OF e(2) assms] in simp)
next
  case False
  then show ?thesis
    using ApplyMessageToDocument_refused [OF False, of api] assms by auto
qed

lemma document_stays_bounded_witness:
  "length (document (snd (ApplyMessageToDocument utf8_ref empty_message example_server))) \<le> kMaxDocumentChars"
  using document_stays_bounded [of example_server utf8_ref empty_message]
  by (simp add: example_defs kMaxDocumentChars_def)

text \<open>
  C6: one peer at a time. In every reachable state of the server that is not stopping, at most one
  connection is past the join; the slot is marked taken exactly when there is one, and the
  messages of the host go to its socket.
\<close>

theorem at_most_one_peer:
  assumes "reachable api y" and "\<not> stopping (srv y)"
  shows "if peer_joined (srv y)
         then \<exists>i. owners y = {i} \<and> peer_socket (srv y) = Some (th_socket (threads y ! i))
         else owners y = {} \<and> peer_socket (srv y) = None"
  using session_inv_reachable [OF assms(1)] assms(2) by (simp add: session_inv_def slot_ok_def)

lemma at_most_one_peer_witness:
  "\<exists>y. reachable utf8_ref y \<and> peer_joined (srv y) \<and>
       (\<exists>i. owners y = {i} \<and> peer_socket (srv y) = Some (th_socket (threads y ! i)))"
proof -
  obtain y where y: "reachable utf8_ref y" "\<not> stopping (srv y)" "peer_joined (srv y)"
    using joined_run by blast
  with at_most_one_peer [OF y(1,2)] show ?thesis by auto
qed

text \<open>
  C8: only the joined peer edits over the network. When a step of a connection changes the
  document in a reachable state, that connection has given the join code of the session, the
  request carries the session and the client B, the change is the requested splice and raises
  the revision by one; and unless the server is stopping, the connection owns the peer slot.
\<close>

theorem only_joined_peer_edits:
  assumes "reachable api y" and "i < length (threads y)"
    and "HandleClient api clock (threads y ! i) (srv y) = Some (t, s)"
    and "document s \<noteq> document (srv y) \<or> revision s \<noteq> revision (srv y)"
  shows "(\<exists>join a. th_phase (threads y ! i) = Serving join \<and> th_phase t = SendApply join a \<and>
           optional_string join ''join_code'' = session_code (srv y) \<and> peer_edit (srv y) s a) \<and>
         (stopping (srv y) \<or> owners y = {i})"
proof -
  obtain join a where ph: "th_phase (threads y ! i) = Serving join" "th_phase t = SendApply join a"
    "peer_edit (srv y) s a"
    using HandleClient_books [OF assms(3)] assms(4) by blast
  have inv: "slot_ok y" "code_ok y"
    using session_inv_reachable [OF assms(1)] by (simp_all add: session_inv_def)
  have "threads y ! i \<in> set (threads y)" using assms(2) by simp
  moreover have "phase_join (th_phase (threads y ! i)) = Some join" using ph(1) by simp
  ultimately have "optional_string join ''join_code'' = session_code (srv y)"
    using inv(2) by (auto simp: code_ok_def)
  moreover have "i \<in> owners y" using assms(2) ph(1) by (simp add: owners_def)
  ultimately show ?thesis
    using ph inv(1) by (auto simp: slot_ok_def split: if_splits)
qed

lemma only_joined_peer_edits_witness:
  "\<exists>y t s a. reachable utf8_ref y \<and> owners y = {0} \<and> document (srv y) = [] \<and> document s = wide ''x'' \<and>
     peer_edit (srv y) s a"
proof -
  obtain y t s where y: "reachable utf8_ref y" "length (threads y) = 1" "\<not> stopping (srv y)"
    "HandleClient utf8_ref [] (threads y ! 0) (srv y) = Some (t, s)" "document (srv y) = []" "document s = wide ''x''"
    using edited_run by blast
  have "document s \<noteq> document (srv y) \<or> revision s \<noteq> revision (srv y)"
    using y(5,6) by simp
  then show ?thesis
    using only_joined_peer_edits [OF y(1) _ y(4)] y by auto
qed

text \<open>
  C13: after five failed joins the door is shut. In a state with that many failures no step lets a
  connection past the check that was not past it before, and the count does not go down again
  before the server is started anew, which it is only without connections.
\<close>

theorem join_gate_closed:
  assumes "step api y z" and "IsJoinBlocked (srv y)"
  shows "connections_past_gate z \<subseteq> connections_past_gate y \<and> (IsJoinBlocked (srv z) \<or> threads z = [])"
  using step_gate [OF assms] step_count [OF assms(1)] assms(2) by (auto simp: IsJoinBlocked_def)

lemma join_gate_closed_witness:
  "connections_past_gate
     (\<lparr>srv = SyncServer_init\<lparr>failed_join_count := 5\<rparr>, threads = [(new_thread 1)\<lparr>th_phase := Returned\<rparr>],
       accepting = False, ui = UiIdle\<rparr>) = {}"
proof -
  let ?s = "SyncServer_init\<lparr>failed_join_count := 5\<rparr>"
  let ?t = "(new_thread 1)\<lparr>th_phase := CheckBlocked empty_message\<rparr>"
  let ?y = "\<lparr>srv = ?s, threads = [?t], accepting = False, ui = UiIdle\<rparr>"
  have b: "IsJoinBlocked ?s" by (simp add: IsJoinBlocked_def kMaxFailedJoinAttempts_def)
  obtain t s where h: "HandleClient utf8_ref [] ?t ?s = Some (t, s)" "th_phase t = Returned"
    using b by (simp add: HandleClient_def refuse_def)
  have "connections_past_gate (?y\<lparr>threads := (threads ?y)[0 := t], srv := s\<rparr>) \<subseteq> connections_past_gate ?y"
    using join_gate_closed [OF step.handle [of 0 ?y utf8_ref "[]" t s]] h(1) b by simp
  then show ?thesis by (auto simp: connections_past_gate_def)
qed

text \<open>
  A join succeeds. What \<^verbatim>\<open>SendHelloAndJoin\<close> writes for the right code, received in any pieces
  within the time limit by a server that is not blocked and has no peer, makes the connection
  the peer in six steps; the document is untouched, and one frame goes back, a JOIN_OK that
  assigns the client B.
\<close>

theorem join_accepted:
  assumes "utf8_api api" and "session_ok (session_code s)" and "text_ok device_id" and "text_ok nickname"
    and "text_ok (c_token c)" and "c_socket c = Some k" and "reliable k" and "conn_wire k = []"
    and "SendHelloAndJoin api (session_code s) device_id nickname c = (ok, c')"
    and "concat segs = conn_wire (the (c_socket c'))" and "\<forall>x \<in> set segs. x \<noteq> [] \<and> length x \<le> 4096"
    and "text_ok (GenerateReconnectToken s)" and "reliable (net s j)" and "\<not> IsJoinBlocked s" and "\<not> peer_joined s"
    and "in_time kHandshakeTimeoutMs clock"
  shows "ok \<and> (\<exists>t s' b. handle_rounds api clock 6 ((new_thread j)\<lparr>th_input := map Received segs\<rparr>) s = Some (t, s') \<and>
     (\<exists>join. th_phase t = Serving join) \<and> peer_joined s' \<and> peer_socket s' = Some j \<and>
     document s' = document s \<and> revision s' = revision s \<and>
     conn_wire (net s' j) = conn_wire (net s j) @ EncodeFrame b \<and>
     (\<exists>m. DeserializeMessage api b = (NoError, m) \<and> msg_type m = MsgJoinOk \<and>
          GetString m (wide ''assigned_client'') = Some (wide ''B'')))"
proof -
  obtain k' b1 b2 where hj: "SendHelloAndJoin api (session_code s) device_id nickname c = (True, c\<lparr>c_socket := Some k'\<rparr>)"
    "conn_wire k' = frames [b1, b2]"
    "DeserializeMessage api b1 = (NoError, received (hello_message (session_code s) device_id nickname))"
    "DeserializeMessage api b2 = (NoError, received (join_message (session_code s) (c_token c)))"
    "length b1 + 4096 \<le> kMaxFramePayloadBytes + 1" "length b2 + 4096 \<le> kMaxFramePayloadBytes + 1"
    using SendHelloAndJoin_reliable [OF assms(1-7)] assms(8) by auto
  have "c' = c\<lparr>c_socket := Some k'\<rparr>" using assms(9) hj(1) by simp
  then have segs: "concat segs = frames [b1, b2]" using assms(10) hj(2) by simp
  have types: "msg_type (received (hello_message (session_code s) device_id nickname)) = MsgHello"
    "msg_type (received (join_message (session_code s) (c_token c))) = MsgJoin"
    "optional_string (received (join_message (session_code s) (c_token c))) ''join_code'' = session_code s"
    by (simp_all add: hello_message_def join_message_def optional_string_def)
  have jo: "msg_type (received (join_ok_message s)) = MsgJoinOk"
    "GetString (received (join_ok_message s)) (wide ''assigned_client'') = Some (wide ''B'')"
    by (simp_all add: join_ok_message_def server_message_def)
  obtain t s' b where run: "handle_rounds api clock 6 ((new_thread j)\<lparr>th_input := map Received segs\<rparr>) s = Some (t, s')"
    "th_phase t = Serving (received (join_message (session_code s) (c_token c)))"
    "peer_joined s'" "peer_socket s' = Some j" "document s' = document s" "revision s' = revision s"
    "DeserializeMessage api b = (NoError, received (join_ok_message s))"
    "conn_wire (net s' j) = conn_wire (net s j) @ EncodeFrame b"
    using join_rounds [OF assms(1) hj(3) types(1) hj(5) hj(4) types(2) hj(6) segs assms(11) assms(2,12-15) types(3) assms(16)]
    by blast
  have ok: "ok" using assms(9) hj(1) by simp
  have "\<exists>m. DeserializeMessage api b = (NoError, m) \<and> msg_type m = MsgJoinOk \<and>
      GetString m (wide ''assigned_client'') = Some (wide ''B'')"
    using run(7) jo by blast
  with run ok show ?thesis by blast
qed

lemma join_accepted_witness:
  "\<exists>t s'. handle_rounds utf8_ref [0, 10] 6 ((new_thread 2)\<lparr>th_input := map Received (map (\<lambda>x. [x])
       (conn_wire (the (c_socket (snd (SendHelloAndJoin utf8_ref (wide ''123456'') (wide ''pc'') (wide ''me'') example_client))))))\<rparr>)
       (example_server\<lparr>peer_joined := False, peer_socket := None\<rparr>) = Some (t, s') \<and> peer_socket s' = Some 2"
proof -
  let ?s = "example_server\<lparr>peer_joined := False, peer_socket := None\<rparr>"
  have t: "text_ok (wide ''pc'')" "text_ok (wide ''me'')" "text_ok (c_token example_client)"
    "text_ok (GenerateReconnectToken ?s)" "session_ok (session_code ?s)"
    using session_ok_example
    by (simp_all add: text_ok_def example_defs GenerateReconnectToken_def)
  have c: "c_socket example_client = Some ready_conn" "conn_wire ready_conn = []" "session_code ?s = wide ''123456''"
    "net ?s 2 = ready_conn" "\<not> IsJoinBlocked ?s" "\<not> peer_joined ?s"
    by (simp_all add: example_defs ready_conn_def IsJoinBlocked_def kMaxFailedJoinAttempts_def)
  have clock: "in_time kHandshakeTimeoutMs [0, 10]"
    by (simp add: in_time_def kHandshakeTimeoutMs_def)
  show ?thesis
    using join_accepted [OF utf8_api_ref t(5,1,2,3) c(1) reliable_ready_conn c(2) surjective_pairing _ _ t(4) _ c(5,6) clock, of
        "map (\<lambda>x. [x]) (conn_wire (the (c_socket (snd (SendHelloAndJoin utf8_ref (session_code ?s) (wide ''pc'') (wide ''me'') example_client)))))" 2]
      reliable_ready_conn c(3,4) by auto
qed

section \<open>Ports and the whole document\<close>

text \<open>
  The server listens on the first free port: when all the ports from the preferred one on are
  taken and the next one can be bound, is among the 23 that are tried and not above 7799, that
  one is bound, recorded, and an earlier error text is cleared.
\<close>

theorem bind_first_free_port:
  assumes "unat preferred \<le> unat q" and "unat q < unat preferred + 23" and "unat q \<le> 7799"
    and "bind q = BindOk k" and "\<forall>p. preferred \<le> p \<and> p < q \<longrightarrow> bind p = BindFailed"
  shows "BindListenSocket bind preferred s =
         (True, s\<lparr>listen_socket := Some k, port := q, last_error := []\<rparr>)"
  by (rule BindListenSocket_found) (use assms in blast)+

lemma bind_first_free_port_witness:
  "BindListenSocket (\<lambda>p. if p = 7778 then BindOk 3 else BindFailed) 7777 SyncServer_init =
   (True, SyncServer_init\<lparr>listen_socket := Some 3, port := 7778, last_error := []\<rparr>)"
proof -
  have "\<forall>p. (7777 :: u16) \<le> p \<and> p < 7778 \<longrightarrow> p \<noteq> 7778" by auto
  then show ?thesis
    using bind_first_free_port [of 7777 7778 "\<lambda>p. if p = 7778 then BindOk 3 else BindFailed" 3 SyncServer_init]
    by auto
qed

text \<open>
  A preferred port above 7799 never works: whatever ports are free, not a single one is tried
  and \<^verbatim>\<open>Start\<close> fails. The configuration accepts such ports.
\<close>

theorem high_port_never_binds:
  assumes "7799 < unat preferred"
  shows "BindListenSocket bind preferred s = (False, s\<lparr>last_error := wide ''no available port''\<rparr>) \<and>
         fst (Start api bind code preferred s) = False"
proof -
  have "BindListenSocket bind preferred x = (False, x\<lparr>last_error := wide ''no available port''\<rparr>)" for x
    by (rule BindListenSocket_none) (use assms in \<open>simp add: word_le_nat_alt\<close>)
  then show ?thesis by (simp add: Start_def Let_def)
qed

lemma high_port_never_binds_witness:
  "fst (Start utf8_ref (\<lambda>_. BindOk 1) (wide ''123456'') 8080 SyncServer_init) = False"
  using high_port_never_binds [of 8080 "\<lambda>_. BindOk 1" SyncServer_init utf8_ref "wide ''123456''"] by simp

text \<open>
  C28: a full synchronisation fails when a chunk boundary falls inside a surrogate pair: the chunk
  cannot be encoded, \<^verbatim>\<open>SendSyncResponse\<close> returns false, and \<^verbatim>\<open>HandleClient\<close> then drops the peer.
\<close>

theorem split_surrogate_fails_sync:
  assumes "utf8_api api" and "is_high_surrogate (document s ! (i * kSyncChunkChars + kSyncChunkChars - 1))"
    and "i * kSyncChunkChars + kSyncChunkChars \<le> length (document s)"
    and "utf16_wf (take (i * kSyncChunkChars + kSyncChunkChars - 1) (document s))"
    and "utf16_wf (take (i * kSyncChunkChars) (document s))"
  shows "fst (SendSyncResponse api k s) = False"
proof -
  let ?K = kSyncChunkChars and ?d = "document s"
  let ?c = "chunk kSyncChunkChars (document s) i"
  have K: "0 < ?K" by (rule kSyncChunkChars_pos)
  have len: "length ?c = ?K" using assms(3) by (simp add: chunk_def)
  have "?c = butlast ?c @ [last ?c]"
    using len K by (metis append_butlast_last_id length_greater_0_conv)
  moreover have "last ?c = ?d ! (i * ?K + ?K - 1)"
    using len K assms(3) by (simp add: last_conv_nth flip: length_greater_0_conv) (simp add: chunk_def)
  moreover have "butlast ?c = drop (i * ?K) (take (i * ?K + ?K - 1) ?d)"
    using assms(3) K by (simp add: chunk_def butlast_take drop_take)
  moreover have "utf16_wf (drop (i * ?K) (take (i * ?K + ?K - 1) ?d))"
    using utf16_wf_append [OF assms(5), of "drop (i * ?K) (take (i * ?K + ?K - 1) ?d)"] assms(4) K
    by (metis append_take_drop_id min.absorb1 take_take le_add1 Nat.add_diff_assoc Suc_leI One_nat_def)
  ultimately have "\<not> utf16_wf ?c"
    using assms(2) utf16_wf_append [of "butlast ?c" "[last ?c]"] by simp
  moreover have "i < chunk_count ?d"
    using chunk_count_covers [of ?d] assms(3) K
    by (metis add.commute le_trans less_le_trans mult_Suc mult_le_cancel2 not_less_eq_eq not_le)
  ultimately have "\<not> chunks_wf ?d" by (auto simp: chunks_wf_def)
  then show ?thesis by (rule SendSyncResponse_split [OF assms(1)])
qed

lemma split_surrogate_fails_sync_witness:
  "fst (SendSyncResponse utf8_ref 1
     (example_server\<lparr>document := replicate (kSyncChunkChars - 1) 97 @ [0xD83D, 0xDE00]\<rparr>)) = False"
proof -
  let ?s = "example_server\<lparr>document := replicate (kSyncChunkChars - 1) 97 @ [0xD83D, 0xDE00]\<rparr>"
  have "utf16_wf (replicate n 97)" for n
    by (rule is_ascii_wf) (simp add: is_ascii_def)
  then show ?thesis
    using split_surrogate_fails_sync [OF utf8_api_ref, of ?s 0 1] kSyncChunkChars_pos
    by (simp add: nth_append is_high_surrogate_def)
qed

end
