(* ===== verification/WebWindow.thy ===== *)
theory WebWindow
  imports WebLemmas
begin

text \<open>
  The commands of the web page in \<^verbatim>\<open>client/webview_window.cpp\<close>: the message dispatch, creating
  and joining a room, the initial state. What the environment answers on the way (WinSock, the
  random number, the free ports, discovery, the connection) is the record \<open>web_env\<close>; a join
  that is still waiting is \<open>None\<close>.
\<close>

record web_config =
  cfg_port :: u16
  cfg_device_id :: wstr
  cfg_nickname :: wstr

record web_env =
  env_winsock :: "wstr option"
  env_config :: "web_config option"
  env_random :: nat
  env_bind :: "u16 \<Rightarrow> bind_outcome"
  env_announce_ok :: bool
  env_found :: "(wstr \<times> u16) option"
  env_connect :: connect_env

text \<open>Six digits, with leading zeros, of a number below a million.\<close>

definition GenerateSessionCode :: "nat \<Rightarrow> wstr" where
  "GenerateSessionCode n = (let ds = dec_digits n in replicate (6 - length ds) 48 @ ds)"

definition reset_sync :: "web \<Rightarrow> web" where
  "reset_sync w = w\<lparr>w_revision := 0, w_sync_revision := 0, w_chunks := [], w_received := []\<rparr>"

definition HandleCreateRoom :: "text_api \<Rightarrow> web_env \<Rightarrow> wstr \<Rightarrow> web \<Rightarrow> web" where
  "HandleCreateRoom api env message w =
     (case env_winsock env of
        Some winsock_error \<Rightarrow> PostStatus txt_save_waiting winsock_error w
      | None \<Rightarrow>
          let w1 = (case ExtractJsonString message (wide ''text'') of
                      None \<Rightarrow> w
                    | Some t \<Rightarrow> snd (save_current api t (w\<lparr>w_text := t\<rparr>)));
              code = GenerateSessionCode (env_random env);
              w2 = (reset_sync (w1\<lparr>w_announced := None, w_client := Disconnect (w_client w1),
                                   w_server := Stop api (w_server w1)\<rparr>))
                     \<lparr>w_session := code, w_local := wide ''A''\<rparr>;
              preferred_port = (case env_config env of None \<Rightarrow> 7777 | Some cfg \<Rightarrow> cfg_port cfg);
              s1 = SetSessionLogPath (wide ''session.log'') (SetDocument (w_text w2) (w_revision w2) (w_server w2));
              (ok, s2) = Start api (env_bind env) code preferred_port s1;
              w3 = w2\<lparr>w_server := s2\<rparr>
          in if \<not> ok then PostStatus txt_autosave_ready txt_create_failed (w3\<lparr>w_role := Offline\<rparr>)
             else
               let w4 = w3\<lparr>w_announced := (if env_announce_ok env then Some (code, port s2) else None),
                           w_role := Host\<rparr>
               in PostStatus txt_autosave_ready txt_waiting_peer (PostRoomCreated code w4))"

definition HandleJoinRoom :: "text_api \<Rightarrow> web_env \<Rightarrow> wstr \<Rightarrow> web \<Rightarrow> web option" where
  "HandleJoinRoom api env message w =
     (case env_winsock env of
        Some winsock_error \<Rightarrow> Some (PostStatus txt_save_waiting winsock_error w)
      | None \<Rightarrow>
          (case ExtractJsonString message (wide ''code'') of
             None \<Rightarrow> Some (PostStatus txt_save_waiting txt_code_needed w)
           | Some code \<Rightarrow>
               if code = [] then Some (PostStatus txt_save_waiting txt_code_needed w)
               else
                 let w1 = PostStatus txt_autosave_ready txt_searching w
                 in (case env_found env of
                       None \<Rightarrow> Some (PostStatus txt_autosave_ready txt_not_found w1)
                     | Some _ \<Rightarrow>
                         let w2 = w1\<lparr>w_client := Disconnect (w_client w1), w_server := Stop api (w_server w1),
                                     w_announced := None\<rparr>;
                             device_id = (case env_config env of None \<Rightarrow> wide ''local-device'' | Some cfg \<Rightarrow> cfg_device_id cfg);
                             nickname = (case env_config env of None \<Rightarrow> wide ''User'' | Some cfg \<Rightarrow> cfg_nickname cfg)
                         in (case Connect api (env_connect env) code device_id nickname (w_client w2) of
                               None \<Rightarrow> None
                             | Some (ok, c) \<Rightarrow>
                                 let w3 = w2\<lparr>w_client := c\<rparr>;
                                     reason = (if c_fail_reason c = [] then c_last_error c else c_fail_reason c)
                                 in Some (if \<not> ok
                                          then PostStatus txt_autosave_ready
                                                 (if reason = [] then txt_connect_failed else reason) w3
                                          else PostStatus txt_autosave_ready txt_connected
                                                 ((reset_sync w3)
                                                    \<lparr>w_session := code,
                                                     w_local := (if c_assigned c = [] then wide ''B'' else c_assigned c),
                                                     w_role := Guest\<rparr>))))))"

definition PostInitialState :: "text_api \<Rightarrow> web \<Rightarrow> web" where
  "PostInitialState api w =
     (if \<not> w_webview w then w
      else
        let (loaded, st) = LoadCurrent api (w_storage w);
            content = (case loaded of None \<Rightarrow> [] | Some t \<Rightarrow> t);
            w1 = w\<lparr>w_storage := st, w_text := content\<rparr>
        in PostStatus txt_autosave_ready txt_offline (PostDocument content w1))"

definition HandleEditorChanged :: "text_api \<Rightarrow> wstr \<Rightarrow> web \<Rightarrow> web" where
  "HandleEditorChanged api message w =
     (case ExtractJsonString message (wide ''text'') of
        None \<Rightarrow> PostStatus txt_autosave_failed txt_offline w
      | Some new_text \<Rightarrow>
          let diff = ComputeEditorDiff (w_text w) new_text
          in if \<not> valid diff
             then PostDocument (w_text w)
                    (PostStatus (if document_too_large diff then txt_document_too_large else txt_edit_failed)
                       txt_offline w)
             else
               let w1 = (SendLocalOperations api diff w)\<lparr>w_text := new_text\<rparr>;
                   (saved, w2) = save_current api new_text w1
               in PostStatus (if saved then txt_autosave_done else txt_autosave_failed)
                    (if w_role w2 = Offline then txt_offline else txt_connected) w2)"

definition HandleWebMessage :: "text_api \<Rightarrow> web_env \<Rightarrow> wstr \<Rightarrow> web \<Rightarrow> web option" where
  "HandleWebMessage api env message w =
     (if HasMessageType message (wide ''uiReady'') then Some (PostInitialState api w)
      else if HasMessageType message (wide ''editorChanged'') then Some (HandleEditorChanged api message w)
      else if HasMessageType message (wide ''createRoom'') then Some (HandleCreateRoom api env message w)
      else if HasMessageType message (wide ''joinRoom'') then HandleJoinRoom api env message w
      else if HasMessageType message (wide ''quit'') then Some (w\<lparr>w_closing := True\<rparr>)
      else Some w)"

section \<open>What the page sends is what the handlers read\<close>

lemma page_message_type: "HasMessageType (page_message ''editorChanged'' payload) (wide ''editorChanged'')"
  by (simp add: HasMessageType_def page_message_def json_key_def wire_simps del: wide_eq_iff)

lemma page_message_text:
  assumes "\<forall>ch \<in> set t. plain_char ch"
  shows "ExtractJsonString (page_message ''editorChanged'' (json_key ''text'' @ json_text t)) (wide ''text'') = Some t"
proof -
  have "find_after ([ch_quote] @ wide ''text'' @ [ch_quote])
      (page_message ''editorChanged'' (json_key ''text'' @ json_text t)) =
    Some (ch_colon # ch_quote # EscapeJson t @ [ch_quote, ch_rbrace, ch_rbrace])"
    by (simp add: page_message_def json_key_def json_text_def wire_simps del: wide_eq_iff)
  then show ?thesis
    using extract_body_escaped [OF assms, of "[]" "[ch_rbrace, ch_rbrace]"]
    by (simp add: ExtractJsonString_def)
qed

section \<open>The host's own edits\<close>

interpretation web_host: host_editor api "send_local_operation api" w_server w_revision
  "\<lambda>w :: web. w_role w = Host \<and> w_local w = wide ''A''" for api
  by unfold_locales (simp add: send_local_operation_def optional_number_def)

end
