(* ===== verification/ClientJoin.thy ===== *)
theory ClientJoin
  imports Handshake
begin

text \<open>
  The client's side of a join (\<^verbatim>\<open>SyncClient::Connect\<close>) when the host answers, and a client whose
  connection is gone without its window being told.
\<close>

section \<open>A join that succeeds\<close>

text \<open>The answer is taken from the first piece; what the piece holds besides is dropped.\<close>

lemma ReadJoinResponse_ok:
  assumes "ReceiveProtocolMessageWithin api clock kJoinResponseTimeoutMs (c_input c) [] = Some (Some m, d, later)"
    and "msg_type m = MsgJoinOk"
  shows "\<exists>token. ReadJoinResponse api clock c =
    Some (True, c\<lparr>c_input := later,
      c_assigned := (case GetString m (wide ''assigned_client'') of None \<Rightarrow> c_assigned c | Some v \<Rightarrow> v),
      c_token := token, c_connected := True\<rparr>)"
  using assms
  by (intro exI [of _ "case GetString m (wide ''reconnect_token'') of None \<Rightarrow> c_token c | Some v \<Rightarrow> v"])
    (simp add: ReadJoinResponse_def Let_def split: option.split)

text \<open>The answer in one piece, and the answer in pieces of its own.\<close>

lemma answer_in_first_piece:
  assumes "DeserializeMessage api p = (NoError, m)" and "length p + length extra \<le> kMaxFramePayloadBytes"
    and "in_time timeout clock"
  shows "ReceiveProtocolMessageWithin api clock timeout (Received (EncodeFrame p @ extra) # later) [] = Some (Some m, extra, later)"
proof -
  obtain t t' rest where clock: "clock = t # t' # rest" "t' \<le> t + ucast timeout"
    using assms(3) by (auto simp: in_time_def)
  have "FrameDecoder_TryReadFrame [] = (None, NoError, [])"
    by (simp add: FrameDecoder_TryReadFrame_def)
  moreover have "FrameDecoder_Append (EncodeFrame p @ extra) [] = (NoError, EncodeFrame p @ extra)"
    using assms(2) by (simp add: FrameDecoder_Append_def)
  moreover have "EncodeFrame p @ extra \<noteq> []"
    by (simp add: EncodeFrame_def Let_def)
  ultimately have "ReceiveProtocolMessage api (Received (EncodeFrame p @ extra) # later) [] =
      ReceiveProtocolMessage api later (EncodeFrame p @ extra)"
    using receive_cases(2) [of "[]" "EncodeFrame p @ extra" "EncodeFrame p @ extra" api later] by simp
  also have "\<dots> = Some (RecvMessage m, extra, later)"
    using receive_cases(1) [OF TryReadFrame_EncodeFrame, of p api later extra] assms(1,2) by simp
  finally show ?thesis
    using clock by (simp add: ReceiveProtocolMessageWithin_def)
qed

definition pieces :: "bytes \<Rightarrow> bytes list \<Rightarrow> bool" where
  "pieces bs segs \<longleftrightarrow> concat segs = bs \<and> (\<forall>seg \<in> set segs. seg \<noteq> [] \<and> length seg \<le> 4096)"

lemma pieces_exist: "pieces bs (map (\<lambda>b. [b]) bs)"
  by (induction bs) (auto simp: pieces_def)

lemma answer_in_pieces:
  assumes "pieces (EncodeFrame p) segs" and "DeserializeMessage api p = (NoError, m)"
    and "length p + 4096 \<le> kMaxFramePayloadBytes + 1" and "in_time timeout clock"
  shows "ReceiveProtocolMessageWithin api clock timeout (map Received segs @ later) [] = Some (Some m, [], later)"
proof -
  have in0: "[] @ concat segs = EncodeFrame p @ []" and ok: "\<forall>x \<in> set segs. x \<noteq> [] \<and> length x \<le> 4096"
    using assms(1) by (simp_all add: pieces_def)
  obtain d' segs' where r:
    "ReceiveProtocolMessageWithin api clock timeout (map Received segs @ later) [] = Some (Some m, d', map Received segs' @ later)"
    "d' @ concat segs' = []" "\<forall>x \<in> set segs'. x \<noteq> [] \<and> length x \<le> 4096"
    by (rule receive_within_frame [OF in0 ok assms(3,2,4)])
  then have "segs' = []" by (cases segs') auto
  with r show ?thesis by simp
qed

lemma SendSyncRequest_frame [simp]:
  "c_socket (snd (SendSyncRequest api r c)) = c_socket c" "c_connected (snd (SendSyncRequest api r c)) = c_connected c"
  "c_stopping (snd (SendSyncRequest api r c)) = c_stopping c" "c_decoder (snd (SendSyncRequest api r c)) = c_decoder c"
  "c_input (snd (SendSyncRequest api r c)) = c_input c" "c_events (snd (SendSyncRequest api r c)) = c_events c"
  "c_assigned (snd (SendSyncRequest api r c)) = c_assigned c" "c_session_code (snd (SendSyncRequest api r c)) = c_session_code c"
  by (simp_all add: SendSyncRequest_def EnqueueMessage_def split: sum.splits)

text \<open>The client while it connects: everything of the connection before is gone.\<close>

definition fresh_client :: "connect_env \<Rightarrow> wstr \<Rightarrow> client \<Rightarrow> client" where
  "fresh_client env code c = (Disconnect c)
     \<lparr>c_fail_reason := [], c_last_error := [], c_assigned := [],
      c_token := (if c_session_code c = code then c_token c else []),
      c_session_code := code, c_pong_count := 0, c_last_pong := env_now env,
      c_last_ping := env_now env, c_stopping := False, c_socket := env_socket env,
      c_input := env_input env\<rparr>"

lemma fresh_client_simps [simp]:
  "c_socket (fresh_client env code c) = env_socket env" "c_input (fresh_client env code c) = env_input env"
  "c_assigned (fresh_client env code c) = []" "c_session_code (fresh_client env code c) = code"
  "c_stopping (fresh_client env code c) = False" "c_events (fresh_client env code c) = c_events c"
  "c_send_queue (fresh_client env code c) = []"
  by (simp_all add: fresh_client_def Disconnect_def StopWorkers_def CloseSocket_def)

lemma fresh_client_token: "text_ok (c_token c) \<Longrightarrow> text_ok (c_token (fresh_client env code c))"
  by (simp add: fresh_client_def text_ok_def)

lemma Connect_after_sending:
  assumes "env_socket env = Some k" and "env_host_ok env" and "ConnectWithTimeout (env_calls env) = Connected"
    and "SendHelloAndJoin api code device_id nickname (fresh_client env code c) = (True, c2)"
  shows "Connect api env code device_id nickname c =
    (case ReadJoinResponse api (env_clock env) c2 of
       None \<Rightarrow> None
     | Some (joined, c3) \<Rightarrow>
         if \<not> joined then Some (False, c3) else Some (True, snd (SendSyncRequest api 0 (StartWorkers c3))))"
  unfolding Connect_def Let_def fresh_client_def [symmetric] using assms
  by (simp split: option.split prod.split)

text \<open>What is on the line after a call that ended: HELLO and JOIN, if the line is still there.\<close>

definition on_line :: "client \<Rightarrow> bytes" where
  "on_line c = (case c_socket c of None \<Rightarrow> [] | Some k \<Rightarrow> conn_wire k)"

lemma ReadJoinResponse_socket:
  "ReadJoinResponse api clock c = Some (joined, c') \<Longrightarrow> c_socket c' = (if joined then c_socket c else None)"
  by (auto simp: ReadJoinResponse_def CloseSocket_def Let_def split: option.splits prod.splits message_type.splits)

text \<open>
  The greeting does not depend on what the network will bring: \<open>input\<close> is any sequence of pieces.
\<close>

definition hearing :: "connect_env \<Rightarrow> recv_result list \<Rightarrow> connect_env" where
  "hearing env input = env\<lparr>env_input := input\<rparr>"

lemma hearing_simps [simp]:
  "env_socket (hearing env input) = env_socket env" "env_host_ok (hearing env input) = env_host_ok env"
  "env_calls (hearing env input) = env_calls env" "env_clock (hearing env input) = env_clock env"
  "env_input (hearing env input) = input" "hearing env (env_input env) = env"
  by (simp_all add: hearing_def)

lemma fresh_client_hearing: "fresh_client (hearing env input) code c = (fresh_client env code c)\<lparr>c_input := input\<rparr>"
  by (simp add: fresh_client_def hearing_def)

lemma send_on_socket_input:
  "send_on_socket api m (c\<lparr>c_input := i\<rparr>) = (let (ok, c') = send_on_socket api m c in (ok, c'\<lparr>c_input := i\<rparr>))"
  by (simp add: send_on_socket_def split: option.split prod.split)

lemma SendHelloAndJoin_input:
  "SendHelloAndJoin api code device_id nickname (c\<lparr>c_input := i\<rparr>) =
   (let (ok, c') = SendHelloAndJoin api code device_id nickname c in (ok, c'\<lparr>c_input := i\<rparr>))"
proof -
  obtain ok c1 where c1: "send_on_socket api (hello_message code device_id nickname) c = (ok, c1)" by force
  obtain ok2 c2 where "send_on_socket api (join_message code (c_token c1)) c1 = (ok2, c2)" by force
  with c1 show ?thesis by (simp add: SendHelloAndJoin_def send_on_socket_input)
qed

definition greets :: "text_api \<Rightarrow> connect_env \<Rightarrow> wstr \<Rightarrow> wstr \<Rightarrow> wstr \<Rightarrow> client \<Rightarrow> conn \<Rightarrow> bool" where
  "greets api env code device_id nickname c k' \<longleftrightarrow>
     (\<forall>input. SendHelloAndJoin api code device_id nickname (fresh_client (hearing env input) code c) =
        (True, (fresh_client (hearing env input) code c)\<lparr>c_socket := Some k'\<rparr>))"

lemma greeting_sent:
  assumes "utf8_api api" and "session_ok code" and "text_ok device_id" and "text_ok nickname" and "text_ok (c_token c)"
    and "env_socket env = Some k" and "reliable k"
  obtains k' b1 b2 token where "greets api env code device_id nickname c k'" and "reliable k'"
    and "conn_wire k' = conn_wire k @ frames [b1, b2]"
    and "DeserializeMessage api b1 = (NoError, received (hello_message code device_id nickname))"
    and "DeserializeMessage api b2 = (NoError, received (join_message code token))"
    and "length b1 + 4096 \<le> kMaxFramePayloadBytes + 1" and "length b2 + 4096 \<le> kMaxFramePayloadBytes + 1"
proof -
  let ?c1 = "fresh_client env code c"
  have "c_socket ?c1 = Some k" using assms(6) by simp
  from SendHelloAndJoin_reliable [OF assms(1-4) fresh_client_token [OF assms(5)] this assms(7)]
  obtain k' b1 b2 where hj: "SendHelloAndJoin api code device_id nickname ?c1 = (True, ?c1\<lparr>c_socket := Some k'\<rparr>)"
    "reliable k'" "conn_wire k' = conn_wire k @ frames [b1, b2]"
    "DeserializeMessage api b1 = (NoError, received (hello_message code device_id nickname))"
    "DeserializeMessage api b2 = (NoError, received (join_message code (c_token ?c1)))"
    "length b1 + 4096 \<le> kMaxFramePayloadBytes + 1" "length b2 + 4096 \<le> kMaxFramePayloadBytes + 1"
    by blast
  have "greets api env code device_id nickname c k'"
    by (simp add: greets_def fresh_client_hearing SendHelloAndJoin_input hj(1))
  then show thesis by (rule that [OF _ hj(2-7)])
qed

text \<open>A call that ends leaves the line with the greeting, or closed.\<close>

lemma Connect_socket:
  assumes "greets api env code device_id nickname c k'" and "env_socket env = Some k" and "env_host_ok env"
    and "ConnectWithTimeout (env_calls env) = Connected"
    and "Connect api (hearing env input) code device_id nickname c = Some (ok, c')"
  shows "c_socket c' = (if ok then Some k' else None)"
proof -
  let ?c2 = "(fresh_client (hearing env input) code c)\<lparr>c_socket := Some k'\<rparr>"
  have hj: "SendHelloAndJoin api code device_id nickname (fresh_client (hearing env input) code c) = (True, ?c2)"
    using assms(1) by (simp add: greets_def)
  have "env_socket (hearing env input) = Some k" "env_host_ok (hearing env input)"
    "ConnectWithTimeout (env_calls (hearing env input)) = Connected"
    using assms(2-4) by simp_all
  from Connect_after_sending [OF this hj] assms(5) show ?thesis
    using ReadJoinResponse_socket [of api "env_clock env" ?c2]
    by (auto simp: StartWorkers_def split: option.splits prod.splits if_splits)
qed

text \<open>The client once it has read JOIN_OK and before it asks for the document.\<close>

definition joined_client :: "wstr \<Rightarrow> conn \<Rightarrow> protocol_message \<Rightarrow> recv_result list \<Rightarrow> client \<Rightarrow> client \<Rightarrow> bool" where
  "joined_client code k m later c c' \<longleftrightarrow>
     c_socket c' = Some k \<and> c_connected c' \<and> \<not> c_stopping c' \<and> c_decoder c' = [] \<and> c_input c' = later \<and>
     c_events c' = c_events c \<and> c_send_queue c' = [] \<and> c_session_code c' = code \<and>
     c_assigned c' = (case GetString m (wide ''assigned_client'') of None \<Rightarrow> [] | Some v \<Rightarrow> v)"

lemma Connect_answered:
  assumes "greets api env code device_id nickname c k'" and "env_socket env = Some k" and "env_host_ok env"
    and "ConnectWithTimeout (env_calls env) = Connected"
    and "ReceiveProtocolMessageWithin api (env_clock env) kJoinResponseTimeoutMs input [] = Some (Some m, d, later)"
    and "msg_type m = MsgJoinOk"
  shows "\<exists>c3. Connect api (hearing env input) code device_id nickname c = Some (True, snd (SendSyncRequest api 0 c3)) \<and>
    joined_client code k' m later c c3"
proof -
  let ?c2 = "(fresh_client (hearing env input) code c)\<lparr>c_socket := Some k'\<rparr>"
  have hj: "SendHelloAndJoin api code device_id nickname (fresh_client (hearing env input) code c) = (True, ?c2)"
    using assms(1) by (simp add: greets_def)
  have he: "env_socket (hearing env input) = Some k" "env_host_ok (hearing env input)"
    "ConnectWithTimeout (env_calls (hearing env input)) = Connected"
    using assms(2-4) by simp_all
  have "ReceiveProtocolMessageWithin api (env_clock env) kJoinResponseTimeoutMs (c_input ?c2) [] = Some (Some m, d, later)"
    using assms(5) by simp
  from ReadJoinResponse_ok [OF this assms(6)]
  obtain token where "ReadJoinResponse api (env_clock env) ?c2 = Some (True, ?c2\<lparr>c_input := later,
      c_assigned := (case GetString m (wide ''assigned_client'') of None \<Rightarrow> c_assigned ?c2 | Some v \<Rightarrow> v),
      c_token := token, c_connected := True\<rparr>)"
    by blast
  then show ?thesis
    by (intro exI [of _ "StartWorkers (?c2\<lparr>c_input := later,
      c_assigned := (case GetString m (wide ''assigned_client'') of None \<Rightarrow> c_assigned ?c2 | Some v \<Rightarrow> v),
      c_token := token, c_connected := True\<rparr>)"])
      (simp add: Connect_after_sending [OF he hj] StartWorkers_def joined_client_def split: option.split)
qed

section \<open>A client that is gone\<close>

text \<open>No socket and not connected: whatever its workers do, no event is raised any more.\<close>

definition silent :: "client \<Rightarrow> bool" where
  "silent c \<longleftrightarrow> c_socket c = None \<and> \<not> c_connected c"

lemma silent_rounds:
  assumes "silent c"
  shows "ReceiveLoop api now c = Some (b, c') \<Longrightarrow> silent c' \<and> c_events c' = c_events c"
    and "silent (snd (SendLoop c)) \<and> c_events (snd (SendLoop c)) = c_events c"
    and "silent (snd (HeartbeatLoop api now c)) \<and> c_events (snd (HeartbeatLoop api now c)) = c_events c"
    and "\<not> fst (EnqueueMessage api m c)"
  using assms
  by (auto simp: silent_def ReceiveLoop_def SendLoop_def HeartbeatLoop_def CloseSocket_def EnqueueMessage_def Let_def
      split: if_splits option.splits sum.splits)

text \<open>The loop that receives tells the window; the one that sends does not.\<close>

lemma failed_receive_tells:
  assumes "c_input c = Received [] # later" and "c_decoder c = []" and "\<not> c_stopping c" and "c_socket c = Some k"
  shows "\<exists>c'. ReceiveLoop api now c = Some (False, c') \<and> silent c' \<and>
     c_events c' = c_events c @ [default_event\<lparr>ev_type := EvDisconnected, ev_detail := wide ''connection closed''\<rparr>]"
  using assms receive_cases(3) [of "[]" api later]
  by (auto simp: ReceiveLoop_def receive_failed_def PushClientEvent_def queue_push_def CloseSocket_def silent_def Let_def
      FrameDecoder_TryReadFrame_def)

lemma failed_send_is_silent:
  assumes "c_send_queue c = f # fs" and "\<not> c_stopping c" and "c_socket c = Some k" and "\<not> fst (SendAll f k)"
  shows "fst (SendLoop c) = False" and "silent (snd (SendLoop c))" and "c_events (snd (SendLoop c)) = c_events c"
  using assms by (auto simp: SendLoop_def silent_def CloseSocket_def Let_def split: prod.splits)

end
