(* ===== verification/WindowProps.thy ===== *)
theory WindowProps
  imports ServerProps WebWindow ClientJoin
begin

text \<open>
  Properties of the client object, of the web user interface on both sides of a session, and of
  the document on disk.
\<close>

section \<open>The client\<close>

text \<open>
  Requests leave in the order they were made: as long as no send fails, the send loop empties
  its queue and the connection carries exactly the queued frames, one after the other, whatever
  the partial counts of \<^verbatim>\<open>send\<close>.
\<close>

theorem send_queue_in_order:
  assumes "\<not> c_stopping c" and "c_socket c = Some k" and "reliable k"
  shows "\<exists>k'. send_rounds (length (c_send_queue c)) c = c\<lparr>c_send_queue := [], c_socket := Some k'\<rparr> \<and>
              conn_wire k' = conn_wire k @ concat (c_send_queue c)"
  using SendLoop_rounds [OF assms] by blast

lemma send_queue_in_order_witness:
  "\<exists>k'. c_socket (send_rounds 2 (example_client\<lparr>c_send_queue := [[1, 2, 3], [4]]\<rparr>)) = Some k' \<and> conn_wire k' = [1, 2, 3, 4]"
proof -
  let ?c = "example_client\<lparr>c_send_queue := [[1, 2, 3], [4]]\<rparr>"
  have c: "\<not> c_stopping ?c" "c_socket ?c = Some ready_conn" "length (c_send_queue ?c) = 2"
    "concat (c_send_queue ?c) = [1, 2, 3, 4]" "conn_wire ready_conn = []"
    by (simp_all add: example_defs ready_conn_def)
  obtain k' where k': "send_rounds 2 ?c = ?c\<lparr>c_send_queue := [], c_socket := Some k'\<rparr>"
    "conn_wire k' = conn_wire ready_conn @ concat (c_send_queue ?c)"
    using send_queue_in_order [OF c(1,2) reliable_ready_conn] unfolding c(3) by blast
  show ?thesis
    unfolding k'(1) using k'(2) c(4,5) by (intro exI [of _ k']) simp
qed

text \<open>
  A request is queued exactly when it can be serialised and the client is connected and not
  stopping; it is then the last frame of the queue, and in every other case the queue is
  unchanged and the caller is told.
\<close>

theorem enqueue_result:
  "case SerializeMessage api m of
     Inl e \<Rightarrow> EnqueueMessage api m c = (False, c\<lparr>c_last_error := wide ''message serialize failed''\<rparr>)
   | Inr b \<Rightarrow>
       (if c_connected c \<and> \<not> c_stopping c
        then EnqueueMessage api m c = (True, c\<lparr>c_send_queue := c_send_queue c @ [EncodeFrame b]\<rparr>)
        else EnqueueMessage api m c = (False, c\<lparr>c_last_error := wide ''client is not connected''\<rparr>))"
  by (simp add: EnqueueMessage_def queue_push_def split: sum.splits)

text \<open>
  The heartbeat of a connected client gives up exactly when more than 15 seconds have passed
  since the last answer: then the connection is closed and one Disconnected event is queued;
  otherwise the connection stays and no event is queued.
\<close>

theorem heartbeat_timeout_exact:
  assumes "c_connected c" and "\<not> c_stopping c" and "unat (c_last_pong c) \<le> unat now"
  shows "if unat now - unat (c_last_pong c) > 15000
         then \<not> c_connected (snd (HeartbeatLoop api now c)) \<and> c_socket (snd (HeartbeatLoop api now c)) = None \<and>
              c_events (snd (HeartbeatLoop api now c)) = c_events c @
                [\<lparr>ev_type = EvDisconnected, ev_message = empty_message, ev_detail = wide ''heartbeat timeout''\<rparr>]
         else c_connected (snd (HeartbeatLoop api now c)) \<and> c_socket (snd (HeartbeatLoop api now c)) = c_socket c \<and>
              c_events (snd (HeartbeatLoop api now c)) = c_events c"
proof -
  have "unat (now - c_last_pong c) = unat now - unat (c_last_pong c)"
    using assms(3) by (simp add: unat_sub word_le_nat_alt)
  then have "now - c_last_pong c > kHeartbeatTimeoutMs \<longleftrightarrow> unat now - unat (c_last_pong c) > 15000"
    by (simp add: kHeartbeatTimeoutMs_def word_less_nat_alt)
  then show ?thesis
    using HeartbeatLoop_timeout [OF assms(1,2), of now api] HeartbeatLoop_alive [OF assms(1,2), of now api]
    by (cases "unat now - unat (c_last_pong c) > 15000") (auto simp: not_less)
qed

lemma heartbeat_timeout_exact_witness:
  "\<not> c_connected (snd (HeartbeatLoop utf8_ref 20001 (example_client\<lparr>c_last_pong := 5000\<rparr>)))"
  using heartbeat_timeout_exact [of "example_client\<lparr>c_last_pong := 5000\<rparr>" 20001 utf8_ref]
  by (simp add: example_defs)

text \<open>
  The comparison is unsigned, and a clock reading taken before an answer arrives can be
  smaller than the time of that answer: then the difference wraps around and a healthy
  connection is closed as timed out.
\<close>

theorem heartbeat_race:
  assumes "c_connected c" and "\<not> c_stopping c" and "c_last_pong c = now + d" and "0 < unat d" and "unat d < 2 ^ 63"
  shows "c_socket (snd (HeartbeatLoop api now c)) = None \<and> \<not> c_connected (snd (HeartbeatLoop api now c))"
proof -
  have diff: "now - c_last_pong c = - d" using assms(3) by simp
  have "(unat (- d) + unat d) mod 2 ^ 64 = 0"
    using unat_word_ariths(1) [of "- d" d] by simp
  then have "15000 < unat (- d)"
    using assms(4,5) by (cases "unat (- d) \<le> 15000") (auto simp: not_le)
  then have "now - c_last_pong c > kHeartbeatTimeoutMs"
    unfolding diff by (simp add: kHeartbeatTimeoutMs_def word_less_nat_alt)
  then show ?thesis
    using HeartbeatLoop_timeout [OF assms(1,2), of now api] by simp
qed

lemma heartbeat_race_witness:
  "\<not> c_connected (snd (HeartbeatLoop utf8_ref 1000 (example_client\<lparr>c_last_pong := 1016\<rparr>)))"
  using heartbeat_race [of "example_client\<lparr>c_last_pong := 1016\<rparr>" 1000 16 utf8_ref]
  by (simp add: example_defs)

text \<open>
  C38: the answer to a join is read with a decoder that is thrown away. When the JOIN_OK frame
  arrives in one piece with the first bytes of the next message, the join succeeds and those
  bytes are lost to the receive loop, which starts in the middle of the next frame.
\<close>

theorem join_response_drops_bytes:
  assumes "c_input c = Received (EncodeFrame p @ extra) # later" and "DeserializeMessage api p = (NoError, m)"
    and "msg_type m = MsgJoinOk" and "length p + length extra \<le> kMaxFramePayloadBytes"
    and "in_time kJoinResponseTimeoutMs clock"
  shows "\<exists>c'. ReadJoinResponse api clock c = Some (True, c') \<and> c_connected c' \<and>
              c_input (StartWorkers c') = later \<and> c_decoder (StartWorkers c') = []"
  using ReadJoinResponse_ok [OF _ assms(3), of api clock c extra later] answer_in_first_piece [OF assms(2,4,5), of later] assms(1)
  by (auto simp: StartWorkers_def)

lemma join_response_drops_bytes_witness:
  "\<exists>b c'. ReadJoinResponse utf8_ref [0, 1] (example_client\<lparr>c_input := [Received (EncodeFrame b @ [0, 0, 0]), Received [5, 1]]\<rparr>) =
          Some (True, c') \<and> c_input (StartWorkers c') = [Received [5, 1]]"
proof -
  have small: "small_message (join_ok_message example_server)"
    by (rule small_join_ok) (simp_all add: example_defs session_ok_def text_ok_def GenerateReconnectToken_def)
  obtain b where b: "DeserializeMessage utf8_ref b = (NoError, received (join_ok_message example_server))"
    "length b + 4096 \<le> kMaxFramePayloadBytes + 1"
    by (rule small_message_sent [OF utf8_api_ref small])
  have ty: "msg_type (received (join_ok_message example_server)) = MsgJoinOk"
    by (simp add: join_ok_message_def server_message_def)
  have clock: "in_time kJoinResponseTimeoutMs [0, 1]"
    by (simp add: in_time_def kJoinResponseTimeoutMs_def)
  let ?c = "example_client\<lparr>c_input := [Received (EncodeFrame b @ [0, 0, 0]), Received [5, 1]]\<rparr>"
  have c: "c_input ?c = Received (EncodeFrame b @ [0, 0, 0]) # [Received [5, 1]]"
    and len: "length b + length [0 :: byte, 0, 0] \<le> kMaxFramePayloadBytes"
    using b(2) by simp_all
  show ?thesis
    using join_response_drops_bytes [OF c b(1) ty len clock] by blast
qed

section \<open>The windows\<close>

text \<open>
  C24: chunks may come in any order and more than once. If the chunks of a document are handled in
  any order, with repetitions, by a window whose buffers belong to another response, the
  window holds the whole document and its revision as soon as the last missing one is handled.
\<close>

theorem chunks_any_order:
  assumes "list_all2 (is_chunk doc r) js ms" and "is_chunk doc r k m" and "k \<notin> set js"
    and "insert k (set js) = {..<chunk_count doc}" and "chunk_count doc < 2 ^ 64"
    and "w_sync_revision w \<noteq> r \<or> length (w_chunks w) \<noteq> chunk_count doc"
  shows "w_text (ApplySyncResponse api m (fold (ApplySyncResponse api) ms w)) = doc \<and>
         w_revision (ApplySyncResponse api m (fold (ApplySyncResponse api) ms w)) = r"
  by (rule web_collector.assemble [where js = js and k = k and S = "{}"]) (use assms in \<open>simp_all add: web_buffers_def\<close>)

lemma chunks_any_order_witness:
  "\<exists>doc m0 m1. chunk_count doc = 2 \<and>
     w_text (ApplySyncResponse utf8_ref m0 (fold (ApplySyncResponse utf8_ref) [m1, m1] example_web)) = doc"
proof -
  let ?doc = "replicate (Suc kSyncChunkChars) (97 :: wchar)"
  define m where "m = (\<lambda>i. received (sync_chunk ?doc 9 example_server i))"
  have n: "chunk_count ?doc = 2"
    by (simp add: chunk_count_def kSyncChunkChars_def)
  have "w_text (ApplySyncResponse utf8_ref (m 0) (fold (ApplySyncResponse utf8_ref) [m 1, m 1] example_web)) = ?doc \<and>
      w_revision (ApplySyncResponse utf8_ref (m 0) (fold (ApplySyncResponse utf8_ref) [m 1, m 1] example_web)) = 9"
  proof (rule chunks_any_order [where js = "[1, 1]" and k = 0])
    show "list_all2 (is_chunk ?doc 9) [1, 1] [m 1, m 1]" "is_chunk ?doc 9 0 (m 0)"
      by (simp_all only: list_all2_Cons list_all2_Nil m_def is_chunk_sync_chunk)
    show "insert 0 (set [1, 1]) = {..<chunk_count ?doc}"
      unfolding n by auto
    show "w_sync_revision example_web \<noteq> 9 \<or> length (w_chunks example_web) \<noteq> chunk_count ?doc"
      by (simp add: example_web_def)
    show "chunk_count ?doc < 2 ^ 64" unfolding n by simp
  qed simp
  with n show ?thesis by blast
qed

text \<open>
  What the host types reaches the server's document. For a new text within the limits, sent as
  the operations of the diff, the server's document becomes that text and the host's revision
  the server's, if both agreed before.
\<close>

theorem host_edits_reach_server:
  assumes "w_role w = Host" and "w_local w = wide ''A''" and "w_text w = document (w_server w)"
    and "w_revision w = revision (w_server w)" and "length (document (w_server w)) \<le> kMaxDocumentChars"
    and "length new_text \<le> kMaxDocumentChars"
    and "\<forall>op \<in> set (operations (ComputeEditorDiff (w_text w) new_text)). length (op_text op) \<le> kMaxInsertChars"
  shows "document (w_server (SendLocalOperations api (ComputeEditorDiff (w_text w) new_text) w)) = new_text \<and>
         w_revision (SendLocalOperations api (ComputeEditorDiff (w_text w) new_text) w) =
         revision (w_server (SendLocalOperations api (ComputeEditorDiff (w_text w) new_text) w))"
proof -
  have "SendLocalOperations api (ComputeEditorDiff (w_text w) new_text) w =
      fold (send_local_operation api) (operations (ComputeEditorDiff (w_text w) new_text)) w"
    using assms(1) unchanged_no_operations [of "w_text w" new_text] by (simp add: SendLocalOperations_def)
  then show ?thesis
    using web_host.host_types [of w new_text api] assms by simp
qed

lemma host_edits_reach_server_witness:
  "document (w_server (SendLocalOperations utf8_ref (ComputeEditorDiff (wide ''hi'') (wide ''ho''))
     (example_web\<lparr>w_role := Host, w_local := wide ''A'', w_server := example_server, w_text := wide ''hi'', w_revision := 4\<rparr>))) =
   wide ''ho''"
proof -
  let ?w = "example_web\<lparr>w_role := Host, w_local := wide ''A'', w_server := example_server, w_text := wide ''hi'', w_revision := 4\<rparr>"
  have pre: "length (wide ''ho'') \<le> kMaxDocumentChars" "wide ''hi'' \<noteq> wide ''ho''"
    by (simp_all add: kMaxDocumentChars_def)
  obtain p d i s where "wide ''hi'' = p @ d @ s" and new: "wide ''ho'' = p @ i @ s"
    and ops: "operations (ComputeEditorDiff (wide ''hi'') (wide ''ho'')) =
      (if d \<noteq> [] then [delete_op (length p) (length d)] else []) @ (if i \<noteq> [] then [insert_op (length p) i] else [])"
    by (rule diff_decompose [OF pre]) (rule that)
  have "length i \<le> 2" using arg_cong [OF new, of length] by simp
  then have "\<forall>op \<in> set (operations (ComputeEditorDiff (wide ''hi'') (wide ''ho''))). length (op_text op) \<le> kMaxInsertChars"
    unfolding ops by (auto simp: delete_op_def insert_op_def kMaxInsertChars_def)
  then show ?thesis
    using host_edits_reach_server [of ?w "wide ''ho''" utf8_ref]
    by (simp add: example_defs kMaxDocumentChars_def)
qed

text \<open>
  A race loses the guest's edit at the host. The server has applied an edit of the guest and
  queued its event; before the window drains the queue, the host's own next operation is
  applied. It raises the window's revision above the one of the queued event, which is then
  dropped as old, although the edit is in the server's document.
\<close>

theorem host_window_loses_peer_edit:
  assumes "edit_and_notify api k m s = (Some a, s1)" and "msg_session m = session_code s"
    and "ApplyLocalOperation api op (w_local w) s1 = (Some b, s2)" and "w_server w = s1" and "w_role w = Host"
    and "w_local w = wide ''A''" and "unat (revision s) + 2 < 2 ^ 64"
  shows "ApplySyncApply api a (send_local_operation api op w) = send_local_operation api op w \<and>
         (\<exists>e e'. document s2 = do_edit e' (do_edit e (document s)) \<and> announced_edit a = Some e \<and> announced_edit b = Some e')"
proof -
  have "peer_edit s s1 a"
    using edit_and_notify_books [OF assms(1,2)] by simp
  then obtain e where e: "document s1 = do_edit e (document s)" "revision s1 = revision s + 1"
    "announced_edit a = Some e" "GetNumber a (wide ''rev'') = Some (revision s + 1)"
    by (auto simp: peer_edit_def)
  obtain e' where b: "announced_edit b = Some e'" "document s2 = do_edit e' (document s1)"
    "GetNumber b (wide ''rev'') = Some (revision s1 + 1)"
    using assms(3,6) by (cases rule: ApplyLocalOperation_cases [of api op s1]) auto
  have w': "w_revision (send_local_operation api op w) = revision s + 2"
    using assms(3-5) b(3) e(2) by (simp add: send_local_operation_def optional_number_def)
  have "unat (revision s + 1) = unat (revision s) + 1" "unat (revision s + 2) = unat (revision s) + 2"
    using assms(7) by (simp_all add: unat_word_ariths)
  then have "revision s + 1 \<le> revision s + 2"
    by (simp add: word_le_nat_alt)
  then have "ApplySyncApply api a (send_local_operation api op w) = send_local_operation api op w"
    using e(4) w' by (auto simp: ApplySyncApply_def split: option.splits)
  then show ?thesis
    using b e by (intro conjI exI [of _ e] exI [of _ e']) simp_all
qed

lemma host_window_loses_peer_edit_witness:
  "\<exists>a s1. edit_and_notify utf8_ref 1 (insert_message 4 0 (wide ''X'') example_client) example_server = (Some a, s1) \<and>
     (let w = send_local_operation utf8_ref (insert_op 2 (wide ''Y''))
                (example_web\<lparr>w_role := Host, w_local := wide ''A'', w_server := s1, w_text := wide ''hi'', w_revision := 4\<rparr>)
      in w_text (ApplySyncApply utf8_ref a w) = wide ''hi'' \<and> w_revision (ApplySyncApply utf8_ref a w) = 6)"
proof -
  let ?m = "insert_message 4 0 (wide ''X'') example_client"
  have req: "requested_edit ?m = Some (0, 0, wide ''X'')"
    by (simp add: requested_edit_def insert_message_def client_message_def example_defs)
  have acc: "edit_accepted ?m example_server"
    using req by (simp add: edit_accepted_def edit_allowed_def insert_message_def client_message_def example_defs
        kMaxInsertChars_def kMaxDocumentChars_def)
  obtain a s0 where a: "ApplyMessageToDocument utf8_ref ?m example_server = (Inr a, s0)"
    "document s0 = do_edit (0, 0, wide ''X'') (document example_server)" "revision s0 = revision example_server + 1"
    "session_code s0 = session_code example_server"
    by (rule accepted_edit [OF acc req, of utf8_ref])
  define s1 where "s1 = PushEvent (default_event\<lparr>ev_type := EvApply, ev_message := a\<rparr>) s0"
  have notify: "edit_and_notify utf8_ref 1 ?m example_server = (Some a, s1)"
    using a(1) by (simp add: edit_and_notify_def s1_def insert_message_def client_message_def example_defs)
  have s1: "document s1 = wide ''Xhi''" "revision s1 = 5" "session_code s1 = wide ''123456''"
    using a(2-4) by (simp_all add: s1_def do_edit_def splice_def example_defs wide_def)
  let ?w = "example_web\<lparr>w_role := Host, w_local := wide ''A'', w_server := s1, w_text := wide ''hi'', w_revision := 4\<rparr>"
  have local: "\<exists>b s2. ApplyLocalOperation utf8_ref (insert_op 2 (wide ''Y'')) (wide ''A'') s1 = (Some b, s2) \<and>
      GetNumber b (wide ''rev'') = Some 6"
  proof (cases rule: ApplyLocalOperation_cases [of utf8_ref "insert_op 2 (wide ''Y'')" s1])
    case (refused s')
    have "edit_accepted (local_request (insert_op 2 (wide ''Y'')) (wide ''A'') s1) s1"
      by (simp add: edit_accepted_def requested_edit_def edit_allowed_def local_request_def insert_op_def s1
          kMaxInsertChars_def kMaxDocumentChars_def)
    then obtain x y where "ApplyMessageToDocument utf8_ref (local_request (insert_op 2 (wide ''Y'')) (wide ''A'') s1) s1 = (Inr x, y)"
      using ApplyMessageToDocument_accepted unfolding edit_accepted_def by metis
    with refused(1) show ?thesis by (simp add: ApplyLocalOperation_def)
  next
    case (applied b e s2)
    then show ?thesis using s1(2) by auto
  qed
  then obtain b s2 where b: "ApplyLocalOperation utf8_ref (insert_op 2 (wide ''Y'')) (wide ''A'') s1 = (Some b, s2)"
    "GetNumber b (wide ''rev'') = Some 6" by blast
  have "ApplySyncApply utf8_ref a (send_local_operation utf8_ref (insert_op 2 (wide ''Y'')) ?w) =
      send_local_operation utf8_ref (insert_op 2 (wide ''Y'')) ?w"
    using host_window_loses_peer_edit [OF notify, of "insert_op 2 (wide ''Y'')" ?w b s2] b(1)
    by (simp add: example_defs insert_message_def client_message_def)
  then show ?thesis
    using notify b
    by (intro exI [of _ a] exI [of _ s1])
      (simp add: send_local_operation_def optional_number_def example_web_def Let_def)
qed

text \<open>
  A guest's own echo hides a gap. When the echo of the guest's edit arrives with a revision that
  skips one, the guest takes the new revision without asking for the missing edit, and the
  message with the skipped revision is dropped when it comes; the same gap in a message of the
  host would have requested a full synchronisation.
\<close>

theorem own_echo_hides_gap:
  assumes "msg_client own = w_local w" and "announced_edit own = Some e" and "GetNumber own (wide ''rev'') = Some r"
    and "w_revision w < r" and "announced_edit missed = Some e'" and "GetNumber missed (wide ''rev'') = Some r'"
    and "r' < r"
  shows "ApplySyncApply api missed (ApplySyncApply api own w) = w\<lparr>w_revision := r\<rparr>"
proof -
  obtain p q x y where f: "GetNumber own (wide ''pos'') = Some p" "GetString own (wide ''op'') = Some x"
    "GetNumber missed (wide ''pos'') = Some q" "GetString missed (wide ''op'') = Some y"
    using announced_edit_fields [OF assms(2)] announced_edit_fields [OF assms(5)] by blast
  have "ApplySyncApply api own w = w\<lparr>w_revision := r\<rparr>"
    using f(1,2) assms(1,3,4) by (simp add: ApplySyncApply_def not_le [symmetric])
  moreover have "r' \<le> r" using assms(7) by simp
  ultimately show ?thesis
    using f(3,4) assms(6) by (simp add: ApplySyncApply_def)
qed

lemma own_echo_hides_gap_witness:
  "w_text (ApplySyncApply utf8_ref (apply_message_for (insert_message 0 0 (wide ''H'') (example_client\<lparr>c_assigned := wide ''A''\<rparr>)) 0 1 example_server)
     (ApplySyncApply utf8_ref (apply_message_for (insert_message 0 0 (wide ''G'') example_client) 0 2 example_server)
       (example_web\<lparr>w_text := wide ''G''\<rparr>))) = wide ''G''"
proof -
  let ?own = "apply_message_for (insert_message 0 0 (wide ''G'') example_client) 0 2 example_server"
  let ?missed = "apply_message_for (insert_message 0 0 (wide ''H'') (example_client\<lparr>c_assigned := wide ''A''\<rparr>)) 0 1 example_server"
  have e: "announced_edit ?own = Some (0, 0, wide ''G'')" "announced_edit ?missed = Some (0, 0, wide ''H'')"
    by (rule announced_apply_message; simp add: requested_edit_def insert_message_def client_message_def)+
  show ?thesis
    using own_echo_hides_gap [OF _ e(1) _ _ e(2), of "example_web\<lparr>w_text := wide ''G''\<rparr>" 2 1 utf8_ref]
    by (simp add: apply_message_for_header insert_message_def client_message_def example_defs)
qed

text \<open>
  A document travels from the page to the native side unchanged, whatever quotes, backslashes,
  line breaks and tabs it contains; only other control characters are not understood.
\<close>

theorem page_text_roundtrip:
  assumes "\<forall>ch \<in> set t. plain_char ch"
  shows "HasMessageType (page_message ''editorChanged'' (json_key ''text'' @ json_text t)) (wide ''editorChanged'') \<and>
         ExtractJsonString (page_message ''editorChanged'' (json_key ''text'' @ json_text t)) (wide ''text'') = Some t"
  using page_message_text [OF assms] page_message_type by simp

lemma page_text_roundtrip_witness:
  "ExtractJsonString (page_message ''editorChanged'' (json_key ''text'' @ json_text [34, 92, 10, 125, 0xAC00])) (wide ''text'') =
   Some [34, 92, 10, 125, 0xAC00]"
  using page_text_roundtrip [of "[34, 92, 10, 125, 0xAC00]"] by (simp add: plain_char_def)

section \<open>The document on disk\<close>

text \<open>
  C27: saving is all or nothing: whatever fails, the file holds afterwards either what it held before
  or exactly the UTF-8 form of the new content, and the latter exactly when success is reported.
\<close>

theorem save_all_or_nothing:
  "st_current (snd (SaveCurrent api content st)) =
     (if fst (SaveCurrent api content st) then Some (WideToUtf8 api content) else st_current st)"
  using SaveCurrent_atomic [of api content st "fst (SaveCurrent api content st)" "snd (SaveCurrent api content st)"] by simp

text \<open>What was saved is loaded back unchanged, unless it starts with U+FEFF.\<close>

theorem save_then_load:
  assumes "utf8_api api" and "SaveCurrent api content st = (True, st')" and "st_faults st' = []"
    and "take 1 content \<noteq> [0xFEFF]"
  shows "LoadCurrent api st' = (Some content, st')"
  by (rule save_load [OF assms(1-3)]) (use assms(4) in auto)

lemma save_then_load_witness:
  "\<exists>st. SaveCurrent utf8_ref [104, 0xAC00] (w_storage example_web) = (True, st) \<and>
        LoadCurrent utf8_ref st = (Some [104, 0xAC00], st)"
proof -
  have wf: "utf16_wf [104, 0xAC00]" by (simp add: is_high_surrogate_def is_low_surrogate_def)
  have "st_faults (w_storage example_web) = []" by (simp add: example_web_def)
  then have "fst (SaveCurrent utf8_ref [104, 0xAC00] (w_storage example_web))"
    using SaveCurrent_ok [OF utf8_api_ref] wf by blast
  then obtain st where st: "SaveCurrent utf8_ref [104, 0xAC00] (w_storage example_web) = (True, st)"
    by (cases "SaveCurrent utf8_ref [104, 0xAC00] (w_storage example_web)") auto
  moreover have "st_faults st = []"
    using st by (auto simp: SaveCurrent_def next_fault_def EnsureDataDirectory_def Let_def example_web_def split: if_splits)
  ultimately show ?thesis
    using save_then_load [OF utf8_api_ref st] by auto
qed

end
