(* ===== verification/StdText.thy ===== *)
theory StdText
  imports Json
begin

text \<open>
  The text functions of the C++ library that the configuration and the discovery use:
  \<^verbatim>\<open>std::stoul\<close>, \<^verbatim>\<open>std::getline\<close> and \<^verbatim>\<open>operator>>\<close> for strings. \<^verbatim>\<open>unsigned long\<close> has 32 bits on
  Windows. Spaces and digits are the ones of ASCII, in narrow and wide text alike.
\<close>

definition c_space :: "'a::len word \<Rightarrow> bool" where
  "c_space ch \<longleftrightarrow> unat ch = 32 \<or> 9 \<le> unat ch \<and> unat ch \<le> 13"

definition c_digit :: "'a::len word \<Rightarrow> bool" where
  "c_digit ch \<longleftrightarrow> 48 \<le> unat ch \<and> unat ch \<le> 57"

definition decimal_value :: "'a::len word list \<Rightarrow> nat" where
  "decimal_value ds = foldl (\<lambda>v ch. v * 10 + (unat ch - 48)) 0 ds"

text \<open>
  \<open>None\<close> stands for the exceptions \<^verbatim>\<open>std::invalid_argument\<close> and \<^verbatim>\<open>std::out_of_range\<close>. A minus
  sign is accepted, and negates the value as an unsigned number.
\<close>

definition stoul :: "'a::len word list \<Rightarrow> u32 option" where
  "stoul text =
     (let ys = dropWhile c_space text;
          negative = (ys \<noteq> [] \<and> unat (hd ys) = 45);
          zs = (if ys \<noteq> [] \<and> (unat (hd ys) = 45 \<or> unat (hd ys) = 43) then tl ys else ys);
          ds = takeWhile c_digit zs;
          v = decimal_value ds
      in if ds = [] \<or> 2 ^ 32 \<le> v then None
         else Some (if negative then - of_nat v else of_nat v))"

text \<open>The lines \<^verbatim>\<open>std::getline\<close> returns, and the words \<^verbatim>\<open>operator>>\<close> returns, one after the other.\<close>

function getlines :: "wstr \<Rightarrow> wstr list" where
  "getlines xs =
     (if xs = [] then []
      else takeWhile (\<lambda>ch. ch \<noteq> 10) xs # getlines (drop 1 (dropWhile (\<lambda>ch. ch \<noteq> 10) xs)))"
  by pat_completeness auto
termination
proof (relation "measure length")
  fix xs :: wstr
  assume "xs \<noteq> []"
  then have "0 < length xs" "length (dropWhile (\<lambda>ch. ch \<noteq> 10) xs) \<le> length xs"
    by (simp_all add: length_dropWhile_le)
  then show "(drop 1 (dropWhile (\<lambda>ch. ch \<noteq> 10) xs), xs) \<in> measure length"
    unfolding in_measure length_drop by linarith
qed simp

function words_of :: "bytes \<Rightarrow> bytes list" where
  "words_of xs =
     (let ys = dropWhile c_space xs
      in if ys = [] then []
         else takeWhile (\<lambda>ch. \<not> c_space ch) ys # words_of (dropWhile (\<lambda>ch. \<not> c_space ch) ys))"
  by pat_completeness auto
termination
proof (relation "measure length")
  fix xs ys :: bytes
  assume ys: "ys = dropWhile c_space xs" "ys \<noteq> []"
  then have "\<not> c_space (hd ys)" by (simp add: hd_dropWhile)
  with ys(2) have "length (dropWhile (\<lambda>ch. \<not> c_space ch) ys) < length ys"
    by (cases ys) (auto intro: le_less_trans [OF length_dropWhile_le])
  also have "\<dots> \<le> length xs" by (simp add: ys(1) length_dropWhile_le)
  finally show "(dropWhile (\<lambda>ch. \<not> c_space ch) ys, xs) \<in> measure length" by simp
qed simp

declare getlines.simps [simp del] words_of.simps [simp del]

section \<open>Reading back what was printed\<close>

lemma c_digit_iswdigit [simp]: "c_digit (ch :: wchar) \<longleftrightarrow> iswdigit ch"
  by (simp add: c_digit_def iswdigit_unat)

lemma decimal_value_wide: "decimal_value ds = digits_value 0 ds"
  by (simp add: decimal_value_def digits_value_def)

lemma stoul_digits:
  assumes "ds \<noteq> []" and "\<forall>ch \<in> set ds. c_digit ch" and "decimal_value ds < 2 ^ 32"
  shows "stoul ds = Some (of_nat (decimal_value ds))"
proof -
  obtain d r where ds: "ds = d # r" using assms(1) by (cases ds) auto
  have d: "48 \<le> unat d" "unat d \<le> 57" using assms(2) by (auto simp: ds c_digit_def)
  then have "\<not> c_space d" "unat d \<noteq> 45" "unat d \<noteq> 43" by (auto simp: c_space_def)
  moreover have "takeWhile c_digit ds = ds" using assms(2) by simp
  ultimately show ?thesis
    using assms(3) by (simp add: stoul_def ds Let_def)
qed

lemma stoul_dec_digits: "n < 2 ^ 32 \<Longrightarrow> stoul (dec_digits n) = Some (of_nat n)"
  using stoul_digits [of "dec_digits n"] dec_digits_digits [of n] dec_digits_value [of n]
  by (simp add: decimal_value_wide)

text \<open>The same digits as narrow characters.\<close>

definition dec_bytes :: "nat \<Rightarrow> bytes" where
  "dec_bytes n = map ucast (dec_digits n)"

lemma unat_ucast_digit: "iswdigit ch \<Longrightarrow> unat (ucast ch :: byte) = unat ch"
  by (simp add: iswdigit_unat unsigned_ucast_eq take_bit_nat_eq_self)

lemma dec_bytes_digits: "\<forall>b \<in> set (dec_bytes n). c_digit b"
  using dec_digits_digits [of n] by (auto simp: dec_bytes_def c_digit_def unat_ucast_digit iswdigit_unat)

lemma decimal_value_dec_bytes: "decimal_value (dec_bytes n) = n"
proof -
  have "foldl (\<lambda>v b. v * 10 + (unat b - 48)) v (map ucast ds :: bytes) = digits_value v ds"
    if "\<forall>ch \<in> set ds. iswdigit ch" for v ds
    using that by (induction ds arbitrary: v) (simp_all add: digits_value_Cons unat_ucast_digit)
  then show ?thesis
    using dec_digits_digits [of n] dec_digits_value [of n] by (simp add: decimal_value_def dec_bytes_def)
qed

lemma stoul_dec_bytes: "n < 2 ^ 32 \<Longrightarrow> stoul (dec_bytes n) = Some (of_nat n)"
  using stoul_digits [of "dec_bytes n"] dec_bytes_digits [of n] decimal_value_dec_bytes [of n]
  by (simp add: dec_bytes_def)

text \<open>A port survives the way through \<^verbatim>\<open>unsigned long\<close> and its range check.\<close>

lemma unat_of_nat_u32: "n < 2 ^ 32 \<Longrightarrow> unat (of_nat n :: u32) = n"
  by (simp add: unat_of_nat)

lemma port_word:
  fixes p :: u16
  assumes "p \<noteq> 0"
  shows "(of_nat (unat p) :: u32) \<noteq> 0" and "\<not> (of_nat (unat p) :: u32) > 65535"
    and "ucast (of_nat (unat p) :: u32) = p" and "unat p < 2 ^ 32"
proof -
  have p: "unat p < 2 ^ 16" by (rule unat_wchar_lt)
  have n: "unat (of_nat (unat p) :: u32) = unat p"
    using p by (intro unat_of_nat_u32) simp
  then show "(of_nat (unat p) :: u32) \<noteq> 0" "\<not> (of_nat (unat p) :: u32) > 65535"
    using assms p by (auto simp: word_less_nat_alt unat_eq_zero)
  show "ucast (of_nat (unat p) :: u32) = p"
    by (rule bit_word_eqI) (simp add: bit_simps)
  show "unat p < 2 ^ 32" using p by simp
qed

lemma getlines_Nil [simp]: "getlines [] = []"
  by (simp add: getlines.simps)

lemma getlines_line:
  assumes "10 \<notin> set l"
  shows "getlines (l @ 10 # r) = l # getlines r"
proof -
  have "takeWhile (\<lambda>ch. ch \<noteq> 10) (l @ 10 # r) = l" "dropWhile (\<lambda>ch. ch \<noteq> 10) (l @ 10 # r) = 10 # r"
    using assms by (induction l) auto
  then show ?thesis by (subst getlines.simps) simp
qed

lemma getlines_no_newline: "l \<in> set (getlines xs) \<Longrightarrow> 10 \<notin> set l"
proof (induction xs rule: getlines.induct)
  case (1 xs)
  then show ?case
    by (subst (asm) getlines.simps) (auto split: if_splits dest: set_takeWhileD)
qed

lemma words_of_Nil [simp]: "words_of [] = []"
  by (simp add: words_of.simps)

lemma words_of_word:
  assumes "w \<noteq> []" and "\<forall>b \<in> set w. \<not> c_space b" and "r = [] \<or> c_space (hd r)"
  shows "words_of (w @ r) = w # words_of r"
proof -
  have "dropWhile c_space (w @ r) = w @ r"
    using assms(1,2) by (cases w) auto
  moreover have "takeWhile (\<lambda>b. \<not> c_space b) (w @ r) = w" "dropWhile (\<lambda>b. \<not> c_space b) (w @ r) = r"
    using assms(2,3) by (induction w) (cases r; auto)+
  ultimately show ?thesis using assms(1) by (subst words_of.simps) (simp add: Let_def)
qed

lemma words_of_space: "c_space b \<Longrightarrow> words_of (b # r) = words_of r"
  by (subst (1 2) words_of.simps) simp

end
