(* ===== verification/Config.thy ===== *)
theory Config
  imports Storage StdText
begin

text \<open>
  \<^verbatim>\<open>client/config.cpp\<close>: the settings kept in \<^verbatim>\<open>config.ini\<close>. The state holds the three settings, the
  last error, the bytes of the file, and what the outside world answers: \<open>cf_guid\<close> is the text
  of the next GUID, \<open>None\<close> when none can be had, and \<open>cf_faults\<close> how the file operations of the
  coming calls fail, as for the document.
\<close>

definition kDefaultPort :: u16 where
  "kDefaultPort = 7777"

definition kDefaultNickname :: wstr where
  "kDefaultNickname = wide ''User''"

record config =
  cf_device_id :: wstr
  cf_nickname :: wstr
  cf_port :: u16
  cf_error :: wstr
  cf_file :: "bytes option"
  cf_guid :: "wstr option"
  cf_faults :: "io_fault list"

text \<open>A \<^verbatim>\<open>Config\<close> as it is constructed, over the file and the outside world it finds.\<close>

definition Config_init :: "bytes option \<Rightarrow> wstr option \<Rightarrow> io_fault list \<Rightarrow> config" where
  "Config_init file guid faults =
     \<lparr>cf_device_id = [], cf_nickname = [], cf_port = 7777, cf_error = [],
      cf_file = file, cf_guid = guid, cf_faults = faults\<rparr>"

section \<open>Helpers\<close>

definition is_space :: "wchar \<Rightarrow> bool" where
  "is_space ch \<longleftrightarrow> ch = 32 \<or> ch = 9 \<or> ch = 13 \<or> ch = 10"

definition Trim :: "wstr \<Rightarrow> wstr" where
  "Trim val =
     (let val1 = dropWhile is_space val
      in rev (dropWhile is_space (rev val1)))"

text \<open>\<^verbatim>\<open>towlower\<close>, on the characters a GUID has.\<close>

definition lower_char :: "wchar \<Rightarrow> wchar" where
  "lower_char ch = (if 65 \<le> ch \<and> ch \<le> 90 then ch + 32 else ch)"

definition GenerateDeviceId :: "config \<Rightarrow> wstr" where
  "GenerateDeviceId c =
     (case cf_guid c of
        None \<Rightarrow> wide ''local-device''
      | Some val \<Rightarrow>
          let val1 = (if length val \<ge> 2 \<and> hd val = ch_lbrace \<and> last val = ch_rbrace
                      then substr 1 (length val - 2) val else val)
          in map lower_char val1)"

definition ParsePort :: "wstr \<Rightarrow> u16 option" where
  "ParsePort val =
     (case stoul val of
        None \<Rightarrow> None
      | Some parsed \<Rightarrow> if parsed = 0 \<or> parsed > 65535 then None else Some (ucast parsed))"

definition next_config_fault :: "config \<Rightarrow> io_fault \<times> config" where
  "next_config_fault c =
     (case cf_faults c of [] \<Rightarrow> (NoFault, c) | f # fs \<Rightarrow> (f, c\<lparr>cf_faults := fs\<rparr>))"

definition ReadUtf8File :: "text_api \<Rightarrow> io_fault \<Rightarrow> bytes \<Rightarrow> wstr option" where
  "ReadUtf8File api fault bs =
     (if fault = OpenFault then None
      else Utf8ToWide api (if HasPrefix bs [0xEF, 0xBB, 0xBF] then drop 3 bs else bs))"

section \<open>Saving\<close>

definition config_text :: "config \<Rightarrow> wstr" where
  "config_text c =
     wide ''device_id='' @ cf_device_id c @ [10] @
     wide ''nickname='' @ cf_nickname c @ [10] @
     wide ''port='' @ dec_digits (unat (cf_port c)) @ [10]"

text \<open>The file is opened for writing in place: a write that fails leaves what was written.\<close>

definition Save :: "text_api \<Rightarrow> config \<Rightarrow> bool \<times> config" where
  "Save api c =
     (let (fault, c0) = next_config_fault c
      in if fault = DirFault then (False, c0\<lparr>cf_error := txt_config_dir_failed\<rparr>)
         else
           let bs = WideToUtf8 api (config_text c0)
           in if bs = [] then (False, c0\<lparr>cf_error := txt_config_encode_failed\<rparr>)
              else case fault of
                OpenFault \<Rightarrow> (False, c0\<lparr>cf_error := txt_config_save_failed\<rparr>)
              | WriteFault n \<Rightarrow>
                  (False, c0\<lparr>cf_file := Some (take n bs), cf_error := txt_config_write_failed\<rparr>)
              | _ \<Rightarrow> (True, c0\<lparr>cf_file := Some bs, cf_error := []\<rparr>))"

section \<open>Loading\<close>

text \<open>One line of the file; the flag is \<^verbatim>\<open>*changed\<close>.\<close>

definition config_line :: "wstr \<Rightarrow> config \<times> bool \<Rightarrow> config \<times> bool" where
  "config_line raw cc =
     (let (c, changed) = cc; line = Trim raw
      in if line = [] \<or> hd line = 35 \<or> hd line = 59 then (c, changed)
         else if 61 \<notin> set line then (c, changed)
         else
           let key = Trim (takeWhile (\<lambda>ch. ch \<noteq> 61) line);
               val = Trim (drop 1 (dropWhile (\<lambda>ch. ch \<noteq> 61) line))
           in if key = wide ''device_id'' then (c\<lparr>cf_device_id := val\<rparr>, changed)
              else if key = wide ''nickname'' then (c\<lparr>cf_nickname := val\<rparr>, changed)
              else if key = wide ''port'' then
                (case ParsePort val of
                   Some parsed \<Rightarrow> (c\<lparr>cf_port := parsed\<rparr>, changed)
                 | None \<Rightarrow> (c\<lparr>cf_port := kDefaultPort\<rparr>, True))
              else (c, changed))"

text \<open>The changed flag of a load that succeeds, \<open>None\<close> for one that fails.\<close>

definition LoadExisting :: "text_api \<Rightarrow> io_fault \<Rightarrow> bytes \<Rightarrow> config \<Rightarrow> (config \<times> bool) option" where
  "LoadExisting api fault bs c =
     (case ReadUtf8File api fault bs of
        None \<Rightarrow> None
      | Some text \<Rightarrow> Some (fold config_line (getlines text) (c, False)))"

definition ApplyDefaults :: "config \<times> bool \<Rightarrow> config \<times> bool" where
  "ApplyDefaults cc =
     (let (c, changed) = cc;
          (c1, changed1) = (if cf_device_id c = [] then (c\<lparr>cf_device_id := GenerateDeviceId c\<rparr>, True) else (c, changed));
          (c2, changed2) = (if cf_nickname c1 = [] then (c1\<lparr>cf_nickname := kDefaultNickname\<rparr>, True) else (c1, changed1))
      in if cf_port c2 = 0 then (c2\<lparr>cf_port := kDefaultPort\<rparr>, True) else (c2, changed2))"

definition LoadOrCreate :: "text_api \<Rightarrow> config \<Rightarrow> bool \<times> config" where
  "LoadOrCreate api c =
     (let (fault, c0) = next_config_fault c
      in if fault = DirFault then (False, c0\<lparr>cf_error := txt_config_dir_failed\<rparr>)
         else case (case cf_file c0 of None \<Rightarrow> Some (c0, True) | Some bs \<Rightarrow> LoadExisting api fault bs c0) of
           None \<Rightarrow> (False, c0\<lparr>cf_error := txt_config_read_failed\<rparr>)
         | Some cc \<Rightarrow>
             let (c1, changed) = ApplyDefaults cc;
                 (ok, c2) = (if changed then Save api c1 else (True, c1))
             in if \<not> ok then (False, c2) else (True, c2\<lparr>cf_error := []\<rparr>))"

text \<open>Neither of the two setters looks at what it is given.\<close>

definition set_nickname :: "wstr \<Rightarrow> config \<Rightarrow> config" where
  "set_nickname nickname c = c\<lparr>cf_nickname := nickname\<rparr>"

definition set_port :: "u16 \<Rightarrow> config \<Rightarrow> config" where
  "set_port p c = c\<lparr>cf_port := p\<rparr>"

section \<open>Trimming\<close>

definition plain_value :: "wstr \<Rightarrow> bool" where
  "plain_value v \<longleftrightarrow> 10 \<notin> set v \<and> (v = [] \<or> \<not> is_space (hd v) \<and> \<not> is_space (last v))"

lemma Trim_id: "v = [] \<or> \<not> is_space (hd v) \<and> \<not> is_space (last v) \<Longrightarrow> Trim v = v"
proof -
  have keep: "xs = [] \<or> \<not> is_space (hd xs) \<Longrightarrow> dropWhile is_space xs = xs" for xs
    by (cases xs) auto
  assume "v = [] \<or> \<not> is_space (hd v) \<and> \<not> is_space (last v)"
  then show "Trim v = v"
    using keep [of v] keep [of "rev v"] by (auto simp: Trim_def hd_rev)
qed

lemma Trim_ends: "Trim v = [] \<or> \<not> is_space (hd (Trim v)) \<and> \<not> is_space (last (Trim v))"
proof -
  define u where "u = dropWhile is_space v"
  define r where "r = dropWhile is_space (rev u)"
  have r: "r = [] \<or> \<not> is_space (hd r)" unfolding r_def by (metis hd_dropWhile)
  have u: "u = [] \<or> \<not> is_space (hd u)" unfolding u_def by (metis hd_dropWhile)
  obtain p where p: "rev u = p @ r" unfolding r_def by (metis takeWhile_dropWhile_id)
  then have "u = rev r @ rev p" by (metis rev_append rev_rev_ident)
  with u r have "rev r = [] \<or> \<not> is_space (hd (rev r)) \<and> \<not> is_space (last (rev r))"
    by (auto simp: last_rev)
  then show ?thesis by (simp add: Trim_def u_def r_def)
qed

lemma set_Trim: "ch \<in> set (Trim v) \<Longrightarrow> ch \<in> set v"
  unfolding Trim_def Let_def set_rev by (drule set_dropWhileD, unfold set_rev, rule set_dropWhileD)

lemma plain_Trim: "10 \<notin> set v \<Longrightarrow> plain_value (Trim v)"
  using Trim_ends [of v] set_Trim [of 10 v] by (auto simp: plain_value_def)

lemma Trim_plain: "plain_value v \<Longrightarrow> Trim v = v"
  by (rule Trim_id) (simp add: plain_value_def)

section \<open>Reading what was saved\<close>

lemma config_line_value:
  assumes "key \<noteq> []" and "61 \<notin> set key" and "hd key \<noteq> 35" and "hd key \<noteq> 59" and "\<forall>ch \<in> set key. \<not> is_space ch"
    and "plain_value v"
  shows "Trim (key @ 61 # v) = key @ 61 # v" and "Trim (takeWhile (\<lambda>ch. ch \<noteq> 61) (key @ 61 # v)) = key"
    and "Trim (drop 1 (dropWhile (\<lambda>ch. ch \<noteq> 61) (key @ 61 # v))) = v"
proof -
  have eq: "\<not> is_space 61" by (simp add: is_space_def)
  have key: "\<not> is_space (hd key)" "\<not> is_space (last key)" using assms(1,5) by auto
  show "Trim (key @ 61 # v) = key @ 61 # v"
    using key eq assms(1,6) by (intro Trim_id) (auto simp: plain_value_def)
  have "takeWhile (\<lambda>ch. ch \<noteq> 61) (key @ 61 # v) = key" "dropWhile (\<lambda>ch. ch \<noteq> 61) (key @ 61 # v) = 61 # v"
    using assms(2) by (induction key) auto
  then show "Trim (takeWhile (\<lambda>ch. ch \<noteq> 61) (key @ 61 # v)) = key"
    "Trim (drop 1 (dropWhile (\<lambda>ch. ch \<noteq> 61) (key @ 61 # v))) = v"
    using Trim_id [of key] key Trim_plain [OF assms(6)] by simp_all
qed

lemma config_line_setting:
  assumes "plain_value v"
  shows "config_line (wide ''device_id'' @ 61 # v) (c, b) = (c\<lparr>cf_device_id := v\<rparr>, b)"
    and "config_line (wide ''nickname'' @ 61 # v) (c, b) = (c\<lparr>cf_nickname := v\<rparr>, b)"
    and "config_line (wide ''port'' @ 61 # v) (c, b) =
      (case ParsePort v of Some q \<Rightarrow> (c\<lparr>cf_port := q\<rparr>, b) | None \<Rightarrow> (c\<lparr>cf_port := kDefaultPort\<rparr>, True))"
proof -
  have dev: "wide ''device_id'' \<noteq> []" "61 \<notin> set (wide ''device_id'')" "hd (wide ''device_id'') \<noteq> 35"
    "hd (wide ''device_id'') \<noteq> 59" "\<forall>ch \<in> set (wide ''device_id''). \<not> is_space ch"
    by (simp_all add: wide_def is_space_def)
  have nick: "wide ''nickname'' \<noteq> []" "61 \<notin> set (wide ''nickname'')" "hd (wide ''nickname'') \<noteq> 35"
    "hd (wide ''nickname'') \<noteq> 59" "\<forall>ch \<in> set (wide ''nickname''). \<not> is_space ch"
    by (simp_all add: wide_def is_space_def)
  have port: "wide ''port'' \<noteq> []" "61 \<notin> set (wide ''port'')" "hd (wide ''port'') \<noteq> 35"
    "hd (wide ''port'') \<noteq> 59" "\<forall>ch \<in> set (wide ''port''). \<not> is_space ch"
    by (simp_all add: wide_def is_space_def)
  show "config_line (wide ''device_id'' @ 61 # v) (c, b) = (c\<lparr>cf_device_id := v\<rparr>, b)"
    using config_line_value [OF dev assms] dev
    by (simp add: config_line_def Let_def del: takeWhile_append dropWhile_append)
  show "config_line (wide ''nickname'' @ 61 # v) (c, b) = (c\<lparr>cf_nickname := v\<rparr>, b)"
    using config_line_value [OF nick assms] nick
    by (simp add: config_line_def Let_def del: takeWhile_append dropWhile_append)
  show "config_line (wide ''port'' @ 61 # v) (c, b) =
      (case ParsePort v of Some q \<Rightarrow> (c\<lparr>cf_port := q\<rparr>, b) | None \<Rightarrow> (c\<lparr>cf_port := kDefaultPort\<rparr>, True))"
    using config_line_value [OF port assms] port
    by (simp add: config_line_def Let_def del: takeWhile_append dropWhile_append)
qed

lemma ParsePort_dec_digits: "p \<noteq> 0 \<Longrightarrow> ParsePort (dec_digits (unat p)) = Some p"
  using stoul_dec_digits [of "unat p"] port_word [of p]
  by (simp add: ParsePort_def del: of_nat_unat)

lemma plain_dec_digits: "plain_value (dec_digits n)"
proof -
  have "\<forall>ch \<in> set (dec_digits n). 48 \<le> unat ch"
    using dec_digits_digits [of n] by (auto simp: iswdigit_unat)
  then have "\<forall>ch \<in> set (dec_digits n). ch \<noteq> 10 \<and> \<not> is_space ch"
    by (auto simp: is_space_def)
  then show ?thesis
    by (auto simp: plain_value_def)
qed

definition settings :: "config \<Rightarrow> wstr \<times> wstr \<times> u16" where
  "settings c = (cf_device_id c, cf_nickname c, cf_port c)"

definition plain_config :: "config \<Rightarrow> bool" where
  "plain_config c \<longleftrightarrow> plain_value (cf_device_id c) \<and> plain_value (cf_nickname c)"

lemma read_config_text:
  assumes "plain_config c" and "cf_port c \<noteq> 0"
  shows "fold config_line (getlines (config_text c)) (c', False) =
    (c'\<lparr>cf_device_id := cf_device_id c, cf_nickname := cf_nickname c, cf_port := cf_port c\<rparr>, False)"
proof -
  have dev: "config_text c = (wide ''device_id'' @ 61 # cf_device_id c) @ 10 #
      ((wide ''nickname'' @ 61 # cf_nickname c) @ 10 # ((wide ''port'' @ 61 # dec_digits (unat (cf_port c))) @ 10 # []))"
    by (simp add: config_text_def wide_def)
  have no: "10 \<notin> set (wide ''device_id'' @ 61 # cf_device_id c)" "10 \<notin> set (wide ''nickname'' @ 61 # cf_nickname c)"
    "10 \<notin> set (wide ''port'' @ 61 # dec_digits (unat (cf_port c)))"
    using assms(1) plain_dec_digits [of "unat (cf_port c)"]
    by (simp_all add: plain_config_def plain_value_def) (simp_all add: wide_def)
  show ?thesis
    unfolding dev getlines_line [OF no(1)] getlines_line [OF no(2)] getlines_line [OF no(3)]
    using assms config_line_setting plain_dec_digits ParsePort_dec_digits
    by (simp add: plain_config_def)
qed


section \<open>Starting again\<close>

lemma Save_True:
  assumes "utf8_api api" and "Save api c = (True, c')"
  shows "utf16_wf (config_text c)" and "cf_file c' = Some (WideToUtf8 api (config_text c))"
    and "settings c' = settings c"
proof -
  obtain fault c0 where f: "next_config_fault c = (fault, c0)" by force
  have same: "config_text c0 = config_text c" "settings c0 = settings c"
    using f by (auto simp: next_config_fault_def config_text_def settings_def split: list.splits)
  have "WideToUtf8 api (config_text c) \<noteq> []"
    using assms(2) f same by (auto simp: Save_def Let_def split: if_splits)
  then show "utf16_wf (config_text c)"
    using WideToUtf8_empty_iff [OF assms(1)] by auto
  show "cf_file c' = Some (WideToUtf8 api (config_text c))" "settings c' = settings c"
    using assms(2) f same by (auto simp: Save_def Let_def settings_def split: if_splits io_fault.splits)
qed

lemma ReadUtf8File_saved:
  assumes "utf8_api api" and "utf16_wf (config_text c)"
  shows "ReadUtf8File api NoFault (WideToUtf8 api (config_text c)) = Some (config_text c)"
proof -
  have "\<not> HasPrefix (WideToUtf8 api (config_text c)) [0xEF, 0xBB, 0xBF]"
    using no_signature(2) [OF assms] by (auto simp: config_text_def wide_def)
  then show ?thesis
    using Utf8ToWide_WideToUtf8 [OF assms] by (simp add: ReadUtf8File_def)
qed

lemma config_line_frame:
  "config_line raw (c\<lparr>cf_guid := g\<rparr>, b) = map_prod (\<lambda>d. d\<lparr>cf_guid := g\<rparr>) id (config_line raw (c, b))"
  by (simp add: config_line_def Let_def split: option.splits)

lemma fold_config_line_frame:
  "fold config_line ls (c\<lparr>cf_guid := g\<rparr>, b) = map_prod (\<lambda>d. d\<lparr>cf_guid := g\<rparr>) id (fold config_line ls (c, b))"
proof (induction ls arbitrary: c b)
  case (Cons l ls)
  obtain d e where "config_line l (c, b) = (d, e)" by force
  then show ?case
    using Cons.IH [of d e] by (simp add: config_line_frame)
qed simp

lemma config_line_plain:
  assumes "config_line raw (c, b) = (c', b')" and "plain_config c" and "10 \<notin> set raw"
  shows "plain_config c' \<and> cf_file c' = cf_file c \<and> cf_guid c' = cf_guid c \<and> cf_faults c' = cf_faults c \<and> cf_error c' = cf_error c"
proof -
  have v: "10 \<notin> set (drop 1 (dropWhile (\<lambda>ch. ch \<noteq> 61) (Trim raw)))"
    using assms(3) set_Trim [of 10 raw] by (meson in_set_dropD set_dropWhileD)
  show ?thesis
    using assms(1,2) plain_Trim [OF v]
    by (auto simp: config_line_def Let_def plain_config_def split: if_splits option.splits)
qed

lemma fold_config_line_plain:
  assumes "fold config_line ls (c, b) = (c', b')" and "plain_config c" and "\<forall>l \<in> set ls. 10 \<notin> set l"
  shows "plain_config c' \<and> cf_file c' = cf_file c \<and> cf_guid c' = cf_guid c \<and> cf_faults c' = cf_faults c \<and> cf_error c' = cf_error c"
  using assms
proof (induction ls arbitrary: c b)
  case (Cons l ls)
  obtain d e where d: "config_line l (c, b) = (d, e)" by force
  have "plain_config d \<and> cf_file d = cf_file c \<and> cf_guid d = cf_guid c \<and> cf_faults d = cf_faults c \<and> cf_error d = cf_error c"
    using config_line_plain [OF d] Cons.prems(2,3) by simp
  with Cons.IH [of d e] Cons.prems d show ?case by simp
qed simp

text \<open>What \<^verbatim>\<open>StringFromGUID2\<close> writes: a text in braces, without spaces.\<close>

definition guid_ok :: "wstr option \<Rightarrow> bool" where
  "guid_ok g = (case g of None \<Rightarrow> True
     | Some v \<Rightarrow> \<exists>h. v = ch_lbrace # h @ [ch_rbrace] \<and> h \<noteq> [] \<and> (\<forall>ch \<in> set h. 45 \<le> ch \<and> ch \<le> 90))"

lemma plain_GenerateDeviceId:
  assumes "guid_ok (cf_guid c)"
  shows "plain_value (GenerateDeviceId c) \<and> GenerateDeviceId c \<noteq> []"
proof (cases "cf_guid c")
  case None
  then show ?thesis
    by (simp add: GenerateDeviceId_def plain_value_def) (simp add: wide_def is_space_def)
next
  case (Some v)
  then obtain h where h: "v = ch_lbrace # h @ [ch_rbrace]" "h \<noteq> []" "\<forall>ch \<in> set h. 45 \<le> ch \<and> ch \<le> 90"
    using assms by (auto simp: guid_ok_def)
  have "GenerateDeviceId c = map lower_char h"
    using Some h by (simp add: GenerateDeviceId_def substr_def Let_def)
  moreover have "45 \<le> unat (lower_char ch)" if "ch \<in> set h" for ch
  proof -
    have "unat ch \<le> 90" "45 \<le> unat ch"
      using h(3) that by (auto simp: word_le_nat_alt)
    then show ?thesis
      by (simp add: lower_char_def unat_word_ariths)
  qed
  then have "\<forall>ch \<in> set (map lower_char h). ch \<noteq> 10 \<and> \<not> is_space ch"
    by (fastforce simp: is_space_def)
  moreover from this have "\<not> is_space (hd (map lower_char h))" "\<not> is_space (last (map lower_char h))"
    "10 \<notin> set (map lower_char h)"
    using h(2) by (metis hd_in_set last_in_set map_is_Nil_conv)+
  ultimately show ?thesis
    using h(2) by (simp add: plain_value_def)
qed

lemma ApplyDefaults_result:
  assumes "ApplyDefaults (c, b) = (c', b')" and "plain_config c" and "guid_ok (cf_guid c)"
  shows "plain_config c' \<and> cf_device_id c' \<noteq> [] \<and> cf_nickname c' \<noteq> [] \<and> cf_port c' \<noteq> 0" and "b' \<or> c' = c"
    and "cf_file c' = cf_file c"
proof -
  have nick: "plain_value kDefaultNickname" "kDefaultNickname \<noteq> []"
    by (simp_all add: kDefaultNickname_def plain_value_def) (simp add: wide_def is_space_def)
  show "plain_config c' \<and> cf_device_id c' \<noteq> [] \<and> cf_nickname c' \<noteq> [] \<and> cf_port c' \<noteq> 0"
    using assms(1,2) plain_GenerateDeviceId [OF assms(3)] nick
    by (auto simp: ApplyDefaults_def Let_def plain_config_def kDefaultPort_def split: if_splits)
  show "b' \<or> c' = c" "cf_file c' = cf_file c"
    using assms(1) by (auto simp: ApplyDefaults_def Let_def split: if_splits)
qed

lemma ApplyDefaults_id:
  "cf_device_id c \<noteq> [] \<Longrightarrow> cf_nickname c \<noteq> [] \<Longrightarrow> cf_port c \<noteq> 0 \<Longrightarrow> ApplyDefaults (c, b) = (c, b)"
  by (simp add: ApplyDefaults_def)

lemma restart_saved:
  assumes "utf8_api api" and "Save api c = (True, c')" and "plain_config c"
    and "cf_device_id c \<noteq> []" and "cf_nickname c \<noteq> []" and "cf_port c \<noteq> 0"
  shows "\<exists>d. LoadOrCreate api (Config_init (cf_file c') g []) = (True, d) \<and> settings d = settings c \<and> cf_file d = cf_file c'"
  using Save_True [OF assms(1,2)] ReadUtf8File_saved [OF assms(1)] read_config_text [OF assms(3,6)] assms(4-6)
  by (simp add: LoadOrCreate_def Config_init_def next_config_fault_def LoadExisting_def ApplyDefaults_id
      settings_def Let_def)

lemma LoadOrCreate_stable:
  assumes "utf8_api api" and "LoadOrCreate api (Config_init file g []) = (True, c)" and "guid_ok g"
  shows "cf_device_id c \<noteq> [] \<and> cf_nickname c \<noteq> [] \<and> cf_port c \<noteq> 0"
    and "\<exists>d. LoadOrCreate api (Config_init (cf_file c) g' []) = (True, d) \<and> settings d = settings c \<and> cf_file d = cf_file c"
proof -
  let ?i = "Config_init file g []"
  have plain0: "plain_config ?i" by (simp add: plain_config_def plain_value_def Config_init_def)
  obtain c0 b where c0: "(case file of None \<Rightarrow> Some (?i, True) | Some bs \<Rightarrow> LoadExisting api NoFault bs ?i) = Some (c0, b)"
    using assms(2) by (auto simp: LoadOrCreate_def next_config_fault_def Config_init_def split: option.splits)
  have load: "plain_config c0" "cf_guid c0 = g" "cf_file c0 = file" "cf_faults c0 = []"
    using c0 plain0 fold_config_line_plain [of _ ?i False c0 b] getlines_no_newline
    by (auto simp: LoadExisting_def Config_init_def split: option.splits)
  obtain c1 b1 where c1: "ApplyDefaults (c0, b) = (c1, b1)" by force
  note ad = ApplyDefaults_result [OF c1 load(1)]
  have ok: "plain_config c1 \<and> cf_device_id c1 \<noteq> [] \<and> cf_nickname c1 \<noteq> [] \<and> cf_port c1 \<noteq> 0"
    using ad(1) load(2) assms(3) by simp
  have rest: "(if b1 then \<exists>c2. Save api c1 = (True, c2) \<and> c = c2\<lparr>cf_error := []\<rparr> else c = c1\<lparr>cf_error := []\<rparr>)"
    using assms(2) c0 c1
    by (auto simp: LoadOrCreate_def next_config_fault_def Config_init_def split: option.splits prod.splits if_splits)
  have same: "settings c = settings c1"
    using rest Save_True(3) [OF assms(1)] by (fastforce simp: settings_def split: if_splits)
  then show "cf_device_id c \<noteq> [] \<and> cf_nickname c \<noteq> [] \<and> cf_port c \<noteq> 0"
    using ok by (simp add: settings_def)
  show "\<exists>d. LoadOrCreate api (Config_init (cf_file c) g' []) = (True, d) \<and> settings d = settings c \<and> cf_file d = cf_file c"
  proof (cases b1)
    case True
    then obtain c2 where c2: "Save api c1 = (True, c2)" "c = c2\<lparr>cf_error := []\<rparr>" using rest by auto
    then show ?thesis
      using restart_saved [OF assms(1) c2(1), of g'] ok same by simp
  next
    case False
    then have "c1 = c0" "\<not> b" using ad(2) c1 by (auto simp: ApplyDefaults_def Let_def split: if_splits)
    then obtain bs where bs: "file = Some bs" using c0 by (auto split: option.splits)
    then have l0: "LoadExisting api NoFault bs ?i = Some (c0, b)" using c0 by simp
    have "Config_init (cf_file c) g' [] = ?i\<lparr>cf_guid := g'\<rparr>"
      using False rest \<open>c1 = c0\<close> load(3) by (simp add: Config_init_def)
    moreover have "LoadExisting api NoFault bs (?i\<lparr>cf_guid := g'\<rparr>) = Some (c0\<lparr>cf_guid := g'\<rparr>, b)"
      using l0 by (auto simp: LoadExisting_def fold_config_line_frame split: option.splits)
    ultimately show ?thesis
      using False rest ok \<open>c1 = c0\<close> \<open>\<not> b\<close> bs load(3) same
      by (simp add: LoadOrCreate_def next_config_fault_def ApplyDefaults_id settings_def Config_init_def)
  qed
qed

text \<open>What is set and saved is what the next start reads.\<close>

lemma renamed_survives_restart:
  assumes "utf8_api api" and "Save api (set_port p (set_nickname v c)) = (True, c')" and "plain_config c"
    and "cf_device_id c \<noteq> []" and "plain_value v" and "v \<noteq> []" and "p \<noteq> 0"
  shows "\<exists>d. LoadOrCreate api (Config_init (cf_file c') g []) = (True, d) \<and> settings d = (cf_device_id c, v, p)"
  using restart_saved [OF assms(1,2), of g] assms(3-7)
  by (auto simp: set_port_def set_nickname_def plain_config_def settings_def)

end
