(* ===== verification/Discovery.thy ===== *)
theory Discovery
  imports TextEncoding StdText
begin

text \<open>
  \<^verbatim>\<open>client/discovery.cpp\<close>: the host announces its session by UDP datagrams, a guest listens for
  them. What the socket calls answer is the argument of the operations: \<open>udp_setup\<close> for creating
  and binding, and for \<^verbatim>\<open>DiscoveryClient::Find\<close> the readings of the clock and, for each call of
  \<^verbatim>\<open>recvfrom\<close>, a datagram with the text of its sender's address or a failure (the 100 ms receive
  timeout among them).
\<close>

definition kDiscoveryPort :: u16 where
  "kDiscoveryPort = 7776"

definition kDiscoveryPrefix :: bytes where
  "kDiscoveryPrefix = narrow ''SHARENOTEPAD_DISCOVERY''"

datatype udp_setup = UdpReady | UdpNoSocket | UdpOptionFailed | UdpBindFailed

record endpoint =
  ep_host :: wstr
  ep_port :: u16

section \<open>The announcer\<close>

record announcer =
  an_socket :: bool
  an_session :: wstr
  an_tcp_port :: u16
  an_port :: u16
  an_running :: bool
  an_error :: wstr
  an_sent :: "(string \<times> u16 \<times> bytes) list"

definition BuildMessage :: "text_api \<Rightarrow> announcer \<Rightarrow> bytes" where
  "BuildMessage api a =
     kDiscoveryPrefix @ narrow '' v=1 session='' @ WideToUtf8 api (an_session a) @
     narrow '' port='' @ dec_bytes (unat (an_tcp_port a))"

definition AnnouncerStop :: "announcer \<Rightarrow> announcer" where
  "AnnouncerStop a = a\<lparr>an_running := False, an_socket := False\<rparr>"

definition AnnouncerStart :: "udp_setup \<Rightarrow> wstr \<Rightarrow> u16 \<Rightarrow> u16 \<Rightarrow> announcer \<Rightarrow> bool \<times> announcer" where
  "AnnouncerStart setup session tcp_port discovery_port a =
     (let a1 = (AnnouncerStop a)\<lparr>an_session := session, an_tcp_port := tcp_port, an_port := discovery_port\<rparr>
      in case setup of
           UdpNoSocket \<Rightarrow> (False, a1\<lparr>an_error := wide ''discovery socket creation failed''\<rparr>)
         | UdpOptionFailed \<Rightarrow> (False, a1\<lparr>an_error := wide ''discovery broadcast option failed''\<rparr>)
         | _ \<Rightarrow> (True, a1\<lparr>an_socket := True, an_running := True\<rparr>))"

definition SendAnnouncement :: "text_api \<Rightarrow> bool \<Rightarrow> string \<Rightarrow> announcer \<Rightarrow> bool \<times> announcer" where
  "SendAnnouncement api sent target a =
     (if sent then (True, a\<lparr>an_sent := an_sent a @ [(target, an_port a, BuildMessage api a)]\<rparr>)
      else (False, a\<lparr>an_error := wide ''discovery send failed''\<rparr>))"

text \<open>One round of \<^verbatim>\<open>AnnounceLoop\<close>; the two flags say whether the \<^verbatim>\<open>sendto\<close> calls succeed.\<close>

definition AnnounceLoop :: "text_api \<Rightarrow> bool \<Rightarrow> bool \<Rightarrow> announcer \<Rightarrow> announcer" where
  "AnnounceLoop api sent1 sent2 a =
     (if \<not> an_running a then a
      else snd (SendAnnouncement api sent2 ''127.0.0.1''
                 (snd (SendAnnouncement api sent1 ''255.255.255.255'' a))))"

section \<open>Reading an announcement\<close>

definition ReadTokenValue :: "bytes \<Rightarrow> bytes \<Rightarrow> bytes option" where
  "ReadTokenValue token key =
     (let pre = key @ narrow ''=''
      in if take (length pre) token = pre then Some (drop (length pre) token) else None)"

text \<open>\<open>None\<close> is the early \<^verbatim>\<open>return false\<close> on a port that is not one.\<close>

fun read_tokens :: "bytes list \<Rightarrow> bytes \<times> u16 \<Rightarrow> (bytes \<times> u16) option" where
  "read_tokens [] sp = Some sp"
| "read_tokens (token # tokens) (session, port) =
     (case ReadTokenValue token (narrow ''session'') of
        Some val \<Rightarrow> read_tokens tokens (val, port)
      | None \<Rightarrow>
          (case ReadTokenValue token (narrow ''port'') of
             None \<Rightarrow> read_tokens tokens (session, port)
           | Some val \<Rightarrow>
               (case stoul val of
                  None \<Rightarrow> None
                | Some parsed \<Rightarrow>
                    if parsed = 0 \<or> parsed > 65535 then None
                    else read_tokens tokens (session, ucast parsed))))"

definition ParseMessage :: "text_api \<Rightarrow> bytes \<Rightarrow> wstr \<Rightarrow> u16 option" where
  "ParseMessage api message expected_session =
     (case words_of message of
        [] \<Rightarrow> None
      | prefix # tokens \<Rightarrow>
          if prefix \<noteq> kDiscoveryPrefix then None
          else case read_tokens tokens ([], 0) of
            None \<Rightarrow> None
          | Some (session, port) \<Rightarrow>
              (case Utf8ToWide api session of
                 None \<Rightarrow> None
               | Some expected_utf16 \<Rightarrow>
                   if expected_utf16 \<noteq> expected_session \<or> port = 0 then None else Some port))"

section \<open>Finding a host\<close>

text \<open>
  One call of \<^verbatim>\<open>recvfrom\<close>: nothing (a timeout, an error, a datagram longer than the 511 bytes of
  the buffer), or a datagram and what \<^verbatim>\<open>InetNtopA\<close> makes of its sender.
\<close>

datatype udp_result = NoDatagram | Datagram bytes "wstr option"

text \<open>\<open>None\<close>: the call is still waiting when the clock readings or the answers run out.\<close>

fun find_loop :: "text_api \<Rightarrow> wstr \<Rightarrow> nat \<Rightarrow> nat list \<Rightarrow> udp_result list \<Rightarrow> endpoint option option" where
  "find_loop api session deadline [] answers = None"
| "find_loop api session deadline (now # clock) answers =
     (if deadline \<le> now then Some None
      else case answers of
             [] \<Rightarrow> None
           | NoDatagram # rest \<Rightarrow> find_loop api session deadline clock rest
           | Datagram message host # rest \<Rightarrow>
               (case (ParseMessage api message session, host) of
                  (Some tcp_port, Some address) \<Rightarrow> Some (Some \<lparr>ep_host = address, ep_port = tcp_port\<rparr>)
                | _ \<Rightarrow> find_loop api session deadline clock rest))"

text \<open>The result, the endpoint and \<^verbatim>\<open>last_error_\<close>; the first reading sets the deadline.\<close>

definition Find ::
  "text_api \<Rightarrow> udp_setup \<Rightarrow> wstr \<Rightarrow> nat \<Rightarrow> nat list \<Rightarrow> udp_result list \<Rightarrow> (bool \<times> endpoint \<times> wstr) option" where
  "Find api setup session_code timeout_ms clock answers =
     (let none = \<lparr>ep_host = [], ep_port = 0\<rparr>
      in case setup of
           UdpNoSocket \<Rightarrow> Some (False, none, wide ''discovery socket creation failed'')
         | UdpBindFailed \<Rightarrow> Some (False, none, wide ''discovery bind failed'')
         | _ \<Rightarrow>
             (case clock of
                [] \<Rightarrow> None
              | start # later \<Rightarrow>
                  map_option (\<lambda>r. case r of None \<Rightarrow> (False, none, wide ''discovery timeout'')
                                          | Some e \<Rightarrow> (True, e, []))
                    (find_loop api session_code (start + timeout_ms) later answers)))"

section \<open>An announcement is read back\<close>

definition code_ok_bytes :: "wstr \<Rightarrow> bool" where
  "code_ok_bytes code \<longleftrightarrow> code \<noteq> [] \<and> (\<forall>ch \<in> set code. 32 < ch \<and> ch < 128)"

lemma encode_code:
  assumes "utf8_api api" and "code_ok_bytes code"
  shows "WideToUtf8 api code = map ucast code" and "\<forall>b \<in> set (WideToUtf8 api code). \<not> c_space b"
    and "Utf8ToWide api (WideToUtf8 api code) = Some code"
proof -
  have ascii: "is_ascii code"
    using assms(2) by (auto simp: code_ok_bytes_def is_ascii_def word_less_nat_alt)
  then show enc: "WideToUtf8 api code = map ucast code"
    using assms utf8_codec.enc_ascii [of "wide_to_multi api" "multi_to_wide api" code]
    by (simp add: WideToUtf8_def utf8_api_def code_ok_bytes_def)
  have "\<not> c_space (ucast ch :: byte)" if "ch \<in> set code" for ch
  proof -
    have "32 < unat ch" "unat ch < 128"
      using assms(2) that by (auto simp: code_ok_bytes_def word_less_nat_alt)
    then have "unat (ucast ch :: byte) = unat ch"
      by (simp add: unsigned_ucast_eq take_bit_nat_eq_self)
    with \<open>32 < unat ch\<close> show ?thesis by (simp add: c_space_def)
  qed
  then show "\<forall>b \<in> set (WideToUtf8 api code). \<not> c_space b" by (auto simp: enc)
  show "Utf8ToWide api (WideToUtf8 api code) = Some code"
    by (rule Utf8ToWide_WideToUtf8 [OF assms(1) is_ascii_wf [OF ascii]])
qed

lemma words_of_message:
  assumes "utf8_api api" and "code_ok_bytes (an_session a)"
  shows "words_of (BuildMessage api a) =
    [kDiscoveryPrefix, narrow ''v=1'', narrow ''session='' @ WideToUtf8 api (an_session a),
     narrow ''port='' @ dec_bytes (unat (an_tcp_port a))]"
proof -
  let ?s = "narrow ''session='' @ WideToUtf8 api (an_session a)"
  let ?p = "narrow ''port='' @ dec_bytes (unat (an_tcp_port a))"
  have shape: "BuildMessage api a = kDiscoveryPrefix @ 32 # narrow ''v=1'' @ 32 # ?s @ 32 # ?p"
    by (simp add: BuildMessage_def narrow_def)
  have sp: "c_space (32 :: byte)" by (simp add: c_space_def)
  have lit: "kDiscoveryPrefix \<noteq> []" "\<forall>b \<in> set kDiscoveryPrefix. \<not> c_space b"
    "narrow ''v=1'' \<noteq> []" "\<forall>b \<in> set (narrow ''v=1''). \<not> c_space b"
    by (simp_all add: kDiscoveryPrefix_def) (simp_all add: narrow_def c_space_def)
  have s: "?s \<noteq> []" "\<forall>b \<in> set ?s. \<not> c_space b"
    using encode_code(2) [OF assms] by (auto simp: narrow_def c_space_def)
  have p: "?p \<noteq> []" "\<forall>b \<in> set ?p. \<not> c_space b"
    using dec_bytes_digits [of "unat (an_tcp_port a)"] by (auto simp: narrow_def c_space_def c_digit_def)
  have p_word: "words_of ?p = [?p]"
    using words_of_word [OF p, of "[]"] by simp
  show ?thesis
    unfolding shape
    using words_of_word [OF lit(1,2), of "32 # narrow ''v=1'' @ 32 # ?s @ 32 # ?p"]
      words_of_word [OF lit(3,4), of "32 # ?s @ 32 # ?p"] words_of_word [OF s, of "32 # ?p"]
      words_of_space [OF sp] p_word sp
    by simp
qed

lemma ReadTokenValue_cases:
  "ReadTokenValue (narrow ''v=1'') (narrow ''session'') = None" "ReadTokenValue (narrow ''v=1'') (narrow ''port'') = None"
  "ReadTokenValue (narrow ''session='' @ x) (narrow ''session'') = Some x"
  "ReadTokenValue (narrow ''port='' @ y) (narrow ''session'') = None"
  "ReadTokenValue (narrow ''port='' @ y) (narrow ''port'') = Some y"
  by (simp_all add: ReadTokenValue_def narrow_def)

lemma read_announcement_tokens:
  "p \<noteq> 0 \<Longrightarrow>
   read_tokens [narrow ''v=1'', narrow ''session='' @ code, narrow ''port='' @ dec_bytes (unat p)] ([], 0) = Some (code, p)"
  using stoul_dec_bytes [of "unat p"] port_word [of p]
  by (simp add: ReadTokenValue_cases del: of_nat_unat)

lemma ParseMessage_BuildMessage:
  assumes "utf8_api api" and "code_ok_bytes (an_session a)" and "an_tcp_port a \<noteq> 0"
  shows "ParseMessage api (BuildMessage api a) code =
    (if an_session a = code then Some (an_tcp_port a) else None)"
  using assms encode_code(3) [OF assms(1,2)]
  by (simp add: ParseMessage_def words_of_message read_announcement_tokens del: read_tokens.simps)

section \<open>The search\<close>

text \<open>A datagram the search passes over.\<close>

definition no_match :: "text_api \<Rightarrow> wstr \<Rightarrow> udp_result \<Rightarrow> bool" where
  "no_match api code r \<longleftrightarrow>
     (case r of NoDatagram \<Rightarrow> True | Datagram m h \<Rightarrow> ParseMessage api m code = None \<or> h = None)"

lemma find_loop_match:
  assumes "\<forall>r \<in> set pre. no_match api code r" and "length clock = length pre + 1" and "\<forall>t \<in> set clock. t < deadline"
    and "ParseMessage api m code = Some p"
  shows "find_loop api code deadline (clock @ later) (pre @ Datagram m (Some h) # rest) =
    Some (Some \<lparr>ep_host = h, ep_port = p\<rparr>)"
  using assms(1-3)
proof (induction pre arbitrary: clock)
  case Nil
  then obtain t where "clock = [t]" by (cases clock) auto
  with Nil assms(4) show ?case by simp
next
  case (Cons r pre)
  then obtain t ts where c: "clock = t # ts" by (cases clock) auto
  have "find_loop api code deadline (ts @ later) (pre @ Datagram m (Some h) # rest) =
      Some (Some \<lparr>ep_host = h, ep_port = p\<rparr>)"
    using Cons c by simp
  with Cons.prems c show ?case
    by (auto simp: no_match_def split: udp_result.splits option.splits)
qed

lemma find_loop_timeout:
  assumes "\<forall>r \<in> set answers. no_match api code r" and "length clock \<le> length answers"
    and "\<forall>t \<in> set clock. t < deadline" and "deadline \<le> now"
  shows "find_loop api code deadline (clock @ now # later) answers = Some None"
  using assms
proof (induction clock arbitrary: answers)
  case (Cons t ts)
  then obtain r rs where a: "answers = r # rs" by (cases answers) auto
  have "find_loop api code deadline (ts @ now # later) rs = Some None"
    using Cons a by simp
  with Cons.prems a show ?case
    by (auto simp: no_match_def split: udp_result.splits option.splits)
qed simp

end
