(* ===== verification/Logger.thy ===== *)
theory Logger
  imports LocalTime TextEncoding Texts
begin

text \<open>
  \<^verbatim>\<open>client/logger.cpp\<close>: the log of the application. The levels are ordered as the enumeration
  numbers them. The state has the least level that is written, the file, the last error, and how
  the writes of the coming calls end.
\<close>

datatype log_level = LogDebug | LogInfo | LogWarning | LogError

fun level_number :: "log_level \<Rightarrow> nat" where
  "level_number LogDebug = 0"
| "level_number LogInfo = 1"
| "level_number LogWarning = 2"
| "level_number LogError = 3"

instantiation log_level :: linorder
begin

definition less_eq_log_level :: "log_level \<Rightarrow> log_level \<Rightarrow> bool" where
  "less_eq_log_level a b \<longleftrightarrow> level_number a \<le> level_number b"

definition less_log_level :: "log_level \<Rightarrow> log_level \<Rightarrow> bool" where
  "less_log_level a b \<longleftrightarrow> level_number a < level_number b"

instance
proof
  fix a b :: log_level
  assume "a \<le> b" and "b \<le> a"
  then show "a = b" by (cases a; cases b) (simp_all add: less_eq_log_level_def)
qed (auto simp: less_eq_log_level_def less_log_level_def)

end

fun LevelName :: "log_level \<Rightarrow> wstr" where
  "LevelName LogDebug = wide ''DEBUG''"
| "LevelName LogInfo = wide ''INFO''"
| "LevelName LogWarning = wide ''WARN''"
| "LevelName LogError = wide ''ERROR''"

definition DefaultMinimumLevel :: "bool \<Rightarrow> log_level" where
  "DefaultMinimumLevel ndebug = (if ndebug then LogInfo else LogDebug)"

record logger =
  lg_min_level :: log_level
  lg_error :: wstr
  lg_file :: bytes
  lg_script :: "log_outcome list"
  lg_time :: systemtime

definition FormatLine :: "log_level \<Rightarrow> wstr \<Rightarrow> systemtime \<Rightarrow> wstr" where
  "FormatLine level message now =
     padded 4 (wYear now) @ wide ''-'' @ padded 2 (wMonth now) @ wide ''-'' @ padded 2 (wDay now)
     @ wide '' '' @ padded 2 (wHour now) @ wide '':'' @ padded 2 (wMinute now) @ wide '':''
     @ padded 2 (wSecond now) @ wide ''.'' @ padded 3 (wMilliseconds now)
     @ wide '' ['' @ LevelName level @ wide ''] '' @ message @ [10]"

definition ShouldWrite :: "log_level \<Rightarrow> logger \<Rightarrow> bool" where
  "ShouldWrite level g \<longleftrightarrow> lg_min_level g \<le> level"

definition Log :: "text_api \<Rightarrow> log_level \<Rightarrow> wstr \<Rightarrow> logger \<Rightarrow> bool \<times> logger" where
  "Log api level message g =
     (if \<not> ShouldWrite level g then (True, g)
      else
        let bs = WideToUtf8 api (FormatLine level message (lg_time g))
        in if bs = [] then (False, g\<lparr>lg_error := txt_log_encode_failed\<rparr>)
           else
             let (outcome, rest) = (case lg_script g of [] \<Rightarrow> (LogWritten, []) | r # rs \<Rightarrow> (r, rs));
                 g1 = g\<lparr>lg_script := rest\<rparr>
             in case outcome of
                  LogDirFailed \<Rightarrow> (False, g1\<lparr>lg_error := txt_log_dir_failed\<rparr>)
                | LogOpenFailed \<Rightarrow> (False, g1\<lparr>lg_error := txt_log_open_failed\<rparr>)
                | LogWriteFailed n \<Rightarrow>
                    (False, g1\<lparr>lg_file := lg_file g @ take n bs, lg_error := txt_log_write_failed\<rparr>)
                | LogWritten \<Rightarrow> (True, g1\<lparr>lg_file := lg_file g @ bs, lg_error := []\<rparr>))"

definition Logger_Debug :: "text_api \<Rightarrow> wstr \<Rightarrow> logger \<Rightarrow> bool \<times> logger" where
  "Logger_Debug api message = Log api LogDebug message"

definition Logger_Info :: "text_api \<Rightarrow> wstr \<Rightarrow> logger \<Rightarrow> bool \<times> logger" where
  "Logger_Info api message = Log api LogInfo message"

definition Logger_Warning :: "text_api \<Rightarrow> wstr \<Rightarrow> logger \<Rightarrow> bool \<times> logger" where
  "Logger_Warning api message = Log api LogWarning message"

definition Logger_Error :: "text_api \<Rightarrow> wstr \<Rightarrow> logger \<Rightarrow> bool \<times> logger" where
  "Logger_Error api message = Log api LogError message"

text \<open>The flag says whether the directory can be created.\<close>

definition Initialize :: "text_api \<Rightarrow> bool \<Rightarrow> logger \<Rightarrow> bool \<times> logger" where
  "Initialize api directory g =
     (if \<not> directory then (False, g\<lparr>lg_error := txt_log_dir_failed\<rparr>)
      else Logger_Info api (wide ''ShareNotepad logger initialized'') g)"

text \<open>The log only grows, by a prefix of the line, and a level below the least one writes nothing.\<close>

lemma Log_appends:
  assumes "Log api level message g = (ok, g')"
  shows "\<exists>n. lg_file g' = lg_file g @ take n (WideToUtf8 api (FormatLine level message (lg_time g))) \<and>
    (level < lg_min_level g \<longrightarrow> g' = g \<and> ok)"
proof (cases "lg_min_level g \<le> level")
  case False
  with assms show ?thesis by (auto simp: Log_def ShouldWrite_def intro: exI [of _ 0])
next
  case True
  then have "\<not> level < lg_min_level g" by simp
  moreover have "\<exists>n. lg_file g' = lg_file g @ take n (WideToUtf8 api (FormatLine level message (lg_time g)))"
    using assms True
    by (auto simp: Log_def ShouldWrite_def Let_def split: list.splits log_outcome.splits if_splits
        intro: exI [of _ 0] exI [of _ "length (WideToUtf8 api (FormatLine level message (lg_time g)))"])
  ultimately show ?thesis by simp
qed

end
