(* ===== verification/LocalProps.thy ===== *)
theory LocalProps
  imports Config Discovery Logger Utf8
begin

text \<open>
  Properties of the settings and of the discovery of hosts on the local network.
\<close>

section \<open>Settings\<close>

text \<open>The first start, without a file and without a GUID.\<close>

lemma first_start: "\<exists>c. LoadOrCreate utf8_ref (Config_init None None []) = (True, c)"
proof -
  let ?i = "Config_init None None []"
  let ?c1 = "?i\<lparr>cf_device_id := wide ''local-device'', cf_nickname := kDefaultNickname\<rparr>"
  have d: "ApplyDefaults (?i, True) = (?c1, True)"
    by (simp add: ApplyDefaults_def GenerateDeviceId_def Config_init_def)
  have "utf16_wf (dec_digits (unat (7777 :: u16)))"
    using dec_digits_digits [of "unat (7777 :: u16)"]
    by (intro is_ascii_wf) (auto simp: is_ascii_def iswdigit_unat)
  then have "utf16_wf (config_text ?c1)"
    by (simp add: config_text_def Config_init_def kDefaultNickname_def utf16_wf_append
        is_high_surrogate_def is_low_surrogate_def)
  moreover have "config_text ?c1 \<noteq> []" by (simp add: config_text_def)
  ultimately have "WideToUtf8 utf8_ref (config_text ?c1) \<noteq> []"
    using WideToUtf8_empty_iff [OF utf8_api_ref, of "config_text ?c1"] by simp
  moreover have "cf_faults ?c1 = []" "cf_file ?i = None" "cf_faults ?i = []" by (simp_all add: Config_init_def)
  ultimately show ?thesis by (simp add: LoadOrCreate_def next_config_fault_def d Save_def Let_def)
qed

text \<open>
  C39: settings survive a restart. Whatever the file holds when the program starts, once
  \<^verbatim>\<open>LoadOrCreate\<close> succeeds there is a device id, a nickname and a port other than 0, and loading
  again, in a new process and with another GUID, succeeds, gives the same three values and
  leaves the file as it is.
\<close>

theorem config_survives_restart:
  assumes "utf8_api api" and "LoadOrCreate api (Config_init file g []) = (True, c)" and "guid_ok g"
  shows "cf_device_id c \<noteq> [] \<and> cf_nickname c \<noteq> [] \<and> cf_port c \<noteq> 0 \<and>
    (\<exists>d. LoadOrCreate api (Config_init (cf_file c) g' []) = (True, d) \<and>
         settings d = settings c \<and> cf_file d = cf_file c)"
  using LoadOrCreate_stable [OF assms] by blast

lemma config_survives_restart_witness:
  "\<exists>c. LoadOrCreate utf8_ref (Config_init None None []) = (True, c) \<and> cf_nickname c \<noteq> [] \<and>
     (\<exists>d. LoadOrCreate utf8_ref (Config_init (cf_file c) None []) = (True, d) \<and> settings d = settings c)"
proof -
  obtain c where c: "LoadOrCreate utf8_ref (Config_init None None []) = (True, c)" using first_start by blast
  show ?thesis
    using config_survives_restart [OF utf8_api_ref c, of None] c by (auto simp: guid_ok_def)
qed

section \<open>Discovery\<close>

text \<open>
  C40: a guest finds the host of its session. Whatever else arrives first, timeouts, foreign
  datagrams or announcements of other sessions, the first announcement of the session whose
  sender's address can be read, before the deadline, ends the search with that address and the
  port the announcer was started with; and if nothing fitting arrives, the search ends at the
  first reading of the clock past the deadline.
\<close>

theorem discovery_finds_host:
  assumes "utf8_api api" and "code_ok_bytes session" and "tcp_port \<noteq> 0"
    and "AnnouncerStart UdpReady session tcp_port q a0 = (started, a)"
    and "\<forall>r \<in> set before. no_match api session r"
    and "length clock = length before + 1" and "\<forall>t \<in> set clock. t < start + timeout_ms"
  shows "Find api UdpReady session timeout_ms (start # clock @ later)
           (before @ Datagram (BuildMessage api a) (Some address) # rest) =
         Some (True, \<lparr>ep_host = address, ep_port = tcp_port\<rparr>, []) \<and>
         (start + timeout_ms \<le> now \<longrightarrow>
          Find api UdpReady session timeout_ms (start # take (length before) clock @ now # later) before =
          Some (False, \<lparr>ep_host = [], ep_port = 0\<rparr>, wide ''discovery timeout''))"
proof -
  have a: "an_session a = session" "an_tcp_port a = tcp_port"
    using assms(4) by (auto simp: AnnouncerStart_def Let_def)
  have "ParseMessage api (BuildMessage api a) session = Some tcp_port"
    using ParseMessage_BuildMessage [OF assms(1), of a session] assms(2,3) a by simp
  from find_loop_match [OF assms(5-7) this]
  have found: "find_loop api session (start + timeout_ms) (clock @ later)
      (before @ Datagram (BuildMessage api a) (Some address) # rest) = Some (Some \<lparr>ep_host = address, ep_port = tcp_port\<rparr>)" .
  have late: "find_loop api session (start + timeout_ms) (take (length before) clock @ now # later) before = Some None"
    if "start + timeout_ms \<le> now"
    by (rule find_loop_timeout [OF assms(5) _ _ that]) (use assms(6,7) in \<open>auto dest: in_set_takeD\<close>)
  show ?thesis
    by (simp add: Find_def found late)
qed

lemma discovery_finds_host_witness:
  "Find utf8_ref UdpReady (wide ''123456'') 2000 [0, 100, 200]
     [NoDatagram, Datagram (BuildMessage utf8_ref
        \<lparr>an_socket = True, an_session = wide ''123456'', an_tcp_port = 7777, an_port = 7776,
         an_running = True, an_error = [], an_sent = []\<rparr>) (Some (wide ''10.0.0.2''))] =
   Some (True, \<lparr>ep_host = wide ''10.0.0.2'', ep_port = 7777\<rparr>, [])"
proof -
  let ?a = "\<lparr>an_socket = True, an_session = wide ''123456'', an_tcp_port = 7777, an_port = 7776,
         an_running = True, an_error = [], an_sent = []\<rparr>"
  have start: "AnnouncerStart UdpReady (wide ''123456'') 7777 7776 ?a = (True, ?a)"
    by (simp add: AnnouncerStart_def AnnouncerStop_def)
  have code: "code_ok_bytes (wide ''123456'')" by (simp add: code_ok_bytes_def) (simp add: wide_def)
  show ?thesis
    using discovery_finds_host [OF utf8_api_ref code _ start, of "[NoDatagram]" "[100, 200]" 0 2000 "[]" "wide ''10.0.0.2''" "[]"]
    by (simp add: no_match_def)
qed

end
