(* ===== verification/Selection.thy ===== *)
theory Selection
  imports DocumentModel
begin

text \<open>
  The selection of the editor while an edit from the other side arrives: the helpers at the
  start of \<^verbatim>\<open>client/window.cpp\<close>. Positions in the edit control are 32-bit numbers (\<^verbatim>\<open>DWORD\<close>).
\<close>

record editor_selection =
  sel_start :: u32
  sel_end :: u32

definition MAXDWORD :: nat where
  "MAXDWORD = 0xFFFFFFFF"

definition ClampToDword :: "nat \<Rightarrow> u32" where
  "ClampToDword val = (if val > MAXDWORD then of_nat MAXDWORD else of_nat val)"

definition AdjustIndexForInsert :: "u32 \<Rightarrow> nat \<Rightarrow> nat \<Rightarrow> u32" where
  "AdjustIndexForInsert index position len =
     (if unat index < position then index else ClampToDword (unat index + len))"

definition AdjustIndexForDelete :: "u32 \<Rightarrow> nat \<Rightarrow> nat \<Rightarrow> u32" where
  "AdjustIndexForDelete index position len =
     (if unat index \<le> position then index
      else if unat index \<le> position + len then ClampToDword position
      else ClampToDword (unat index - len))"

definition AdjustSelectionForInsert :: "editor_selection \<Rightarrow> nat \<Rightarrow> nat \<Rightarrow> editor_selection" where
  "AdjustSelectionForInsert selection position len =
     \<lparr>sel_start = AdjustIndexForInsert (sel_start selection) position len,
      sel_end = AdjustIndexForInsert (sel_end selection) position len\<rparr>"

definition AdjustSelectionForDelete :: "editor_selection \<Rightarrow> nat \<Rightarrow> nat \<Rightarrow> editor_selection" where
  "AdjustSelectionForDelete selection position len =
     \<lparr>sel_start = AdjustIndexForDelete (sel_start selection) position len,
      sel_end = AdjustIndexForDelete (sel_end selection) position len\<rparr>"

definition ClampSelectionToText :: "editor_selection \<Rightarrow> nat \<Rightarrow> editor_selection" where
  "ClampSelectionToText selection text_length =
     (let clamped_length = ClampToDword text_length
      in \<lparr>sel_start = min (sel_start selection) clamped_length,
          sel_end = min (sel_end selection) clamped_length\<rparr>)"

section \<open>Indices\<close>

lemma unat_ClampToDword: "unat (ClampToDword n) = min n MAXDWORD"
  by (auto simp: ClampToDword_def MAXDWORD_def unat_of_nat)

lemma unat_AdjustIndexForInsert:
  "unat i + n \<le> MAXDWORD \<Longrightarrow>
   unat (AdjustIndexForInsert i p n) = (if unat i < p then unat i else unat i + n)"
  by (simp add: AdjustIndexForInsert_def unat_ClampToDword)

lemma unat_AdjustIndexForDelete:
  "unat i \<le> MAXDWORD \<Longrightarrow>
   unat (AdjustIndexForDelete i p n) =
     (if unat i \<le> p then unat i else if unat i \<le> p + n then p else unat i - n)"
  by (simp add: AdjustIndexForDelete_def unat_ClampToDword)

lemma unat_u32_le: "unat (i :: u32) \<le> MAXDWORD"
  using unsigned_less [of i, where 'a = nat] by (simp add: MAXDWORD_def)

lemma unat_min: "unat (min a b) = min (unat a) (unat b)"
  by (simp add: min_def word_le_nat_alt)

section \<open>The selected text\<close>

definition selected :: "editor_selection \<Rightarrow> wstr \<Rightarrow> wstr" where
  "selected sel t = substr (unat (sel_start sel)) (unat (sel_end sel) - unat (sel_start sel)) t"

definition selection_in :: "editor_selection \<Rightarrow> wstr \<Rightarrow> bool" where
  "selection_in sel t \<longleftrightarrow> sel_start sel \<le> sel_end sel \<and> unat (sel_end sel) \<le> length t"

lemma ClampSelectionToText_inside:
  "selection_in sel t \<Longrightarrow> length t \<le> MAXDWORD \<Longrightarrow> ClampSelectionToText sel (length t) = sel"
  by (simp add: selection_in_def ClampSelectionToText_def min_def word_le_nat_alt unat_ClampToDword Let_def)

lemma substr_splice_before: "s + n \<le> p \<Longrightarrow> p \<le> length t \<Longrightarrow> substr s n (splice p d x t) = substr s n t"
  by (simp add: substr_def splice_def drop_take min_absorb1)

lemma substr_splice_after:
  "p + d \<le> s \<Longrightarrow> p \<le> length t \<Longrightarrow> substr (s - d + length x) n (splice p d x t) = substr s n t"
proof -
  assume le: "p + d \<le> s" "p \<le> length t"
  have "drop (s - d + length x) (splice p d x t) = drop (s - d + length x - p - length x) (drop (p + d) t)"
    using le by (simp add: splice_def)
  also have "\<dots> = drop s t" using le by simp
  finally show ?thesis by (simp add: substr_def)
qed

text \<open>
  An insertion outside the selection leaves the same text selected; an insertion inside it grows
  the selection by what was inserted. The indices stay inside the text.
\<close>

lemma selected_insert:
  assumes "selection_in sel t" and "p \<le> length t" and "length t + length x \<le> MAXDWORD"
  shows "selection_in (AdjustSelectionForInsert sel p (length x)) (splice p 0 x t)"
    and "p \<le> unat (sel_start sel) \<or> unat (sel_end sel) < p \<Longrightarrow>
      selected (AdjustSelectionForInsert sel p (length x)) (splice p 0 x t) = selected sel t"
proof -
  let ?a = "unat (sel_start sel)" and ?b = "unat (sel_end sel)"
  have ab: "?a \<le> ?b" "?b \<le> length t"
    using assms(1) by (simp_all add: selection_in_def word_le_nat_alt)
  have a: "unat (AdjustIndexForInsert (sel_start sel) p (length x)) = (if ?a < p then ?a else ?a + length x)"
    and b: "unat (AdjustIndexForInsert (sel_end sel) p (length x)) = (if ?b < p then ?b else ?b + length x)"
    using ab assms(3) by (simp_all add: unat_AdjustIndexForInsert)
  show "selection_in (AdjustSelectionForInsert sel p (length x)) (splice p 0 x t)"
    using ab assms(2) by (simp add: selection_in_def AdjustSelectionForInsert_def word_le_nat_alt a b length_splice)
  assume "p \<le> ?a \<or> ?b < p"
  then show "selected (AdjustSelectionForInsert sel p (length x)) (splice p 0 x t) = selected sel t"
    using ab assms(2) substr_splice_before [of ?a "?b - ?a" p t 0 x] substr_splice_after [of p 0 ?a t x "?b - ?a"]
    by (auto simp: selected_def AdjustSelectionForInsert_def a b)
qed

lemma selected_delete:
  assumes "selection_in sel t" and "p + n \<le> length t" and "length t \<le> MAXDWORD"
  shows "selection_in (AdjustSelectionForDelete sel p n) (splice p n [] t)"
    and "p + n \<le> unat (sel_start sel) \<or> unat (sel_end sel) \<le> p \<Longrightarrow>
      selected (AdjustSelectionForDelete sel p n) (splice p n [] t) = selected sel t"
proof -
  let ?a = "unat (sel_start sel)" and ?b = "unat (sel_end sel)"
  have ab: "?a \<le> ?b" "?b \<le> length t"
    using assms(1) by (simp_all add: selection_in_def word_le_nat_alt)
  note a = unat_AdjustIndexForDelete [OF unat_u32_le, of "sel_start sel" p n]
  note b = unat_AdjustIndexForDelete [OF unat_u32_le, of "sel_end sel" p n]
  show "selection_in (AdjustSelectionForDelete sel p n) (splice p n [] t)"
    using ab assms(2) by (simp add: selection_in_def AdjustSelectionForDelete_def word_le_nat_alt a b length_splice) linarith
  assume "p + n \<le> ?a \<or> ?b \<le> p"
  then show "selected (AdjustSelectionForDelete sel p n) (splice p n [] t) = selected sel t"
  proof
    assume "?b \<le> p"
    then show ?thesis
      using ab assms(2) substr_splice_before [of ?a "?b - ?a" p t n "[]"]
      by (simp add: selected_def AdjustSelectionForDelete_def a b)
  next
    assume n: "p + n \<le> ?a"
    then have "unat (AdjustIndexForDelete (sel_start sel) p n) = ?a - n"
      "unat (AdjustIndexForDelete (sel_end sel) p n) = ?b - n"
      using ab by (auto simp: a b)
    then show ?thesis
      using n ab assms(2) substr_splice_after [of p n ?a t "[]" "?b - ?a"]
      by (simp add: selected_def AdjustSelectionForDelete_def)
  qed
qed

end
