(* ===== verification/Markdown.thy ===== *)
theory Markdown
  imports Prelude
begin

text \<open>
  The Markdown preview of \<^verbatim>\<open>client/window.cpp\<close>: \<^verbatim>\<open>StripInlineMarkdown\<close> and
  \<^verbatim>\<open>MainWindow::RenderMarkdownPreview\<close>. A string view with an index becomes the rest of the text.
\<close>

definition StartsWith :: "wstr \<Rightarrow> wstr \<Rightarrow> bool" where
  "StartsWith val pre \<longleftrightarrow> length val \<ge> length pre \<and> take (length pre) val = pre"

fun TrimLeft :: "wstr \<Rightarrow> wstr" where
  "TrimLeft [] = []"
| "TrimLeft (ch # rest) = (if ch = 32 \<or> ch = 9 then TrimLeft rest else ch # rest)"

text \<open>\<^verbatim>\<open>find\<close> of a character: what is before it and what is after it.\<close>

definition find_char :: "wchar \<Rightarrow> wstr \<Rightarrow> (wstr \<times> wstr) option" where
  "find_char c xs =
     (if c \<in> set xs then Some (takeWhile (\<lambda>ch. ch \<noteq> c) xs, drop 1 (dropWhile (\<lambda>ch. ch \<noteq> c) xs)) else None)"

text \<open>\<^verbatim>\<open>[text](url)\<close>, after its opening bracket: the text, the address and what follows.\<close>

definition find_link :: "wstr \<Rightarrow> (wstr \<times> wstr \<times> wstr) option" where
  "find_link xs =
     (case find_char 93 xs of
        Some (text, ys) \<Rightarrow>
          if ys \<noteq> [] \<and> hd ys = 40
          then map_option (\<lambda>(url, rest). (text, url, rest)) (find_char 41 (tl ys)) else None
      | None \<Rightarrow> None)"

lemma find_char_shorter: "find_char c xs = Some (a, r) \<Longrightarrow> length a + length r + 1 = length xs"
proof -
  assume f: "find_char c xs = Some (a, r)"
  then have "c \<in> set xs" by (simp add: find_char_def split: if_splits)
  then have "dropWhile (\<lambda>ch. ch \<noteq> c) xs \<noteq> []" by auto
  then have "length (dropWhile (\<lambda>ch. ch \<noteq> c) xs) = Suc (length r)"
    using f by (cases "dropWhile (\<lambda>ch. ch \<noteq> c) xs") (auto simp: find_char_def split: if_splits)
  moreover have "length (takeWhile (\<lambda>ch. ch \<noteq> c) xs) + length (dropWhile (\<lambda>ch. ch \<noteq> c) xs) = length xs"
    by (metis length_append takeWhile_dropWhile_id)
  moreover have "a = takeWhile (\<lambda>ch. ch \<noteq> c) xs" using f by (simp add: find_char_def split: if_splits)
  ultimately show ?thesis by simp
qed

lemma find_link_shorter: "find_link xs = Some (a, u, r) \<Longrightarrow> length a + length u + length r + 3 = length xs"
  by (auto simp: find_link_def split: option.splits prod.splits list.splits if_splits dest!: find_char_shorter)

function StripInlineMarkdown :: "wstr \<Rightarrow> wstr" where
  "StripInlineMarkdown [] = []"
| "StripInlineMarkdown (ch # rest) =
     (if StartsWith (ch # rest) (wide ''**'') \<or> StartsWith (ch # rest) (wide ''__'')
      then StripInlineMarkdown (drop 1 rest)
      else if ch = 96 \<or> ch = 42 \<or> ch = 95 then StripInlineMarkdown rest
      else case (if ch = 91 then find_link rest else None) of
             Some (text, url, after) \<Rightarrow>
               text @ wide '' ('' @ url @ [41] @ StripInlineMarkdown after
           | None \<Rightarrow> ch # StripInlineMarkdown rest)"
  by pat_completeness auto
termination
  by (relation "measure length") (auto split: if_splits dest: find_link_shorter)

text \<open>One line, and what follows its end: CR LF, CR or LF.\<close>

definition next_line :: "wstr \<Rightarrow> wstr \<times> wstr" where
  "next_line rest =
     (let line = takeWhile (\<lambda>ch. ch \<noteq> 13 \<and> ch \<noteq> 10) rest;
          after = dropWhile (\<lambda>ch. ch \<noteq> 13 \<and> ch \<noteq> 10) rest
      in (line, if take 2 after = [13, 10] then drop 2 after else drop 1 after))"

definition crlf :: wstr where "crlf = [13, 10]"

definition heading_level :: "wstr \<Rightarrow> nat" where
  "heading_level trimmed = min 6 (length (takeWhile (\<lambda>ch. ch = 35) trimmed))"

definition render_line :: "wstr \<Rightarrow> wstr" where
  "render_line line =
     (let trimmed = TrimLeft line; level = heading_level trimmed; is = (\<lambda>s. StartsWith trimmed (wide s))
      in if level > 0 \<and> level < length trimmed \<and> trimmed ! level = 32
         then StripInlineMarkdown (drop (level + 1) trimmed) @ crlf
              @ (if level \<le> 2 then wide ''================'' else wide ''----------------'') @ crlf
         else if is ''> '' then wide ''> '' @ StripInlineMarkdown (drop 2 trimmed) @ crlf
         else if is ''- [ ] '' \<or> is ''* [ ] ''
         then wide ''[ ] '' @ StripInlineMarkdown (drop 6 trimmed) @ crlf
         else if is ''- [x] '' \<or> is ''- [X] '' \<or> is ''* [x] '' \<or> is ''* [X] ''
         then wide ''[x] '' @ StripInlineMarkdown (drop 6 trimmed) @ crlf
         else if is ''- '' \<or> is ''* '' \<or> is ''+ ''
         then wide ''- '' @ StripInlineMarkdown (drop 2 trimmed) @ crlf
         else StripInlineMarkdown line @ crlf)"

lemma length_next_line: "rest \<noteq> [] \<Longrightarrow> length (snd (next_line rest)) < length rest"
proof -
  assume r: "rest \<noteq> []"
  define after where "after = dropWhile (\<lambda>ch. ch \<noteq> 13 \<and> ch \<noteq> 10) rest"
  have le: "length after \<le> length rest" by (simp add: after_def length_dropWhile_le)
  have "0 < length rest" using r by simp
  then show ?thesis
    using le unfolding next_line_def Let_def after_def [symmetric] snd_conv
    by (simp only: length_drop split: if_split) linarith
qed

text \<open>The loop over the lines; the flag is \<^verbatim>\<open>in_code_block\<close>.\<close>

function render_from :: "bool \<Rightarrow> wstr \<Rightarrow> wstr" where
  "render_from in_code_block rest =
     (if rest = [] then []
      else let line = fst (next_line rest); later = snd (next_line rest)
           in if StartsWith (TrimLeft line) (wide ''```'')
              then (if in_code_block then wide ''[/code]'' else wide ''[code]'') @ crlf
                   @ render_from (\<not> in_code_block) later
              else if in_code_block then line @ crlf @ render_from in_code_block later
              else render_line line @ render_from in_code_block later)"
  by pat_completeness auto
termination
  by (relation "measure (\<lambda>(_, rest). length rest)") (auto dest: length_next_line)

declare render_from.simps [simp del]

definition RenderMarkdownPreview :: "wstr \<Rightarrow> wstr" where
  "RenderMarkdownPreview markdown = render_from False markdown"

section \<open>Plain text and code\<close>

text \<open>Stripping never makes a text longer, and keeps one without Markdown characters.\<close>

lemma length_StripInlineMarkdown: "length (StripInlineMarkdown v) \<le> length v"
proof (induction v rule: StripInlineMarkdown.induct)
  case (2 ch rest)
  have link: "length (t @ wide '' ('' @ u @ [41] @ StripInlineMarkdown r) \<le> Suc (length rest)"
    if "find_link rest = Some (t, u, r)" "length (StripInlineMarkdown r) \<le> length r" for t u r
    using find_link_shorter [OF that(1)] that(2) by simp
  show ?case
    using 2 link
    by (auto split: option.splits if_splits simp del: length_append intro: le_trans)
qed simp

definition no_markup :: "wchar \<Rightarrow> bool" where
  "no_markup ch \<longleftrightarrow> ch \<notin> {96, 42, 95, 91}"

lemma StripInlineMarkdown_plain: "\<forall>ch \<in> set v. no_markup ch \<Longrightarrow> StripInlineMarkdown v = v"
  by (induction v) (auto simp: no_markup_def StartsWith_def wide_def)

text \<open>A line is followed by its end; lines of the text have none inside.\<close>

definition is_line :: "wstr \<Rightarrow> bool" where
  "is_line l \<longleftrightarrow> 13 \<notin> set l \<and> 10 \<notin> set l"

lemma next_line_crlf: "is_line l \<Longrightarrow> next_line (l @ crlf @ r) = (l, r)"
proof -
  assume "is_line l"
  then have "takeWhile (\<lambda>ch. ch \<noteq> 13 \<and> ch \<noteq> 10) (l @ crlf @ r) = l"
    "dropWhile (\<lambda>ch. ch \<noteq> 13 \<and> ch \<noteq> 10) (l @ crlf @ r) = crlf @ r"
    by (induction l) (auto simp: is_line_def crlf_def)
  then show ?thesis by (simp add: next_line_def crlf_def)
qed

definition fence :: "wstr \<Rightarrow> bool" where
  "fence l \<longleftrightarrow> StartsWith (TrimLeft l) (wide ''```'')"

lemma render_from_line:
  assumes "is_line l"
  shows "render_from b (l @ crlf @ r) =
    (if fence l then (if b then wide ''[/code]'' else wide ''[code]'') @ crlf @ render_from (\<not> b) r
     else if b then l @ crlf @ render_from b r else render_line l @ render_from b r)"
  using next_line_crlf [OF assms, of r]
  by (subst render_from.simps) (simp add: fence_def crlf_def Let_def)

text \<open>A code block is shown as it is, whatever its lines contain.\<close>

lemma render_code_block:
  assumes "\<forall>l \<in> set ls. is_line l \<and> \<not> fence l"
  shows "render_from True (concat (map (\<lambda>l. l @ crlf) ls) @ r) = concat (map (\<lambda>l. l @ crlf) ls) @ render_from True r"
  using assms by (induction ls) (simp_all add: render_from_line)

lemma render_fence: "render_from b (wide ''```'' @ crlf @ r) =
   (if b then wide ''[/code]'' else wide ''[code]'') @ crlf @ render_from (\<not> b) r"
proof -
  have "is_line (wide ''```'')" "fence (wide ''```'')"
    by (simp_all add: is_line_def fence_def StartsWith_def) (simp_all add: wide_def)
  then show ?thesis by (simp add: render_from_line)
qed

end
