(* ===== verification/NativeWindow.thy ===== *)
theory NativeWindow
  imports WebSync Follower Selection Markdown
begin

text \<open>
  The classic window of \<^verbatim>\<open>client/window.cpp\<close>: the record \<open>window\<close> has the fields of \<^verbatim>\<open>MainWindow\<close>
  that carry state, then what its controls hold: the text and the selection of the editor, the
  status line, whether the autosave timer runs. The editor gives back the text it was set to,
  and counts positions in its units. Setting its text from the program makes it report a
  change; the handler ignores that while one of the four flags is up, and the operations below
  change the text only then. Other controls, fonts and log lines are left out.
\<close>

datatype screen = StartScreen | JoinScreen | EditorScreen

record tab_state =
  tab_title :: wstr
  tab_content :: wstr
  tab_dirty :: bool

text \<open>
  What the rich edit control is told of the text to come: its height in twips, bold, italic, the
  face; and of the paragraph: its numbering and two indents.
\<close>

record insertion_format =
  fmt_height :: nat
  fmt_bold :: bool
  fmt_italic :: bool
  fmt_face :: wstr

record paragraph_format =
  par_numbering :: nat
  par_start_indent :: nat
  par_offset :: nat

record window =
  n_server :: server
  n_client :: client
  n_announced :: "(wstr \<times> u16) option"
  n_storage :: storage
  n_screen :: screen
  n_advanced :: bool
  n_dirty :: bool
  n_suppress :: bool
  n_ime :: bool
  n_remote :: bool
  n_shortcut :: bool
  n_preview_visible :: bool
  n_role :: sync_role
  n_session :: wstr
  n_local :: wstr
  n_re_host :: wstr
  n_re_port :: u16
  n_re_device :: wstr
  n_re_nickname :: wstr
  n_reconnecting :: bool
  n_re_stop :: bool
  n_joinable :: bool
  n_revision :: u64
  n_sync_revision :: u64
  n_chunks :: "wstr list"
  n_received :: "bool list"
  n_last :: wstr
  n_tabs :: "tab_state list"
  n_active :: nat
  n_editor :: wstr
  n_selection :: editor_selection
  n_preview :: wstr
  n_status :: wstr
  n_timer :: bool
  n_format :: insertion_format
  n_paragraph :: paragraph_format

definition kMaxTabs :: nat where "kMaxTabs = 3"

section \<open>The editor\<close>

definition no_selection :: editor_selection where
  "no_selection = \<lparr>sel_start = 0, sel_end = 0\<rparr>"

text \<open>\<^verbatim>\<open>SetWindowTextW(editor_, ...)\<close> puts the caret at the start.\<close>

definition set_editor :: "wstr \<Rightarrow> window \<Rightarrow> window" where
  "set_editor t w = w\<lparr>n_editor := t, n_selection := no_selection\<rparr>"

definition set_status :: "wstr \<Rightarrow> window \<Rightarrow> window" where
  "set_status t w = w\<lparr>n_status := t\<rparr>"

definition kDefaultTextHeight :: nat where "kDefaultTextHeight = 220"

definition SetRichEditInsertionFormat :: "nat \<Rightarrow> bool \<Rightarrow> bool \<Rightarrow> wstr \<Rightarrow> window \<Rightarrow> window" where
  [simp]: "SetRichEditInsertionFormat twip_height bold italic face_name w =
     w\<lparr>n_format := \<lparr>fmt_height = twip_height, fmt_bold = bold, fmt_italic = italic, fmt_face = face_name\<rparr>\<rparr>"

definition ResetRichEditInsertionFormat :: "window \<Rightarrow> window" where
  [simp]: "ResetRichEditInsertionFormat w = SetRichEditInsertionFormat kDefaultTextHeight False False (wide ''Segoe UI'') w"

definition ResetRichEditParagraphFormat :: "window \<Rightarrow> window" where
  [simp]: "ResetRichEditParagraphFormat w =
     w\<lparr>n_paragraph := \<lparr>par_numbering = 0, par_start_indent = 0, par_offset = 0\<rparr>\<rparr>"

definition UpdateMarkdownPreview :: "window \<Rightarrow> window" where
  "UpdateMarkdownPreview w =
     (if \<not> n_preview_visible w then w else w\<lparr>n_preview := RenderMarkdownPreview (n_editor w)\<rparr>)"

definition ToggleMarkdownPreview :: "window \<Rightarrow> window" where
  "ToggleMarkdownPreview w = UpdateMarkdownPreview (w\<lparr>n_preview_visible := \<not> n_preview_visible w\<rparr>)"

definition LoadInitialDocument :: "text_api \<Rightarrow> window \<Rightarrow> window" where
  "LoadInitialDocument api w =
     (let (loaded, st) = LoadCurrent api (n_storage w);
          content = (case loaded of None \<Rightarrow> [] | Some t \<Rightarrow> t)
      in (set_editor content (w\<lparr>n_storage := st\<rparr>))\<lparr>n_last := content, n_dirty := False\<rparr>)"

definition ShowEditorScreen :: "wstr \<Rightarrow> window \<Rightarrow> window" where
  "ShowEditorScreen status_text w = UpdateMarkdownPreview (set_status status_text (w\<lparr>n_screen := EditorScreen\<rparr>))"

definition ShowJoinScreen :: "window \<Rightarrow> window" where
  "ShowJoinScreen w = set_status nt_join_prompt (w\<lparr>n_screen := JoinScreen, n_advanced := False\<rparr>)"

definition ShowStartScreen :: "window \<Rightarrow> window" where
  "ShowStartScreen w = set_status (wide ''Idle'') (w\<lparr>n_screen := StartScreen, n_role := Offline\<rparr>)"

definition ToggleAdvancedJoin :: "window \<Rightarrow> window" where
  "ToggleAdvancedJoin w = w\<lparr>n_advanced := \<not> n_advanced w\<rparr>"

section \<open>Tabs\<close>

definition InitializeTabs :: "window \<Rightarrow> window" where
  "InitializeTabs w =
     w\<lparr>n_tabs := [\<lparr>tab_title = wide ''current.txt'', tab_content = n_last w, tab_dirty = False\<rparr>], n_active := 0\<rparr>"

text \<open>The active tab takes a text and a flag, if there is such a tab.\<close>

definition note_active :: "wstr \<Rightarrow> bool \<Rightarrow> window \<Rightarrow> window" where
  "note_active t d w =
     (if n_active w < length (n_tabs w)
      then w\<lparr>n_tabs := (n_tabs w)[n_active w := (n_tabs w ! n_active w)\<lparr>tab_content := t, tab_dirty := d\<rparr>]\<rparr>
      else w)"

definition SyncActiveTabFromEditor :: "window \<Rightarrow> window" where
  "SyncActiveTabFromEditor w = note_active (n_editor w) (n_dirty w) w"

definition SwitchToTab :: "nat \<Rightarrow> window \<Rightarrow> window" where
  "SwitchToTab index w =
     (if index \<ge> length (n_tabs w) then w
      else if n_role w \<noteq> Offline then set_status nt_tab_busy w
      else
        let w1 = (SyncActiveTabFromEditor w)\<lparr>n_active := index\<rparr>;
            tab = n_tabs w1 ! index;
            w2 = (set_editor (tab_content tab) w1)
                   \<lparr>n_last := tab_content tab, n_dirty := tab_dirty tab, n_revision := 0\<rparr>
        in set_status (nt_tab_switched @ tab_title tab) 
             (UpdateMarkdownPreview (ResetRichEditParagraphFormat (ResetRichEditInsertionFormat w2))))"

definition HandleNewTab :: "window \<Rightarrow> window" where
  "HandleNewTab w =
     (if n_role w \<noteq> Offline then set_status nt_newtab_busy w
      else if length (n_tabs w) \<ge> kMaxTabs then set_status nt_tab_limit w
      else
        let w1 = SyncActiveTabFromEditor w; new_index = length (n_tabs w1);
            tab = \<lparr>tab_title = nt_new_tab @ dec_digits new_index, tab_content = [], tab_dirty = False\<rparr>
        in SwitchToTab new_index (w1\<lparr>n_tabs := n_tabs w1 @ [tab]\<rparr>))"

definition TabTitleText :: "int \<Rightarrow> nat \<Rightarrow> window \<Rightarrow> wstr" where
  "TabTitleText tab_label_width index w =
     (if index \<ge> length (n_tabs w) then []
      else
        let tab = n_tabs w ! index;
            available_width = max 24 (tab_label_width - 18);
            chars1 = nat (max 1 (available_width div 9));
            max_title_chars = (if tab_dirty tab \<and> chars1 > 2 then chars1 - 2 else chars1);
            title = (if length (tab_title tab) > max_title_chars
                     then (if max_title_chars \<le> 3 then dec_digits (index + 1)
                           else substr 0 (max_title_chars - 3) (tab_title tab) @ wide ''...'')
                     else tab_title tab)
        in [32] @ title @ (if tab_dirty tab then wide '' *'' else []))"

section \<open>Remote edits and the whole document\<close>

text \<open>
  A text from outside goes into the editor: the selection is put back, clamped to the text, the
  active tab notes it, and the autosave timer is started.
\<close>

definition take_text :: "wstr \<Rightarrow> editor_selection \<Rightarrow> u64 \<Rightarrow> wstr \<Rightarrow> window \<Rightarrow> window" where
  "take_text t selection r status w =
     (let w1 = (set_editor t w)\<lparr>n_selection := ClampSelectionToText selection (length t),
                               n_last := t, n_revision := r, n_dirty := True\<rparr>
      in set_status status ((UpdateMarkdownPreview (note_active t True w1))\<lparr>n_timer := True\<rparr>))"

definition ApplyFullSyncDocument_main :: "wstr \<Rightarrow> u64 \<Rightarrow> window \<Rightarrow> window" where
  "ApplyFullSyncDocument_main t r w = take_text t (n_selection w) r nt_synced w"

definition RequestFullSync_main :: "text_api \<Rightarrow> window \<Rightarrow> window" where
  "RequestFullSync_main api w =
     (case n_role w of
        Guest \<Rightarrow>
          set_status nt_sync_requested (w\<lparr>n_client := snd (SendSyncRequest api (n_revision w) (n_client w))\<rparr>)
      | Host \<Rightarrow> take_text (document (n_server w)) (n_selection w) (revision (n_server w)) nt_resynced w
      | Offline \<Rightarrow> w)"

text \<open>One chunk: another revision or another number of chunks starts the collection anew.\<close>

definition store_chunk_main :: "u64 \<Rightarrow> nat \<Rightarrow> nat \<Rightarrow> wstr \<Rightarrow> window \<Rightarrow> window" where
  "store_chunk_main r count index chunk_text w =
     (let w1 = (if n_sync_revision w \<noteq> r \<or> length (n_chunks w) \<noteq> count
                then w\<lparr>n_sync_revision := r, n_chunks := replicate count [], n_received := replicate count False\<rparr>
                else w)
      in w1\<lparr>n_chunks := (n_chunks w1)[index := chunk_text], n_received := (n_received w1)[index := True]\<rparr>)"

definition ApplySyncResponse_main :: "protocol_message \<Rightarrow> window \<Rightarrow> window" where
  "ApplySyncResponse_main message w =
     (case (GetString message (wide ''text''), GetNumber message (wide ''rev'')) of
        (Some chunk_text, Some r) \<Rightarrow>
          let chunk_index = optional_number message ''chunk_index'' 0;
              count = optional_number message ''chunk_count'' 1
          in if count = 0 \<or> chunk_index \<ge> count then w
             else if count > 1 then
               let w2 = store_chunk_main r (unat count) (unat chunk_index) chunk_text w
               in if \<not> list_all id (n_received w2) then set_status nt_syncing w2
                  else ApplyFullSyncDocument_main (concat (n_chunks w2)) r (w2\<lparr>n_chunks := [], n_received := []\<rparr>)
             else ApplyFullSyncDocument_main chunk_text r (w\<lparr>n_chunks := [], n_received := []\<rparr>)
      | _ \<Rightarrow> w)"

text \<open>The edit, on the text and the selection.\<close>

definition remote_edit_main ::
  "protocol_message \<Rightarrow> wstr \<Rightarrow> nat \<Rightarrow> wstr \<Rightarrow> editor_selection \<Rightarrow> document_apply_status \<times> wstr \<times> editor_selection" where
  "remote_edit_main message operation position doc selection =
     (if operation = wide ''INSERT'' then
        (case GetString message (wide ''text'') of
           None \<Rightarrow> (InvalidOperation, doc, selection)
         | Some inserted \<Rightarrow>
             (case ApplyInsertToContent doc position inserted of
                (Applied, t) \<Rightarrow> (Applied, t, AdjustSelectionForInsert selection position (length inserted))
              | (st, t) \<Rightarrow> (st, t, selection)))
      else if operation = wide ''DELETE'' then
        (case GetNumber message (wide ''len'') of
           None \<Rightarrow> (InvalidOperation, doc, selection)
         | Some len \<Rightarrow>
             (case ApplyDeleteToContent doc position (unat len) of
                (Applied, t) \<Rightarrow> (Applied, t, AdjustSelectionForDelete selection position (unat len))
              | (st, t) \<Rightarrow> (st, t, selection)))
      else (InvalidOperation, doc, selection))"

definition ApplySyncApply_main :: "text_api \<Rightarrow> protocol_message \<Rightarrow> window \<Rightarrow> window" where
  "ApplySyncApply_main api message w =
     (case (GetNumber message (wide ''rev''), GetNumber message (wide ''pos''), GetString message (wide ''op'')) of
        (Some r, Some position, Some operation) \<Rightarrow>
          if r \<le> n_revision w then w
          else if msg_client message = n_local w then w\<lparr>n_revision := r\<rparr>
          else if r \<noteq> n_revision w + 1 then RequestFullSync_main api w
          else
            (case remote_edit_main message operation (unat position) (n_editor w) (n_selection w) of
               (Applied, t, selection) \<Rightarrow> take_text t selection r nt_synced w
             | _ \<Rightarrow> RequestFullSync_main api w)
      | _ \<Rightarrow> w)"

end
