(* ===== verification/NativeEditing.thy ===== *)
theory NativeEditing
  imports NativeWindow
begin

text \<open>
  What the user types into the classic window: the Markdown shortcuts, the comparison with the
  last known text, sending, and saving (\<^verbatim>\<open>client/window.cpp\<close>).
\<close>

section \<open>Markdown shortcuts\<close>

text \<open>The marker at the start of a line: its length and the style it asks for.\<close>

datatype shortcut = Heading nat | Bullet | Quote | CodeLine

definition shortcut_of :: "wstr \<Rightarrow> (nat \<times> shortcut) option" where
  "shortcut_of line =
     (if line = wide ''# '' then Some (2, Heading 320)
      else if line = wide ''## '' then Some (3, Heading 280)
      else if line = wide ''### '' then Some (4, Heading 250)
      else if line = wide ''- '' \<or> line = wide ''* '' then Some (2, Bullet)
      else if line = wide ''> '' then Some (2, Quote)
      else if line = wide ''``` '' then Some (4, CodeLine)
      else None)"

text \<open>Selecting the marker, replacing it by nothing, and putting the caret where it was.\<close>

definition DeleteMarkdownMarker :: "nat \<Rightarrow> nat \<Rightarrow> window \<Rightarrow> window" where
  "DeleteMarkdownMarker line_start marker_length w =
     w\<lparr>n_editor := list_erase_at line_start marker_length (n_editor w),
       n_selection := \<lparr>sel_start = ClampToDword line_start, sel_end = ClampToDword line_start\<rparr>\<rparr>"

text \<open>The style of each marker, with the numbering \<^verbatim>\<open>PFN_BULLET\<close>.\<close>

definition ApplyHeadingShortcut :: "nat \<Rightarrow> nat \<Rightarrow> nat \<Rightarrow> window \<Rightarrow> window" where
  "ApplyHeadingShortcut line_start marker_length twip_height w =
     set_status nt_heading (SetRichEditInsertionFormat twip_height True False (wide ''Segoe UI'')
       (DeleteMarkdownMarker line_start marker_length w))"

definition ApplyBulletShortcut :: "nat \<Rightarrow> nat \<Rightarrow> window \<Rightarrow> window" where
  "ApplyBulletShortcut line_start marker_length w =
     set_status nt_bullet (ResetRichEditInsertionFormat
       ((DeleteMarkdownMarker line_start marker_length w)
          \<lparr>n_paragraph := \<lparr>par_numbering = 1, par_start_indent = 420, par_offset = 240\<rparr>\<rparr>))"

definition ApplyQuoteShortcut :: "nat \<Rightarrow> nat \<Rightarrow> window \<Rightarrow> window" where
  "ApplyQuoteShortcut line_start marker_length w =
     set_status nt_quote (SetRichEditInsertionFormat kDefaultTextHeight False True (wide ''Segoe UI'')
       (DeleteMarkdownMarker line_start marker_length w))"

definition ApplyCodeShortcut :: "nat \<Rightarrow> nat \<Rightarrow> window \<Rightarrow> window" where
  "ApplyCodeShortcut line_start marker_length w =
     set_status nt_code (SetRichEditInsertionFormat kDefaultTextHeight False False (wide ''Consolas'')
       (DeleteMarkdownMarker line_start marker_length w))"

lemmas shortcut_defs = ApplyHeadingShortcut_def ApplyBulletShortcut_def ApplyQuoteShortcut_def ApplyCodeShortcut_def
  DeleteMarkdownMarker_def set_status_def

definition line_start_of :: "wstr \<Rightarrow> nat \<Rightarrow> nat" where
  "line_start_of t caret = caret - length (takeWhile (\<lambda>ch. ch \<noteq> 10) (rev (take caret t)))"

definition ApplyMarkdownShortcutIfNeeded :: "window \<Rightarrow> window" where
  "ApplyMarkdownShortcutIfNeeded w =
     (let caret = unat (sel_end (n_selection w)); t = n_editor w
      in if sel_start (n_selection w) \<noteq> sel_end (n_selection w) \<or> caret = 0 then w
         else if caret > length t \<or> t ! (caret - 1) \<noteq> 32 then w
         else
           let line_start = line_start_of t caret;
               line = substr line_start (caret - line_start) t;
               line1 = (if line \<noteq> [] \<and> hd line = 13 then tl line else line)
           in case shortcut_of line1 of
                None \<Rightarrow> w
              | Some (marker_length, style) \<Rightarrow>
                  (case style of
                     Heading twip_height \<Rightarrow> ApplyHeadingShortcut line_start marker_length twip_height w
                   | Bullet \<Rightarrow> ApplyBulletShortcut line_start marker_length w
                   | Quote \<Rightarrow> ApplyQuoteShortcut line_start marker_length w
                   | CodeLine \<Rightarrow> ApplyCodeShortcut line_start marker_length w))"

text \<open>After a line break the styles end.\<close>

definition ResetMarkdownStyleAtLineBreakIfNeeded :: "window \<Rightarrow> window" where
  "ResetMarkdownStyleAtLineBreakIfNeeded w =
     (let caret = unat (sel_end (n_selection w)); t = n_editor w
      in if sel_start (n_selection w) \<noteq> sel_end (n_selection w) \<or> caret = 0 \<or> caret > length t then w
         else if t ! (caret - 1) \<noteq> 10 \<and> t ! (caret - 1) \<noteq> 13 then w
         else ResetRichEditParagraphFormat (ResetRichEditInsertionFormat w))"

section \<open>Local edits\<close>

definition send_local_operation_main :: "text_api \<Rightarrow> editor_operation \<Rightarrow> window \<Rightarrow> window" where
  "send_local_operation_main api operation w =
     (if n_role w = Host then
        (case ApplyLocalOperation api operation (n_local w) (n_server w) of
           (None, s) \<Rightarrow> RequestFullSync_main api (w\<lparr>n_server := s\<rparr>)
         | (Some apply_message, s) \<Rightarrow>
             w\<lparr>n_server := s, n_revision := optional_number apply_message ''rev'' (n_revision w)\<rparr>)
      else if n_role w = Guest then
        let base_revision = n_revision w
        in w\<lparr>n_client := snd (case op_type operation of
               OpInsert \<Rightarrow> SendInsert api base_revision (op_position operation) (op_text operation) (n_client w)
             | OpDelete \<Rightarrow> SendDelete api base_revision (op_position operation) (op_length operation) (n_client w))\<rparr>
      else w)"

definition SendLocalOperations_main :: "text_api \<Rightarrow> editor_diff_result \<Rightarrow> window \<Rightarrow> window" where
  "SendLocalOperations_main api diff w =
     (if n_role w = Offline then w else fold (send_local_operation_main api) (operations diff) w)"

definition ProcessEditorChange :: "text_api \<Rightarrow> window \<Rightarrow> window" where
  "ProcessEditorChange api w =
     (let current_text = n_editor w; diff = ComputeEditorDiff (n_last w) current_text
      in if \<not> valid diff then
           (if document_too_large diff then set_editor (n_last w) (set_status nt_too_large w) else w)
         else if \<not> changed diff then w
         else
           let w1 = (SendLocalOperations_main api diff w)\<lparr>n_last := current_text, n_dirty := True\<rparr>;
               w2 = UpdateMarkdownPreview (note_active current_text True w1);
               w3 = (if n_screen w2 = EditorScreen then set_status nt_editing w2 else w2)
           in w3\<lparr>n_timer := True\<rparr>)"

definition OnEditorChanged :: "text_api \<Rightarrow> window \<Rightarrow> window" where
  "OnEditorChanged api w =
     (if n_suppress w \<or> n_remote w \<or> n_ime w \<or> n_shortcut w then w
      else ProcessEditorChange api (ApplyMarkdownShortcutIfNeeded (ResetMarkdownStyleAtLineBreakIfNeeded w)))"

section \<open>Saving\<close>

definition SaveEditorContent :: "text_api \<Rightarrow> window \<Rightarrow> window" where
  "SaveEditorContent api w =
     (if \<not> n_dirty w then w
      else if n_active w > 0 then
        (let w1 = SyncActiveTabFromEditor w
         in if n_screen w1 = EditorScreen then set_status nt_tab_not_saved w1 else w1)
      else
        let t = n_editor w; (ok, st) = SaveCurrent api t (n_storage w); w1 = w\<lparr>n_storage := st\<rparr>
        in if ok then
             let w2 = w1\<lparr>n_dirty := False,
                         n_tabs := (case n_tabs w1 of [] \<Rightarrow> [] | tab # tabs \<Rightarrow> tab\<lparr>tab_content := t, tab_dirty := False\<rparr> # tabs)\<rparr>
             in if n_screen w2 = EditorScreen then set_status nt_saved w2 else w2
           else if n_screen w1 = EditorScreen then set_status txt_autosave_failed w1 else w1)"

section \<open>Interfaces\<close>

interpretation native_host: host_editor api "send_local_operation_main api" n_server n_revision
  "\<lambda>w :: window. n_role w = Host \<and> n_local w = wide ''A'' \<and> n_editor w = t" for api t
  by unfold_locales (simp add: send_local_operation_main_def optional_number_def)

lemma UpdateMarkdownPreview_simps [simp]:
  "n_editor (UpdateMarkdownPreview w) = n_editor w" "n_last (UpdateMarkdownPreview w) = n_last w"
  "n_tabs (UpdateMarkdownPreview w) = n_tabs w" "n_active (UpdateMarkdownPreview w) = n_active w"
  "n_revision (UpdateMarkdownPreview w) = n_revision w" "n_local (UpdateMarkdownPreview w) = n_local w"
  "n_role (UpdateMarkdownPreview w) = n_role w" "n_server (UpdateMarkdownPreview w) = n_server w"
  "n_client (UpdateMarkdownPreview w) = n_client w" "n_storage (UpdateMarkdownPreview w) = n_storage w"
  "n_dirty (UpdateMarkdownPreview w) = n_dirty w" "n_selection (UpdateMarkdownPreview w) = n_selection w"
  "n_screen (UpdateMarkdownPreview w) = n_screen w" "n_ime (UpdateMarkdownPreview w) = n_ime w"
  "n_suppress (UpdateMarkdownPreview w) = n_suppress w" "n_remote (UpdateMarkdownPreview w) = n_remote w"
  "n_shortcut (UpdateMarkdownPreview w) = n_shortcut w" "n_session (UpdateMarkdownPreview w) = n_session w"
  "n_chunks (UpdateMarkdownPreview w) = n_chunks w" "n_received (UpdateMarkdownPreview w) = n_received w"
  "n_sync_revision (UpdateMarkdownPreview w) = n_sync_revision w"
  by (simp_all add: UpdateMarkdownPreview_def)

lemma note_active_simps [simp]:
  "n_editor (note_active t d w) = n_editor w" "n_last (note_active t d w) = n_last w"
  "n_active (note_active t d w) = n_active w" "length (n_tabs (note_active t d w)) = length (n_tabs w)"
  "n_revision (note_active t d w) = n_revision w" "n_local (note_active t d w) = n_local w"
  "n_role (note_active t d w) = n_role w" "n_server (note_active t d w) = n_server w"
  "n_client (note_active t d w) = n_client w" "n_storage (note_active t d w) = n_storage w"
  "n_dirty (note_active t d w) = n_dirty w" "n_selection (note_active t d w) = n_selection w"
  "n_screen (note_active t d w) = n_screen w" "n_ime (note_active t d w) = n_ime w"
  "n_suppress (note_active t d w) = n_suppress w" "n_remote (note_active t d w) = n_remote w"
  "n_shortcut (note_active t d w) = n_shortcut w" "n_session (note_active t d w) = n_session w"
  "n_chunks (note_active t d w) = n_chunks w" "n_received (note_active t d w) = n_received w"
  "n_sync_revision (note_active t d w) = n_sync_revision w"
  by (simp_all add: note_active_def)

lemma take_text_simps [simp]:
  "n_editor (take_text t sel r st w) = t" "n_last (take_text t sel r st w) = t"
  "n_revision (take_text t sel r st w) = r" "n_active (take_text t sel r st w) = n_active w"
  "length (n_tabs (take_text t sel r st w)) = length (n_tabs w)"
  "n_local (take_text t sel r st w) = n_local w" "n_role (take_text t sel r st w) = n_role w"
  "n_server (take_text t sel r st w) = n_server w" "n_client (take_text t sel r st w) = n_client w"
  "n_storage (take_text t sel r st w) = n_storage w" "n_ime (take_text t sel r st w) = n_ime w"
  "n_suppress (take_text t sel r st w) = n_suppress w" "n_remote (take_text t sel r st w) = n_remote w"
  "n_shortcut (take_text t sel r st w) = n_shortcut w" "n_session (take_text t sel r st w) = n_session w"
  "n_selection (take_text t sel r st w) = ClampSelectionToText sel (length t)"
  by (simp_all add: take_text_def Let_def set_status_def set_editor_def)

lemma note_active_content:
  "n_active w < length (n_tabs w) \<Longrightarrow> tab_content (n_tabs (note_active t d w) ! n_active w) = t"
  by (simp add: note_active_def)

lemma take_text_content:
  "n_active w < length (n_tabs w) \<Longrightarrow> tab_content (n_tabs (take_text t sel r st w) ! n_active w) = t"
  by (simp add: take_text_def Let_def set_status_def set_editor_def note_active_def)

end
