(* ===== verification/NativeRoom.thy ===== *)
theory NativeRoom
  imports NativeEditing WebWindow StdText
begin

text \<open>
  Rooms and reconnection in the classic window, its texts for failures, and the dispatch of
  window messages (\<^verbatim>\<open>client/window.cpp\<close>). The answers of the outside world are the record
  \<open>web_env\<close> of the web window; \<open>None\<close> is a handler that is still waiting for the network.
\<close>

section \<open>Texts\<close>

definition FriendlyJoinFailureMessage :: "wstr \<Rightarrow> wstr" where
  "FriendlyJoinFailureMessage reason =
     (if reason = wide ''invalid_code'' then nt_fail_code
      else if reason = wide ''blocked'' then nt_fail_blocked
      else if reason = wide ''room_full'' then nt_fail_full
      else if reason = wide ''protocol_mismatch'' then nt_fail_protocol
      else if reason = [] then txt_connect_failed
      else nt_fail_prefix @ reason)"

definition FriendlySyncErrorMessage :: "wstr \<Rightarrow> wstr" where
  "FriendlySyncErrorMessage reason =
     (if reason = wide ''connect timeout'' then nt_err_timeout
      else if reason = wide ''connect failed'' then nt_err_connect
      else if reason = wide ''connection closed'' then nt_err_closed
      else if reason = wide ''heartbeat timeout'' then nt_err_heartbeat
      else if reason = wide ''insert_too_large'' then nt_err_insert
      else if reason = wide ''document_too_large'' then nt_too_large
      else if reason = wide ''invalid_session'' then nt_err_session
      else if reason = wide ''invalid_client'' then nt_err_client
      else if reason = wide ''invalid_position'' then nt_err_position
      else if reason = [] then nt_err_unknown
      else nt_err_prefix @ reason)"

definition CurrentEditorStatusText :: "window \<Rightarrow> wstr" where
  "CurrentEditorStatusText w =
     (if n_role w = Host \<and> n_session w \<noteq> []
      then nt_hosting @ n_session w @ nt_port @ dec_digits (unat (port (n_server w)))
      else if n_role w = Guest \<and> n_session w \<noteq> [] then nt_connected_code @ n_session w
      else nt_idle_local)"

text \<open>\<^verbatim>\<open>std::setw(6)\<close> with \<^verbatim>\<open>std::setfill(L'0')\<close>.\<close>

definition GenerateSessionCode_main :: "nat \<Rightarrow> wstr" where
  "GenerateSessionCode_main n = (let ds = dec_digits n in replicate (6 - length ds) 48 @ ds)"

section \<open>Reconnection\<close>

definition kMaxReconnectAttempts :: nat where "kMaxReconnectAttempts = 5"

definition reconnect_delay_ms :: "nat \<Rightarrow> nat" where
  "reconnect_delay_ms attempt = min 8000 (1000 * 2 ^ min (attempt - 1) 3)"

definition StartReconnectLoop :: "window \<Rightarrow> window" where
  "StartReconnectLoop w =
     (if n_role w \<noteq> Guest \<or> n_re_host w = [] \<or> n_re_port w = 0 then set_status nt_no_reconnect w
      else if n_reconnecting w then w
      else set_status nt_reconnecting (w\<lparr>n_reconnecting := True, n_re_stop := False, n_joinable := True\<rparr>))"

definition StopReconnectLoop :: "window \<Rightarrow> window" where
  "StopReconnectLoop w = w\<lparr>n_re_stop := True, n_joinable := False, n_reconnecting := False\<rparr>"

text \<open>
  The loop of the reconnection thread, over the attempts that are left. \<open>env\<close> says what the
  network answers to an attempt, \<open>stop\<close> whether \<^verbatim>\<open>reconnect_stop_\<close> is set while the loop waits after
  it. The result has the status messages it posts.
\<close>

fun reconnect_rounds ::
  "text_api \<Rightarrow> (nat \<Rightarrow> connect_env) \<Rightarrow> (nat \<Rightarrow> bool) \<Rightarrow> nat list \<Rightarrow> window \<Rightarrow> ((nat \<times> nat) list \<times> window) option" where
  "reconnect_rounds api env stop [] w =
     Some (if n_re_stop w then [] else [(0, 2)], w\<lparr>n_reconnecting := False\<rparr>)"
| "reconnect_rounds api env stop (attempt # later) w =
     (if n_re_stop w then Some ([], w\<lparr>n_reconnecting := False\<rparr>)
      else case Connect api (env attempt) (n_session w) (n_re_device w) (n_re_nickname w) (n_client w) of
             None \<Rightarrow> None
           | Some (True, c) \<Rightarrow> Some ([(attempt, 0), (0, 1)], w\<lparr>n_client := c, n_reconnecting := False\<rparr>)
           | Some (False, c) \<Rightarrow>
               map_option (\<lambda>(posts, w'). ((attempt, 0) # posts, w'))
                 (reconnect_rounds api env stop later (w\<lparr>n_client := c, n_re_stop := stop attempt\<rparr>)))"

definition ReconnectLoop ::
  "text_api \<Rightarrow> (nat \<Rightarrow> connect_env) \<Rightarrow> (nat \<Rightarrow> bool) \<Rightarrow> window \<Rightarrow> ((nat \<times> nat) list \<times> window) option" where
  "ReconnectLoop api env stop w = reconnect_rounds api env stop [1..<Suc kMaxReconnectAttempts] w"

definition HandleReconnectStatus :: "nat \<Rightarrow> nat \<Rightarrow> window \<Rightarrow> window" where
  "HandleReconnectStatus wparam lparam w =
     (if lparam = 1 then set_status nt_reconnected w
      else if lparam = 2 then set_status nt_reconnect_failed w
      else set_status (nt_reconnect_try @ dec_digits wparam @ wide ''/'' @ dec_digits kMaxReconnectAttempts) w)"

section \<open>Events\<close>

definition HandleSyncEvent_main :: "text_api \<Rightarrow> sync_event \<Rightarrow> window \<Rightarrow> window" where
  "HandleSyncEvent_main api event w =
     (case ev_type event of
        EvApply \<Rightarrow> ApplySyncApply_main api (ev_message event) w
      | EvSyncResponse \<Rightarrow> ApplySyncResponse_main (ev_message event) w
      | EvDisconnected \<Rightarrow>
          if n_role w = Guest then StartReconnectLoop w else set_status nt_peer_gone w
      | EvError \<Rightarrow>
          if ev_detail event \<noteq> [] then set_status (FriendlySyncErrorMessage (ev_detail event)) w else w)"

section \<open>Rooms\<close>

definition HandleLeaveRoom :: "text_api \<Rightarrow> window \<Rightarrow> window" where
  "HandleLeaveRoom api w =
     (let w1 = StopReconnectLoop w
      in ShowEditorScreen nt_idle_local
           (w1\<lparr>n_announced := None, n_client := Disconnect (n_client w1), n_server := Stop api (n_server w1),
               n_role := Offline, n_session := [], n_local := wide ''A'', n_re_host := [], n_re_port := 0,
               n_re_device := [], n_re_nickname := [], n_revision := 0, n_sync_revision := 0,
               n_chunks := [], n_received := []\<rparr>))"

definition HandleNewDocument :: "text_api \<Rightarrow> window \<Rightarrow> window" where
  "HandleNewDocument api w =
     (let w1 = (set_editor [] (HandleLeaveRoom api w))\<lparr>n_last := [], n_revision := 0, n_dirty := True\<rparr>
      in ShowEditorScreen nt_new_document ((UpdateMarkdownPreview w1)\<lparr>n_timer := True\<rparr>))"

definition HandleCreateRoom_main :: "text_api \<Rightarrow> web_env \<Rightarrow> window \<Rightarrow> window" where
  "HandleCreateRoom_main api env w =
     (let w1 = StopReconnectLoop w
      in case env_winsock env of
           Some winsock_error \<Rightarrow> set_status winsock_error w1
         | None \<Rightarrow>
             let code = GenerateSessionCode_main (env_random env);
                 preferred_port = (case env_config env of None \<Rightarrow> 7777 | Some cfg \<Rightarrow> cfg_port cfg);
                 s1 = SetSessionLogPath (wide ''session.log'') (SetDocument (n_last w1) 0 (n_server w1));
                 (ok, s2) = Start api (env_bind env) code preferred_port s1;
                 w2 = w1\<lparr>n_session := code, n_local := wide ''A'', n_revision := 0, n_server := s2\<rparr>
             in if \<not> ok then set_status nt_create_failed w2
                else
                  let w3 = w2\<lparr>n_announced := (if env_announce_ok env then Some (code, port s2) else None), n_role := Host\<rparr>
                  in ShowEditorScreen (nt_hosting @ code @ nt_waiting_port @ dec_digits (unat (port s2))) w3)"

text \<open>The address: what discovery found, or what the advanced fields hold.\<close>

definition join_address :: "web_env \<Rightarrow> wstr \<Rightarrow> wstr \<Rightarrow> window \<Rightarrow> wstr + (wstr \<times> u16)" where
  "join_address env host_text port_text w =
     (case env_found env of
        Some address \<Rightarrow> Inr address
      | None \<Rightarrow>
          if n_advanced w then
            (if host_text = [] \<or> port_text = [] then Inl nt_address_needed
             else case stoul port_text of
                    None \<Rightarrow> Inl nt_bad_port
                  | Some parsed \<Rightarrow>
                      if parsed = 0 \<or> parsed > 65535 then Inl nt_bad_port else Inr (host_text, ucast parsed))
          else Inl nt_not_found)"

definition HandleJoinRoom_main ::
  "text_api \<Rightarrow> web_env \<Rightarrow> wstr \<Rightarrow> wstr \<Rightarrow> wstr \<Rightarrow> window \<Rightarrow> window option" where
  "HandleJoinRoom_main api env code host_text port_text w =
     (let w1 = StopReconnectLoop w
      in case env_winsock env of
           Some winsock_error \<Rightarrow> Some (set_status winsock_error w1)
         | None \<Rightarrow>
             if code = [] then Some (set_status nt_code_needed w1)
             else case join_address env host_text port_text w1 of
               Inl failure \<Rightarrow> Some (set_status failure w1)
             | Inr (host, port_number) \<Rightarrow>
                 let device_id = (case env_config env of None \<Rightarrow> wide ''local-device'' | Some cfg \<Rightarrow> cfg_device_id cfg);
                     nickname = (case env_config env of None \<Rightarrow> wide ''User'' | Some cfg \<Rightarrow> cfg_nickname cfg)
                 in case Connect api (env_connect env) code device_id nickname (n_client w1) of
                      None \<Rightarrow> None
                    | Some (ok, c) \<Rightarrow>
                        let w2 = w1\<lparr>n_client := c\<rparr>
                        in Some (if \<not> ok
                             then set_status
                                    (if c_fail_reason c = [] then FriendlySyncErrorMessage (c_last_error c)
                                     else FriendlyJoinFailureMessage (c_fail_reason c)) w2
                             else ShowEditorScreen (nt_connected_code @ code)
                                    (w2\<lparr>n_session := code,
                                        n_local := (if c_assigned c = [] then wide ''B'' else c_assigned c),
                                        n_re_host := host, n_re_port := port_number, n_re_device := device_id,
                                        n_re_nickname := nickname, n_revision := 0, n_role := Guest\<rparr>)))"

text \<open>The clipboard calls, by the first that fails.\<close>

datatype clipboard_outcome = ClipboardDone | ClipboardNoMemory | ClipboardNotOpen | ClipboardNotSet

definition CopyInviteCode :: "clipboard_outcome \<Rightarrow> window \<Rightarrow> wstr option \<times> window" where
  "CopyInviteCode outcome w =
     (if n_role w \<noteq> Host \<or> n_session w = [] then (None, set_status nt_nothing_to_copy w)
      else case outcome of
             ClipboardNoMemory \<Rightarrow> (None, set_status nt_copy_failed w)
           | ClipboardNotOpen \<Rightarrow> (None, set_status nt_clipboard_closed w)
           | ClipboardNotSet \<Rightarrow> (None, set_status nt_copy_failed w)
           | ClipboardDone \<Rightarrow> (Some (n_session w), set_status nt_copied w))"

end
