(* ===== verification/NativeMessages.thy ===== *)
theory NativeMessages
  imports NativeRoom
begin

text \<open>
  The message loop of the classic window: \<^verbatim>\<open>MainWindow::HandleMessage\<close> and the draining of the
  event queues. Messages without an effect on the state (painting, sizes, menus, the mouse
  wheel) are \<open>WmOther\<close>; undo, cut, paste and the like act on the control, which reports the new
  text with \<open>WmEdited\<close>.
\<close>

section \<open>Draining the events\<close>

lemma RequestFullSync_main_queues [simp]:
  "n_server (RequestFullSync_main api w) = n_server w"
  "c_events (n_client (RequestFullSync_main api w)) = c_events (n_client w)"
  by (simp_all add: RequestFullSync_main_def set_status_def SendSyncRequest_def EnqueueMessage_def
      split: sync_role.splits sum.splits)

lemma ApplySyncApply_main_queues [simp]:
  "n_server (ApplySyncApply_main api m w) = n_server w"
  "c_events (n_client (ApplySyncApply_main api m w)) = c_events (n_client w)"
  by (simp_all add: ApplySyncApply_main_def split: option.splits prod.splits document_apply_status.splits)

lemma ApplySyncResponse_main_queues [simp]:
  "n_server (ApplySyncResponse_main m w) = n_server w"
  "n_client (ApplySyncResponse_main m w) = n_client w"
  by (simp_all add: ApplySyncResponse_main_def ApplyFullSyncDocument_main_def store_chunk_main_def set_status_def Let_def
      split: option.splits prod.splits)

lemma HandleSyncEvent_main_queues [simp]:
  "n_server (HandleSyncEvent_main api e w) = n_server w"
  "c_events (n_client (HandleSyncEvent_main api e w)) = c_events (n_client w)"
  by (simp_all add: HandleSyncEvent_main_def StartReconnectLoop_def set_status_def split: sync_event_type.splits)

function drain_server_events_main :: "text_api \<Rightarrow> window \<Rightarrow> window" where
  "drain_server_events_main api w =
     (case TryPopEvent (n_server w) of
        (None, s) \<Rightarrow> w\<lparr>n_server := s\<rparr>
      | (Some event, s) \<Rightarrow> drain_server_events_main api (HandleSyncEvent_main api event (w\<lparr>n_server := s\<rparr>)))"
  by pat_completeness auto
termination
  by (relation "measure (\<lambda>(_, w). length (event_queue (n_server w)))")
    (auto dest: TryPopEvent_shorter [OF sym])

function drain_client_events_main :: "text_api \<Rightarrow> window \<Rightarrow> window" where
  "drain_client_events_main api w =
     (case TryPopClientEvent (n_client w) of
        (None, c) \<Rightarrow> w\<lparr>n_client := c\<rparr>
      | (Some event, c) \<Rightarrow> drain_client_events_main api (HandleSyncEvent_main api event (w\<lparr>n_client := c\<rparr>)))"
  by pat_completeness auto
termination
  by (relation "measure (\<lambda>(_, w). length (c_events (n_client w)))")
    (auto dest: TryPopClientEvent_shorter [OF sym])

declare drain_server_events_main.simps [simp del] drain_client_events_main.simps [simp del]

definition DrainSyncEvents_main :: "text_api \<Rightarrow> window \<Rightarrow> window" where
  "DrainSyncEvents_main api w = drain_client_events_main api (drain_server_events_main api w)"

section \<open>Messages\<close>

datatype hint = HintList | HintBold | HintItalic | HintStrike | HintLink | HintTable

fun hint_text :: "hint \<Rightarrow> wstr" where
  "hint_text HintList = nt_hint_list"
| "hint_text HintBold = nt_hint_bold"
| "hint_text HintItalic = nt_hint_italic"
| "hint_text HintStrike = nt_hint_strike"
| "hint_text HintLink = nt_hint_link"
| "hint_text HintTable = nt_hint_table"

text \<open>The identifiers of WM_COMMAND; buttons and menu entries with the same effect share one.\<close>

datatype command =
    CmdHost | CmdJoin | CmdConnect | CmdBack | CmdAdvanced | CmdHint hint | CmdPreview
  | CmdTab nat | CmdNewTab | CmdSave | CmdExit | CmdSelectAll | CmdCopyCode | CmdLeave | CmdNoEffect

text \<open>
  \<open>WmKeyDown\<close> has the state of the control key and the key; \<open>WmEdited\<close> is the notification
  EN_CHANGE, with what the control now holds; the flag of \<open>WmCreate\<close> says whether menu and controls
  could be created.
\<close>

datatype window_message =
    WmCreate bool | WmAutosaveTimer | WmKeyDown bool nat | WmSyncEvent | WmReconnectStatus nat nat
  | WmEdited wstr editor_selection | WmCommand command | WmImeStart | WmImeEnd | WmClose | WmOther

record ui_env =
  ue_web :: web_env
  ue_code :: wstr
  ue_host :: wstr
  ue_port :: wstr
  ue_editor_focused :: bool
  ue_clipboard :: clipboard_outcome

definition select_all :: "ui_env \<Rightarrow> window \<Rightarrow> window" where
  "select_all ue w =
     (if ue_editor_focused ue
      then w\<lparr>n_selection := \<lparr>sel_start = 0, sel_end = ClampToDword (length (n_editor w))\<rparr>\<rparr> else w)"

definition join_room :: "text_api \<Rightarrow> ui_env \<Rightarrow> window \<Rightarrow> window option" where
  "join_room api ue w = HandleJoinRoom_main api (ue_web ue) (ue_code ue) (ue_host ue) (ue_port ue) w"

definition close_window :: "text_api \<Rightarrow> window \<Rightarrow> window" where
  "close_window api w =
     (let w1 = StopReconnectLoop (SaveEditorContent api w)
      in w1\<lparr>n_announced := None, n_client := Disconnect (n_client w1), n_server := Stop api (n_server w1)\<rparr>)"

fun HandleCommand :: "text_api \<Rightarrow> ui_env \<Rightarrow> command \<Rightarrow> window \<Rightarrow> window option" where
  "HandleCommand api ue CmdHost w = Some (HandleCreateRoom_main api (ue_web ue) w)"
| "HandleCommand api ue CmdJoin w = Some (ShowJoinScreen w)"
| "HandleCommand api ue CmdConnect w = join_room api ue w"
| "HandleCommand api ue CmdBack w = Some (ShowEditorScreen (CurrentEditorStatusText w) w)"
| "HandleCommand api ue CmdAdvanced w = Some (ToggleAdvancedJoin w)"
| "HandleCommand api ue (CmdHint h) w = Some (set_status (hint_text h) w)"
| "HandleCommand api ue CmdPreview w = Some (ToggleMarkdownPreview w)"
| "HandleCommand api ue (CmdTab i) w = Some (if i < 3 then SwitchToTab i w else w)"
| "HandleCommand api ue CmdNewTab w = Some (HandleNewTab w)"
| "HandleCommand api ue CmdSave w = Some (SaveEditorContent api (w\<lparr>n_dirty := True\<rparr>))"
| "HandleCommand api ue CmdExit w = Some (close_window api w)"
| "HandleCommand api ue CmdSelectAll w = Some (select_all ue w)"
| "HandleCommand api ue CmdCopyCode w = Some (snd (CopyInviteCode (ue_clipboard ue) w))"
| "HandleCommand api ue CmdLeave w = Some (HandleLeaveRoom api w)"
| "HandleCommand api ue CmdNoEffect w = Some w"

text \<open>Control with A, S or T, in either case; return and escape on the join screen.\<close>

definition HandleKey :: "text_api \<Rightarrow> ui_env \<Rightarrow> bool \<Rightarrow> nat \<Rightarrow> window \<Rightarrow> window option" where
  "HandleKey api ue control key w =
     (if control \<and> (key = 65 \<or> key = 97) then Some (select_all ue w)
      else if control \<and> (key = 83 \<or> key = 115) then Some (SaveEditorContent api (w\<lparr>n_dirty := True\<rparr>))
      else if control \<and> (key = 84 \<or> key = 116) then Some (HandleNewTab w)
      else if n_screen w = JoinScreen \<and> key = 13 then join_room api ue w
      else if n_screen w = JoinScreen \<and> key = 27 then Some (ShowEditorScreen (CurrentEditorStatusText w) w)
      else Some w)"

fun HandleMessage :: "text_api \<Rightarrow> ui_env \<Rightarrow> window_message \<Rightarrow> window \<Rightarrow> window option" where
  "HandleMessage api ue (WmCreate ok) w =
     Some (if \<not> ok then w
           else ShowEditorScreen nt_idle_local
                  (InitializeTabs (LoadInitialDocument api ((ResetRichEditInsertionFormat w)\<lparr>n_server := SetEventCallback True (n_server w),
                      n_client := SetClientEventCallback True (n_client w)\<rparr>))))"
| "HandleMessage api ue WmAutosaveTimer w = Some (SaveEditorContent api (w\<lparr>n_timer := False\<rparr>))"
| "HandleMessage api ue (WmKeyDown control key) w = HandleKey api ue control key w"
| "HandleMessage api ue WmSyncEvent w = Some (DrainSyncEvents_main api w)"
| "HandleMessage api ue (WmReconnectStatus wparam lparam) w = Some (HandleReconnectStatus wparam lparam w)"
| "HandleMessage api ue (WmEdited t selection) w =
     Some (OnEditorChanged api (w\<lparr>n_editor := t, n_selection := selection\<rparr>))"
| "HandleMessage api ue (WmCommand c) w = HandleCommand api ue c w"
| "HandleMessage api ue WmImeStart w = Some (w\<lparr>n_ime := True\<rparr>)"
| "HandleMessage api ue WmImeEnd w = Some (ProcessEditorChange api (w\<lparr>n_ime := False\<rparr>))"
| "HandleMessage api ue WmClose w = Some (close_window api w)"
| "HandleMessage api ue WmOther w = Some w"

end
