(* ===== verification/NativeLemmas.thy ===== *)
theory NativeLemmas
  imports NativeMessages Assembly
begin

text \<open>
  What the messages do to the tabs and the editor of the classic window, and the interface
  \<open>edit_follower\<close> for it.
\<close>

section \<open>Following the host\<close>

lemma remote_edit_main_announced:
  assumes "announced_edit m = Some (p, d, x)" and "edit_allowed (p, d, x) doc"
    and "GetNumber m (wide ''pos'') = Some pos" and "GetString m (wide ''op'') = Some operation"
  shows "remote_edit_main m operation (unat pos) doc sel =
    (Applied, splice p d x doc,
     if d = 0 then AdjustSelectionForInsert sel p (length x) else AdjustSelectionForDelete sel p d)"
  using assms
  by (auto simp: announced_edit_def remote_edit_main_def edit_allowed_def insert_applied delete_applied
      split: if_splits option.splits)

lemma ApplySyncApply_main_edit:
  assumes "announced_edit m = Some (p, d, x)" and "edit_allowed (p, d, x) (n_editor w)"
    and "GetNumber m (wide ''rev'') = Some (n_revision w + 1)"
    and "unat (n_revision w) + 1 < 2 ^ 64" and "msg_client m \<noteq> n_local w"
  shows "ApplySyncApply_main api m w =
    take_text (splice p d x (n_editor w))
      (if d = 0 then AdjustSelectionForInsert (n_selection w) p (length x) else AdjustSelectionForDelete (n_selection w) p d)
      (n_revision w + 1) nt_synced w"
proof -
  obtain pos operation where f: "GetNumber m (wide ''pos'') = Some pos" "GetString m (wide ''op'') = Some operation"
    using announced_edit_fields [OF assms(1)] by blast
  have "\<not> n_revision w + 1 \<le> n_revision w"
    using next_revision [OF assms(4)] by (simp add: word_le_nat_alt)
  with assms(3,5) f remote_edit_main_announced [OF assms(1,2) f] show ?thesis
    by (simp add: ApplySyncApply_main_def)
qed

lemma ApplySyncApply_main_follows:
  assumes "announced_edit m = Some e" and "edit_allowed e (n_editor w)"
    and "GetNumber m (wide ''rev'') = Some (n_revision w + 1)"
    and "unat (n_revision w) + 1 < 2 ^ 64" and "msg_client m \<noteq> n_local w"
  shows "n_editor (ApplySyncApply_main api m w) = do_edit e (n_editor w) \<and>
         n_revision (ApplySyncApply_main api m w) = n_revision w + 1 \<and>
         n_local (ApplySyncApply_main api m w) = n_local w"
  using assms by (cases e) (simp add: ApplySyncApply_main_edit do_edit_def)

interpretation native_follower: edit_follower "ApplySyncApply_main api" n_editor n_revision n_local "\<lambda>_ :: window. True" for api
proof
  fix m e and w :: window
  assume "announced_edit m = Some e" "edit_allowed e (n_editor w)"
    "GetNumber m (wide ''rev'') = Some (n_revision w + 1)" "unat (n_revision w) + 1 < 2 ^ 64" "msg_client m \<noteq> n_local w"
  then show "n_editor (ApplySyncApply_main api m w) = do_edit e (n_editor w) \<and>
      n_revision (ApplySyncApply_main api m w) = n_revision w + 1 \<and>
      n_local (ApplySyncApply_main api m w) = n_local w \<and> True"
    using ApplySyncApply_main_follows by blast
qed

section \<open>Taking over the whole document\<close>

definition native_buffers :: "window \<Rightarrow> chunk_buffers" where
  "native_buffers w = (n_sync_revision w, n_chunks w, n_received w)"

interpretation native_collector: chunk_collector "ApplySyncResponse_main" n_editor n_revision native_buffers
proof
  fix m t r and w :: window
  assume "GetString m (wide ''text'') = Some t" "GetNumber m (wide ''rev'') = Some r"
    "GetNumber m (wide ''chunk_index'') = Some 0" "GetNumber m (wide ''chunk_count'') = Some 1"
  then show "n_editor (ApplySyncResponse_main m w) = t \<and> n_revision (ApplySyncResponse_main m w) = r"
    by (simp add: ApplySyncResponse_main_def ApplyFullSyncDocument_main_def optional_number_def Let_def)
next
  fix m t r i n sr cs fs and w :: window
  assume m: "GetString m (wide ''text'') = Some t" "GetNumber m (wide ''rev'') = Some r"
    "GetNumber m (wide ''chunk_index'') = Some i" "GetNumber m (wide ''chunk_count'') = Some n" "1 < n" "i < n"
    and st: "store_in_buffers r (unat n) (unat i) t (native_buffers w) = (sr, cs, fs)"
  define w2 where "w2 = store_chunk_main r (unat n) (unat i) t w"
  have b: "n_sync_revision w2 = sr" "n_chunks w2 = cs" "n_received w2 = fs"
    using st by (auto simp: native_buffers_def w2_def store_chunk_main_def split: if_splits)
  have "n \<noteq> 0" "\<not> n \<le> i" using m(5,6) by auto
  then have "ApplySyncResponse_main m w =
      (if \<not> list_all id (n_received w2) then set_status nt_syncing w2
       else ApplyFullSyncDocument_main (concat (n_chunks w2)) r (w2\<lparr>n_chunks := [], n_received := []\<rparr>))"
    using m by (simp add: ApplySyncResponse_main_def optional_number_def Let_def w2_def [symmetric])
  then show "if list_all id fs then n_editor (ApplySyncResponse_main m w) = concat cs \<and> n_revision (ApplySyncResponse_main m w) = r
      else native_buffers (ApplySyncResponse_main m w) = (sr, cs, fs)"
    using b by (simp add: native_buffers_def ApplyFullSyncDocument_main_def set_status_def)
qed

text \<open>Draining does nothing to empty queues.\<close>

lemma drain_client_main_Nil: "c_events (n_client w) = [] \<Longrightarrow> drain_client_events_main api w = w"
proof -
  assume "c_events (n_client w) = []"
  then have "TryPopClientEvent (n_client w) = (None, n_client w)" by (simp add: TryPopClientEvent_def)
  then show ?thesis by (cases w) (simp add: drain_client_events_main.simps)
qed

lemma drain_server_main_Nil: "event_queue (n_server w) = [] \<Longrightarrow> drain_server_events_main api w = w"
proof -
  assume "event_queue (n_server w) = []"
  then have "TryPopEvent (n_server w) = (None, n_server w)" by (simp add: TryPopEvent_def)
  then show ?thesis by (cases w) (simp add: drain_server_events_main.simps)
qed

text \<open>The editor and the revision after draining responses do not depend on the rest of the queue.\<close>

lemma ApplySyncResponse_main_client:
  "ApplySyncResponse_main m (w\<lparr>n_client := c\<rparr>) = (ApplySyncResponse_main m w)\<lparr>n_client := c\<rparr>"
proof -
  have take: "take_text t sel r st (v\<lparr>n_client := c\<rparr>) = (take_text t sel r st v)\<lparr>n_client := c\<rparr>" for t sel r st v
    by (simp add: take_text_def Let_def set_status_def set_editor_def note_active_def UpdateMarkdownPreview_def)
  have store: "store_chunk_main r n i t (w\<lparr>n_client := c\<rparr>) = (store_chunk_main r n i t w)\<lparr>n_client := c\<rparr>" for r n i t
    by (simp add: store_chunk_main_def Let_def)
  have clear: "v\<lparr>n_client := c, n_chunks := a, n_received := b\<rparr> = v\<lparr>n_chunks := a, n_received := b, n_client := c\<rparr>"
    for v :: window and a b by simp
  show ?thesis
    by (simp add: ApplySyncResponse_main_def ApplyFullSyncDocument_main_def Let_def store set_status_def clear take
        split: option.split)
qed

lemma drain_sync_responses_main:
  assumes "c_events (n_client w) = map message_event ms" and "\<forall>m \<in> set ms. msg_type m = MsgSyncResponse"
  shows "drain_client_events_main api w = (fold ApplySyncResponse_main ms w)\<lparr>n_client := (n_client w)\<lparr>c_events := []\<rparr>\<rparr>"
  using assms
proof (induction ms arbitrary: w)
  case Nil
  then have "w\<lparr>n_client := (n_client w)\<lparr>c_events := []\<rparr>\<rparr> = w" by (cases w; cases "n_client w") simp
  with Nil show ?case by (simp add: drain_client_main_Nil)
next
  case (Cons m ms)
  define w1 where "w1 = w\<lparr>n_client := (n_client w)\<lparr>c_events := map message_event ms\<rparr>\<rparr>"
  have "HandleSyncEvent_main api (message_event m) w1 = ApplySyncResponse_main m w1"
    using Cons.prems by (simp add: HandleSyncEvent_main_def message_event_def)
  then have d: "drain_client_events_main api w = drain_client_events_main api (ApplySyncResponse_main m w1)"
    using Cons.prems(1) by (subst drain_client_events_main.simps) (simp add: TryPopClientEvent_def w1_def)
  have fold_client: "fold ApplySyncResponse_main xs (v\<lparr>n_client := c\<rparr>) = (fold ApplySyncResponse_main xs v)\<lparr>n_client := c\<rparr>" for xs v c
    by (induction xs arbitrary: v) (simp_all add: ApplySyncResponse_main_client)
  have "drain_client_events_main api (ApplySyncResponse_main m w1) =
      (fold ApplySyncResponse_main ms (ApplySyncResponse_main m w1))\<lparr>n_client := (n_client w)\<lparr>c_events := []\<rparr>\<rparr>"
    using Cons.IH [of "ApplySyncResponse_main m w1"] Cons.prems(2) by (simp add: w1_def)
  then show ?case
    by (simp add: d w1_def ApplySyncResponse_main_client fold_client)
qed

lemma native_drain_response:
  assumes "length doc \<le> kMaxDocumentChars" and "n_chunks w = []" and "event_queue (n_server w) = []"
    and "c_events (n_client w) =
           map message_event (map (\<lambda>i. received (sync_chunk doc r s i)) [0..<chunk_count doc])"
  shows "n_editor (DrainSyncEvents_main api w) = doc \<and> n_revision (DrainSyncEvents_main api w) = r"
proof -
  define ms where "ms = map (\<lambda>i. received (sync_chunk doc r s i)) [0..<chunk_count doc]"
  obtain c where c: "drain_client_events_main api w = (fold ApplySyncResponse_main ms w)\<lparr>n_client := c\<rparr>"
    using drain_sync_responses_main [of w ms api] assms(4) by (auto simp: ms_def sync_chunk_get)
  show ?thesis
    using native_collector.assemble_response [OF chunk_count_bound [OF assms(1)], of w "n_received w" r s] assms(2)
    by (simp add: DrainSyncEvents_main_def drain_server_main_Nil [OF assms(3)] c ms_def native_buffers_def)
qed

section \<open>Tabs and editor\<close>

text \<open>There are one to three tabs, and one of them is active.\<close>

definition tabs_ok :: "window \<Rightarrow> bool" where
  "tabs_ok w \<longleftrightarrow> length (n_tabs w) \<le> kMaxTabs \<and> n_active w < length (n_tabs w)"

text \<open>Outside a composition the editor shows the text that changes are compared with.\<close>

definition editor_ok :: "window \<Rightarrow> bool" where
  "editor_ok w \<longleftrightarrow> \<not> n_suppress w \<and> \<not> n_remote w \<and> \<not> n_shortcut w \<and> (\<not> n_ime w \<longrightarrow> n_editor w = n_last w)"

text \<open>The other tabs keep their content, title and flag.\<close>

definition others_kept :: "window \<Rightarrow> window \<Rightarrow> bool" where
  "others_kept w w' \<longleftrightarrow> length (n_tabs w) \<le> length (n_tabs w') \<and>
     (\<forall>i < length (n_tabs w). i \<noteq> n_active w \<longrightarrow> n_tabs w' ! i = n_tabs w ! i)"

text \<open>What most operations do: the same active tab, the others kept, the editor in order.\<close>

definition mild :: "window \<Rightarrow> window \<Rightarrow> bool" where
  "mild w w' \<longleftrightarrow> n_active w' = n_active w \<and> length (n_tabs w') = length (n_tabs w) \<and>
     (\<forall>i < length (n_tabs w). i \<noteq> n_active w \<longrightarrow> n_tabs w' ! i = n_tabs w ! i) \<and>
     (editor_ok w \<longrightarrow> editor_ok w')"

lemma mild_refl [simp]: "mild w w"
  by (simp add: mild_def)

lemma mild_trans: "mild u v \<Longrightarrow> mild v w \<Longrightarrow> mild u w"
  by (auto simp: mild_def)

text \<open>Operations that leave the fields in question alone.\<close>

lemma mild_same:
  "n_tabs w' = n_tabs w \<Longrightarrow> n_active w' = n_active w \<Longrightarrow> n_editor w' = n_editor w \<Longrightarrow> n_last w' = n_last w \<Longrightarrow>
   n_suppress w' = n_suppress w \<Longrightarrow> n_remote w' = n_remote w \<Longrightarrow> n_shortcut w' = n_shortcut w \<Longrightarrow>
   n_ime w' = n_ime w \<Longrightarrow> mild w w'"
  by (simp add: mild_def editor_ok_def)

lemma mild_note_active: "mild w (note_active t d w)"
  by (simp add: mild_def editor_ok_def) (simp add: note_active_def)

lemma mild_take_text: "mild w (take_text t sel r st w)"
  by (simp add: mild_def editor_ok_def) (simp add: take_text_def Let_def set_status_def set_editor_def note_active_def)

lemma mild_set_status [simp]: "mild w (set_status t w)"
  by (rule mild_same) (simp_all add: set_status_def)

lemma mild_ShowEditorScreen: "mild w (ShowEditorScreen t w)"
  by (rule mild_same) (simp_all add: ShowEditorScreen_def set_status_def)

lemma mild_RequestFullSync: "mild w (RequestFullSync_main api w)"
  by (cases "n_role w") (simp_all add: RequestFullSync_main_def mild_take_text set_status_def mild_same)

lemma mild_ApplySyncApply: "mild w (ApplySyncApply_main api m w)"
  by (simp add: ApplySyncApply_main_def mild_RequestFullSync mild_take_text mild_same
      split: option.splits prod.splits document_apply_status.splits)

lemma mild_ApplySyncResponse: "mild w (ApplySyncResponse_main m w)"
proof -
  have store: "mild w (store_chunk_main r n i t w)" for r n i t
    by (rule mild_same) (simp_all add: store_chunk_main_def Let_def)
  have clear: "mild v (v\<lparr>n_chunks := [], n_received := []\<rparr>)" for v
    by (rule mild_same) simp_all
  have full: "mild w (take_text t sel r st (v\<lparr>n_chunks := [], n_received := []\<rparr>))" if "mild w v" for t sel r st v
    using mild_trans [OF mild_trans [OF that clear] mild_take_text] .
  show ?thesis
    by (simp add: ApplySyncResponse_main_def ApplyFullSyncDocument_main_def Let_def store full
        mild_trans [OF store mild_set_status] split: option.split)
qed

lemma mild_HandleSyncEvent: "mild w (HandleSyncEvent_main api e w)"
  by (cases "ev_type e") (simp_all add: HandleSyncEvent_main_def mild_ApplySyncApply mild_ApplySyncResponse
      StartReconnectLoop_def mild_same set_status_def)

lemma mild_drain_server: "mild w (drain_server_events_main api w)"
proof (induction api w rule: drain_server_events_main.induct)
  case (1 api w)
  obtain r s where p: "TryPopEvent (n_server w) = (r, s)" by force
  have s: "mild w (w\<lparr>n_server := s\<rparr>)" by (rule mild_same) simp_all
  show ?case
  proof (cases r)
    case None
    with p s show ?thesis by (subst drain_server_events_main.simps) simp
  next
    case (Some e)
    with "1.IH" [OF p [symmetric] Some] show ?thesis
      using p mild_trans [OF mild_trans [OF s mild_HandleSyncEvent], of api e]
      by (subst drain_server_events_main.simps) simp
  qed
qed

lemma mild_drain_client: "mild w (drain_client_events_main api w)"
proof (induction api w rule: drain_client_events_main.induct)
  case (1 api w)
  obtain r c where p: "TryPopClientEvent (n_client w) = (r, c)" by force
  have c: "mild w (w\<lparr>n_client := c\<rparr>)" by (rule mild_same) simp_all
  show ?case
  proof (cases r)
    case None
    with p c show ?thesis by (subst drain_client_events_main.simps) simp
  next
    case (Some e)
    with "1.IH" [OF p [symmetric] Some] show ?thesis
      using p mild_trans [OF mild_trans [OF c mild_HandleSyncEvent], of api e]
      by (subst drain_client_events_main.simps) simp
  qed
qed

lemma mild_SaveEditorContent: "mild w (SaveEditorContent api w)"
proof -
  have "mild w (SyncActiveTabFromEditor w)" by (simp add: SyncActiveTabFromEditor_def mild_note_active)
  then show ?thesis
    by (auto simp: SaveEditorContent_def Let_def set_status_def mild_def editor_ok_def nth_Cons'
        split: prod.splits list.splits)
qed


section \<open>What the user does\<close>

text \<open>The tab half of \<open>mild\<close> alone, with the flags.\<close>

definition tabs_mild :: "window \<Rightarrow> window \<Rightarrow> bool" where
  "tabs_mild w w' \<longleftrightarrow> n_active w' = n_active w \<and> length (n_tabs w') = length (n_tabs w) \<and>
     (\<forall>i < length (n_tabs w). i \<noteq> n_active w \<longrightarrow> n_tabs w' ! i = n_tabs w ! i) \<and>
     n_suppress w' = n_suppress w \<and> n_remote w' = n_remote w \<and> n_shortcut w' = n_shortcut w \<and> n_ime w' = n_ime w"

lemma tabs_mild_refl [simp]: "tabs_mild w w"
  by (simp add: tabs_mild_def)

lemma tabs_mild_trans: "tabs_mild u v \<Longrightarrow> tabs_mild v w \<Longrightarrow> tabs_mild u w"
  by (auto simp: tabs_mild_def)

lemma tabs_mild_same:
  "n_tabs w' = n_tabs w \<Longrightarrow> n_active w' = n_active w \<Longrightarrow>
   n_suppress w' = n_suppress w \<Longrightarrow> n_remote w' = n_remote w \<Longrightarrow> n_shortcut w' = n_shortcut w \<Longrightarrow>
   n_ime w' = n_ime w \<Longrightarrow> tabs_mild w w'"
  by (simp add: tabs_mild_def)

lemma tabs_mild_note_active: "tabs_mild w (note_active t d w)"
  by (simp add: tabs_mild_def) (simp add: note_active_def)

lemma tabs_mild_take_text: "tabs_mild w (take_text t sel r st w)"
  by (simp add: tabs_mild_def) (simp add: take_text_def Let_def set_status_def set_editor_def note_active_def)

lemma tabs_mild_send: "tabs_mild w (send_local_operation_main api op w)"
proof (cases "n_role w")
  case Host
  obtain r s where r: "ApplyLocalOperation api op (n_local w) (n_server w) = (r, s)" by force
  have "tabs_mild w (w\<lparr>n_server := s\<rparr>)" "tabs_mild w (w\<lparr>n_server := s, n_revision := v\<rparr>)" for v
    by (rule tabs_mild_same; simp)+
  moreover have "tabs_mild (w\<lparr>n_server := s\<rparr>) (RequestFullSync_main api (w\<lparr>n_server := s\<rparr>))"
    using Host by (simp add: RequestFullSync_main_def tabs_mild_take_text)
  ultimately show ?thesis
    using Host r tabs_mild_trans by (cases r) (auto simp: send_local_operation_main_def)
qed (simp_all add: send_local_operation_main_def tabs_mild_same Let_def)

lemma tabs_mild_fold_send: "tabs_mild w (fold (send_local_operation_main api) ops w)"
proof (induction ops arbitrary: w)
  case (Cons op ops)
  then show ?case using tabs_mild_send tabs_mild_trans by fastforce
qed simp

lemma fold_send_not_host:
  assumes "n_role w \<noteq> Host"
  shows "n_editor (fold (send_local_operation_main api) ops w) = n_editor w \<and>
    n_role (fold (send_local_operation_main api) ops w) = n_role w"
  using assms
proof (induction ops arbitrary: w)
  case (Cons op ops)
  have "n_editor (send_local_operation_main api op w) = n_editor w"
    "n_role (send_local_operation_main api op w) = n_role w"
    using Cons.prems by (cases "n_role w"; simp add: send_local_operation_main_def Let_def)+
  with Cons show ?case by simp
qed simp

lemma tabs_mild_SendLocal: "tabs_mild w (SendLocalOperations_main api diff w)"
  by (simp add: SendLocalOperations_main_def tabs_mild_fold_send)

lemma ProcessEditorChange_tabs: "tabs_mild w (ProcessEditorChange api w)"
proof -
  let ?d = "ComputeEditorDiff (n_last w) (n_editor w)"
  have a: "tabs_mild w ((SendLocalOperations_main api ?d w)\<lparr>n_last := t, n_dirty := True\<rparr>)" for t
    by (rule tabs_mild_trans [OF tabs_mild_SendLocal [of w api ?d]], rule tabs_mild_same) simp_all
  have b: "tabs_mild w (UpdateMarkdownPreview (note_active t d v))" if "tabs_mild w v" for t d v
    using that tabs_mild_note_active [of v t d] by (auto simp: tabs_mild_def)
  have c: "tabs_mild w ((if n_screen v = EditorScreen then set_status st v else v)\<lparr>n_timer := True\<rparr>)"
    if "tabs_mild w v" for v st
    using that by (auto simp: tabs_mild_def set_status_def)
  show ?thesis
  proof (cases "valid ?d \<and> changed ?d")
    case True
    then show ?thesis
      using c [OF b [OF a [of "n_editor w"], of "n_editor w" True], of nt_editing]
      by (simp only: ProcessEditorChange_def Let_def) simp
  next
    case False
    then show ?thesis
      by (auto simp: ProcessEditorChange_def Let_def set_editor_def set_status_def intro!: tabs_mild_same)
  qed
qed

lemma ProcessEditorChange_editor:
  assumes "n_role w \<noteq> Host"
  shows "n_editor (ProcessEditorChange api w) = n_last (ProcessEditorChange api w)"
proof -
  let ?d = "ComputeEditorDiff (n_last w) (n_editor w)"
  have keep: "n_editor (SendLocalOperations_main api ?d w) = n_editor w"
    using fold_send_not_host [OF assms] by (simp add: SendLocalOperations_main_def)
  have same: "valid ?d \<Longrightarrow> \<not> changed ?d \<Longrightarrow> n_editor w = n_last w"
    "\<not> valid ?d \<Longrightarrow> document_too_large ?d"
    by (auto simp: ComputeEditorDiff_def Let_def split: if_splits prod.splits)
  then show ?thesis
    by (auto simp: ProcessEditorChange_def Let_def set_editor_def set_status_def keep)
qed

lemma ApplyMarkdownShortcut_frame:
  "tabs_mild w (ApplyMarkdownShortcutIfNeeded w)" "n_role (ApplyMarkdownShortcutIfNeeded w) = n_role w"
  by (simp_all add: ApplyMarkdownShortcutIfNeeded_def shortcut_defs Let_def tabs_mild_same
      split: option.splits shortcut.splits)

lemma ResetMarkdownStyle_frame:
  "tabs_mild w (ResetMarkdownStyleAtLineBreakIfNeeded w)" "n_role (ResetMarkdownStyleAtLineBreakIfNeeded w) = n_role w"
  by (simp_all add: ResetMarkdownStyleAtLineBreakIfNeeded_def Let_def tabs_mild_same)

lemma OnEditorChanged_tabs: "tabs_mild w (OnEditorChanged api w)"
  using tabs_mild_trans [OF ResetMarkdownStyle_frame(1) tabs_mild_trans [OF ApplyMarkdownShortcut_frame(1) ProcessEditorChange_tabs]]
  by (simp add: OnEditorChanged_def)

lemma OnEditorChanged_editor:
  assumes "n_role w \<noteq> Host" and "\<not> n_suppress w" and "\<not> n_remote w" and "\<not> n_shortcut w"
  shows "editor_ok (OnEditorChanged api w)"
proof (cases "n_ime w")
  case True
  with assms show ?thesis by (simp add: OnEditorChanged_def editor_ok_def)
next
  case False
  have "n_editor (OnEditorChanged api w) = n_last (OnEditorChanged api w)"
    using ProcessEditorChange_editor [of "ApplyMarkdownShortcutIfNeeded (ResetMarkdownStyleAtLineBreakIfNeeded w)"]
      assms False ApplyMarkdownShortcut_frame(2) ResetMarkdownStyle_frame(2)
    by (simp add: OnEditorChanged_def)
  then show ?thesis
    using OnEditorChanged_tabs [of w api] assms by (auto simp: editor_ok_def tabs_mild_def)
qed

section \<open>Tabs\<close>

text \<open>What a switch of tabs does to the tabs: only the one that was active may change.\<close>

lemma SwitchToTab_effect:
  assumes "n_active w < length (n_tabs w)"
  shows "length (n_tabs (SwitchToTab i w)) = length (n_tabs w)"
    and "n_active (SwitchToTab i w) < length (n_tabs w)"
    and "\<forall>j < length (n_tabs w). j \<noteq> n_active w \<longrightarrow> n_tabs (SwitchToTab i w) ! j = n_tabs w ! j"
    and "editor_ok w \<Longrightarrow> editor_ok (SwitchToTab i w)"
  using assms
  by (auto simp: SwitchToTab_def SyncActiveTabFromEditor_def set_status_def set_editor_def Let_def editor_ok_def)
    (simp add: note_active_def)

lemma HandleNewTab_effect:
  assumes "tabs_ok w"
  shows "tabs_ok (HandleNewTab w)" and "others_kept w (HandleNewTab w)" and "editor_ok w \<Longrightarrow> editor_ok (HandleNewTab w)"
proof -
  define w1 where "w1 = SyncActiveTabFromEditor w"
  define tab where "tab = \<lparr>tab_title = nt_new_tab @ dec_digits (length (n_tabs w1)), tab_content = [], tab_dirty = False\<rparr>"
  define w2 where "w2 = w1\<lparr>n_tabs := n_tabs w1 @ [tab]\<rparr>"
  have w1: "length (n_tabs w1) = length (n_tabs w)" "n_active w1 = n_active w" "editor_ok w \<Longrightarrow> editor_ok w1"
    "\<forall>j < length (n_tabs w). j \<noteq> n_active w \<longrightarrow> n_tabs w1 ! j = n_tabs w ! j"
    using mild_note_active [of w] by (auto simp: w1_def SyncActiveTabFromEditor_def mild_def)
  have w2: "length (n_tabs w2) = Suc (length (n_tabs w))" "n_active w2 = n_active w" "editor_ok w \<Longrightarrow> editor_ok w2"
    "\<forall>j < length (n_tabs w). j \<noteq> n_active w \<longrightarrow> n_tabs w2 ! j = n_tabs w ! j"
    using w1 by (auto simp: w2_def editor_ok_def nth_append)
  have act: "n_active w2 < length (n_tabs w2)" using assms w2 by (simp add: tabs_ok_def)
  note sw = SwitchToTab_effect [OF act, of "length (n_tabs w1)"]
  have new: "HandleNewTab w = (if n_role w \<noteq> Offline then set_status nt_newtab_busy w
      else if length (n_tabs w) \<ge> kMaxTabs then set_status nt_tab_limit w else SwitchToTab (length (n_tabs w1)) w2)"
    by (simp add: HandleNewTab_def Let_def w1_def w2_def tab_def)
  show "tabs_ok (HandleNewTab w)" "others_kept w (HandleNewTab w)"
    using assms sw(1-3) w2 by (auto simp: new tabs_ok_def others_kept_def set_status_def)
  show "editor_ok w \<Longrightarrow> editor_ok (HandleNewTab w)"
    using sw(4) w2(3) by (auto simp: new editor_ok_def set_status_def)
qed

section \<open>Messages\<close>

text \<open>What every message after the first keeps.\<close>

definition in_order :: "window \<Rightarrow> window \<Rightarrow> bool" where
  "in_order w w' \<longleftrightarrow> (tabs_ok w \<longrightarrow> tabs_ok w' \<and> others_kept w w') \<and>
     (n_role w \<noteq> Host \<longrightarrow> editor_ok w \<longrightarrow> editor_ok w')"

lemma mild_in_order: "mild w w' \<Longrightarrow> in_order w w'"
  by (auto simp: mild_def in_order_def tabs_ok_def others_kept_def)

lemma tabs_mild_in_order:
  "tabs_mild w w' \<Longrightarrow> (n_role w \<noteq> Host \<Longrightarrow> editor_ok w \<Longrightarrow> editor_ok w') \<Longrightarrow> in_order w w'"
  by (auto simp: tabs_mild_def in_order_def tabs_ok_def others_kept_def)

lemma SwitchToTab_in_order: "tabs_ok w \<Longrightarrow> in_order w (SwitchToTab i w)"
  using SwitchToTab_effect [of w i] by (simp add: in_order_def tabs_ok_def others_kept_def)

lemma mild_room:
  "mild w (StopReconnectLoop w)" "mild w (HandleLeaveRoom api w)" "mild w (HandleCreateRoom_main api env w)"
  "mild w (snd (CopyInviteCode outcome w))" "mild w (HandleReconnectStatus p l w)" "mild w (ShowJoinScreen w)"
  "mild w (ToggleAdvancedJoin w)" "mild w (ToggleMarkdownPreview w)" "mild w (select_all ue w)"
  by (auto simp: StopReconnectLoop_def HandleLeaveRoom_def HandleCreateRoom_main_def CopyInviteCode_def
      HandleReconnectStatus_def ShowJoinScreen_def ToggleAdvancedJoin_def ToggleMarkdownPreview_def select_all_def
      ShowEditorScreen_def set_status_def Let_def intro!: mild_same
      split: option.splits prod.splits clipboard_outcome.splits)

lemma mild_HandleJoinRoom: "HandleJoinRoom_main api env code h p w = Some w' \<Longrightarrow> mild w w'"
  by (auto simp: HandleJoinRoom_main_def StopReconnectLoop_def ShowEditorScreen_def set_status_def Let_def
      intro!: mild_same split: option.splits prod.splits sum.splits if_splits)

lemma mild_close_window: "mild w (close_window api w)"
proof -
  have "mild v (v\<lparr>n_announced := None, n_client := Disconnect (n_client v), n_server := Stop api (n_server v)\<rparr>)" for v
    by (rule mild_same) simp_all
  then show ?thesis
    using mild_SaveEditorContent mild_room(1) mild_trans by (simp add: close_window_def Let_def) blast
qed

lemma mild_save_now: "mild w (SaveEditorContent api (w\<lparr>n_dirty := d\<rparr>))"
  by (rule mild_trans [OF _ mild_SaveEditorContent], rule mild_same) simp_all

lemma HandleNewTab_in_order: "tabs_ok w \<Longrightarrow> in_order w (HandleNewTab w)"
  using HandleNewTab_effect by (simp add: in_order_def)

lemmas kept_in_order = mild_room [THEN mild_in_order] mild_close_window [THEN mild_in_order]
  mild_save_now [THEN mild_in_order] mild_ShowEditorScreen [THEN mild_in_order]
  mild_set_status [THEN mild_in_order] mild_refl [THEN mild_in_order]
  SwitchToTab_in_order HandleNewTab_in_order

lemma HandleCommand_in_order:
  "HandleCommand api ue c w = Some w' \<Longrightarrow> tabs_ok w \<Longrightarrow> in_order w w'"
  by (cases c) (auto simp: join_room_def kept_in_order dest: mild_HandleJoinRoom intro: mild_in_order)

lemma HandleKey_in_order: "HandleKey api ue control key w = Some w' \<Longrightarrow> tabs_ok w \<Longrightarrow> in_order w w'"
  by (auto simp: HandleKey_def join_room_def kept_in_order dest: mild_HandleJoinRoom intro: mild_in_order
      split: if_splits)

lemma edited_in_order: "in_order w (OnEditorChanged api (w\<lparr>n_editor := t, n_selection := s\<rparr>))"
proof (rule tabs_mild_in_order)
  have "tabs_mild w (w\<lparr>n_editor := t, n_selection := s\<rparr>)" by (rule tabs_mild_same) simp_all
  then show "tabs_mild w (OnEditorChanged api (w\<lparr>n_editor := t, n_selection := s\<rparr>))"
    by (rule tabs_mild_trans [OF _ OnEditorChanged_tabs])
  show "n_role w \<noteq> Host \<Longrightarrow> editor_ok w \<Longrightarrow> editor_ok (OnEditorChanged api (w\<lparr>n_editor := t, n_selection := s\<rparr>))"
    by (rule OnEditorChanged_editor) (simp_all add: editor_ok_def)
qed

lemma ime_end_in_order: "in_order w (ProcessEditorChange api (w\<lparr>n_ime := False\<rparr>))"
proof -
  let ?v = "w\<lparr>n_ime := False\<rparr>"
  have p: "tabs_mild ?v (ProcessEditorChange api ?v)" by (rule ProcessEditorChange_tabs)
  have "n_role w \<noteq> Host \<Longrightarrow> n_editor (ProcessEditorChange api ?v) = n_last (ProcessEditorChange api ?v)"
    by (rule ProcessEditorChange_editor) simp
  with p show ?thesis by (auto simp: tabs_mild_def in_order_def tabs_ok_def others_kept_def editor_ok_def)
qed

lemma HandleMessage_in_order:
  assumes "HandleMessage api ue msg w = Some w'" and "\<And>ok. msg \<noteq> WmCreate ok" and "tabs_ok w"
  shows "in_order w w'"
proof -
  have timer: "mild w (SaveEditorContent api (w\<lparr>n_timer := False\<rparr>))"
    by (rule mild_trans [OF _ mild_SaveEditorContent], rule mild_same) simp_all
  have ime: "mild w (w\<lparr>n_ime := True\<rparr>)" by (simp add: mild_def editor_ok_def)
  have sync: "mild w (DrainSyncEvents_main api w)"
    by (simp add: DrainSyncEvents_main_def mild_trans [OF mild_drain_server mild_drain_client])
  show ?thesis
    using assms HandleCommand_in_order HandleKey_in_order
    by (cases msg) (auto simp: mild_room mild_close_window timer ime sync mild_in_order edited_in_order ime_end_in_order)
qed

lemma WmCreate_establishes:
  assumes "HandleMessage api ue (WmCreate True) w = Some w'"
  shows "tabs_ok w'" and "n_tabs w' = [\<lparr>tab_title = wide ''current.txt'', tab_content = n_editor w', tab_dirty = False\<rparr>]"
    and "n_editor w' = n_last w'" and "\<not> n_dirty w'"
  using assms
  by (auto simp: LoadInitialDocument_def InitializeTabs_def ShowEditorScreen_def set_status_def set_editor_def
      tabs_ok_def kMaxTabs_def Let_def split: prod.splits option.splits)

text \<open>A sequence of messages, each with what the outside world answers to it.\<close>

fun run_messages :: "text_api \<Rightarrow> (ui_env \<times> window_message) list \<Rightarrow> window \<Rightarrow> window option" where
  "run_messages api [] w = Some w"
| "run_messages api ((ue, msg) # ms) w =
     (case HandleMessage api ue msg w of None \<Rightarrow> None | Some w' \<Rightarrow> run_messages api ms w')"

lemma run_messages_tabs:
  assumes "run_messages api ms w = Some w'" and "\<forall>(e, msg) \<in> set ms. \<forall>ok. msg \<noteq> WmCreate ok" and "tabs_ok w"
  shows "tabs_ok w'"
  using assms
proof (induction ms arbitrary: w)
  case (Cons m ms)
  obtain ue msg w1 where m: "m = (ue, msg)" "HandleMessage api ue msg w = Some w1" "run_messages api ms w1 = Some w'"
    using Cons.prems(1) by (cases m) (auto split: option.splits)
  then have "tabs_ok w1"
    using HandleMessage_in_order [OF m(2)] Cons.prems(2,3) by (auto simp: in_order_def)
  then show ?case using Cons.IH [OF m(3)] Cons.prems(2) by simp
qed simp

text \<open>A new tab: the old one keeps what the editor held, the new one is empty and clean.\<close>

lemma new_tab_state:
  assumes "n_role w = Offline" and "length (n_tabs w) < 3" and "n_active w = 0" and "n_tabs w \<noteq> []"
  shows "n_active (HandleNewTab w) = length (n_tabs w)" and "length (n_tabs (HandleNewTab w)) = Suc (length (n_tabs w))"
    and "\<not> n_dirty (HandleNewTab w)" and "n_storage (HandleNewTab w) = n_storage w"
    and "tab_content (n_tabs (HandleNewTab w) ! 0) = n_editor w" and "tab_dirty (n_tabs (HandleNewTab w) ! 0) = n_dirty w"
proof -
  obtain tab tabs where t: "n_tabs w = tab # tabs" using assms(4) by (cases "n_tabs w") auto
  define w1 where "w1 = SyncActiveTabFromEditor w"
  have w1: "n_tabs w1 = tab\<lparr>tab_content := n_editor w, tab_dirty := n_dirty w\<rparr> # tabs" "n_active w1 = 0"
    "n_role w1 = Offline" "n_storage w1 = n_storage w" "n_editor w1 = n_editor w" "n_dirty w1 = n_dirty w"
    using assms(1,3) t by (simp_all add: w1_def SyncActiveTabFromEditor_def note_active_def)
  define w2 where "w2 = w1\<lparr>n_tabs := n_tabs w1 @
    [\<lparr>tab_title = nt_new_tab @ dec_digits (length (n_tabs w1)), tab_content = [], tab_dirty = False\<rparr>]\<rparr>"
  have w2: "n_active w2 = 0" "n_role w2 = Offline" "n_storage w2 = n_storage w" "n_editor w2 = n_editor w"
    "n_dirty w2 = n_dirty w" "length (n_tabs w2) = Suc (length (n_tabs w))"
    "n_tabs w2 ! 0 = tab\<lparr>tab_content := n_editor w, tab_dirty := n_dirty w\<rparr>"
    "\<not> tab_dirty (n_tabs w2 ! length (n_tabs w))" "length (n_tabs w) \<noteq> 0"
    using w1 t by (simp_all add: w2_def nth_append)
  have new: "HandleNewTab w = SwitchToTab (length (n_tabs w)) w2"
    using assms(1,2) w1(1) t by (simp add: HandleNewTab_def Let_def w1_def w2_def kMaxTabs_def)
  show "n_active (HandleNewTab w) = length (n_tabs w)" "length (n_tabs (HandleNewTab w)) = Suc (length (n_tabs w))"
    "\<not> n_dirty (HandleNewTab w)" "n_storage (HandleNewTab w) = n_storage w"
    "tab_content (n_tabs (HandleNewTab w) ! 0) = n_editor w" "tab_dirty (n_tabs (HandleNewTab w) ! 0) = n_dirty w"
    using w2 unfolding new
    by (simp_all add: SwitchToTab_def SyncActiveTabFromEditor_def note_active_def set_status_def set_editor_def Let_def)
qed

section \<open>Reconnecting\<close>

definition reconnect_end :: "nat \<Rightarrow> nat \<Rightarrow> (nat \<times> nat) list \<Rightarrow> window \<Rightarrow> bool" where
  "reconnect_end k n tail w \<longleftrightarrow>
     tail = [(0, 1)] \<and> 1 \<le> k \<and> c_workers (n_client w) \<or> tail = [(0, 2)] \<and> k = n \<and> \<not> n_re_stop w \<or> tail = [] \<and> n_re_stop w"

lemma Connect_workers: "Connect api env code d n c = Some (True, c') \<Longrightarrow> c_workers c'"
  by (auto simp: Connect_def StartWorkers_def SendSyncRequest_def EnqueueMessage_def Let_def
      split: if_splits option.splits prod.splits connect_result.splits sum.splits)

lemma reconnect_rounds_end:
  assumes "\<forall>i c. Connect api (env i) (n_session w) (n_re_device w) (n_re_nickname w) c \<noteq> None"
  shows "\<exists>k tail w'. reconnect_rounds api env stop [j..<j + n] w = Some (map (\<lambda>i. (i, 0)) [j..<j + k] @ tail, w') \<and>
    k \<le> n \<and> \<not> n_reconnecting w' \<and> reconnect_end k n tail w'"
  using assms
proof (induction n arbitrary: j w)
  case 0
  then show ?case by (intro exI [of _ 0]) (auto simp: reconnect_end_def)
next
  case (Suc n)
  have list: "[j..<j + Suc n] = j # [Suc j..<Suc j + n]" by (simp add: upt_conv_Cons)
  show ?case
  proof (cases "n_re_stop w")
    case True
    then show ?thesis unfolding list by (intro exI [of _ 0]) (auto simp: reconnect_end_def)
  next
    case False
    obtain ok c where c: "Connect api (env j) (n_session w) (n_re_device w) (n_re_nickname w) (n_client w) = Some (ok, c)"
      using Suc.prems by fastforce
    show ?thesis
    proof (cases ok)
      case True
      with c have "c_workers c" by (intro Connect_workers) simp
      with True False c show ?thesis
        unfolding list by (intro exI [of _ 1]) (auto simp: reconnect_end_def)
    next
      case ok: False
      let ?v = "w\<lparr>n_client := c, n_re_stop := stop j\<rparr>"
      obtain k tail w' where "reconnect_rounds api env stop [Suc j..<Suc j + n] ?v =
          Some (map (\<lambda>i. (i, 0)) [Suc j..<Suc j + k] @ tail, w')"
        "k \<le> n" "\<not> n_reconnecting w'" "reconnect_end k n tail w'"
        using Suc.IH [of ?v "Suc j"] Suc.prems by auto
      with False ok c show ?thesis
        unfolding list
        by (intro exI [of _ "Suc k"] exI [of _ tail] exI [of _ w']) (auto simp: reconnect_end_def upt_conv_Cons)
    qed
  qed
qed

end
