(* ===== verification/NativeLayout.thy ===== *)
theory NativeLayout
  imports NativeRoom
begin

text \<open>
  Where the classic window puts its controls, which it shows, and how it paints labels: the calls
  that \<^verbatim>\<open>MainWindow::Layout\<close> and its neighbours make, as lists in their order. Numbers are \<^verbatim>\<open>int\<close>;
  the client area is at most a screen, so none comes near the ends of its range, and every
  division is of a number that is not negative or is followed by \<^verbatim>\<open>max(0, ...)\<close>.
\<close>

datatype control =
    TabBar | TabLabel nat | NewTabButton | ToolbarBar | FileMenuButton | EditMenuButton | ViewMenuButton
  | StyleButton | ListButton | BoldButton | ItalicButton | StrikeButton | LinkButton | TableButton
  | MarkdownButton | ShareButton | AccountButton | SettingsButton | TitleLabel | HostButton | JoinButton
  | RecentLabel | JoinTitleLabel | JoinCodeLabel | JoinCodeEdit | JoinHostLabel | JoinHostEdit
  | JoinPortLabel | JoinPortEdit | ConnectButton | BackButton | AdvancedButton | Editor | MarkdownPreview
  | StatusLabel

datatype ui_call = MoveControl control int int int int | ShowControl control bool | SetText control wstr

definition kMargin :: int where "kMargin = 16"
definition kButtonWidth :: int where "kButtonWidth = 160"
definition kButtonHeight :: int where "kButtonHeight = 34"
definition kLabelWidth :: int where "kLabelWidth = 92"
definition kInputWidth :: int where "kInputWidth = 220"
definition kInputHeight :: int where "kInputHeight = 24"
definition kStatusHeight :: int where "kStatusHeight = 28"
definition kTabBarHeight :: int where "kTabBarHeight = 42"
definition kToolbarHeight :: int where "kToolbarHeight = 44"
definition kTopChromeHeight :: int where "kTopChromeHeight = kTabBarHeight + kToolbarHeight"

lemmas layout_sizes = kMargin_def kButtonWidth_def kButtonHeight_def kLabelWidth_def kInputWidth_def kInputHeight_def
  kStatusHeight_def kTabBarHeight_def kToolbarHeight_def kTopChromeHeight_def

section \<open>The bar of tabs\<close>

definition UpdateTabBar :: "int \<Rightarrow> window \<Rightarrow> ui_call list" where
  "UpdateTabBar tab_label_width w =
     concat (map (\<lambda>i. let shown = i < length (n_tabs w)
                      in ShowControl (TabLabel i) shown #
                         (if shown then [SetText (TabLabel i) (TabTitleText tab_label_width i w)] else [])) [0, 1, 2])
     @ [ShowControl NewTabButton (length (n_tabs w) < kMaxTabs)]"

definition tab_width :: "int \<Rightarrow> nat \<Rightarrow> int" where
  "tab_width width count =
     (let visible_tab_count = int (max 1 count);
          new_tab_width = (if count < kMaxTabs then 36 else 0);
          tab_area_width = max 0 (width - 24 - new_tab_width - 10 * visible_tab_count)
      in max 54 (min 190 (tab_area_width div visible_tab_count)))"

definition layout_tabs :: "int \<Rightarrow> nat \<Rightarrow> ui_call list" where
  "layout_tabs width count =
     (let tw = tab_width width count
      in [MoveControl (TabLabel 0) 12 6 tw 30, MoveControl (TabLabel 1) (12 + (tw + 10)) 6 tw 30,
          MoveControl (TabLabel 2) (12 + 2 * (tw + 10)) 6 tw 30,
          MoveControl NewTabButton (12 + 2 * (tw + 10) + (tw + 12)) 7 36 28,
          MoveControl ToolbarBar 0 kTabBarHeight width kToolbarHeight])"

section \<open>The toolbar\<close>

text \<open>Buttons from left to right, as far as they fit; the ones that do not are hidden.\<close>

fun place_toolbar_buttons :: "int \<Rightarrow> int \<Rightarrow> int \<Rightarrow> (control \<times> int) list \<Rightarrow> ui_call list" where
  "place_toolbar_buttons y limit x [] = []"
| "place_toolbar_buttons y limit x ((c, w) # cs) =
     (if x + w \<le> limit
      then ShowControl c True # MoveControl c x y w 28 # place_toolbar_buttons y limit (x + (w + 12)) cs
      else ShowControl c False # place_toolbar_buttons y limit x cs)"

definition toolbar_buttons :: "(control \<times> int) list" where
  "toolbar_buttons =
     [(StyleButton, 58), (ListButton, 58), (BoldButton, 58), (ItalicButton, 66), (LinkButton, 58), (MarkdownButton, 82)]"

definition layout_toolbar :: "int \<Rightarrow> ui_call list" where
  "layout_toolbar width =
     (let y = kTabBarHeight + 8; menu_end_x = 10 + 68 + 68 + 48;
          show_share = width \<ge> 360;
          share_width = (if width \<ge> 560 then 78 else 58);
          share_x = max (menu_end_x + 12) (width - share_width - 12);
          command_limit = (if show_share then share_x else width - 12) - 12
      in [MoveControl FileMenuButton 10 y 48 28, MoveControl EditMenuButton (10 + 68) y 48 28,
          MoveControl ViewMenuButton (10 + 68 + 68) y 48 28,
          SetText ShareButton (if width \<ge> 560 then nt_share_wide else nt_share), ShowControl ShareButton show_share]
         @ (if show_share then [MoveControl ShareButton share_x y share_width 28] else [])
         @ place_toolbar_buttons y command_limit (menu_end_x + 28) toolbar_buttons
         @ [ShowControl StrikeButton False, ShowControl TableButton False, ShowControl AccountButton False,
            ShowControl SettingsButton False])"

section \<open>The three screens\<close>

definition layout_start :: "int \<Rightarrow> int \<Rightarrow> ui_call list" where
  "layout_start width height =
     (let center_x = width div 2; start_y = max (kTopChromeHeight + kMargin) (height div 2 - 70)
      in [MoveControl TitleLabel kMargin kMargin (width - kMargin * 2) 32,
          MoveControl HostButton (center_x - kButtonWidth div 2) start_y kButtonWidth kButtonHeight,
          MoveControl JoinButton (center_x - kButtonWidth div 2) (start_y + 46) kButtonWidth kButtonHeight,
          MoveControl RecentLabel kMargin (start_y + 102) (width - kMargin * 2) 24,
          MoveControl StatusLabel kMargin (height - kStatusHeight) (width - kMargin * 2) kStatusHeight])"

definition layout_join :: "int \<Rightarrow> int \<Rightarrow> bool \<Rightarrow> ui_call list" where
  "layout_join width height advanced =
     (let center_x = width div 2; form_x = center_x - (kLabelWidth + kInputWidth) div 2;
          start_y = max (kTopChromeHeight + kMargin) (height div 2 - (if advanced then 112 else 72));
          button_y = (if advanced then start_y + 122 else start_y + 44)
      in [MoveControl JoinTitleLabel kMargin (kTopChromeHeight + kMargin) (width - kMargin * 2) 32,
          MoveControl JoinCodeLabel form_x start_y kLabelWidth kInputHeight,
          MoveControl JoinCodeEdit (form_x + kLabelWidth) start_y kInputWidth kInputHeight]
         @ (if advanced
            then [MoveControl JoinHostLabel form_x (start_y + 38) kLabelWidth kInputHeight,
                  MoveControl JoinHostEdit (form_x + kLabelWidth) (start_y + 38) kInputWidth kInputHeight,
                  MoveControl JoinPortLabel form_x (start_y + 76) kLabelWidth kInputHeight,
                  MoveControl JoinPortEdit (form_x + kLabelWidth) (start_y + 76) kInputWidth kInputHeight]
            else [])
         @ [MoveControl ConnectButton (center_x - kButtonWidth - 6) button_y kButtonWidth kButtonHeight,
            MoveControl BackButton (center_x + 6) button_y kButtonWidth kButtonHeight,
            MoveControl AdvancedButton (center_x - kButtonWidth div 2) (button_y + 44) kButtonWidth kButtonHeight,
            MoveControl StatusLabel kMargin (height - kStatusHeight) (width - kMargin * 2) kStatusHeight])"

definition layout_editor :: "int \<Rightarrow> int \<Rightarrow> bool \<Rightarrow> ui_call list" where
  "layout_editor width height preview =
     (let editor_y = kTopChromeHeight; editor_height = max 0 (height - kTopChromeHeight - kStatusHeight)
      in (if preview
          then let gap = 6; editor_width = max 0 ((width - gap) div 2)
               in [MoveControl Editor 0 editor_y editor_width editor_height,
                   MoveControl MarkdownPreview (editor_width + gap) editor_y (max 0 (width - editor_width - gap)) editor_height]
          else [MoveControl Editor 0 editor_y width editor_height, MoveControl MarkdownPreview width editor_y 0 editor_height])
         @ [MoveControl StatusLabel 4 (height - kStatusHeight) (max 0 (width - 8)) kStatusHeight])"

text \<open>The new value of \<^verbatim>\<open>tab_label_width_\<close> and the calls.\<close>

definition Layout :: "int \<Rightarrow> int \<Rightarrow> int \<Rightarrow> window \<Rightarrow> int \<times> ui_call list" where
  "Layout width height tab_label_width w =
     (let tw = tab_width width (length (n_tabs w))
      in (tw,
          [MoveControl TabBar 0 0 width kTabBarHeight]
          @ (if tab_label_width \<noteq> tw then UpdateTabBar tw w else [])
          @ layout_tabs width (length (n_tabs w))
          @ layout_toolbar width
          @ (case n_screen w of
               StartScreen \<Rightarrow> layout_start width height
             | JoinScreen \<Rightarrow> layout_join width height (n_advanced w)
             | EditorScreen \<Rightarrow> layout_editor width height (n_preview_visible w))))"

section \<open>Visibility, menus and colours\<close>

definition SetJoinControlsVisible :: "bool \<Rightarrow> bool \<Rightarrow> ui_call list" where
  "SetJoinControlsVisible advanced shown =
     [ShowControl JoinTitleLabel shown, ShowControl JoinCodeLabel shown, ShowControl JoinCodeEdit shown,
      ShowControl JoinHostLabel (shown \<and> advanced), ShowControl JoinHostEdit (shown \<and> advanced),
      ShowControl JoinPortLabel (shown \<and> advanced), ShowControl JoinPortEdit (shown \<and> advanced),
      ShowControl ConnectButton shown, ShowControl BackButton shown, ShowControl AdvancedButton shown]"

text \<open>Whether the menu entries for hosting and joining, copying the code and leaving are enabled.\<close>

record menu_state =
  mn_preview_checked :: bool
  mn_host :: bool
  mn_join :: bool
  mn_copy_code :: bool
  mn_leave :: bool

definition UpdateMenuState :: "window \<Rightarrow> menu_state" where
  "UpdateMenuState w =
     (let sharing = n_role w \<noteq> Offline; hosting = n_role w = Host \<and> n_session w \<noteq> []
      in \<lparr>mn_preview_checked = n_preview_visible w, mn_host = \<not> sharing, mn_join = \<not> sharing,
          mn_copy_code = hosting, mn_leave = sharing\<rparr>)"

datatype brush = ToolbarBrush | ActiveTabBrush | InactiveTabBrush | StatusBrush

definition RGB :: "nat \<Rightarrow> nat \<Rightarrow> nat \<Rightarrow> u32" where
  "RGB r g b = of_nat r OR push_bit 8 (of_nat g) OR push_bit 16 (of_nat b)"

definition kDarkTab :: u32 where "kDarkTab = RGB 62 62 62"
definition kInactiveTab :: u32 where "kInactiveTab = RGB 36 36 36"
definition kDarkText :: u32 where "kDarkText = RGB 242 242 242"
definition kMutedText :: u32 where "kMutedText = RGB 190 190 190"

text \<open>The colours of a label: its text, its background if it is painted, and the brush.\<close>

definition label_colors :: "control \<Rightarrow> window \<Rightarrow> u32 \<times> u32 option \<times> brush" where
  "label_colors c w =
     (let is_tab = (c = TabLabel 0 \<or> c = TabLabel 1 \<or> c = TabLabel 2);
          active = (c = TabLabel 0 \<and> n_active w = 0 \<or> c = TabLabel 1 \<and> n_active w = 1 \<or> c = TabLabel 2 \<and> n_active w = 2);
          muted = (c = TabLabel 0 \<and> n_active w \<noteq> 0 \<or> c = TabLabel 1 \<and> n_active w \<noteq> 1 \<or> c = TabLabel 2 \<and> n_active w \<noteq> 2);
          text_color = (if muted then kMutedText else if c = StatusLabel then kMutedText else kDarkText)
      in if is_tab
         then (text_color, Some (if active then kDarkTab else kInactiveTab), if active then ActiveTabBrush else InactiveTabBrush)
         else (text_color, None, if c = StatusLabel then StatusBrush else ToolbarBrush))"

section \<open>Nothing overlaps\<close>

text \<open>The horizontal extent of the buttons that stand in the toolbar, from left to right.\<close>

definition moves :: "ui_call list \<Rightarrow> (control \<times> int \<times> int) list" where
  "moves cs = concat (map (\<lambda>c. case c of MoveControl k x y w h \<Rightarrow> [(k, x, w)] | _ \<Rightarrow> []) cs)"

lemma moves_simps [simp]:
  "moves [] = []" "moves (MoveControl k x y w h # cs) = (k, x, w) # moves cs"
  "moves (ShowControl k b # cs) = moves cs" "moves (SetText k t # cs) = moves cs" "moves (as @ bs) = moves as @ moves bs"
  by (simp_all add: moves_def)

definition apart_from :: "(control \<times> int \<times> int) \<Rightarrow> (control \<times> int \<times> int) \<Rightarrow> bool" where
  "apart_from a b \<longleftrightarrow> (case a of (_, x, w) \<Rightarrow> case b of (_, x', w') \<Rightarrow> x + w \<le> x' \<or> x' + w' \<le> x)"

lemma placed_inside:
  assumes "(k, x, w) \<in> set (moves (place_toolbar_buttons y limit x0 cs))" and "\<forall>(c, n) \<in> set cs. 0 < n"
  shows "x0 \<le> x \<and> x + w \<le> limit \<and> 0 < w"
  using assms by (induction y limit x0 cs rule: place_toolbar_buttons.induct) (auto split: if_splits)

text \<open>Buttons placed one after the other: each one ends before the next begins.\<close>

lemma placed_sorted:
  assumes "\<forall>(c, n) \<in> set cs. 0 < n"
  shows "sorted_wrt (\<lambda>(_, x, w) (_, x', w'). x + w \<le> x') (moves (place_toolbar_buttons y limit x0 cs))"
  using assms
proof (induction y limit x0 cs rule: place_toolbar_buttons.induct)
  case (2 y limit x c w cs)
  then show ?case
    using placed_inside [of _ _ _ y limit "x + (w + 12)" cs] by (cases "x + w \<le> limit") fastforce+
qed simp

lemma sorted_apart:
  "sorted_wrt (\<lambda>(_, x, w) (_, x', w'). x + w \<le> x') ms \<Longrightarrow> a \<in> set ms \<Longrightarrow> b \<in> set ms \<Longrightarrow> fst a \<noteq> fst b \<Longrightarrow> apart_from a b"
  by (induction ms) (auto simp: apart_from_def split: prod.splits)

text \<open>The whole row: the menus, the commands that fit, and the button for sharing.\<close>

definition share_move :: "int \<Rightarrow> (control \<times> int \<times> int) list" where
  "share_move width =
     (if width \<ge> 360
      then [(ShareButton, width - (if width \<ge> 560 then 78 else 58) - 12, if width \<ge> 560 then 78 else 58)] else [])"

definition command_moves :: "int \<Rightarrow> (control \<times> int \<times> int) list" where
  "command_moves width =
     moves (place_toolbar_buttons (kTabBarHeight + 8)
       (if width \<ge> 560 then width - 102 else if width \<ge> 360 then width - 82 else width - 24) 222 toolbar_buttons)"

lemma toolbar_row:
  "set (moves (layout_toolbar width)) =
   set ([(FileMenuButton, 10, 48), (EditMenuButton, 78, 48), (ViewMenuButton, 146, 48)] @ command_moves width @ share_move width)"
  by (simp add: layout_toolbar_def share_move_def command_moves_def Let_def max_def)

lemma command_moves_inside:
  assumes "(k, x, w) \<in> set (command_moves width)"
  shows "222 \<le> x \<and> x + w \<le> (if width \<ge> 560 then width - 102 else if width \<ge> 360 then width - 82 else width - 24) \<and> 0 < w"
  using placed_inside [OF assms [unfolded command_moves_def]] by (auto simp: toolbar_buttons_def)

lemma toolbar_row_sorted:
  "sorted_wrt (\<lambda>(_, x, w) (_, x', w'). x + w \<le> x')
     ([(FileMenuButton, 10, 48), (EditMenuButton, 78, 48), (ViewMenuButton, 146, 48)] @ command_moves width @ share_move width)"
proof -
  have "sorted_wrt (\<lambda>(_, x, w) (_, x', w'). x + w \<le> x') (command_moves width)"
    unfolding command_moves_def by (rule placed_sorted) (auto simp: toolbar_buttons_def)
  then show ?thesis
    using command_moves_inside [of _ _ _ width]
    by (fastforce simp: sorted_wrt_append share_move_def split: if_splits)
qed

text \<open>Of the labels of the tabs exactly the active one is painted as active.\<close>

lemma active_label:
  "n_active w < 3 \<Longrightarrow> i < 3 \<Longrightarrow> snd (snd (label_colors (TabLabel i) w)) = ActiveTabBrush \<longleftrightarrow> i = n_active w"
proof -
  assume "n_active w < 3" "i < 3"
  then have "i = 0 \<or> i = 1 \<or> i = 2" "n_active w = 0 \<or> n_active w = 1 \<or> n_active w = 2" by linarith+
  then show ?thesis by (auto simp: label_colors_def Let_def)
qed

text \<open>The button for a new tab stands where the third label ends, however many labels are shown.\<close>

lemma new_tab_position:
  assumes "count < 3" and "width \<le> 614"
  shows "width \<le> 12 + 2 * (tab_width width count + 10) + (tab_width width count + 12)"
proof -
  have "count = 0 \<or> count = 1 \<or> count = 2" using assms(1) by linarith
  then show ?thesis using assms(2) by (auto simp: tab_width_def kMaxTabs_def Let_def max_def min_def)
qed

end
