(* ===== verification/NativeProps.thy ===== *)
theory NativeProps
  imports NativeLemmas NativeLayout Examples
begin

text \<open>
  The properties of the classic window, each with a concrete instance: it follows the host with
  its selection in place, hosts what is typed, keeps its tabs apart, reconnects a bounded number
  of times and shows code as it is; and two ways in which it loses text.
\<close>

definition example_native :: window where
  "example_native =
     \<lparr>n_server = SyncServer_init, n_client = SyncClient_init, n_announced = None,
      n_storage = \<lparr>st_current = None, st_temp = None, st_error = [], st_faults = []\<rparr>,
      n_screen = EditorScreen, n_advanced = False, n_dirty = True, n_suppress = False, n_ime = False,
      n_remote = False, n_shortcut = False, n_preview_visible = False, n_role = Offline, n_session = [],
      n_local = wide ''A'', n_re_host = [], n_re_port = 0, n_re_device = [], n_re_nickname = [],
      n_reconnecting = False, n_re_stop = False, n_joinable = False, n_revision = 0, n_sync_revision = 0, n_chunks = [],
      n_received = [], n_last = wide ''hi'',
      n_tabs = [\<lparr>tab_title = wide ''current.txt'', tab_content = wide ''hi'', tab_dirty = False\<rparr>],
      n_active = 0, n_editor = wide ''hi'', n_selection = no_selection, n_preview = [], n_status = [],
      n_timer = True,
      n_format = \<lparr>fmt_height = kDefaultTextHeight, fmt_bold = False, fmt_italic = False, fmt_face = wide ''Segoe UI''\<rparr>,
      n_paragraph = \<lparr>par_numbering = 0, par_start_indent = 0, par_offset = 0\<rparr>\<rparr>"

text \<open>A guest that shows the document of \<open>example_server\<close>, and its host.\<close>

definition native_guest :: window where
  "native_guest = example_native\<lparr>n_role := Guest, n_local := wide ''B'', n_session := wide ''123456'', n_revision := 4\<rparr>"

definition native_host :: window where
  "native_host = example_native\<lparr>n_role := Host, n_server := example_server, n_session := wide ''123456'', n_revision := 4\<rparr>"

text \<open>Nothing in the outside world works: no socket, no memory for the clipboard.\<close>

definition dead_connect :: connect_env where
  "dead_connect =
     \<lparr>env_socket = None, env_host_ok = True,
      env_calls = \<lparr>ioctl_ok = True, connect_error = None, select_result = 0, writable = False, sockopt_ok = True, so_error = 0\<rparr>,
      env_now = 0, env_clock = [], env_input = []\<rparr>"

definition dead_env :: ui_env where
  "dead_env =
     \<lparr>ue_web = \<lparr>env_winsock = None, env_config = None, env_random = 1, env_bind = (\<lambda>_. BindOk 0),
                env_announce_ok = False, env_found = None, env_connect = dead_connect\<rparr>,
      ue_code = wide ''123456'', ue_host = [], ue_port = [], ue_editor_focused = True, ue_clipboard = ClipboardNoMemory\<rparr>"

lemmas native_defs = example_native_def native_guest_def native_host_def no_selection_def

section \<open>Following the host\<close>

text \<open>
  A guest's classic window that only watches shows what the host types: after handling the
  announcements of any operations of the host, its editor holds the server's document and its
  revision is the server's.
\<close>

theorem native_guest_follows_host:
  assumes "host_edits api ops s = (ms, s')" and "n_editor w = document s" and "n_revision w = revision s"
    and "n_local w = wide ''B''" and "unat (revision s) + length ops < 2 ^ 64"
  shows "n_editor (fold (\<lambda>m. ApplySyncApply_main api (received m)) ms w) = document s' \<and>
         n_revision (fold (\<lambda>m. ApplySyncApply_main api (received m)) ms w) = revision s'"
  using native_follower.follow_host [OF assms(1-3) _ assms(5)] assms(4) by simp

lemma native_guest_follows_host_witness:
  "n_editor (fold (\<lambda>m. ApplySyncApply_main utf8_ref (received m))
     (fst (host_edits utf8_ref [insert_op 2 (wide ''!''), delete_op 9 1, delete_op 0 1] example_server)) native_guest) =
   document (snd (host_edits utf8_ref [insert_op 2 (wide ''!''), delete_op 9 1, delete_op 0 1] example_server))"
  using native_guest_follows_host [of utf8_ref "[insert_op 2 (wide ''!''), delete_op 9 1, delete_op 0 1]" example_server
      "fst (host_edits utf8_ref [insert_op 2 (wide ''!''), delete_op 9 1, delete_op 0 1] example_server)"
      "snd (host_edits utf8_ref [insert_op 2 (wide ''!''), delete_op 9 1, delete_op 0 1] example_server)" native_guest]
  by (simp add: example_server_def native_defs)



section \<open>Receiving the document\<close>

text \<open>
  A guest's classic window receives the whole document. On a connection whose sends do not
  fail, and as long as no chunk boundary splits a surrogate pair, the server sends all its chunks;
  however TCP cuts the bytes, the receive loop of the guest takes all the messages, and draining
  the events leaves the editor with exactly the document and the server's revision.
\<close>

theorem native_full_sync_delivered:
  assumes "utf8_api api" and "session_ok (session_code s)" and "reliable (net s k)"
    and "conn_wire (net s k) = []" and "chunks_wf (document s)" and "length (document s) \<le> kMaxDocumentChars"
    and "concat segs = conn_wire (net (snd (SendSyncResponse api k s)) k)"
    and "\<forall>seg \<in> set segs. seg \<noteq> [] \<and> length seg \<le> 4096"
    and "\<not> c_stopping c" and "c_socket c = Some j" and "c_decoder c = []" and "c_events c = []"
    and "c_input c = map Received segs" and "n_chunks w = []" and "event_queue (n_server w) = []"
  shows "fst (SendSyncResponse api k s) \<and>
    (\<exists>c'. receive_rounds api now (chunk_count (document s)) c = Some c' \<and>
          n_editor (DrainSyncEvents_main api (w\<lparr>n_client := c'\<rparr>)) = document s \<and>
          n_revision (DrainSyncEvents_main api (w\<lparr>n_client := c'\<rparr>)) = revision s)"
proof -
  obtain c' where c': "receive_rounds api now (chunk_count (document s)) c = Some c'"
    "c_events c' = map message_event (map (\<lambda>i. received (sync_chunk (document s) (revision s) s i)) [0..<chunk_count (document s)])"
    using response_received(2) [OF assms(1-5,7-13), of now] by blast
  show ?thesis
    using response_received(1) [OF assms(1-5,7-13)] c' native_drain_response [OF assms(6), of "w\<lparr>n_client := c'\<rparr>" "revision s" s api]
      assms(14,15) by auto
qed

lemma native_full_sync_delivered_witness:
  "\<exists>c'. receive_rounds utf8_ref 0 (chunk_count (wide ''hi''))
          (example_client\<lparr>c_input := map Received (map (\<lambda>b. [b])
             (conn_wire (net (snd (SendSyncResponse utf8_ref 1 example_server)) 1)))\<rparr>) = Some c' \<and>
        n_editor (DrainSyncEvents_main utf8_ref (native_guest\<lparr>n_client := c'\<rparr>)) = wide ''hi''"
proof -
  have "chunks_wf (wide ''hi'')"
    by (rule chunks_wf_short) (simp_all add: kSyncChunkChars_def)
  then show ?thesis
    using native_full_sync_delivered [OF utf8_api_ref, of example_server 1
        "map (\<lambda>b. [b]) (conn_wire (net (snd (SendSyncResponse utf8_ref 1 example_server)) 1))"
        "example_client\<lparr>c_input := map Received (map (\<lambda>b. [b])
             (conn_wire (net (snd (SendSyncResponse utf8_ref 1 example_server)) 1)))\<rparr>"
        ready_conn native_guest 0] reliable_ready_conn session_ok_example
    by (auto simp: native_defs example_server_def example_client_def SyncServer_init_def SyncClient_init_def
        ready_conn_def kMaxDocumentChars_def)
qed

section \<open>Hosting\<close>

text \<open>
  What the host types in the classic window reaches the server: for a new text within the
  limits the server's document, the editor and the text kept for comparison become that text,
  and the window has the server's revision.
\<close>

theorem native_host_types:
  assumes "n_role w = Host" and "n_local w = wide ''A''" and "n_last w = document (n_server w)"
    and "n_revision w = revision (n_server w)" and "length (document (n_server w)) \<le> kMaxDocumentChars"
    and "length t \<le> kMaxDocumentChars" and "t \<noteq> n_last w"
    and "\<forall>op \<in> set (operations (ComputeEditorDiff (n_last w) t)). length (op_text op) \<le> kMaxInsertChars"
  shows "document (n_server (ProcessEditorChange api (w\<lparr>n_editor := t\<rparr>))) = t \<and>
         n_editor (ProcessEditorChange api (w\<lparr>n_editor := t\<rparr>)) = t \<and>
         n_last (ProcessEditorChange api (w\<lparr>n_editor := t\<rparr>)) = t \<and>
         n_revision (ProcessEditorChange api (w\<lparr>n_editor := t\<rparr>)) =
         revision (n_server (ProcessEditorChange api (w\<lparr>n_editor := t\<rparr>)))"
proof -
  let ?d = "ComputeEditorDiff (n_last w) t" and ?v = "w\<lparr>n_editor := t\<rparr>"
  have "valid ?d" "changed ?d"
    using assms(6,7) by (auto simp: ComputeEditorDiff_def Let_def split: prod.splits)
  moreover have "document (n_server (SendLocalOperations_main api ?d ?v)) = t \<and>
      n_revision (SendLocalOperations_main api ?d ?v) = revision (n_server (SendLocalOperations_main api ?d ?v)) \<and>
      n_editor (SendLocalOperations_main api ?d ?v) = t"
    using native_host.host_types [of ?v t t api] assms by (simp add: SendLocalOperations_main_def)
  ultimately show ?thesis
    by (simp add: ProcessEditorChange_def Let_def set_status_def)
qed

lemma native_host_types_witness:
  "document (n_server (ProcessEditorChange utf8_ref (native_host\<lparr>n_editor := wide ''ho''\<rparr>))) = wide ''ho''"
proof -
  have pre: "length (wide ''ho'') \<le> kMaxDocumentChars" "wide ''hi'' \<noteq> wide ''ho''"
    by (simp_all add: kMaxDocumentChars_def)
  obtain p d i s where "wide ''hi'' = p @ d @ s" and new: "wide ''ho'' = p @ i @ s"
    and ops: "operations (ComputeEditorDiff (wide ''hi'') (wide ''ho'')) =
      (if d \<noteq> [] then [delete_op (length p) (length d)] else []) @ (if i \<noteq> [] then [insert_op (length p) i] else [])"
    by (rule diff_decompose [OF pre]) (rule that)
  have "length i \<le> 2" using arg_cong [OF new, of length] by simp
  then have "\<forall>op \<in> set (operations (ComputeEditorDiff (wide ''hi'') (wide ''ho''))). length (op_text op) \<le> kMaxInsertChars"
    unfolding ops by (auto simp: delete_op_def insert_op_def kMaxInsertChars_def)
  then show ?thesis
    using native_host_types [of native_host "wide ''ho''" utf8_ref] pre
    by (simp add: native_defs example_server_def kMaxDocumentChars_def)
qed

text \<open>
  C32: a large paste splits the host's window in two. The server refuses an insertion of more than
  32768 characters, and the window takes the server's document back into its editor; but then
  it records the pasted text as the one to compare with, so editor and comparison text differ,
  and the next key the user presses is compared with a text that nobody has.
\<close>

theorem refused_paste_splits_host:
  assumes "n_role w = Host" and "n_local w = wide ''A''" and "n_last w = p @ s" and "document (n_server w) = p @ s"
    and "kMaxInsertChars < length x" and "length (p @ x @ s) \<le> kMaxDocumentChars"
  shows "n_editor (ProcessEditorChange api (w\<lparr>n_editor := p @ x @ s\<rparr>)) = p @ s \<and>
         document (n_server (ProcessEditorChange api (w\<lparr>n_editor := p @ x @ s\<rparr>))) = p @ s \<and>
         n_last (ProcessEditorChange api (w\<lparr>n_editor := p @ x @ s\<rparr>)) = p @ x @ s"
proof -
  let ?t = "p @ x @ s" and ?v = "w\<lparr>n_editor := p @ x @ s\<rparr>"
  let ?d = "ComputeEditorDiff (n_last w) ?t"
  obtain k i where ops: "operations ?d = [insert_op k i]" "length i = length x"
    using pure_insertion [OF assms(6)] assms(3,5) by (cases "x = []") (auto simp: kMaxInsertChars_def)
  have "valid ?d" "changed ?d"
    using assms(3,5,6) by (auto simp: ComputeEditorDiff_def Let_def kMaxInsertChars_def split: prod.splits)
  moreover have "\<not> edit_accepted (local_request (insert_op k i) (wide ''A'') (n_server w)) (n_server w)"
    using ops(2) assms(5)
    by (auto simp: edit_accepted_def edit_allowed_def requested_edit_def local_request_def insert_op_def Let_def
        split: option.splits)
  then obtain r where "ApplyMessageToDocument api (local_request (insert_op k i) (wide ''A'') (n_server w)) (n_server w) =
      (Inl r, n_server w)"
    using ApplyMessageToDocument_refused by blast
  then have "ApplyLocalOperation api (insert_op k i) (wide ''A'') (n_server w) = (None, (n_server w)\<lparr>last_error := r\<rparr>)"
    by (simp add: ApplyLocalOperation_def)
  then have "n_editor (SendLocalOperations_main api ?d ?v) = p @ s \<and>
      document (n_server (SendLocalOperations_main api ?d ?v)) = p @ s"
    using ops(1) assms(1,2,4) by (simp add: SendLocalOperations_main_def send_local_operation_main_def RequestFullSync_main_def)
  ultimately show ?thesis
    by (simp add: ProcessEditorChange_def Let_def set_status_def)
qed

lemma refused_paste_splits_host_witness:
  "n_editor (ProcessEditorChange utf8_ref (native_host\<lparr>n_editor := [104] @ replicate 32769 97 @ [105]\<rparr>)) = [104, 105] \<and>
   n_last (ProcessEditorChange utf8_ref (native_host\<lparr>n_editor := [104] @ replicate 32769 97 @ [105]\<rparr>)) =
     [104] @ replicate 32769 97 @ [105]"
proof -
  define x where "x = replicate 32769 (97 :: wchar)"
  have x: "length x = 32769" by (simp only: x_def length_replicate)
  show ?thesis
    using refused_paste_splits_host [of native_host "[104]" "[105]" x utf8_ref] x unfolding x_def [symmetric]
    by (simp add: native_defs example_server_def wide_def kMaxInsertChars_def kMaxDocumentChars_def)
qed

section \<open>Tabs\<close>

text \<open>
  C21: whatever messages the window handles after its creation, it keeps one to three tabs with one
  of them active.
\<close>

theorem tabs_always_valid:
  assumes "HandleMessage api ue (WmCreate True) w0 = Some w1" and "run_messages api ms w1 = Some w"
    and "\<forall>(e, msg) \<in> set ms. \<forall>ok. msg \<noteq> WmCreate ok"
  shows "1 \<le> length (n_tabs w) \<and> length (n_tabs w) \<le> 3 \<and> n_active w < length (n_tabs w)"
proof -
  have "tabs_ok w"
    using run_messages_tabs [OF assms(2,3)] WmCreate_establishes(1) [OF assms(1)] by blast
  then show ?thesis by (auto simp: tabs_ok_def kMaxTabs_def)
qed

lemma tabs_always_valid_witness:
  "\<exists>w1 w. HandleMessage utf8_ref dead_env (WmCreate True) example_native = Some w1 \<and>
     run_messages utf8_ref [(dead_env, WmCommand CmdNewTab), (dead_env, WmKeyDown True 84), (dead_env, WmKeyDown True 116)] w1 = Some w \<and>
     length (n_tabs w) \<le> 3"
proof -
  obtain w1 where w1: "HandleMessage utf8_ref dead_env (WmCreate True) example_native = Some w1" by simp
  obtain w where w: "run_messages utf8_ref [(dead_env, WmCommand CmdNewTab), (dead_env, WmKeyDown True 84),
      (dead_env, WmKeyDown True 116)] w1 = Some w"
    by (simp add: HandleKey_def)
  show ?thesis
    using tabs_always_valid [OF w1 w, simplified] w1 w by (intro exI [of _ w1] exI [of _ w]) blast
qed



text \<open>
  C31: leaving the first tab before the autosave timer has fired loses its edits. Only the first tab
  is ever saved, and only while it is active; after a new tab has been opened neither the timer
  nor closing the window writes anything, although the tab still has the unsaved text.
\<close>

theorem new_tab_loses_edits:
  assumes "n_role w = Offline" and "length (n_tabs w) < 3" and "n_active w = 0" and "n_tabs w \<noteq> []" and "n_dirty w"
    and "HandleMessage api ue (WmCommand CmdNewTab) w = Some w1"
    and "HandleMessage api ue WmAutosaveTimer w1 = Some w2" and "HandleMessage api ue WmClose w2 = Some w3"
  shows "n_storage w3 = n_storage w \<and> tab_content (n_tabs w3 ! 0) = n_editor w \<and> tab_dirty (n_tabs w3 ! 0)"
proof -
  have n: "n_active w1 = length (n_tabs w)" "\<not> n_dirty w1" "n_storage w1 = n_storage w"
    "tab_content (n_tabs w1 ! 0) = n_editor w" "tab_dirty (n_tabs w1 ! 0)"
    using assms(6) new_tab_state [OF assms(1-4)] assms(5) by auto
  have "w2 = w1\<lparr>n_timer := False\<rparr>"
    using assms(7) n(2) by (simp add: SaveEditorContent_def)
  then show ?thesis
    using assms(8) n by (auto simp: close_window_def SaveEditorContent_def StopReconnectLoop_def Let_def)
qed

lemma new_tab_loses_edits_witness:
  "\<exists>w1 w2 w3. HandleMessage utf8_ref dead_env (WmCommand CmdNewTab) example_native = Some w1 \<and>
     HandleMessage utf8_ref dead_env WmAutosaveTimer w1 = Some w2 \<and> HandleMessage utf8_ref dead_env WmClose w2 = Some w3 \<and>
     st_current (n_storage w3) = None \<and> tab_content (n_tabs w3 ! 0) = wide ''hi''"
proof -
  obtain w1 w2 w3 where w: "HandleMessage utf8_ref dead_env (WmCommand CmdNewTab) example_native = Some w1"
    "HandleMessage utf8_ref dead_env WmAutosaveTimer w1 = Some w2" "HandleMessage utf8_ref dead_env WmClose w2 = Some w3"
    by simp
  have "n_storage w3 = n_storage example_native \<and> tab_content (n_tabs w3 ! 0) = n_editor example_native"
    using new_tab_loses_edits [OF _ _ _ _ _ w] by (simp add: example_native_def)
  with w show ?thesis by (intro exI [of _ w1] exI [of _ w2] exI [of _ w3]) (simp add: example_native_def)
qed

section \<open>Reconnecting\<close>

text \<open>
  Reconnection ends. If no single attempt waits for ever, the loop makes at most five attempts,
  numbered from one, each announced to the window; it ends with the message of success after the
  last of them, with the message of failure after the fifth, or silently once it is stopped, and
  another loop can be started then.
\<close>

theorem reconnection_ends:
  assumes "\<forall>i c. Connect api (env i) (n_session w) (n_re_device w) (n_re_nickname w) c \<noteq> None"
  shows "\<exists>k tail w'. ReconnectLoop api env stop w = Some (map (\<lambda>i. (i, 0)) [1..<Suc k] @ tail, w') \<and> k \<le> 5 \<and>
    \<not> n_reconnecting w' \<and>
    (tail = [(0, 1)] \<and> 1 \<le> k \<and> c_workers (n_client w') \<or> tail = [(0, 2)] \<and> k = 5 \<and> \<not> n_re_stop w' \<or> tail = [] \<and> n_re_stop w')"
proof -
  obtain k tail w' where
    "reconnect_rounds api env stop [1..<1 + kMaxReconnectAttempts] w = Some (map (\<lambda>i. (i, 0)) [1..<1 + k] @ tail, w')"
    "k \<le> kMaxReconnectAttempts" "\<not> n_reconnecting w'" "reconnect_end k kMaxReconnectAttempts tail w'"
    using reconnect_rounds_end [OF assms, where n = kMaxReconnectAttempts and j = 1] by blast
  then show ?thesis
    by (intro exI [of _ k] exI [of _ tail] exI [of _ w'])
      (auto simp: ReconnectLoop_def reconnect_end_def kMaxReconnectAttempts_def simp del: upt_Suc)
qed

lemma reconnection_ends_witness:
  "\<exists>posts w'. ReconnectLoop utf8_ref (\<lambda>_. dead_connect) (\<lambda>_. False) native_guest = Some (posts, w') \<and> length posts \<le> 6"
proof -
  have "\<forall>i c. Connect utf8_ref ((\<lambda>_. dead_connect) (i :: nat)) (n_session native_guest) (n_re_device native_guest)
      (n_re_nickname native_guest) c \<noteq> None"
    by (simp add: Connect_def dead_connect_def Let_def)
  from reconnection_ends [OF this, of "\<lambda>_. False"] show ?thesis by auto
qed

section \<open>The preview\<close>

text \<open>
  What stands between two code fences is shown unchanged, whatever Markdown characters it
  contains, between the marks for code; the text after it is shown as if it stood alone.
\<close>

theorem code_block_shown_unchanged:
  assumes "\<forall>l \<in> set ls. is_line l \<and> \<not> fence l"
  shows "RenderMarkdownPreview (wide ''```'' @ crlf @ concat (map (\<lambda>l. l @ crlf) ls) @ wide ''```'' @ crlf @ r) =
    wide ''[code]'' @ crlf @ concat (map (\<lambda>l. l @ crlf) ls) @ wide ''[/code]'' @ crlf @ RenderMarkdownPreview r"
  by (simp add: RenderMarkdownPreview_def render_fence render_code_block [OF assms])

lemma code_block_shown_unchanged_witness:
  "RenderMarkdownPreview (wide ''```'' @ crlf @ (wide ''# a_b*c'' @ crlf) @ wide ''```'' @ crlf @ []) =
   wide ''[code]'' @ crlf @ (wide ''# a_b*c'' @ crlf) @ wide ''[/code]'' @ crlf"
proof -
  have "is_line (wide ''# a_b*c'')" "\<not> fence (wide ''# a_b*c'')"
    by (simp_all add: is_line_def fence_def StartsWith_def) (simp_all add: wide_def)
  moreover have "RenderMarkdownPreview [] = []"
    by (simp add: RenderMarkdownPreview_def render_from.simps)
  ultimately show ?thesis
    using code_block_shown_unchanged [of "[wide ''# a_b*c'']" "[]"] by simp
qed

section \<open>The layout\<close>

text \<open>
  The buttons of the toolbar never overlap, whatever the width of the window, and in a window
  wide enough for the three menus all of them are inside it.
\<close>

theorem toolbar_never_overlaps:
  assumes "(c, x, n) \<in> set (moves (layout_toolbar width))"
  shows "(194 \<le> width \<longrightarrow> 0 \<le> x \<and> x + n \<le> width) \<and>
    (\<forall>(c', x', n') \<in> set (moves (layout_toolbar width)). c \<noteq> c' \<longrightarrow> x + n \<le> x' \<or> x' + n' \<le> x)"
proof
  show "194 \<le> width \<longrightarrow> 0 \<le> x \<and> x + n \<le> width"
    using assms command_moves_inside [of c x n width]
    by (auto simp: toolbar_row share_move_def split: if_splits)
  have "x + n \<le> x' \<or> x' + n' \<le> x" if b: "(c', x', n') \<in> set (moves (layout_toolbar width))" "c \<noteq> c'" for c' x' n'
  proof -
    have "apart_from (c, x, n) (c', x', n')"
      by (rule sorted_apart [OF toolbar_row_sorted [of width]])
        (use assms b in \<open>simp_all only: toolbar_row fst_conv not_False_eq_True\<close>)
    then show ?thesis by (simp add: apart_from_def)
  qed
  then show "\<forall>(c', x', n') \<in> set (moves (layout_toolbar width)). c \<noteq> c' \<longrightarrow> x + n \<le> x' \<or> x' + n' \<le> x"
    by blast
qed

lemma toolbar_never_overlaps_witness:
  "\<forall>(c, x, n) \<in> set (moves (layout_toolbar 704)). c \<noteq> EditMenuButton \<longrightarrow> 78 + 48 \<le> x \<or> x + n \<le> 78"
proof -
  have "(EditMenuButton, 78, 48) \<in> set (moves (layout_toolbar 704))" by (simp add: toolbar_row)
  from conjunct2 [OF toolbar_never_overlaps [OF this]] show ?thesis by auto
qed

text \<open>
  In a narrow window the button for a new tab cannot be reached. It stands to the right of the
  place of the third label even when fewer tabs exist, so with one or two tabs and a client area
  of at most 614 pixels it is shown, but outside the window.
\<close>

theorem new_tab_button_out_of_reach:
  assumes "length (n_tabs w) < 3" and "width \<le> 614"
  shows "ShowControl NewTabButton True \<in> set (UpdateTabBar tw w) \<and>
    (\<exists>x. MoveControl NewTabButton x 7 36 28 \<in> set (snd (Layout width height tw w)) \<and> width \<le> x)"
proof -
  have "MoveControl NewTabButton (12 + 2 * (tab_width width (length (n_tabs w)) + 10) + (tab_width width (length (n_tabs w)) + 12)) 7 36 28
      \<in> set (snd (Layout width height tw w))"
    by (simp add: Layout_def layout_tabs_def Let_def)
  then show ?thesis
    using new_tab_position [OF assms] assms(1) by (auto simp: UpdateTabBar_def kMaxTabs_def)
qed

lemma new_tab_button_out_of_reach_witness:
  "\<exists>x. MoveControl NewTabButton x 7 36 28 \<in> set (snd (Layout 600 500 190 example_native)) \<and> 600 \<le> x"
  using new_tab_button_out_of_reach [of example_native 600 190 500] by (simp add: example_native_def)

end
