(* ===== verification/NativeSaving.thy ===== *)
theory NativeSaving
  imports NativeLemmas
begin

text \<open>
  What the classic window owes the disk: the first tab is the document \<^verbatim>\<open>current.txt\<close>, and its text is
  on disk unless the flag that asks for saving is set. The theory follows text, flag and file
  through every operation of the window.
\<close>

section \<open>Text, flag and file\<close>

definition first_text :: "window \<Rightarrow> wstr" where
  "first_text w = (if n_active w = 0 then n_last w else tab_content (n_tabs w ! 0))"

definition first_dirty :: "window \<Rightarrow> bool" where
  "first_dirty w = (if n_active w = 0 then n_dirty w else tab_dirty (n_tabs w ! 0))"

text \<open>The file holds the text if it is the encoding of the text, or if loading it gives the text.\<close>

definition on_disk :: "text_api \<Rightarrow> wstr \<Rightarrow> storage \<Rightarrow> bool" where
  "on_disk api t st \<longleftrightarrow> st_current st = Some (WideToUtf8 api t) \<or> fst (LoadCurrent api (st\<lparr>st_faults := []\<rparr>)) = Some t"

definition accounted :: "text_api \<Rightarrow> window \<Rightarrow> bool" where
  "accounted api w \<longleftrightarrow> first_dirty w \<or> on_disk api (first_text w) (n_storage w)"

text \<open>An operation leaves the file alone, and either sets the flag or leaves flag and text.\<close>

definition owns_up :: "window \<Rightarrow> window \<Rightarrow> bool" where
  "owns_up w w' \<longleftrightarrow> n_storage w' = n_storage w \<and> (n_dirty w' \<or> n_dirty w' = n_dirty w \<and> n_last w' = n_last w)"

lemma owns_up_refl [simp]: "owns_up w w"
  by (simp add: owns_up_def)

lemma owns_up_trans: "owns_up u v \<Longrightarrow> owns_up v w \<Longrightarrow> owns_up u w"
  by (auto simp: owns_up_def)

lemma owns_up_same: "n_storage w' = n_storage w \<Longrightarrow> n_dirty w' = n_dirty w \<Longrightarrow> n_last w' = n_last w \<Longrightarrow> owns_up w w'"
  by (simp add: owns_up_def)

lemma accounted_same:
  "n_storage w' = n_storage w \<Longrightarrow> n_dirty w' = n_dirty w \<Longrightarrow> n_last w' = n_last w \<Longrightarrow> n_active w' = n_active w \<Longrightarrow>
   n_tabs w' = n_tabs w \<Longrightarrow> accounted api w' = accounted api w"
  by (simp add: accounted_def first_text_def first_dirty_def)

lemma accounted_after:
  assumes "owns_up w w'" and "n_active w' = n_active w" and "n_active w \<noteq> 0 \<Longrightarrow> n_tabs w' ! 0 = n_tabs w ! 0"
  shows "accounted api w \<Longrightarrow> accounted api w'"
  using assms by (auto simp: accounted_def first_dirty_def first_text_def owns_up_def)

section \<open>Operations that leave the file alone\<close>

lemma owns_up_take_text [simp]: "owns_up w (take_text t sel r st w)"
  by (simp add: owns_up_def) (simp add: take_text_def Let_def set_status_def set_editor_def)

lemma owns_up_set_status [simp]: "owns_up w (set_status t w)"
  by (rule owns_up_same) (simp_all add: set_status_def)

lemma owns_up_RequestFullSync: "owns_up w (RequestFullSync_main api w)"
  by (cases "n_role w") (simp_all add: RequestFullSync_main_def set_status_def owns_up_same)

lemma owns_up_ApplySyncApply: "owns_up w (ApplySyncApply_main api m w)"
  by (simp add: ApplySyncApply_main_def owns_up_RequestFullSync owns_up_same
      split: option.splits prod.splits document_apply_status.splits)

lemma owns_up_ApplySyncResponse: "owns_up w (ApplySyncResponse_main m w)"
proof -
  have store: "owns_up w (store_chunk_main r n i t w)" for r n i t
    by (rule owns_up_same) (simp_all add: store_chunk_main_def Let_def)
  have clear: "owns_up v (v\<lparr>n_chunks := [], n_received := []\<rparr>)" for v
    by (rule owns_up_same) simp_all
  have full: "owns_up w (take_text t sel r st (v\<lparr>n_chunks := [], n_received := []\<rparr>))" if "owns_up w v" for t sel r st v
    using owns_up_trans [OF owns_up_trans [OF that clear] owns_up_take_text] .
  show ?thesis
    by (simp add: ApplySyncResponse_main_def ApplyFullSyncDocument_main_def Let_def store full
        owns_up_trans [OF store owns_up_set_status] split: option.split)
qed

lemma owns_up_HandleSyncEvent: "owns_up w (HandleSyncEvent_main api e w)"
  by (cases "ev_type e") (simp_all add: HandleSyncEvent_main_def owns_up_ApplySyncApply owns_up_ApplySyncResponse
      StartReconnectLoop_def owns_up_same set_status_def)

lemma owns_up_drain_server: "owns_up w (drain_server_events_main api w)"
proof (induction api w rule: drain_server_events_main.induct)
  case (1 api w)
  obtain r s where p: "TryPopEvent (n_server w) = (r, s)" by force
  have s: "owns_up w (w\<lparr>n_server := s\<rparr>)" by (rule owns_up_same) simp_all
  show ?case
  proof (cases r)
    case None
    with p s show ?thesis by (subst drain_server_events_main.simps) simp
  next
    case (Some e)
    with "1.IH" [OF p [symmetric] Some] show ?thesis
      using p owns_up_trans [OF owns_up_trans [OF s owns_up_HandleSyncEvent], of api e]
      by (subst drain_server_events_main.simps) simp
  qed
qed

lemma owns_up_drain_client: "owns_up w (drain_client_events_main api w)"
proof (induction api w rule: drain_client_events_main.induct)
  case (1 api w)
  obtain r c where p: "TryPopClientEvent (n_client w) = (r, c)" by force
  have c: "owns_up w (w\<lparr>n_client := c\<rparr>)" by (rule owns_up_same) simp_all
  show ?case
  proof (cases r)
    case None
    with p c show ?thesis by (subst drain_client_events_main.simps) simp
  next
    case (Some e)
    with "1.IH" [OF p [symmetric] Some] show ?thesis
      using p owns_up_trans [OF owns_up_trans [OF c owns_up_HandleSyncEvent], of api e]
      by (subst drain_client_events_main.simps) simp
  qed
qed

lemma owns_up_drain: "owns_up w (DrainSyncEvents_main api w)"
  by (simp add: DrainSyncEvents_main_def owns_up_trans [OF owns_up_drain_server owns_up_drain_client])

lemma owns_up_send: "owns_up w (send_local_operation_main api op w)"
proof (cases "n_role w")
  case Host
  obtain r s where r: "ApplyLocalOperation api op (n_local w) (n_server w) = (r, s)" by force
  have "owns_up w (w\<lparr>n_server := s\<rparr>)" "owns_up w (w\<lparr>n_server := s, n_revision := v\<rparr>)" for v
    by (rule owns_up_same; simp)+
  moreover have "owns_up (w\<lparr>n_server := s\<rparr>) (RequestFullSync_main api (w\<lparr>n_server := s\<rparr>))"
    by (rule owns_up_RequestFullSync)
  ultimately show ?thesis
    using Host r owns_up_trans by (cases r) (auto simp: send_local_operation_main_def)
qed (simp_all add: send_local_operation_main_def owns_up_same Let_def)

lemma sending_keeps_storage: "n_storage (fold (send_local_operation_main api) ops w) = n_storage w"
proof (induction ops arbitrary: w)
  case (Cons op ops)
  then show ?case using owns_up_send [of w api op] by (simp add: owns_up_def)
qed simp

lemma owns_up_change: "owns_up w (ProcessEditorChange api w)"
proof -
  have "n_storage (SendLocalOperations_main api d w) = n_storage w" for d
    by (simp add: SendLocalOperations_main_def sending_keeps_storage)
  then show ?thesis
    by (simp add: ProcessEditorChange_def Let_def owns_up_def set_editor_def set_status_def)
qed

lemma owns_up_edited: "owns_up w (OnEditorChanged api (w\<lparr>n_editor := t, n_selection := s\<rparr>))"
proof -
  define v where "v = ApplyMarkdownShortcutIfNeeded (ResetMarkdownStyleAtLineBreakIfNeeded (w\<lparr>n_editor := t, n_selection := s\<rparr>))"
  have "owns_up w v"
    by (rule owns_up_same)
      (simp_all add: v_def ApplyMarkdownShortcutIfNeeded_def shortcut_defs ResetMarkdownStyleAtLineBreakIfNeeded_def Let_def
        split: option.splits shortcut.splits)
  then have "owns_up w (ProcessEditorChange api v)" by (rule owns_up_trans [OF _ owns_up_change])
  then show ?thesis by (simp add: OnEditorChanged_def v_def owns_up_same)
qed

lemma owns_up_room:
  "owns_up w (StopReconnectLoop w)" "owns_up w (HandleLeaveRoom api w)" "owns_up w (HandleCreateRoom_main api env w)"
  "owns_up w (snd (CopyInviteCode outcome w))" "owns_up w (HandleReconnectStatus p l w)" "owns_up w (ShowJoinScreen w)"
  "owns_up w (ToggleAdvancedJoin w)" "owns_up w (ToggleMarkdownPreview w)" "owns_up w (select_all ue w)"
  "owns_up w (ShowEditorScreen t w)"
  by (auto simp: StopReconnectLoop_def HandleLeaveRoom_def HandleCreateRoom_main_def CopyInviteCode_def
      HandleReconnectStatus_def ShowJoinScreen_def ToggleAdvancedJoin_def ToggleMarkdownPreview_def select_all_def
      ShowEditorScreen_def set_status_def Let_def intro!: owns_up_same
      split: option.splits prod.splits clipboard_outcome.splits)

lemma owns_up_HandleJoinRoom: "HandleJoinRoom_main api env code h p w = Some w' \<Longrightarrow> owns_up w w'"
  by (auto simp: HandleJoinRoom_main_def StopReconnectLoop_def ShowEditorScreen_def set_status_def Let_def
      intro!: owns_up_same split: option.splits prod.splits sum.splits if_splits)

text \<open>These operations keep the account, as they keep the other tabs.\<close>

lemma others_accounted:
  assumes "owns_up w w'" and "n_active w' = n_active w" and "tabs_ok w" and "accounted api w"
    and "\<forall>i < length (n_tabs w). i \<noteq> n_active w \<longrightarrow> n_tabs w' ! i = n_tabs w ! i"
  shows "accounted api w'"
proof -
  have "n_tabs w' ! 0 = n_tabs w ! 0" if "n_active w \<noteq> 0"
  proof -
    have "0 < length (n_tabs w)" using assms(3) unfolding tabs_ok_def by linarith
    moreover have "0 \<noteq> n_active w" using that by simp
    ultimately show ?thesis using assms(5) by metis
  qed
  from accounted_after [OF assms(1,2) this assms(4)] show ?thesis .
qed

lemma mild_accounted: "mild w w' \<Longrightarrow> owns_up w w' \<Longrightarrow> tabs_ok w \<Longrightarrow> accounted api w \<Longrightarrow> accounted api w'"
  unfolding mild_def by (rule others_accounted) blast+

lemma tabs_mild_accounted: "tabs_mild w w' \<Longrightarrow> owns_up w w' \<Longrightarrow> tabs_ok w \<Longrightarrow> accounted api w \<Longrightarrow> accounted api w'"
  unfolding tabs_mild_def by (rule others_accounted) blast+

section \<open>Saving and changing tabs\<close>

lemma SaveEditorContent_accounted:
  assumes "tabs_ok w" and "n_editor w = n_last w" and "accounted api w"
  shows "accounted api (SaveEditorContent api w)"
proof (cases "n_dirty w \<and> n_active w = 0")
  case True
  obtain ok st where s: "SaveCurrent api (n_editor w) (n_storage w) = (ok, st)" by force
  have "ok \<Longrightarrow> st_current st = Some (WideToUtf8 api (n_last w))"
    using SaveCurrent_atomic [OF s] assms(2) by simp
  with True s assms(2) show ?thesis
    by (auto simp: SaveEditorContent_def Let_def accounted_def first_dirty_def first_text_def on_disk_def set_status_def)
next
  case False
  moreover have "accounted api (note_active t d w)" if "n_active w \<noteq> 0" for t d
    using assms(3) that by (simp add: accounted_def first_dirty_def first_text_def) (simp add: note_active_def)
  ultimately show ?thesis
    using assms(3)
    by (auto simp: SaveEditorContent_def SyncActiveTabFromEditor_def Let_def)
      (auto simp: accounted_def first_dirty_def first_text_def set_status_def)
qed

lemma SwitchToTab_accounted:
  assumes "tabs_ok w" and "n_editor w = n_last w" and "accounted api w"
  shows "accounted api (SwitchToTab i w)"
proof (cases "i < length (n_tabs w) \<and> n_role w = Offline")
  case True
  define w1 where "w1 = SyncActiveTabFromEditor w"
  have tabs: "n_tabs w \<noteq> []" "n_active w < length (n_tabs w)" using assms(1) by (auto simp: tabs_ok_def)
  have w1: "tab_content (n_tabs w1 ! 0) = first_text w" "tab_dirty (n_tabs w1 ! 0) = first_dirty w"
    "n_storage w1 = n_storage w" "length (n_tabs w1) = length (n_tabs w)"
    using tabs assms(2) by (auto simp: w1_def SyncActiveTabFromEditor_def note_active_def first_text_def first_dirty_def nth_list_update)
  have "first_text (SwitchToTab i w) = tab_content (n_tabs w1 ! 0)" "first_dirty (SwitchToTab i w) = tab_dirty (n_tabs w1 ! 0)"
    "n_storage (SwitchToTab i w) = n_storage w1"
    using True by (simp_all add: SwitchToTab_def w1_def [symmetric] Let_def first_text_def first_dirty_def set_status_def set_editor_def)
  then show ?thesis using assms(3) w1 by (simp add: accounted_def)
next
  case False
  then show ?thesis
    using assms(3) by (auto simp: SwitchToTab_def set_status_def accounted_def first_text_def first_dirty_def)
qed

lemma HandleNewTab_accounted:
  assumes "tabs_ok w" and "n_editor w = n_last w" and "accounted api w"
  shows "accounted api (HandleNewTab w)"
proof (cases "n_role w = Offline \<and> length (n_tabs w) < kMaxTabs")
  case True
  define w1 where "w1 = SyncActiveTabFromEditor w"
  define w2 where "w2 = w1\<lparr>n_tabs := n_tabs w1 @ [\<lparr>tab_title = nt_new_tab @ dec_digits (length (n_tabs w1)), tab_content = [], tab_dirty = False\<rparr>]\<rparr>"
  have tabs: "n_tabs w \<noteq> []" "n_active w < length (n_tabs w)" using assms(1) by (auto simp: tabs_ok_def)
  have w1: "n_active w1 = n_active w" "length (n_tabs w1) = length (n_tabs w)" "n_editor w1 = n_editor w" "n_last w1 = n_last w"
    "n_dirty w1 = n_dirty w" "n_storage w1 = n_storage w" "n_active w \<noteq> 0 \<longrightarrow> n_tabs w1 ! 0 = n_tabs w ! 0"
    by (simp_all add: w1_def SyncActiveTabFromEditor_def) (simp add: note_active_def)
  have "accounted api w2"
    using assms(3) w1 tabs(1) by (auto simp: accounted_def first_text_def first_dirty_def w2_def nth_append)
  moreover have "tabs_ok w2" "n_editor w2 = n_last w2"
    using True tabs w1 assms(2) by (simp_all add: w2_def tabs_ok_def)
  ultimately show ?thesis
    using SwitchToTab_accounted [of w2 api "length (n_tabs w1)"] True
    by (simp add: HandleNewTab_def Let_def w1_def [symmetric] w2_def [symmetric])
next
  case False
  then show ?thesis
    using assms(3) by (auto simp: HandleNewTab_def set_status_def accounted_def first_text_def first_dirty_def)
qed

section \<open>Messages\<close>

text \<open>
  While a composition is open the editor holds text that is not yet typed. The messages that come
  from the network, the input method and the thread are harmless then; those that save or change
  the tab are not.
\<close>

fun harmless_while_composing :: "window_message \<Rightarrow> bool" where
  "harmless_while_composing WmSyncEvent = True"
| "harmless_while_composing (WmReconnectStatus wparam lparam) = True"
| "harmless_while_composing (WmEdited t sel) = True"
| "harmless_while_composing WmImeStart = True"
| "harmless_while_composing WmImeEnd = True"
| "harmless_while_composing WmOther = True"
| "harmless_while_composing _ = False"

lemma commands_accounted:
  assumes "tabs_ok w" and "n_editor w = n_last w" and "accounted api w"
  shows "owns_up w v \<Longrightarrow> mild w v \<Longrightarrow> accounted api v"
    and "accounted api (SaveEditorContent api (w\<lparr>n_dirty := True\<rparr>))" and "accounted api (SaveEditorContent api (w\<lparr>n_timer := False\<rparr>))"
    and "accounted api (close_window api w)"
proof -
  have v: "tabs_ok (w\<lparr>n_dirty := True\<rparr>)" "tabs_ok (w\<lparr>n_timer := False\<rparr>)" "accounted api (w\<lparr>n_timer := False\<rparr>)"
    "accounted api (w\<lparr>n_dirty := True\<rparr>)"
    using assms(1,3) by (auto simp: tabs_ok_def accounted_def first_text_def first_dirty_def)
  show "owns_up w v \<Longrightarrow> mild w v \<Longrightarrow> accounted api v" using mild_accounted assms(1,3) by blast
  show "accounted api (SaveEditorContent api (w\<lparr>n_dirty := True\<rparr>))" "accounted api (SaveEditorContent api (w\<lparr>n_timer := False\<rparr>))"
    using v assms(2) by (simp_all add: SaveEditorContent_accounted)
  show "accounted api (close_window api w)"
    using SaveEditorContent_accounted [OF assms]
    by (subst accounted_same [where w = "SaveEditorContent api w"]) (simp_all add: close_window_def StopReconnectLoop_def Let_def)
qed

lemma HandleCommand_accounted:
  assumes "HandleCommand api ue c w = Some w'" and "tabs_ok w" and "n_editor w = n_last w" and "accounted api w"
  shows "accounted api w'"
proof -
  note keeps = commands_accounted [OF assms(2-4)]
  show ?thesis
    using assms(1) HandleNewTab_accounted [OF assms(2-4)] SwitchToTab_accounted [OF assms(2-4)] assms(4)
    by (cases c) (auto simp: join_room_def mild_ShowEditorScreen
      intro: keeps keeps(1) [OF owns_up_room(1)] keeps(1) [OF owns_up_room(2) mild_room(2)] keeps(1) [OF owns_up_room(3) mild_room(3)]
        keeps(1) [OF owns_up_room(4) mild_room(4)] keeps(1) [OF owns_up_room(6) mild_room(6)] keeps(1) [OF owns_up_room(7) mild_room(7)]
        keeps(1) [OF owns_up_room(8) mild_room(8)] keeps(1) [OF owns_up_room(9) mild_room(9)]
        keeps(1) [OF owns_up_room(10) mild_ShowEditorScreen] keeps(1) [OF owns_up_set_status mild_set_status]
        keeps(1) [OF owns_up_HandleJoinRoom mild_HandleJoinRoom] split: if_splits)
qed

lemma HandleKey_accounted:
  assumes "HandleKey api ue control key w = Some w'" and "tabs_ok w" and "n_editor w = n_last w" and "accounted api w"
  shows "accounted api w'"
proof -
  note keeps = commands_accounted [OF assms(2-4)]
  show ?thesis
    using assms(1) HandleNewTab_accounted [OF assms(2-4)] assms(4)
    by (auto simp: HandleKey_def join_room_def
      intro: keeps(2) keeps(1) [OF owns_up_room(9) mild_room(9)] keeps(1) [OF owns_up_room(10) mild_ShowEditorScreen]
        keeps(1) [OF owns_up_HandleJoinRoom mild_HandleJoinRoom] split: if_splits)
qed

lemma HandleMessage_accounted:
  assumes "HandleMessage api ue msg w = Some w'" and "\<And>ok. msg \<noteq> WmCreate ok" and "tabs_ok w" and "editor_ok w"
    and "n_ime w \<Longrightarrow> harmless_while_composing msg" and "accounted api w"
  shows "accounted api w'"
proof (cases "harmless_while_composing msg")
  case True
  have sync: "mild w (DrainSyncEvents_main api w)"
    by (simp add: DrainSyncEvents_main_def mild_trans [OF mild_drain_server mild_drain_client])
  have edited: "tabs_mild w (OnEditorChanged api (w\<lparr>n_editor := t, n_selection := s\<rparr>))" for t s
    by (rule tabs_mild_trans [OF _ OnEditorChanged_tabs], rule tabs_mild_same) simp_all
  have ime: "accounted api (ProcessEditorChange api (w\<lparr>n_ime := False\<rparr>))"
  proof (rule tabs_mild_accounted [OF ProcessEditorChange_tabs owns_up_change])
    show "tabs_ok (w\<lparr>n_ime := False\<rparr>)" using assms(3) by (simp add: tabs_ok_def)
    show "accounted api (w\<lparr>n_ime := False\<rparr>)"
      using assms(6) by (subst accounted_same [where w = w]) simp_all
  qed
  show ?thesis
    using True assms(1,6) mild_accounted [OF sync owns_up_drain assms(3,6)] ime
      mild_accounted [OF mild_room(5) owns_up_room(5) assms(3,6)] tabs_mild_accounted [OF edited owns_up_edited assms(3,6)]
      accounted_same [of "w\<lparr>n_ime := True\<rparr>" w api]
    by (cases msg) auto
next
  case False
  then have "n_editor w = n_last w" using assms(4,5) by (auto simp: editor_ok_def)
  note facts = assms(3) this assms(6)
  show ?thesis
    using False assms(1,2) commands_accounted [OF facts] HandleCommand_accounted [OF _ facts] HandleKey_accounted [OF _ facts]
    by (cases msg) auto
qed

end
