(* ===== verification/SavingProps.thy ===== *)
theory SavingProps
  imports NativeProps NativeSaving
begin

text \<open>
  The text of the user and the disk: what is not saved is marked, what is closed comes back, and what
  cannot be read is overwritten.
\<close>

section \<open>A window in use\<close>








text \<open>Any change to another text, without a caret behind it, in a window that is not shared.\<close>

lemma edited_state:
  assumes "HandleMessage api ue (WmEdited t no_selection) w = Some w2" and "n_role w = Offline" and "\<not> n_ime w"
    and "\<not> n_suppress w" and "\<not> n_remote w" and "\<not> n_shortcut w" and "t \<noteq> n_last w" and "length t \<le> kMaxDocumentChars"
  shows "n_editor w2 = t" and "n_last w2 = t" and "n_dirty w2" and "n_active w2 = n_active w" and "n_storage w2 = n_storage w" and "\<not> n_ime w2"
proof -
  define v where "v = w\<lparr>n_editor := t, n_selection := no_selection\<rparr>"
  have "ApplyMarkdownShortcutIfNeeded (ResetMarkdownStyleAtLineBreakIfNeeded v) = v"
    by (simp add: ApplyMarkdownShortcutIfNeeded_def ResetMarkdownStyleAtLineBreakIfNeeded_def v_def no_selection_def Let_def)
  then have "w2 = ProcessEditorChange api v"
    using assms(1,3-6) by (simp add: OnEditorChanged_def v_def)
  moreover have "valid (ComputeEditorDiff (n_last w) t)" "changed (ComputeEditorDiff (n_last w) t)"
    using assms(7,8) by (auto simp: ComputeEditorDiff_def Let_def split: prod.splits)
  ultimately show "n_editor w2 = t" "n_last w2 = t" "n_dirty w2" "n_active w2 = n_active w" "n_storage w2 = n_storage w" "\<not> n_ime w2"
    using assms(2,3) by (simp_all add: ProcessEditorChange_def SendLocalOperations_main_def v_def Let_def set_status_def)
qed





section \<open>Nothing is lost silently\<close>





section \<open>Saving during a composition\<close>

text \<open>
  The autosave timer does not look at the flag of the composition: while an input method composes, it
  writes the text with the unfinished characters. When the composition is then given up, the text is
  the one before it, which is neither on disk nor marked.
\<close>

lemma composition_saved_then_cancelled:
  assumes "utf8_api api" and "n_active w = 0" and "n_dirty w" and "\<not> n_ime w" and "st_faults (n_storage w) = []"
    and "utf16_wf t" and "length (n_last w) \<le> kMaxDocumentChars"
    and "HandleMessage api ue WmImeStart w = Some w1" and "HandleMessage api ue (WmEdited t sel) w1 = Some w2"
    and "HandleMessage api ue WmAutosaveTimer w2 = Some w3"
    and "HandleMessage api ue (WmEdited (n_last w) sel') w3 = Some w4" and "HandleMessage api ue WmImeEnd w4 = Some w5"
  shows "n_editor w5 = n_last w" and "\<not> n_dirty w5" and "st_current (n_storage w5) = Some (WideToUtf8 api t)"
proof -
  have w2: "n_editor w2 = t" "n_last w2 = n_last w" "n_active w2 = 0" "n_dirty w2" "n_ime w2" "n_storage w2 = n_storage w"
    using assms(2,3,8,9) by (auto simp: OnEditorChanged_def)
  obtain st where st: "SaveCurrent api t (n_storage w) = (True, st)"
    using SaveCurrent_ok [OF assms(1,5), of t] assms(6) by (cases "SaveCurrent api t (n_storage w)") auto
  have w3: "n_last w3 = n_last w" "\<not> n_dirty w3" "n_ime w3" "n_storage w3 = st"
    using assms(10) w2 st by (auto simp: SaveEditorContent_def Let_def set_status_def split: if_splits)
  have w4: "n_editor w4 = n_last w" "n_last w4 = n_last w" "\<not> n_dirty w4" "n_storage w4 = st"
    using assms(11) w3 by (auto simp: OnEditorChanged_def)
  have "valid (ComputeEditorDiff (n_last w) (n_last w))" "\<not> changed (ComputeEditorDiff (n_last w) (n_last w))"
    using assms(7) by (simp_all add: ComputeEditorDiff_def)
  then have "w5 = w4\<lparr>n_ime := False\<rparr>"
    using assms(12) w4 by (simp add: ProcessEditorChange_def Let_def)
  then show "n_editor w5 = n_last w" "\<not> n_dirty w5" "st_current (n_storage w5) = Some (WideToUtf8 api t)"
    using w4 SaveCurrent_atomic [OF st] by simp_all
qed

section \<open>A file that cannot be read\<close>

text \<open>
  C33: a document that cannot be read is overwritten. If \<^verbatim>\<open>current.txt\<close> exists but cannot be opened or
  decoded when the window is created, the window starts with an empty text that counts as saved;
  the first key and the autosave timer replace the file, and no copy of it is kept.
\<close>

theorem unreadable_document_overwritten:
  assumes "utf8_api api" and "HandleMessage api ue (WmCreate True) w0 = Some w1" and "st_current (n_storage w0) = Some old"
    and "fst (LoadCurrent api (n_storage w0)) = None" and "\<not> n_suppress w0" and "\<not> n_remote w0" and "\<not> n_shortcut w0"
    and "\<not> n_ime w0" and "n_role w0 = Offline" and "st_faults (n_storage w1) = []" and "t \<noteq> []"
    and "length t \<le> kMaxDocumentChars" and "utf16_wf t"
    and "HandleMessage api ue (WmEdited t no_selection) w1 = Some w2" and "HandleMessage api ue WmAutosaveTimer w2 = Some w3"
  shows "n_editor w1 = [] \<and> st_current (n_storage w3) = Some (WideToUtf8 api t) \<and> st_temp (n_storage w3) = None"
proof -
  obtain st where st: "LoadCurrent api (n_storage w0) = (None, st)" using assms(4) by (cases "LoadCurrent api (n_storage w0)") auto
  have w1: "n_editor w1 = []" "n_last w1 = []" "n_storage w1 = st" "n_active w1 = 0" "\<not> n_suppress w1" "\<not> n_remote w1" "\<not> n_shortcut w1"
    "\<not> n_ime w1" "n_role w1 = Offline"
    using assms(2,5-9) st
    by (auto simp: LoadInitialDocument_def InitializeTabs_def ShowEditorScreen_def set_status_def set_editor_def)
  note w2 = edited_state [OF assms(14) w1(9,8,5,6,7), unfolded w1, OF assms(11,12)]
  obtain st' where st': "SaveCurrent api t st = (True, st')"
    using SaveCurrent_ok [OF assms(1), of st t] assms(10,13) w1(3) by (cases "SaveCurrent api t st") auto
  then have "st_temp st' = None"
    by (auto simp: SaveCurrent_def Let_def split: prod.splits if_splits io_fault.splits)
  then show ?thesis
    using assms(15) w1(1) w2 st' SaveCurrent_atomic [OF st'] by (auto simp: SaveEditorContent_def Let_def set_status_def)
qed

text \<open>A file that is not UTF-8: a single byte FF.\<close>

lemma unreadable_document_overwritten_witness:
  "\<exists>w1 w2 w3. HandleMessage utf8_ref dead_env (WmCreate True)
       (example_native\<lparr>n_storage := (n_storage example_native)\<lparr>st_current := Some [0xFF]\<rparr>\<rparr>) = Some w1 \<and>
     HandleMessage utf8_ref dead_env (WmEdited (wide ''a'') no_selection) w1 = Some w2 \<and>
     HandleMessage utf8_ref dead_env WmAutosaveTimer w2 = Some w3 \<and>
     st_current (n_storage w3) = Some (WideToUtf8 utf8_ref (wide ''a''))"
proof -
  let ?w0 = "example_native\<lparr>n_storage := (n_storage example_native)\<lparr>st_current := Some [0xFF]\<rparr>\<rparr>"
  have load: "fst (LoadCurrent utf8_ref (n_storage ?w0)) = None"
  proof -
    have "Utf8ToWide utf8_ref [0xFF] = None" by code_simp
    then show ?thesis
      by (simp add: example_native_def LoadCurrent_def next_fault_def EnsureDataDirectory_def decode_current_def HasPrefix_def)
  qed
  obtain w1 where w1: "HandleMessage utf8_ref dead_env (WmCreate True) ?w0 = Some w1" by simp
  obtain st where st: "LoadCurrent utf8_ref (n_storage ?w0) = (None, st)" using load by (cases "LoadCurrent utf8_ref (n_storage ?w0)") auto
  have "st_faults st = []"
    using st by (auto simp: example_native_def LoadCurrent_def next_fault_def EnsureDataDirectory_def
        decode_current_def Let_def split: option.splits if_splits)
  then have f: "st_faults (n_storage w1) = []"
    using w1 st by (auto simp: LoadInitialDocument_def InitializeTabs_def ShowEditorScreen_def set_status_def set_editor_def Let_def)
  obtain w2 where w2: "HandleMessage utf8_ref dead_env (WmEdited (wide ''a'') no_selection) w1 = Some w2" by simp
  obtain w3 where w3: "HandleMessage utf8_ref dead_env WmAutosaveTimer w2 = Some w3" by simp
  have "st_current (n_storage w3) = Some (WideToUtf8 utf8_ref (wide ''a''))"
    using unreadable_document_overwritten [OF utf8_api_ref w1 _ load _ _ _ _ _ f _ _ _ w2 w3] utf16_wf_wide
    by (simp add: example_native_def kMaxDocumentChars_def)
  with w1 w2 w3 show ?thesis by blast
qed

end
