(* ===== verification/Session.thy ===== *)
theory Session
  imports NativeLemmas Handshake
begin

text \<open>
  A session of two classic windows: the one of the host with its server, the one of the guest
  with its client, and the bytes on the way from the server to the guest. The steps are what the
  threads of the program do: a user edits, the server takes the next frame of the guest's send
  queue, the guest's receive thread takes the next frame off the wire, a window drains its
  events. The theory has the steps, and the invariant that holds as long as the two people take
  turns.
\<close>

section \<open>The steps\<close>

record session =
  host :: window
  guest :: window
  wire :: bytes

text \<open>What an operation of the server has put on the connection of its peer.\<close>

definition peer_wire :: "server \<Rightarrow> bytes" where
  "peer_wire s = (case peer_socket s of None \<Rightarrow> [] | Some k \<Rightarrow> conn_wire (net s k))"

definition put_on_wire :: "server \<Rightarrow> server \<Rightarrow> bytes" where
  "put_on_wire s s' = drop (length (peer_wire s)) (peer_wire s')"

text \<open>Nothing is under way.\<close>

definition settled :: "session \<Rightarrow> bool" where
  "settled x \<longleftrightarrow> c_send_queue (n_client (guest x)) = [] \<and> wire x = [] \<and>
     c_events (n_client (guest x)) = [] \<and> event_queue (n_server (host x)) = []"

text \<open>
  What the user may do to a window's text: any change to any text within the limit that types
  or pastes well-formed text of at most 7000 characters in one place, as the window sees it after its
  own Markdown shortcuts.
\<close>

definition after_shortcut :: "wstr \<Rightarrow> editor_selection \<Rightarrow> window \<Rightarrow> window" where
  "after_shortcut t sel w =
     ApplyMarkdownShortcutIfNeeded (ResetMarkdownStyleAtLineBreakIfNeeded (w\<lparr>n_editor := t, n_selection := sel\<rparr>))"

definition editable :: "wstr \<Rightarrow> editor_selection \<Rightarrow> window \<Rightarrow> bool" where
  "editable t sel w \<longleftrightarrow> length t \<le> kMaxDocumentChars \<and> unat (n_revision w) + 2 < 2 ^ 64 \<and>
     (\<forall>op \<in> set (operations (ComputeEditorDiff (n_last w) (n_editor (after_shortcut t sel w)))). typed_ok (op_text op))"

text \<open>
  \<open>deliver\<close> is what the threads do by themselves, \<open>session_step\<close> adds the users: an edit starts only when
  nothing is under way. Saving, the preview and the like may happen at any time.
\<close>

inductive deliver :: "text_api \<Rightarrow> session \<Rightarrow> session \<Rightarrow> bool" for api where
  server_takes: "c_send_queue (n_client (guest x)) = f # fs \<Longrightarrow> FrameDecoder_TryReadFrame f = (Some p, NoError, []) \<Longrightarrow>
     DeserializeMessage api p = (NoError, m) \<Longrightarrow> peer_socket (n_server (host x)) = Some k \<Longrightarrow>
     HandleEditMessage api k m (n_server (host x)) = (ok, s) \<Longrightarrow>
     deliver api x (x\<lparr>host := (host x)\<lparr>n_server := s\<rparr>,
       guest := (guest x)\<lparr>n_client := (n_client (guest x))\<lparr>c_send_queue := fs\<rparr>\<rparr>,
       wire := wire x @ put_on_wire (n_server (host x)) s\<rparr>)"
| client_takes: "FrameDecoder_TryReadFrame (wire x) = (Some p, NoError, rest) \<Longrightarrow> DeserializeMessage api p = (NoError, m) \<Longrightarrow>
     deliver api x (x\<lparr>guest := (guest x)\<lparr>n_client := receive_message now m (n_client (guest x))\<rparr>, wire := rest\<rparr>)"
| host_drains: "HandleMessage api ue WmSyncEvent (host x) = Some w \<Longrightarrow> deliver api x (x\<lparr>host := w\<rparr>)"
| guest_drains: "HandleMessage api ue WmSyncEvent (guest x) = Some w \<Longrightarrow> deliver api x (x\<lparr>guest := w\<rparr>)"

fun background :: "window_message \<Rightarrow> bool" where
  "background WmAutosaveTimer = True"
| "background (WmCommand CmdPreview) = True"
| "background (WmCommand CmdSave) = True"
| "background (WmCommand CmdSelectAll) = True"
| "background (WmCommand (CmdHint h)) = True"
| "background WmOther = True"
| "background _ = False"

inductive session_step :: "text_api \<Rightarrow> session \<Rightarrow> session \<Rightarrow> bool" for api where
  delivers: "deliver api x y \<Longrightarrow> session_step api x y"
| host_edits_text: "settled x \<Longrightarrow> editable t sel (host x) \<Longrightarrow> HandleMessage api ue (WmEdited t sel) (host x) = Some w \<Longrightarrow>
     session_step api x (x\<lparr>host := w, wire := wire x @ put_on_wire (n_server (host x)) (n_server w)\<rparr>)"
| guest_edits_text: "settled x \<Longrightarrow> editable t sel (guest x) \<Longrightarrow> HandleMessage api ue (WmEdited t sel) (guest x) = Some w \<Longrightarrow>
     session_step api x (x\<lparr>guest := w\<rparr>)"
| host_background: "background msg \<Longrightarrow> HandleMessage api ue msg (host x) = Some w \<Longrightarrow> session_step api x (x\<lparr>host := w\<rparr>)"
| guest_background: "background msg \<Longrightarrow> HandleMessage api ue msg (guest x) = Some w \<Longrightarrow> session_step api x (x\<lparr>guest := w\<rparr>)"

text \<open>The state after the guest has joined and received the document.\<close>

definition window_ready :: "window \<Rightarrow> bool" where
  "window_ready w \<longleftrightarrow> editor_ok w \<and> \<not> n_ime w"

definition host_ready :: "window \<Rightarrow> bool" where
  "host_ready w \<longleftrightarrow> window_ready w \<and> n_role w = Host \<and> n_local w = wide ''A'' \<and> c_events (n_client w) = [] \<and>
     session_ok (session_code (n_server w)) \<and> length (document (n_server w)) \<le> kMaxDocumentChars \<and>
     (\<exists>k. peer_socket (n_server w) = Some k \<and> reliable (net (n_server w) k))"

definition guest_linked :: "wstr \<Rightarrow> window \<Rightarrow> bool" where
  "guest_linked code w \<longleftrightarrow> n_role w = Guest \<and> n_local w = wide ''B'' \<and> event_queue (n_server w) = [] \<and>
     c_connected (n_client w) \<and> \<not> c_stopping (n_client w) \<and> c_assigned (n_client w) = wide ''B'' \<and>
     c_session_code (n_client w) = code"

definition guest_ready :: "wstr \<Rightarrow> window \<Rightarrow> bool" where
  "guest_ready code w \<longleftrightarrow> window_ready w \<and> guest_linked code w"

definition in_agreement :: "session \<Rightarrow> bool" where
  "in_agreement x \<longleftrightarrow>
     n_editor (host x) = document (n_server (host x)) \<and> n_revision (host x) = revision (n_server (host x)) \<and>
     n_editor (guest x) = document (n_server (host x)) \<and> n_revision (guest x) = revision (n_server (host x))"

definition session_start :: "session \<Rightarrow> bool" where
  "session_start x \<longleftrightarrow> host_ready (host x) \<and> guest_ready (session_code (n_server (host x))) (guest x) \<and>
     settled x \<and> in_agreement x"

inductive in_session :: "text_api \<Rightarrow> session \<Rightarrow> bool" for api where
  start: "session_start x \<Longrightarrow> in_session api x"
| step: "in_session api x \<Longrightarrow> session_step api x y \<Longrightarrow> in_session api y"

end
