(* ===== verification/SessionLemmas.thy ===== *)
theory SessionLemmas
  imports Session
begin

text \<open>
  What is under way in a session: messages that lead one text to another (\<open>leads\<close>), requests that
  ask for the way (\<open>asks\<close>), the frames that carry them; and what each side adds when its user edits.
\<close>

section \<open>Messages under way\<close>

text \<open>The announcements of one side, in order: each is the next edit under the next revision.\<close>

fun leads :: "wstr \<Rightarrow> protocol_message list \<Rightarrow> wstr \<Rightarrow> u64 \<Rightarrow> wstr \<Rightarrow> u64 \<Rightarrow> bool" where
  "leads c [] t r t' r' \<longleftrightarrow> t = t' \<and> r = r'"
| "leads c (m # ms) t r t' r' \<longleftrightarrow>
     msg_type m = MsgApply \<and> msg_client m = c \<and> GetNumber m (wide ''rev'') = Some (r + 1) \<and> unat r + 1 < 2 ^ 64 \<and>
     (\<exists>e. announced_edit m = Some e \<and> edit_allowed e t \<and> leads c ms (do_edit e t) (r + 1) t' r')"

text \<open>Requests of the guest, in order.\<close>

definition request_ok :: "wstr \<Rightarrow> protocol_message \<Rightarrow> bool" where
  "request_ok code m \<longleftrightarrow> msg_client m = wide ''B'' \<and> msg_session m = code \<and>
     (\<forall>x. GetString m (wide ''text'') = Some x \<longrightarrow> typed_ok x)"

fun asks :: "wstr \<Rightarrow> protocol_message list \<Rightarrow> wstr \<Rightarrow> wstr \<Rightarrow> bool" where
  "asks code [] t t' \<longleftrightarrow> t = t'"
| "asks code (m # ms) t t' \<longleftrightarrow> request_ok code m \<and>
     (\<exists>e. requested_edit m = Some e \<and> edit_allowed e t \<and> asks code ms (do_edit e t) t')"

text \<open>The payloads of frames and what their receiver reads.\<close>

definition carries :: "text_api \<Rightarrow> bytes list \<Rightarrow> protocol_message list \<Rightarrow> bool" where
  "carries api = list_all2 (\<lambda>p m. DeserializeMessage api p = (NoError, m) \<and> length p \<le> kMaxFramePayloadBytes)"

lemma leads_append:
  "leads c (ms @ ns) t r t' r' \<longleftrightarrow> (\<exists>t1 r1. leads c ms t r t1 r1 \<and> leads c ns t1 r1 t' r')"
  by (induction ms arbitrary: t r) (auto, blast+)

lemma asks_append: "asks code (ms @ ns) t t' \<longleftrightarrow> (\<exists>t1. asks code ms t t1 \<and> asks code ns t1 t')"
proof (induction ms arbitrary: t)
  case (Cons m ms)
  then show ?case by simp blast
qed simp

lemma carries_simps [simp]:
  "carries api [] ms \<longleftrightarrow> ms = []" "carries api ps [] \<longleftrightarrow> ps = []"
  "carries api (p # ps) (m # ms) \<longleftrightarrow>
     DeserializeMessage api p = (NoError, m) \<and> length p \<le> kMaxFramePayloadBytes \<and> carries api ps ms"
  by (simp_all add: carries_def)

lemma carries_append: "carries api ps ms \<Longrightarrow> carries api qs ns \<Longrightarrow> carries api (ps @ qs) (ms @ ns)"
  by (simp add: carries_def list_all2_appendI)

lemma carries_cases:
  "carries api (p # ps) ms \<Longrightarrow> \<exists>m ms'. ms = m # ms' \<and> DeserializeMessage api p = (NoError, m) \<and>
     length p \<le> kMaxFramePayloadBytes \<and> carries api ps ms'"
  by (auto simp: carries_def list_all2_Cons1)

lemma small_message_carried:
  assumes "utf8_api api" and "small_message m"
  obtains p where "SerializeMessage api m = Inr p" and "carries api [p] [received m]"
proof -
  obtain b where "SerializeMessage api m = Inr b" "DeserializeMessage api b = (NoError, received m)"
    "length b + 4096 \<le> kMaxFramePayloadBytes + 1"
    by (rule small_message_sent [OF assms])
  then show thesis by (intro that [of b]) simp_all
qed

lemma frames_Nil_iff [simp]: "frames ps = [] \<longleftrightarrow> ps = []" "[] = frames ps \<longleftrightarrow> ps = []"
  by (cases ps; simp add: EncodeFrame_def Let_def)+

lemma take_frame: "length p \<le> kMaxFramePayloadBytes \<Longrightarrow> FrameDecoder_TryReadFrame (EncodeFrame p @ r) = (Some p, NoError, r)"
  by (simp add: TryReadFrame_exact)

section \<open>Operations as edits\<close>

definition operation_edit :: "editor_operation \<Rightarrow> edit" where
  "operation_edit op =
     (case op_type op of OpInsert \<Rightarrow> (op_position op, 0, op_text op) | OpDelete \<Rightarrow> (op_position op, op_length op, []))"

lemma applied_operation:
  assumes "apply_operation op t = (Applied, t')" and "length (op_text op) \<le> kMaxInsertChars" and "length t \<le> kMaxDocumentChars"
  shows "edit_allowed (operation_edit op) t" and "t' = do_edit (operation_edit op) t" and "length t' \<le> kMaxDocumentChars"
proof -
  show "edit_allowed (operation_edit op) t"
    using assms(1,2)
    by (cases "op_type op")
      (auto simp: apply_operation_def ApplyInsertToContent_def ApplyDeleteToContent_def operation_edit_def edit_allowed_def
        split: if_splits)
  then show "t' = do_edit (operation_edit op) t"
    using assms(1)
    by (cases "op_type op")
      (auto simp: apply_operation_def ApplyInsertToContent_def ApplyDeleteToContent_def operation_edit_def
        do_edit_def splice_insert splice_delete split: if_splits)
  with \<open>edit_allowed (operation_edit op) t\<close> assms(3) show "length t' \<le> kMaxDocumentChars"
    by (simp add: do_edit_bounded)
qed

lemma edit_positions:
  assumes "edit_allowed (operation_edit op) t" and "length t \<le> kMaxDocumentChars"
  shows "unat (of_nat (op_position op) :: u64) = op_position op"
    and "op_type op = OpDelete \<Longrightarrow> unat (of_nat (op_length op) :: u64) = op_length op"
proof -
  have "op_position op \<le> length t" "op_type op = OpDelete \<Longrightarrow> op_length op \<le> length t"
    using assms(1) by (auto simp: operation_edit_def edit_allowed_def split: editor_operation_type.splits)
  moreover have "n \<le> length t \<Longrightarrow> unat (of_nat n :: u64) = n" for n
    using assms(2) by (intro unat_of_nat_u64) (simp add: kMaxDocumentChars_def)
  ultimately show "unat (of_nat (op_position op) :: u64) = op_position op"
    "op_type op = OpDelete \<Longrightarrow> unat (of_nat (op_length op) :: u64) = op_length op"
    by blast+
qed

lemma typed_ok_short: "typed_ok t \<Longrightarrow> length t \<le> kMaxInsertChars"
  by (simp add: typed_ok_def kMaxInsertChars_def)

section \<open>What the server announces\<close>

lemma announcement_small:
  assumes "ApplyMessageToDocument api m s = (Inr a, s')" and "session_ok (session_code s)"
    and "\<forall>x. GetString m (wide ''text'') = Some x \<longrightarrow> typed_ok x"
  shows "small_message a"
proof -
  obtain pos r doc s1 where a: "a = apply_message_for m pos r s1" "session_code s1 = session_code s"
    "edit_document m pos (document s) = (Applied, doc)" and c: "msg_client m = wide ''A'' \<or> msg_client m = wide ''B''"
    using assms(1)
    by (auto simp: ApplyMessageToDocument_def Let_def split: if_splits option.splits prod.splits document_apply_status.splits)
  have client: "msg_client m \<noteq> []" "text_ok (msg_client m)"
    using c by (auto simp: text_ok_def)
  have code: "session_ok (session_code s1)" using assms(2) a(2) by simp
  consider t where "msg_type m = MsgInsert" "GetString m (wide ''text'') = Some t"
    | n where "msg_type m = MsgDelete" "GetNumber m (wide ''len'') = Some n"
    using a(3) by (auto simp: edit_document_def split: if_splits option.splits)
  then show ?thesis
    using small_apply_insert [OF _ _ code client] small_apply_delete [OF _ _ code client] assms(3)
    by cases (auto simp: a(1))
qed

text \<open>
  An edit of the server that is accepted, and its announcement on a connection that works: one
  frame, which carries the announced edit.
\<close>

definition announced_on :: "text_api \<Rightarrow> socket \<Rightarrow> wstr \<Rightarrow> server \<Rightarrow> server \<Rightarrow> protocol_message \<Rightarrow> bool" where
  "announced_on api k c s s' m \<longleftrightarrow>
     leads c [m] (document s) (revision s) (document s') (revision s') \<and>
     (\<exists>p. carries api [p] [m] \<and> conn_wire (net s' k) = conn_wire (net s k) @ EncodeFrame p) \<and>
     peer_socket s' = peer_socket s \<and> session_code s' = session_code s \<and> reliable (net s' k)"

definition same_books :: "server \<Rightarrow> server \<Rightarrow> bool" where
  "same_books s v \<longleftrightarrow> document v = document s \<and> revision v = revision s \<and> session_code v = session_code s \<and>
     peer_socket v = peer_socket s \<and> net v = net s"

lemma accepted_announcement:
  assumes "utf8_api api" and "session_ok (session_code s)" and "edit_accepted m s" and "requested_edit m = Some e"
    and "unat (revision s) + 1 < 2 ^ 64" and "\<forall>x. GetString m (wide ''text'') = Some x \<longrightarrow> typed_ok x"
    and "reliable (net s k)"
  obtains a s1 where "ApplyMessageToDocument api m s = (Inr a, s1)"
    and "\<forall>v. same_books s1 v \<longrightarrow> fst (send_to api k a v) \<and>
      announced_on api k (msg_client m) s (snd (send_to api k a v)) (received a)"
    and "document s1 = do_edit e (document s)" and "revision s1 = revision s + 1"
    and "peer_socket s1 = peer_socket s" and "event_queue s1 = event_queue s" and "net s1 = net s"
    and "GetNumber a (wide ''rev'') = Some (revision s + 1)" and "announced_edit a = Some e"
    and "msg_client a = msg_client m" and "msg_type a = MsgApply" and "session_code s1 = session_code s"
proof -
  obtain a s1 where a: "ApplyMessageToDocument api m s = (Inr a, s1)"
    "core s1 = core (s\<lparr>document := do_edit e (document s), revision := revision s + 1\<rparr>)"
    "announced_edit a = Some e" "msg_type a = MsgApply" "msg_client a = msg_client m"
    "GetNumber a (wide ''rev'') = Some (revision s + 1)"
    using ApplyMessageToDocument_accepted [OF assms(3,4), of api] by blast
  have s1: "document s1 = do_edit e (document s)" "revision s1 = revision s + 1" "session_code s1 = session_code s"
    "net s1 = net s" "peer_socket s1 = peer_socket s" "event_queue s1 = event_queue s"
    using arg_cong [OF a(2), of document] arg_cong [OF a(2), of revision] arg_cong [OF a(2), of session_code]
      arg_cong [OF a(2), of net] arg_cong [OF a(2), of peer_socket] arg_cong [OF a(2), of event_queue] by simp_all
  obtain p where p: "SerializeMessage api a = Inr p" "carries api [p] [received a]"
    by (rule small_message_carried [OF assms(1) announcement_small [OF a(1) assms(2,6)]])
  have allowed: "edit_allowed e (document s)" using assms(3,4) by (auto simp: edit_accepted_def)
  have "fst (send_to api k a v) \<and> announced_on api k (msg_client m) s (snd (send_to api k a v)) (received a)"
    if v: "same_books s1 v" for v
  proof -
    have "reliable (net v k)" using assms(7) s1(4) v by (simp add: same_books_def)
    from send_to_reliable [OF p(1) this] obtain s2 where s2: "send_to api k a v = (True, s2)" "quiet s2 = quiet v"
      "reliable (net s2 k)" "conn_wire (net s2 k) = conn_wire (net v k) @ EncodeFrame p"
      by blast
    have "document s2 = document v" "revision s2 = revision v" "session_code s2 = session_code v"
      "peer_socket s2 = peer_socket v"
      using arg_cong [OF s2(2), of document] arg_cong [OF s2(2), of revision] arg_cong [OF s2(2), of session_code]
        arg_cong [OF s2(2), of peer_socket] by simp_all
    then show ?thesis
      using a s1 s2 p allowed assms(5) v by (auto simp: announced_on_def announced_edit_received same_books_def)
  qed
  then show thesis
    using a s1 by (intro that [of a s1]) simp_all
qed

text \<open>The host's own operation, and a request of the guest.\<close>

lemma local_request_edit:
  assumes "edit_allowed (operation_edit op) t" and "length t \<le> kMaxDocumentChars"
  shows "requested_edit (local_request op (wide ''A'') s) = Some (operation_edit op)"
  using edit_positions [OF assms]
  by (auto simp: requested_edit_def local_request_def operation_edit_def Let_def split: editor_operation_type.splits)

lemma host_sends_one:
  assumes "utf8_api api" and "session_ok (session_code s)" and "apply_operation op (document s) = (Applied, doc')"
    and "typed_ok (op_text op)" and "length (document s) \<le> kMaxDocumentChars" and "unat (revision s) + 1 < 2 ^ 64"
    and "peer_socket s = Some k" and "reliable (net s k)"
  obtains m s1 where "ApplyLocalOperation api op (wide ''A'') s = (Some m, s1)"
    and "announced_on api k (wide ''A'') s s1 (received m)" and "document s1 = doc'"
    and "revision s1 = revision s + 1" and "event_queue s1 = event_queue s"
    and "GetNumber m (wide ''rev'') = Some (revision s + 1)"
proof -
  let ?m = "local_request op (wide ''A'') s"
  note op = applied_operation [OF assms(3) typed_ok_short [OF assms(4)] assms(5)]
  have req: "requested_edit ?m = Some (operation_edit op)" by (rule local_request_edit [OF op(1) assms(5)])
  have hdr: "msg_session ?m = session_code s" "msg_client ?m = wide ''A''"
    "\<forall>x. GetString ?m (wide ''text'') = Some x \<longrightarrow> typed_ok x"
    using assms(4) by (simp_all add: local_request_def Let_def split: editor_operation_type.splits)
  have acc: "edit_accepted ?m s" using hdr(1,2) req op(1) by (simp add: edit_accepted_def)
  obtain a s1 where a: "ApplyMessageToDocument api ?m s = (Inr a, s1)"
    "\<forall>v. same_books s1 v \<longrightarrow> fst (send_to api k a v) \<and>
      announced_on api k (msg_client ?m) s (snd (send_to api k a v)) (received a)"
    "document s1 = do_edit (operation_edit op) (document s)" "revision s1 = revision s + 1"
    "peer_socket s1 = peer_socket s" "event_queue s1 = event_queue s" "GetNumber a (wide ''rev'') = Some (revision s + 1)"
    by (rule accepted_announcement [OF assms(1,2) acc req assms(6) hdr(3) assms(8)])
  have "ApplyLocalOperation api op (wide ''A'') s = (Some a, snd (send_to api k a s1))"
    using a(1,5) assms(7) by (simp add: ApplyLocalOperation_def BroadcastApply_def)
  then show thesis
    using that [of a "snd (send_to api k a s1)"] a(2) hdr(2) a(3,4,6,7) op(2) by (simp add: same_books_def)
qed

lemma server_takes_request:
  assumes "utf8_api api" and "session_ok (session_code s)" and "request_ok (session_code s) m"
    and "requested_edit m = Some e" and "edit_allowed e (document s)" and "unat (revision s) + 1 < 2 ^ 64"
    and "peer_socket s = Some k" and "reliable (net s k)"
  obtains a s1 where "HandleEditMessage api k m s = (True, s1)"
    and "announced_on api k (wide ''B'') s s1 (received a)" and "document s1 = do_edit e (document s)"
    and "revision s1 = revision s + 1"
    and "event_queue s1 = event_queue s @ [\<lparr>ev_type = EvApply, ev_message = a, ev_detail = []\<rparr>]"
    and "leads (wide ''B'') [a] (document s) (revision s) (document s1) (revision s1)"
proof -
  have acc: "edit_accepted m s" using assms(3,4,5) by (simp add: edit_accepted_def request_ok_def)
  have client: "msg_client m = wide ''B''" and typed: "\<forall>x. GetString m (wide ''text'') = Some x \<longrightarrow> typed_ok x"
    using assms(3) by (simp_all add: request_ok_def)
  obtain a s1 where a: "ApplyMessageToDocument api m s = (Inr a, s1)"
    "\<forall>v. same_books s1 v \<longrightarrow> fst (send_to api k a v) \<and>
      announced_on api k (msg_client m) s (snd (send_to api k a v)) (received a)"
    "document s1 = do_edit e (document s)" "revision s1 = revision s + 1" "event_queue s1 = event_queue s"
    "GetNumber a (wide ''rev'') = Some (revision s + 1)" "announced_edit a = Some e" "msg_client a = msg_client m"
    "msg_type a = MsgApply"
    by (rule accepted_announcement [OF assms(1,2) acc assms(4,6) typed assms(8)])
  define v where "v = PushEvent (default_event\<lparr>ev_type := EvApply, ev_message := a\<rparr>) s1"
  have "HandleEditMessage api k m s = send_to api k a v"
    using a(1) client by (simp add: HandleEditMessage_def edit_and_notify_def v_def)
  moreover have "same_books s1 v" by (simp add: same_books_def v_def)
  ultimately show thesis
    using that [of "snd (send_to api k a v)" a] a client assms(5,6)
    by (cases "send_to api k a v") (auto simp: v_def default_event_def)
qed

section \<open>What a window sends\<close>

text \<open>
  The operations of one change of the host, one after the other, and all they leave alone. The
  edits of a step are counted, so that the revision does not wrap.
\<close>

definition host_sent :: "text_api \<Rightarrow> socket \<Rightarrow> window \<Rightarrow> window \<Rightarrow> protocol_message list \<Rightarrow> bool" where
  "host_sent api k w w' ms \<longleftrightarrow>
     (\<exists>s' r. w' = w\<lparr>n_server := s', n_revision := r\<rparr>) \<and>
     leads (wide ''A'') ms (document (n_server w)) (revision (n_server w)) (document (n_server w')) (revision (n_server w')) \<and>
     (\<exists>ps. carries api ps ms \<and> conn_wire (net (n_server w') k) = conn_wire (net (n_server w) k) @ frames ps) \<and>
     peer_socket (n_server w') = peer_socket (n_server w) \<and> session_code (n_server w') = session_code (n_server w) \<and>
     event_queue (n_server w') = event_queue (n_server w) \<and> reliable (net (n_server w') k) \<and>
     n_revision w' = revision (n_server w')"

lemma host_sent_trans:
  assumes "host_sent api k u v ms" and "host_sent api k v w ns"
  shows "host_sent api k u w (ms @ ns)"
proof -
  obtain ps qs where "carries api ps ms" "conn_wire (net (n_server v) k) = conn_wire (net (n_server u) k) @ frames ps"
    "carries api qs ns" "conn_wire (net (n_server w) k) = conn_wire (net (n_server v) k) @ frames qs"
    using assms by (auto simp: host_sent_def)
  then have "\<exists>ps. carries api ps (ms @ ns) \<and> conn_wire (net (n_server w) k) = conn_wire (net (n_server u) k) @ frames ps"
    by (intro exI [of _ "ps @ qs"]) (simp add: carries_append frames_append)
  moreover have "\<exists>s' r. w = u\<lparr>n_server := s', n_revision := r\<rparr>"
  proof -
    obtain s1 r1 s2 r2 where "v = u\<lparr>n_server := s1, n_revision := r1\<rparr>" "w = v\<lparr>n_server := s2, n_revision := r2\<rparr>"
      using assms by (auto simp: host_sent_def)
    then have "w = u\<lparr>n_server := s2, n_revision := r2\<rparr>" by simp
    then show ?thesis by blast
  qed
  moreover have "leads (wide ''A'') (ms @ ns) (document (n_server u)) (revision (n_server u))
      (document (n_server w)) (revision (n_server w))"
    using assms by (auto simp: host_sent_def leads_append)
  ultimately show ?thesis
    using assms by (simp add: host_sent_def)
qed

lemma host_sends:
  assumes "utf8_api api" and "session_ok (session_code (n_server w))" and "n_role w = Host" and "n_local w = wide ''A''"
    and "apply_operations ops (document (n_server w)) = Some doc'" and "\<forall>op \<in> set ops. typed_ok (op_text op)"
    and "length (document (n_server w)) \<le> kMaxDocumentChars" and "unat (revision (n_server w)) + length ops < 2 ^ 64"
    and "peer_socket (n_server w) = Some k" and "reliable (net (n_server w) k)" and "n_revision w = revision (n_server w)"
  shows "\<exists>ms. host_sent api k w (fold (send_local_operation_main api) ops w) ms \<and>
     document (n_server (fold (send_local_operation_main api) ops w)) = doc'"
  using assms(2-)
proof (induction ops arbitrary: w)
  case Nil
  have "w\<lparr>n_server := n_server w, n_revision := n_revision w\<rparr> = w" by simp
  then have "\<exists>s' r. w = w\<lparr>n_server := s', n_revision := r\<rparr>" by metis
  with Nil show ?case by (intro exI [of _ "[]"]) (auto simp: host_sent_def)
next
  case (Cons op ops)
  let ?s = "n_server w"
  obtain doc1 where op: "apply_operation op (document ?s) = (Applied, doc1)" "apply_operations ops doc1 = Some doc'"
    using Cons.prems(4) by (auto split: prod.splits document_apply_status.splits)
  have typed: "typed_ok (op_text op)" and small: "unat (revision ?s) + 1 < 2 ^ 64"
    using Cons.prems(5,7) by simp_all
  obtain m s1 where s1: "ApplyLocalOperation api op (wide ''A'') ?s = (Some m, s1)"
    "announced_on api k (wide ''A'') ?s s1 (received m)" "document s1 = doc1" "revision s1 = revision ?s + 1"
    "event_queue s1 = event_queue ?s" "GetNumber m (wide ''rev'') = Some (revision ?s + 1)"
    by (rule host_sends_one [OF assms(1) Cons.prems(1) op(1) typed Cons.prems(6) small Cons.prems(8,9)])
  define w1 where "w1 = send_local_operation_main api op w"
  have w1: "w1 = w\<lparr>n_server := s1, n_revision := revision s1\<rparr>"
    using s1(1,4,6) Cons.prems(2,3) by (simp add: w1_def send_local_operation_main_def optional_number_def)
  have sent: "host_sent api k w w1 [received m]"
  proof -
    obtain p where "carries api [p] [received m]" "conn_wire (net s1 k) = conn_wire (net ?s k) @ EncodeFrame p"
      using s1(2) by (auto simp: announced_on_def)
    then have "\<exists>ps. carries api ps [received m] \<and> conn_wire (net s1 k) = conn_wire (net ?s k) @ frames ps"
      by (intro exI [of _ "[p]"]) simp
    moreover have "\<exists>s' r. w1 = w\<lparr>n_server := s', n_revision := r\<rparr>" using w1 by blast
    ultimately show ?thesis
      using s1(2,5) by (simp add: host_sent_def announced_on_def w1 del: leads.simps)
  qed
  have "length doc1 \<le> kMaxDocumentChars"
    using applied_operation(3) [OF op(1) typed_ok_short [OF typed] Cons.prems(6)] .
  moreover have "unat (revision s1) + length ops < 2 ^ 64"
    using s1(4) Cons.prems(7) next_revision [OF small] by simp
  ultimately have "\<exists>ms. host_sent api k w1 (fold (send_local_operation_main api) ops w1) ms \<and>
     document (n_server (fold (send_local_operation_main api) ops w1)) = doc'"
    using Cons.prems s1 op(2) by (intro Cons.IH) (simp_all add: w1 announced_on_def)
  then show ?case
    using host_sent_trans [OF sent] by (auto simp: w1_def)
qed

text \<open>The requests of one change of the guest; only the send queue changes.\<close>

lemma guest_sends_one:
  assumes "utf8_api api" and "guest_linked code w" and "session_ok code" and "apply_operation op t = (Applied, t')"
    and "typed_ok (op_text op)" and "length t \<le> kMaxDocumentChars"
  obtains m p where "send_local_operation_main api op w =
      w\<lparr>n_client := (n_client w)\<lparr>c_send_queue := c_send_queue (n_client w) @ [EncodeFrame p]\<rparr>\<rparr>"
    and "carries api [p] [m]" and "asks code [m] t t'" and "requested_edit m = Some (operation_edit op)"
proof -
  let ?c = "n_client w"
  have g: "n_role w = Guest" "c_connected ?c" "\<not> c_stopping ?c" "c_assigned ?c = wide ''B''" "c_session_code ?c = code"
    using assms(2) by (simp_all add: guest_linked_def)
  note op = applied_operation [OF assms(4) typed_ok_short [OF assms(5)] assms(6)]
  define m where "m = (case op_type op of
      OpInsert \<Rightarrow> insert_message (n_revision w) (op_position op) (op_text op) ?c
    | OpDelete \<Rightarrow> delete_message (n_revision w) (op_position op) (op_length op) ?c)"
  have b: "text_ok (c_assigned ?c)" "c_assigned ?c \<noteq> []" "session_ok (c_session_code ?c)"
    using g assms(3) by (simp_all add: text_ok_def)
  have "small_message m"
    using small_insert [OF b(3,2,1) assms(5)] small_delete [OF b(3,2,1)] by (simp add: m_def split: editor_operation_type.splits)
  then obtain p where p: "SerializeMessage api m = Inr p" "carries api [p] [received m]"
    using small_message_carried [OF assms(1)] by blast
  have nonempty: "op_type op = OpInsert \<Longrightarrow> op_text op \<noteq> []" "op_type op = OpDelete \<Longrightarrow> op_length op \<noteq> 0"
    using op(1) by (auto simp: operation_edit_def edit_allowed_def)
  have enq: "snd (EnqueueMessage api m ?c) = ?c\<lparr>c_send_queue := c_send_queue ?c @ [EncodeFrame p]\<rparr>"
    using p(1) g by (simp add: EnqueueMessage_def queue_push_def)
  then have send: "send_local_operation_main api op w =
      w\<lparr>n_client := ?c\<lparr>c_send_queue := c_send_queue ?c @ [EncodeFrame p]\<rparr>\<rparr>"
    using g(1) nonempty
    by (cases "op_type op") (simp_all add: send_local_operation_main_def SendInsert_def SendDelete_def m_def Let_def)
  have "requested_edit (received m) = Some (operation_edit op)"
    using edit_positions [OF op(1) assms(6)]
    by (cases "op_type op")
      (simp_all add: m_def requested_edit_def insert_message_def delete_message_def client_message_def operation_edit_def)
  moreover have "request_ok code (received m)"
    using g assms(5)
    by (cases "op_type op") (simp_all add: m_def request_ok_def insert_message_def delete_message_def client_message_def)
  ultimately show thesis
    using that [OF send p(2)] op(1,2) by simp
qed

lemma guest_sends:
  assumes "utf8_api api" and "guest_linked code w" and "session_ok code" and "apply_operations ops t = Some t'"
    and "\<forall>op \<in> set ops. typed_ok (op_text op)" and "length t \<le> kMaxDocumentChars"
  shows "\<exists>ps ms. fold (send_local_operation_main api) ops w =
      w\<lparr>n_client := (n_client w)\<lparr>c_send_queue := c_send_queue (n_client w) @ map EncodeFrame ps\<rparr>\<rparr> \<and>
    carries api ps ms \<and> asks code ms t t' \<and> length ps = length ops"
  using assms(2-)
proof (induction ops arbitrary: w t)
  case Nil
  then show ?case by (intro exI [of _ "[]"]) simp
next
  case (Cons op ops)
  obtain t1 where op: "apply_operation op t = (Applied, t1)" "apply_operations ops t1 = Some t'"
    using Cons.prems(3) by (auto split: prod.splits document_apply_status.splits)
  have typed: "typed_ok (op_text op)" using Cons.prems(4) by simp
  obtain m p where m: "send_local_operation_main api op w =
      w\<lparr>n_client := (n_client w)\<lparr>c_send_queue := c_send_queue (n_client w) @ [EncodeFrame p]\<rparr>\<rparr>"
    "carries api [p] [m]" "asks code [m] t t1"
    by (rule guest_sends_one [OF assms(1) Cons.prems(1,2) op(1) typed Cons.prems(5)])
  define w1 where "w1 = send_local_operation_main api op w"
  have "guest_linked code w1"
    using Cons.prems(1) by (simp add: w1_def m(1) guest_linked_def)
  moreover have "length t1 \<le> kMaxDocumentChars"
    using applied_operation(3) [OF op(1) typed_ok_short [OF typed] Cons.prems(5)] .
  ultimately obtain ps ms where ps: "fold (send_local_operation_main api) ops w1 =
      w1\<lparr>n_client := (n_client w1)\<lparr>c_send_queue := c_send_queue (n_client w1) @ map EncodeFrame ps\<rparr>\<rparr>"
    "carries api ps ms" "asks code ms t1 t'" "length ps = length ops"
    using Cons.IH [of w1 t1] Cons.prems(2,4) op(2) by auto
  then show ?case
    using m by (intro exI [of _ "p # ps"] exI [of _ "m # ms"]) (auto simp: w1_def m(1))
qed

section \<open>A change of one unit\<close>

lemma single_change:
  assumes "length (p @ [y] @ s) \<le> kMaxDocumentChars" and "x \<noteq> y"
  shows "operations (ComputeEditorDiff (p @ [x] @ s) (p @ [y] @ s)) = [delete_op (length p) 1, insert_op (length p) [y]]"
proof -
  let ?old = "p @ [x] @ s" and ?new = "p @ [y] @ s" and ?n = "length p"
  have ne: "?old \<noteq> ?new" using assms(2) by simp
  obtain q d i u where split: "?old = q @ d @ u" "?new = q @ i @ u"
    and ops: "operations (ComputeEditorDiff ?old ?new) =
      (if d \<noteq> [] then [delete_op (length q) (length d)] else []) @ (if i \<noteq> [] then [insert_op (length q) i] else [])"
    and ends: "d \<noteq> [] \<and> i \<noteq> [] \<longrightarrow> hd d \<noteq> hd i \<and> last d \<noteq> last i"
    by (rule diff_decompose [OF assms(1) ne]) (rule that)
  have len: "length d = length i"
    using arg_cong [OF split(1), of length] arg_cong [OF split(2), of length] by simp
  then have d: "d \<noteq> []" "i \<noteq> []" using split ne by auto
  have differ: "j = ?n" if "j < length ?old" "?old ! j \<noteq> ?new ! j" for j
    using that by (auto simp: nth_append nth_Cons' split: if_splits)
  have total: "length ?old = length q + length d + length u" using arg_cong [OF split(1), of length] by simp
  have a: "?old ! length q = hd d" "?new ! length q = hd i"
    using d len unfolding split by (simp_all add: nth_append hd_conv_nth)
  have b: "?old ! (length q + length d - 1) = last d" "?new ! (length q + length d - 1) = last i"
  proof -
    obtain d0 x0 i0 y0 where di: "d = d0 @ [x0]" "i = i0 @ [y0]" using d by (cases d rule: rev_cases; cases i rule: rev_cases) auto
    then have "length d0 = length i0" using len by simp
    with di show "?old ! (length q + length d - 1) = last d" "?new ! (length q + length d - 1) = last i"
      unfolding split by (simp_all add: nth_append)
  qed
  have "length q = ?n"
    using differ [of "length q"] a ends d total by simp
  moreover have "length q + length d - 1 = ?n"
    using differ [of "length q + length d - 1"] b ends d total by (simp flip: length_greater_0_conv)
  ultimately have q: "length q = ?n" "length d = 1" using d by (simp_all flip: length_greater_0_conv)
  have "i = [hd i]" using q(2) len by (cases i) auto
  moreover have "hd i = y" using a(2) q(1) by (simp add: nth_append)
  ultimately show ?thesis using ops d q by simp
qed

end
