(* ===== verification/TurnTaking.thy ===== *)
theory TurnTaking
  imports SessionLemmas
begin

text \<open>
  The invariant of a session in which people take turns: whatever is under way brings each window
  to the text its user sees coming. \<open>brings own ms t r t' r'\<close> says it of a window: handling the APPLY
  messages \<open>ms\<close> takes its text from \<open>t\<close> to \<open>t'\<close> and its revision from \<open>r\<close> to \<open>r'\<close>, where the echoes of
  its own edits change the revision only.
\<close>

section \<open>What a window makes of the messages under way\<close>

fun brings :: "wstr \<Rightarrow> protocol_message list \<Rightarrow> wstr \<Rightarrow> u64 \<Rightarrow> wstr \<Rightarrow> u64 \<Rightarrow> bool" where
  "brings own [] t r t' r' \<longleftrightarrow> t = t' \<and> r = r'"
| "brings own (m # ms) t r t' r' \<longleftrightarrow>
     msg_type m = MsgApply \<and> GetNumber m (wide ''rev'') = Some (r + 1) \<and> unat r + 1 < 2 ^ 64 \<and>
     (\<exists>e. announced_edit m = Some e \<and>
        (if msg_client m = own then brings own ms t (r + 1) t' r'
         else edit_allowed e t \<and> brings own ms (do_edit e t) (r + 1) t' r'))"

lemma brings_append:
  "brings own (ms @ ns) t r t' r' \<longleftrightarrow> (\<exists>t1 r1. brings own ms t r t1 r1 \<and> brings own ns t1 r1 t' r')"
proof (induction ms arbitrary: t r)
  case (Cons m ms)
  then show ?case by simp blast
qed simp

lemma leads_brings_other: "leads c ms t r t' r' \<Longrightarrow> c \<noteq> own \<Longrightarrow> brings own ms t r t' r'"
  by (induction ms arbitrary: t r) auto

lemma leads_brings_own: "leads own ms t r t' r' \<Longrightarrow> brings own ms u r u r'"
  by (induction ms arbitrary: t r) auto

lemma brings_apply: "brings own ms t r t' r' \<Longrightarrow> \<forall>m \<in> set ms. msg_type m = MsgApply"
  by (induction ms arbitrary: t r) (auto split: if_splits)

definition apply_event :: "protocol_message \<Rightarrow> sync_event" where
  "apply_event m = \<lparr>ev_type = EvApply, ev_message = m, ev_detail = []\<rparr>"

text \<open>One event: what a window keeps, besides its text and revision.\<close>

definition keeps_room :: "window \<Rightarrow> window \<Rightarrow> bool" where
  "keeps_room w w' \<longleftrightarrow> n_role w' = n_role w \<and> n_local w' = n_local w \<and> n_server w' = n_server w \<and>
     n_client w' = n_client w \<and> (window_ready w \<longrightarrow> window_ready w')"

lemma handle_apply:
  assumes "brings (n_local w) (m # ms) (n_editor w) (n_revision w) t r"
  shows "keeps_room w (HandleSyncEvent_main api (apply_event m) w)"
    and "brings (n_local w) ms (n_editor (HandleSyncEvent_main api (apply_event m) w))
           (n_revision (HandleSyncEvent_main api (apply_event m) w)) t r"
proof -
  let ?w = "HandleSyncEvent_main api (apply_event m) w"
  obtain e where e: "announced_edit m = Some e" "GetNumber m (wide ''rev'') = Some (n_revision w + 1)"
    "unat (n_revision w) + 1 < 2 ^ 64"
    "if msg_client m = n_local w then brings (n_local w) ms (n_editor w) (n_revision w + 1) t r
     else edit_allowed e (n_editor w) \<and> brings (n_local w) ms (do_edit e (n_editor w)) (n_revision w + 1) t r"
    using assms by auto
  have w: "?w = ApplySyncApply_main api m w" by (simp add: HandleSyncEvent_main_def apply_event_def)
  have "keeps_room w ?w \<and> brings (n_local w) ms (n_editor ?w) (n_revision ?w) t r"
  proof (cases "msg_client m = n_local w")
    case True
    obtain pos operation where f: "GetNumber m (wide ''pos'') = Some pos" "GetString m (wide ''op'') = Some operation"
      using announced_edit_fields [OF e(1)] by blast
    have "\<not> n_revision w + 1 \<le> n_revision w"
      using next_revision [OF e(3)] by (simp add: word_le_nat_alt)
    then have "?w = w\<lparr>n_revision := n_revision w + 1\<rparr>"
      using f e(2) True by (simp add: w ApplySyncApply_main_def)
    then show ?thesis
      using e(4) True by (simp add: keeps_room_def window_ready_def editor_ok_def)
  next
    case False
    obtain p d x where pdx: "e = (p, d, x)" by (cases e)
    obtain sel where "?w = take_text (splice p d x (n_editor w)) sel (n_revision w + 1) nt_synced w"
      using ApplySyncApply_main_edit [of m p d x w api] e False by (auto simp: w pdx)
    then show ?thesis
      using e(4) False by (simp add: pdx do_edit_def keeps_room_def window_ready_def editor_ok_def)
  qed
  then show "keeps_room w ?w" "brings (n_local w) ms (n_editor ?w) (n_revision ?w) t r" by blast+
qed

section \<open>Draining\<close>

text \<open>Both queues end up empty, and the window where its messages bring it.\<close>

definition drained :: "wstr \<Rightarrow> u64 \<Rightarrow> window \<Rightarrow> window \<Rightarrow> bool" where
  "drained t r w w' \<longleftrightarrow> n_editor w' = t \<and> n_revision w' = r \<and> n_role w' = n_role w \<and> n_local w' = n_local w \<and>
     n_server w' = (n_server w)\<lparr>event_queue := []\<rparr> \<and> n_client w' = (n_client w)\<lparr>c_events := []\<rparr> \<and>
     (window_ready w \<longrightarrow> window_ready w')"

lemma drain_client_brings:
  assumes "c_events (n_client w) = map apply_event ms" and "event_queue (n_server w) = []"
    and "brings (n_local w) ms (n_editor w) (n_revision w) t r"
  shows "drained t r w (drain_client_events_main api w)"
  using assms
proof (induction ms arbitrary: w)
  case Nil
  have "(n_client w)\<lparr>c_events := []\<rparr> = n_client w" "(n_server w)\<lparr>event_queue := []\<rparr> = n_server w"
    using Nil.prems(1,2) by simp_all
  with Nil show ?case by (simp add: drain_client_main_Nil drained_def)
next
  case (Cons m ms)
  define w1 where "w1 = w\<lparr>n_client := (n_client w)\<lparr>c_events := map apply_event ms\<rparr>\<rparr>"
  define w2 where "w2 = HandleSyncEvent_main api (apply_event m) w1"
  have d: "drain_client_events_main api w = drain_client_events_main api w2"
    using Cons.prems(1) by (subst drain_client_events_main.simps) (simp add: TryPopClientEvent_def w1_def w2_def)
  have "brings (n_local w1) (m # ms) (n_editor w1) (n_revision w1) t r"
    using Cons.prems(3) by (simp add: w1_def del: brings.simps)
  from handle_apply [OF this, of api] have k: "keeps_room w1 w2" "brings (n_local w1) ms (n_editor w2) (n_revision w2) t r"
    by (simp_all add: w2_def)
  have "drained t r w2 (drain_client_events_main api w2)"
    using k Cons.prems(2) by (intro Cons.IH) (simp_all add: keeps_room_def w1_def)
  with k(1) show ?case
    by (auto simp: d drained_def keeps_room_def w1_def window_ready_def editor_ok_def)
qed

lemma drain_server_brings:
  assumes "event_queue (n_server w) = map apply_event ms" and "c_events (n_client w) = []"
    and "brings (n_local w) ms (n_editor w) (n_revision w) t r"
  shows "drained t r w (drain_server_events_main api w)"
  using assms
proof (induction ms arbitrary: w)
  case Nil
  have "(n_client w)\<lparr>c_events := []\<rparr> = n_client w" "(n_server w)\<lparr>event_queue := []\<rparr> = n_server w"
    using Nil.prems(1,2) by simp_all
  with Nil show ?case by (simp add: drain_server_main_Nil drained_def)
next
  case (Cons m ms)
  define w1 where "w1 = w\<lparr>n_server := (n_server w)\<lparr>event_queue := map apply_event ms\<rparr>\<rparr>"
  define w2 where "w2 = HandleSyncEvent_main api (apply_event m) w1"
  have d: "drain_server_events_main api w = drain_server_events_main api w2"
    using Cons.prems(1) by (subst drain_server_events_main.simps) (simp add: TryPopEvent_def w1_def w2_def)
  have "brings (n_local w1) (m # ms) (n_editor w1) (n_revision w1) t r"
    using Cons.prems(3) by (simp add: w1_def del: brings.simps)
  from handle_apply [OF this, of api] have k: "keeps_room w1 w2" "brings (n_local w1) ms (n_editor w2) (n_revision w2) t r"
    by (simp_all add: w2_def)
  have "drained t r w2 (drain_server_events_main api w2)"
    using k Cons.prems(2) by (intro Cons.IH) (simp_all add: keeps_room_def w1_def)
  with k(1) show ?case
    by (auto simp: d drained_def keeps_room_def w1_def window_ready_def editor_ok_def)
qed

lemma DrainSyncEvents_brings:
  assumes "event_queue (n_server w) = map apply_event ms" and "c_events (n_client w) = map apply_event ns"
    and "ms = [] \<or> ns = []" and "brings (n_local w) (ms @ ns) (n_editor w) (n_revision w) t r"
  shows "drained t r w (DrainSyncEvents_main api w)"
proof (cases "ms = []")
  case True
  with assms show ?thesis
    using drain_client_brings [of w ns t r api] by (simp add: DrainSyncEvents_main_def drain_server_main_Nil)
next
  case False
  with assms have "drained t r w (drain_server_events_main api w)"
    using drain_server_brings [of w ms t r api] by simp
  moreover from this False assms(2,3) have "c_events (n_client (drain_server_events_main api w)) = []"
    by (simp add: drained_def)
  ultimately show ?thesis by (simp add: DrainSyncEvents_main_def drain_client_main_Nil)
qed

section \<open>What an edit sends\<close>

text \<open>The shortcuts touch the text, the caret, the formats and the status line.\<close>

definition styled :: "window \<Rightarrow> window \<Rightarrow> bool" where
  "styled w w' \<longleftrightarrow> n_server w' = n_server w \<and> n_client w' = n_client w \<and> n_role w' = n_role w \<and> n_local w' = n_local w \<and>
     n_last w' = n_last w \<and> n_revision w' = n_revision w \<and> n_ime w' = n_ime w \<and> n_suppress w' = n_suppress w \<and>
     n_remote w' = n_remote w \<and> n_shortcut w' = n_shortcut w \<and>
     length (n_editor w') \<le> length (n_editor w)"

lemma shortcut_styled:
  "styled w (ApplyHeadingShortcut i n h w)" "styled w (ApplyBulletShortcut i n w)"
  "styled w (ApplyQuoteShortcut i n w)" "styled w (ApplyCodeShortcut i n w)" "styled w w"
  by (simp_all add: styled_def shortcut_defs list_erase_at_def)

lemma styled_trans: "styled u v \<Longrightarrow> styled v w \<Longrightarrow> styled u w"
  by (simp add: styled_def)

lemma styled_after_shortcut: "styled (w\<lparr>n_editor := t, n_selection := sel\<rparr>) (after_shortcut t sel w)"
proof -
  define w0 where "w0 = w\<lparr>n_editor := t, n_selection := sel\<rparr>"
  have "styled w0 (ResetMarkdownStyleAtLineBreakIfNeeded w0)"
    by (simp add: ResetMarkdownStyleAtLineBreakIfNeeded_def Let_def styled_def)
  moreover have "styled v (ApplyMarkdownShortcutIfNeeded v)" for v
    unfolding ApplyMarkdownShortcutIfNeeded_def Let_def
    by (simp only: shortcut_styled simp_thms split: if_split option.split prod.split shortcut.split)
  ultimately show ?thesis
    unfolding after_shortcut_def w0_def [symmetric] by (rule styled_trans)
qed

lemma after_shortcut_frame:
  "n_server (after_shortcut t sel w) = n_server w" "n_client (after_shortcut t sel w) = n_client w"
  "n_role (after_shortcut t sel w) = n_role w" "n_local (after_shortcut t sel w) = n_local w"
  "n_last (after_shortcut t sel w) = n_last w" "n_revision (after_shortcut t sel w) = n_revision w"
  "n_ime (after_shortcut t sel w) = n_ime w" "n_suppress (after_shortcut t sel w) = n_suppress w"
  "n_remote (after_shortcut t sel w) = n_remote w" "n_shortcut (after_shortcut t sel w) = n_shortcut w"
  "length (n_editor (after_shortcut t sel w)) \<le> length t"
  using styled_after_shortcut [of sel t w] by (simp_all add: styled_def)

lemma WmEdited_result:
  assumes "HandleMessage api ue (WmEdited t sel) w = Some w'" and "window_ready w"
  shows "w' = ProcessEditorChange api (after_shortcut t sel w)"
  using assms by (simp add: OnEditorChanged_def after_shortcut_def window_ready_def editor_ok_def)

lemma ProcessEditorChange_fields:
  assumes "length (n_editor v) \<le> kMaxDocumentChars"
    and u: "u = fold (send_local_operation_main api) (operations (ComputeEditorDiff (n_last v) (n_editor v))) v"
    and "n_role v \<noteq> Offline" and "n_ime u = n_ime v" and "n_suppress u = n_suppress v" and "n_remote u = n_remote v"
    and "n_shortcut u = n_shortcut v" and "n_editor u = n_editor v"
  shows "n_server (ProcessEditorChange api v) = n_server u" and "n_client (ProcessEditorChange api v) = n_client u"
    and "n_role (ProcessEditorChange api v) = n_role u" and "n_local (ProcessEditorChange api v) = n_local u"
    and "n_revision (ProcessEditorChange api v) = n_revision u" and "n_editor (ProcessEditorChange api v) = n_editor v"
    and "n_last (ProcessEditorChange api v) = n_editor v"
    and "\<not> n_ime v \<Longrightarrow> \<not> n_suppress v \<Longrightarrow> \<not> n_remote v \<Longrightarrow> \<not> n_shortcut v \<Longrightarrow> window_ready (ProcessEditorChange api v)"
proof -
  let ?d = "ComputeEditorDiff (n_last v) (n_editor v)"
  have valid: "valid ?d" and same: "\<not> changed ?d \<Longrightarrow> n_editor v = n_last v" "\<not> changed ?d \<Longrightarrow> operations ?d = []"
    using assms(1) by (auto simp: ComputeEditorDiff_def Let_def split: prod.splits if_splits)
  have send: "SendLocalOperations_main api ?d v = u"
    using assms(3) by (simp add: SendLocalOperations_main_def u)
  have unchanged: "\<not> changed ?d \<Longrightarrow> ProcessEditorChange api v = v \<and> u = v"
    using same(2) valid unfolding u by (simp add: ProcessEditorChange_def Let_def)
  show "n_server (ProcessEditorChange api v) = n_server u" "n_client (ProcessEditorChange api v) = n_client u"
    "n_role (ProcessEditorChange api v) = n_role u" "n_local (ProcessEditorChange api v) = n_local u"
    "n_revision (ProcessEditorChange api v) = n_revision u" "n_editor (ProcessEditorChange api v) = n_editor v"
    "n_last (ProcessEditorChange api v) = n_editor v"
    "\<not> n_ime v \<Longrightarrow> \<not> n_suppress v \<Longrightarrow> \<not> n_remote v \<Longrightarrow> \<not> n_shortcut v \<Longrightarrow> window_ready (ProcessEditorChange api v)"
    using assms(4-) valid unchanged same(1)
    by (cases "changed ?d"; simp add: ProcessEditorChange_def Let_def send set_status_def window_ready_def editor_ok_def)+
qed

lemma diff_operations_two: "length (operations (ComputeEditorDiff old new)) \<le> 2"
  by (simp add: ComputeEditorDiff_def Let_def split: prod.splits)

text \<open>The host edits when all are in agreement.\<close>

lemma host_types_step:
  assumes "utf8_api api" and "host_ready w" and "editable t sel w" and "HandleMessage api ue (WmEdited t sel) w = Some w'"
    and "n_editor w = document (n_server w)" and "n_revision w = revision (n_server w)"
  shows "host_ready w' \<and> n_client w' = n_client w \<and> session_code (n_server w') = session_code (n_server w) \<and>
    event_queue (n_server w') = event_queue (n_server w) \<and>
    n_editor w' = document (n_server w') \<and> n_revision w' = revision (n_server w') \<and>
    n_editor w' = n_editor (after_shortcut t sel w) \<and>
    (\<exists>ps ms. carries api ps ms \<and> put_on_wire (n_server w) (n_server w') = frames ps \<and>
       leads (wide ''A'') ms (document (n_server w)) (revision (n_server w)) (document (n_server w')) (revision (n_server w')))"
proof -
  define v where "v = after_shortcut t sel w"
  define ops where "ops = operations (ComputeEditorDiff (n_last v) (n_editor v))"
  define u where "u = fold (send_local_operation_main api) ops v"
  have r: "window_ready w" "n_role w = Host" "n_local w = wide ''A''" "session_ok (session_code (n_server w))"
    "length (document (n_server w)) \<le> kMaxDocumentChars" "n_last w = document (n_server w)"
    using assms(2,5) by (auto simp: host_ready_def window_ready_def editor_ok_def)
  obtain k where k: "peer_socket (n_server w) = Some k" "reliable (net (n_server w) k)"
    using assms(2) by (auto simp: host_ready_def)
  have v: "n_server v = n_server w" "n_role v = Host" "n_local v = wide ''A''" "n_last v = document (n_server w)"
    "n_revision v = revision (n_server w)" "length (n_editor v) \<le> kMaxDocumentChars"
    "\<not> n_ime v" "\<not> n_suppress v" "\<not> n_remote v" "\<not> n_shortcut v" "n_client v = n_client w"
    using r assms(3,6) after_shortcut_frame [of t sel w]
    by (simp_all add: v_def editable_def window_ready_def editor_ok_def)
  have typed: "\<forall>op \<in> set ops. typed_ok (op_text op)"
    using assms(3) by (simp add: ops_def v_def editable_def after_shortcut_frame)
  have small: "unat (revision (n_server v)) + length ops < 2 ^ 64"
    using assms(3,6) diff_operations_two [of "n_last v" "n_editor v"] v(1) by (simp add: editable_def ops_def)
  have diff: "apply_operations ops (document (n_server v)) = Some (n_editor v)"
    using diff_reproduces [OF v(6)] v(1,4) by (simp add: ops_def)
  obtain ms where u: "host_sent api k v u ms" "document (n_server u) = n_editor v"
    using host_sends [OF assms(1) _ v(2,3) diff typed _ small, of k] r(4,5) k v(1,5) by (auto simp: u_def)
  have same: "n_ime u = n_ime v" "n_suppress u = n_suppress v" "n_remote u = n_remote v" "n_shortcut u = n_shortcut v"
    "n_editor u = n_editor v" "n_role u = n_role v" "n_local u = n_local v" "n_client u = n_client v"
    using u(1) by (auto simp: host_sent_def)
  note f = ProcessEditorChange_fields [OF v(6) u_def [unfolded ops_def] _ same(1-5)]
  have w': "w' = ProcessEditorChange api v"
    using WmEdited_result [OF assms(4) r(1)] by (simp add: v_def)
  obtain ps where ps: "carries api ps ms" "conn_wire (net (n_server u) k) = conn_wire (net (n_server v) k) @ frames ps"
    using u(1) by (auto simp: host_sent_def)
  then have "put_on_wire (n_server w) (n_server u) = frames ps"
    using u(1) k v(1) by (simp add: put_on_wire_def peer_wire_def host_sent_def)
  then show ?thesis
    using f v u same r k ps(1) assms(2) by (auto simp: w' host_ready_def host_sent_def v_def [symmetric])
qed

text \<open>The guest edits.\<close>

lemma guest_types_step:
  assumes "utf8_api api" and "guest_ready code w" and "session_ok code" and "editable t sel w"
    and "HandleMessage api ue (WmEdited t sel) w = Some w'" and "length (n_editor w) \<le> kMaxDocumentChars"
  shows "guest_ready code w' \<and> n_revision w' = n_revision w \<and> c_events (n_client w') = c_events (n_client w) \<and>
    n_editor w' = n_editor (after_shortcut t sel w) \<and>
    (\<exists>ps ms. carries api ps ms \<and> c_send_queue (n_client w') = c_send_queue (n_client w) @ map EncodeFrame ps \<and>
       length ps \<le> 2 \<and> asks code ms (n_editor w) (n_editor w'))"
proof -
  define v where "v = after_shortcut t sel w"
  define ops where "ops = operations (ComputeEditorDiff (n_last v) (n_editor v))"
  define u where "u = fold (send_local_operation_main api) ops v"
  have r: "window_ready w" "n_last w = n_editor w"
    using assms(2) by (auto simp: guest_ready_def window_ready_def editor_ok_def)
  have v: "guest_linked code v" "n_role v = Guest" "n_last v = n_editor w" "n_revision v = n_revision w"
    "length (n_editor v) \<le> kMaxDocumentChars" "\<not> n_ime v" "\<not> n_suppress v" "\<not> n_remote v" "\<not> n_shortcut v"
    "n_client v = n_client w" "n_server v = n_server w"
    using r assms(2,4) after_shortcut_frame [of t sel w]
    by (simp_all add: v_def guest_ready_def guest_linked_def editable_def window_ready_def editor_ok_def)
  have typed: "\<forall>op \<in> set ops. typed_ok (op_text op)"
    using assms(4) by (simp add: ops_def v_def editable_def after_shortcut_frame)
  have diff: "apply_operations ops (n_editor w) = Some (n_editor v)"
    using diff_reproduces [OF v(5)] v(3) by (simp add: ops_def)
  obtain ps ms where u: "u = v\<lparr>n_client := (n_client v)\<lparr>c_send_queue := c_send_queue (n_client v) @ map EncodeFrame ps\<rparr>\<rparr>"
    "carries api ps ms" "asks code ms (n_editor w) (n_editor v)" "length ps = length ops"
    using guest_sends [OF assms(1) v(1) assms(3) diff typed assms(6)] by (auto simp: u_def)
  have same: "n_ime u = n_ime v" "n_suppress u = n_suppress v" "n_remote u = n_remote v" "n_shortcut u = n_shortcut v"
    "n_editor u = n_editor v"
    by (simp_all add: u(1))
  note f = ProcessEditorChange_fields [OF v(5) u_def [unfolded ops_def] _ same]
  have w': "w' = ProcessEditorChange api v"
    using WmEdited_result [OF assms(5) r(1)] by (simp add: v_def)
  have "length ps \<le> 2" using u(4) diff_operations_two by (simp add: ops_def)
  then show ?thesis
    using f v u(2,3) by (auto simp: w' u(1) guest_ready_def guest_linked_def v_def [symmetric])
qed

end
