(* ===== verification/SessionInvariant.thy ===== *)
theory SessionInvariant
  imports TurnTaking
begin

text \<open>
  Every step of a session keeps the invariant \<open>on_course\<close>, and as long as something is under way a
  delivery is possible that leaves less of it. Deliveries do not change the text the session is on
  course to; only a user does.
\<close>

definition under_way ::
  "text_api \<Rightarrow> session \<Rightarrow> protocol_message list \<Rightarrow> protocol_message list \<Rightarrow> protocol_message list \<Rightarrow> protocol_message list \<Rightarrow> bool" where
  "under_way api x us ds gs hs \<longleftrightarrow>
     (\<exists>ps. c_send_queue (n_client (guest x)) = map EncodeFrame ps \<and> carries api ps us) \<and>
     (\<exists>qs. wire x = frames qs \<and> carries api qs ds) \<and>
     c_events (n_client (guest x)) = map apply_event gs \<and> event_queue (n_server (host x)) = map apply_event hs"

text \<open>
  A session on course to a text \<open>g\<close>: the requests \<open>us\<close> ask for the way from the document to \<open>g\<close>; the
  messages for the guest (\<open>gs\<close> already in its queue, \<open>ds\<close> on the wire) bring it there, and the ones
  for the host (\<open>hs\<close>) bring the host's window to the document.
\<close>

definition on_course :: "text_api \<Rightarrow> wstr \<Rightarrow> session \<Rightarrow> bool" where
  "on_course api g x \<longleftrightarrow>
     (let s = n_server (host x)
      in host_ready (host x) \<and> guest_ready (session_code s) (guest x) \<and>
         (\<exists>us ds gs hs. under_way api x us ds gs hs \<and> asks (session_code s) us (document s) g \<and>
            unat (revision s) + length us < 2 ^ 64 \<and>
            brings (wide ''B'') (gs @ ds) (n_editor (guest x)) (n_revision (guest x)) g (revision s) \<and>
            brings (wide ''A'') hs (n_editor (host x)) (n_revision (host x)) (document s) (revision s)))"

lemma on_courseE:
  assumes "on_course api g x"
  obtains us ds gs hs where "host_ready (host x)" and "guest_ready (session_code (n_server (host x))) (guest x)"
    and "under_way api x us ds gs hs" and "asks (session_code (n_server (host x))) us (document (n_server (host x))) g"
    and "unat (revision (n_server (host x))) + length us < 2 ^ 64"
    and "brings (wide ''B'') (gs @ ds) (n_editor (guest x)) (n_revision (guest x)) g (revision (n_server (host x)))"
    and "brings (wide ''A'') hs (n_editor (host x)) (n_revision (host x)) (document (n_server (host x))) (revision (n_server (host x)))"
  using assms by (auto simp: on_course_def Let_def)

lemma on_courseI:
  "host_ready (host x) \<Longrightarrow> guest_ready (session_code (n_server (host x))) (guest x) \<Longrightarrow>
   under_way api x us ds gs hs \<Longrightarrow> asks (session_code (n_server (host x))) us (document (n_server (host x))) g \<Longrightarrow>
   unat (revision (n_server (host x))) + length us < 2 ^ 64 \<Longrightarrow>
   brings (wide ''B'') (gs @ ds) (n_editor (guest x)) (n_revision (guest x)) g (revision (n_server (host x))) \<Longrightarrow>
   brings (wide ''A'') hs (n_editor (host x)) (n_revision (host x)) (document (n_server (host x))) (revision (n_server (host x))) \<Longrightarrow>
   on_course api g x"
  unfolding on_course_def Let_def by blast

lemma revision_range: "unat (r :: u64) < 18446744073709551616"
  by (rule less_le_trans [OF unsigned_less]) simp

lemma on_course_start: "session_start x \<Longrightarrow> on_course api (document (n_server (host x))) x"
  by (rule on_courseI [where us = "[]" and ds = "[]" and gs = "[]" and hs = "[]"])
    (auto simp: session_start_def under_way_def settled_def in_agreement_def revision_range)

lemma on_course_settled:
  assumes "on_course api g x" and "settled x"
  shows "in_agreement x" and "document (n_server (host x)) = g"
proof -
  let ?s = "n_server (host x)"
  obtain us ds gs hs where u: "under_way api x us ds gs hs" "asks (session_code ?s) us (document ?s) g"
    "brings (wide ''B'') (gs @ ds) (n_editor (guest x)) (n_revision (guest x)) g (revision ?s)"
    "brings (wide ''A'') hs (n_editor (host x)) (n_revision (host x)) (document ?s) (revision ?s)"
    by (rule on_courseE [OF assms(1)])
  have "us = []" "ds = []" "gs = []" "hs = []"
    using u(1) assms(2) by (auto simp: under_way_def settled_def)
  with u show "in_agreement x" "document ?s = g" by (simp_all add: in_agreement_def)
qed

section \<open>Deliveries\<close>

lemma server_takes_on_course:
  assumes "utf8_api api" and "on_course api g x" and "c_send_queue (n_client (guest x)) = f # fs"
    and "FrameDecoder_TryReadFrame f = (Some p, NoError, [])" and "DeserializeMessage api p = (NoError, m)"
    and "peer_socket (n_server (host x)) = Some k" and "HandleEditMessage api k m (n_server (host x)) = (ok, s)"
  shows "on_course api g (x\<lparr>host := (host x)\<lparr>n_server := s\<rparr>,
       guest := (guest x)\<lparr>n_client := (n_client (guest x))\<lparr>c_send_queue := fs\<rparr>\<rparr>,
       wire := wire x @ put_on_wire (n_server (host x)) s\<rparr>)"
proof -
  let ?s = "n_server (host x)"
  obtain us ds gs hs where c: "host_ready (host x)" "guest_ready (session_code ?s) (guest x)"
    "under_way api x us ds gs hs" "asks (session_code ?s) us (document ?s) g" "unat (revision ?s) + length us < 2 ^ 64"
    "brings (wide ''B'') (gs @ ds) (n_editor (guest x)) (n_revision (guest x)) g (revision ?s)"
    "brings (wide ''A'') hs (n_editor (host x)) (n_revision (host x)) (document ?s) (revision ?s)"
    by (rule on_courseE [OF assms(2)])
  obtain ps where ps: "c_send_queue (n_client (guest x)) = map EncodeFrame ps" "carries api ps us"
    using c(3) by (auto simp: under_way_def)
  obtain p' ps' where p': "ps = p' # ps'" "f = EncodeFrame p'" "fs = map EncodeFrame ps'"
    using ps(1) assms(3) by (cases ps) auto
  obtain us' where us: "us = m # us'" "carries api ps' us'"
    using carries_cases [of api p' ps' us] ps(2) p'(1,2) assms(4,5) by (auto simp: TryReadFrame_exact EncodeFrame_def Let_def)
  obtain e where e: "request_ok (session_code ?s) m" "requested_edit m = Some e" "edit_allowed e (document ?s)"
    "asks (session_code ?s) us' (do_edit e (document ?s)) g"
    using c(4) us(1) by auto
  have small: "unat (revision ?s) + 1 < 2 ^ 64" using c(5) us(1) by simp
  have ready: "session_ok (session_code ?s)" "reliable (net ?s k)" "length (document ?s) \<le> kMaxDocumentChars"
    using c(1) assms(6) by (auto simp: host_ready_def)
  obtain a s1 where a: "HandleEditMessage api k m ?s = (True, s1)" "announced_on api k (wide ''B'') ?s s1 (received a)"
    "document s1 = do_edit e (document ?s)" "revision s1 = revision ?s + 1"
    "event_queue s1 = event_queue ?s @ [\<lparr>ev_type = EvApply, ev_message = a, ev_detail = []\<rparr>]"
    "leads (wide ''B'') [a] (document ?s) (revision ?s) (document s1) (revision s1)"
    by (rule server_takes_request [OF assms(1) ready(1) e(1-3) small assms(6) ready(2)])
  have s: "s = s1" using a(1) assms(7) by simp
  obtain q where q: "carries api [q] [received a]" "conn_wire (net s k) = conn_wire (net ?s k) @ EncodeFrame q"
    using a(2) by (auto simp: announced_on_def s)
  obtain qs where qs: "wire x = frames qs" "carries api qs ds"
    using c(3) by (auto simp: under_way_def)
  have kept: "peer_socket s = peer_socket ?s" "session_code s = session_code ?s" "reliable (net s k)"
    "leads (wide ''B'') [received a] (document ?s) (revision ?s) (document s) (revision s)"
    using a(2) by (simp_all add: announced_on_def s)
  have put: "put_on_wire ?s s = EncodeFrame q"
    using q(2) kept(1) assms(6) by (simp add: put_on_wire_def peer_wire_def)
  have "length (document s) \<le> kMaxDocumentChars"
    using do_edit_bounded [OF e(3) ready(3)] a(3) by (simp add: s)
  then have "host_ready ((host x)\<lparr>n_server := s\<rparr>)"
    using c(1) kept assms(6) by (simp add: host_ready_def window_ready_def editor_ok_def)
  moreover have "guest_ready (session_code s) ((guest x)\<lparr>n_client := (n_client (guest x))\<lparr>c_send_queue := fs\<rparr>\<rparr>)"
    using c(2) kept(2) by (simp add: guest_ready_def guest_linked_def window_ready_def editor_ok_def)
  moreover have "under_way api (x\<lparr>host := (host x)\<lparr>n_server := s\<rparr>,
       guest := (guest x)\<lparr>n_client := (n_client (guest x))\<lparr>c_send_queue := fs\<rparr>\<rparr>,
       wire := wire x @ put_on_wire ?s s\<rparr>) us' (ds @ [received a]) gs (hs @ [a])"
  proof -
    have "wire x @ put_on_wire ?s s = frames (qs @ [q])" by (simp add: put qs(1) frames_append)
    moreover have "carries api (qs @ [q]) (ds @ [received a])" by (rule carries_append [OF qs(2) q(1)])
    ultimately show ?thesis
      using c(3) us(2) p'(3) a(5) unfolding under_way_def by (auto simp: s apply_event_def)
  qed
  moreover have "brings (wide ''B'') (gs @ ds @ [received a]) (n_editor (guest x)) (n_revision (guest x)) g (revision s)"
    using c(6) leads_brings_own [OF kept(4), of g] unfolding append_assoc [symmetric] brings_append by blast
  moreover have "brings (wide ''A'') (hs @ [a]) (n_editor (host x)) (n_revision (host x)) (document s) (revision s)"
  proof -
    have "brings (wide ''A'') [a] (document ?s) (revision ?s) (document s) (revision s)"
      using leads_brings_other [OF a(6), of "wide ''A''"] by (simp add: s del: brings.simps)
    with c(7) show ?thesis unfolding brings_append by blast
  qed
  moreover have "unat (revision s) + length us' < 2 ^ 64"
    using c(5) us(1) a(4) next_revision [OF small] by (simp add: s)
  moreover have "asks (session_code s) us' (document s) g"
    using e(4) a(3) kept(2) by (simp add: s)
  ultimately show ?thesis
    by (intro on_courseI [where us = us' and ds = "ds @ [received a]" and gs = gs and hs = "hs @ [a]"]) simp_all
qed

lemma client_takes_on_course:
  assumes "on_course api g x" and "FrameDecoder_TryReadFrame (wire x) = (Some p, NoError, rest)"
    and "DeserializeMessage api p = (NoError, m)"
  shows "on_course api g (x\<lparr>guest := (guest x)\<lparr>n_client := receive_message now m (n_client (guest x))\<rparr>, wire := rest\<rparr>)"
proof -
  let ?s = "n_server (host x)" and ?c = "n_client (guest x)"
  obtain us ds gs hs where c: "host_ready (host x)" "guest_ready (session_code ?s) (guest x)"
    "under_way api x us ds gs hs" "asks (session_code ?s) us (document ?s) g" "unat (revision ?s) + length us < 2 ^ 64"
    "brings (wide ''B'') (gs @ ds) (n_editor (guest x)) (n_revision (guest x)) g (revision ?s)"
    "brings (wide ''A'') hs (n_editor (host x)) (n_revision (host x)) (document ?s) (revision ?s)"
    by (rule on_courseE [OF assms(1)])
  obtain qs where qs: "wire x = frames qs" "carries api qs ds" using c(3) by (auto simp: under_way_def)
  obtain q qs' where q: "qs = q # qs'" using assms(2) qs(1) by (cases qs) (auto simp: TryReadFrame_exact EncodeFrame_def Let_def)
  obtain m' ds' where d: "ds = m' # ds'" "DeserializeMessage api q = (NoError, m')" "length q \<le> kMaxFramePayloadBytes"
    "carries api qs' ds'"
    using carries_cases [of api q qs' ds] qs(2) q by blast
  have pq: "p = q" "rest = frames qs'"
    using assms(2) take_frame [OF d(3), of "frames qs'"] qs(1) q by auto
  have m: "m = m'" using assms(3) d(2) pq(1) by simp
  have "msg_type m = MsgApply" using brings_apply [OF c(6)] d(1) m by simp
  then have r: "receive_message now m ?c = PushClientEvent (apply_event m) ?c"
    by (simp add: receive_message_def apply_event_def default_event_def)
  have "guest_ready (session_code ?s) ((guest x)\<lparr>n_client := receive_message now m ?c\<rparr>)"
    using c(2) by (simp add: r PushClientEvent_def Let_def guest_ready_def guest_linked_def window_ready_def editor_ok_def)
  moreover have "under_way api (x\<lparr>guest := (guest x)\<lparr>n_client := receive_message now m ?c\<rparr>, wire := rest\<rparr>) us ds' (gs @ [m]) hs"
    using c(3) d(4) by (auto simp: under_way_def r PushClientEvent_def queue_push_def Let_def pq(2))
  ultimately show ?thesis
    using c d(1) m by (intro on_courseI [where us = us and ds = ds' and gs = "gs @ [m]" and hs = hs]) simp_all
qed

lemma host_drains_on_course:
  assumes "on_course api g x" and "HandleMessage api ue WmSyncEvent (host x) = Some w"
  shows "on_course api g (x\<lparr>host := w\<rparr>)" and "event_queue (n_server w) = []"
proof -
  let ?s = "n_server (host x)"
  obtain us ds gs hs where c: "host_ready (host x)" "guest_ready (session_code ?s) (guest x)"
    "under_way api x us ds gs hs" "asks (session_code ?s) us (document ?s) g" "unat (revision ?s) + length us < 2 ^ 64"
    "brings (wide ''B'') (gs @ ds) (n_editor (guest x)) (n_revision (guest x)) g (revision ?s)"
    "brings (wide ''A'') hs (n_editor (host x)) (n_revision (host x)) (document ?s) (revision ?s)"
    by (rule on_courseE [OF assms(1)])
  have d: "drained (document ?s) (revision ?s) (host x) w"
    using DrainSyncEvents_brings [of "host x" hs "[]" "document ?s" "revision ?s" api] assms(2) c(1,3,7)
    by (simp add: under_way_def host_ready_def)
  then show "event_queue (n_server w) = []" by (simp add: drained_def)
  have "host_ready w" using d c(1) by (simp add: drained_def host_ready_def)
  moreover have "under_way api (x\<lparr>host := w\<rparr>) us ds gs []"
    using c(3) d by (simp add: under_way_def drained_def)
  ultimately show "on_course api g (x\<lparr>host := w\<rparr>)"
    using c d by (intro on_courseI [where us = us and ds = ds and gs = gs and hs = "[]"]) (simp_all add: drained_def)
qed

lemma guest_drains_on_course:
  assumes "on_course api g x" and "HandleMessage api ue WmSyncEvent (guest x) = Some w"
  shows "on_course api g (x\<lparr>guest := w\<rparr>)" and "c_events (n_client w) = []"
    and "c_send_queue (n_client w) = c_send_queue (n_client (guest x))"
proof -
  let ?s = "n_server (host x)"
  obtain us ds gs hs where c: "host_ready (host x)" "guest_ready (session_code ?s) (guest x)"
    "under_way api x us ds gs hs" "asks (session_code ?s) us (document ?s) g" "unat (revision ?s) + length us < 2 ^ 64"
    "brings (wide ''B'') (gs @ ds) (n_editor (guest x)) (n_revision (guest x)) g (revision ?s)"
    "brings (wide ''A'') hs (n_editor (host x)) (n_revision (host x)) (document ?s) (revision ?s)"
    by (rule on_courseE [OF assms(1)])
  obtain t1 r1 where b: "brings (wide ''B'') gs (n_editor (guest x)) (n_revision (guest x)) t1 r1"
    "brings (wide ''B'') ds t1 r1 g (revision ?s)"
    using c(6) by (auto simp: brings_append)
  have d: "drained t1 r1 (guest x) w"
    using DrainSyncEvents_brings [of "guest x" "[]" gs t1 r1 api] assms(2) c(2,3) b(1)
    by (simp add: under_way_def guest_ready_def guest_linked_def)
  then show "c_events (n_client w) = []" "c_send_queue (n_client w) = c_send_queue (n_client (guest x))"
    by (simp_all add: drained_def)
  have "guest_ready (session_code ?s) w" using d c(2) by (simp add: drained_def guest_ready_def guest_linked_def)
  moreover have "under_way api (x\<lparr>guest := w\<rparr>) us ds [] hs"
    using c(3) d by (simp add: under_way_def drained_def)
  ultimately show "on_course api g (x\<lparr>guest := w\<rparr>)"
    using c d b(2) by (intro on_courseI [where us = us and ds = ds and gs = "[]" and hs = hs]) (simp_all add: drained_def)
qed

lemma deliver_on_course:
  assumes "deliver api x y" and "utf8_api api" and "on_course api g x"
  shows "on_course api g y"
  using assms(1)
proof cases
  case (server_takes f fs p m k ok s)
  with server_takes_on_course [OF assms(2,3)] show ?thesis by blast
next
  case (client_takes p rest m now)
  with client_takes_on_course [OF assms(3)] show ?thesis by blast
next
  case (host_drains ue w)
  with host_drains_on_course [OF assms(3)] show ?thesis by blast
next
  case (guest_drains ue w)
  with guest_drains_on_course [OF assms(3)] show ?thesis by blast
qed

section \<open>Users\<close>

text \<open>Work in the background leaves the text and the connection alone.\<close>

definition undisturbed :: "window \<Rightarrow> window \<Rightarrow> bool" where
  "undisturbed w w' \<longleftrightarrow> n_server w' = n_server w \<and> n_client w' = n_client w \<and> n_role w' = n_role w \<and>
     n_local w' = n_local w \<and> n_revision w' = n_revision w \<and> n_editor w' = n_editor w \<and> (window_ready w \<longrightarrow> window_ready w')"

lemma SaveEditorContent_undisturbed: "undisturbed w (SaveEditorContent api w)"
  by (auto simp: SaveEditorContent_def SyncActiveTabFromEditor_def Let_def set_status_def undisturbed_def window_ready_def
      editor_ok_def split: prod.splits)

lemma undisturbed_trans: "undisturbed u v \<Longrightarrow> undisturbed v w \<Longrightarrow> undisturbed u w"
  by (auto simp: undisturbed_def)

lemma background_undisturbed:
  assumes "background msg" and "HandleMessage api ue msg w = Some w'"
  shows "undisturbed w w'"
proof -
  have save: "undisturbed w (SaveEditorContent api (w\<lparr>n_dirty := True\<rparr>))" "undisturbed w (SaveEditorContent api (w\<lparr>n_timer := False\<rparr>))"
    by (rule undisturbed_trans [OF _ SaveEditorContent_undisturbed];
        simp add: undisturbed_def window_ready_def editor_ok_def)+
  have rest: "undisturbed v v" "undisturbed w (ToggleMarkdownPreview w)" "undisturbed w (select_all ue w)"
    "undisturbed w (set_status t w)" for t v
    by (auto simp: ToggleMarkdownPreview_def select_all_def set_status_def undisturbed_def window_ready_def editor_ok_def)
  from assms show ?thesis
    by (cases msg rule: background.cases) (auto simp: save rest)
qed

text \<open>An edit sets a new course: for the text that its window now shows.\<close>

lemma host_edit_on_course:
  assumes "utf8_api api" and "on_course api g x" and "settled x" and "editable t sel (host x)"
    and "HandleMessage api ue (WmEdited t sel) (host x) = Some w"
  shows "on_course api (n_editor w) (x\<lparr>host := w, wire := wire x @ put_on_wire (n_server (host x)) (n_server w)\<rparr>)"
    (is "on_course api _ ?y")
proof -
  let ?s = "n_server (host x)" and ?s' = "n_server w"
  have agree: "in_agreement x" by (rule on_course_settled [OF assms(2,3)])
  have g: "guest_ready (session_code ?s) (guest x)" and h: "host_ready (host x)"
    using assms(2) by (auto elim: on_courseE)
  obtain ps ms where w: "host_ready w" "n_client w = n_client (host x)" "session_code ?s' = session_code ?s"
    "event_queue ?s' = event_queue ?s" "n_editor w = document ?s'" "n_revision w = revision ?s'" "carries api ps ms"
    "put_on_wire ?s ?s' = frames ps" "leads (wide ''A'') ms (document ?s) (revision ?s) (document ?s') (revision ?s')"
    using host_types_step [OF assms(1) h assms(4,5)] agree by (auto simp: in_agreement_def)
  have "under_way api ?y [] ms [] []"
    using w assms(3) by (auto simp: under_way_def settled_def)
  moreover have "brings (wide ''B'') ms (document ?s) (revision ?s) (document ?s') (revision ?s')"
    by (rule leads_brings_other [OF w(9)]) simp
  ultimately show ?thesis
    using w g agree
    by (intro on_courseI [where us = "[]" and ds = ms and gs = "[]" and hs = "[]"]) (simp_all add: in_agreement_def revision_range)
qed

lemma guest_edit_on_course:
  assumes "utf8_api api" and "on_course api g x" and "settled x" and "editable t sel (guest x)"
    and "HandleMessage api ue (WmEdited t sel) (guest x) = Some w"
  shows "on_course api (n_editor w) (x\<lparr>guest := w\<rparr>)" (is "on_course api _ ?y")
proof -
  let ?s = "n_server (host x)"
  have agree: "in_agreement x" by (rule on_course_settled [OF assms(2,3)])
  have g: "guest_ready (session_code ?s) (guest x)" and h: "host_ready (host x)"
    using assms(2) by (auto elim: on_courseE)
  obtain ps ms where w: "guest_ready (session_code ?s) w" "n_revision w = n_revision (guest x)"
    "c_events (n_client w) = c_events (n_client (guest x))" "carries api ps ms"
    "c_send_queue (n_client w) = c_send_queue (n_client (guest x)) @ map EncodeFrame ps" "length ps \<le> 2"
    "asks (session_code ?s) ms (n_editor (guest x)) (n_editor w)"
    using guest_types_step [OF assms(1) g _ assms(4,5)] h agree by (auto simp: host_ready_def in_agreement_def)
  have "under_way api ?y ms [] [] []"
    using w assms(3) by (auto simp: under_way_def settled_def)
  moreover have "length ms \<le> 2" using w(4,6) by (simp add: carries_def list_all2_lengthD)
  ultimately show ?thesis
    using w h agree assms(4)
    by (intro on_courseI [where us = ms and ds = "[]" and gs = "[]" and hs = "[]"]) (simp_all add: in_agreement_def editable_def)
qed

lemma session_step_on_course:
  assumes "session_step api x y" and "utf8_api api" and "on_course api g x"
  shows "\<exists>g'. on_course api g' y"
  using assms(1)
proof cases
  case delivers
  with assms show ?thesis by (blast intro: deliver_on_course)
next
  case (host_edits_text t sel ue w)
  with host_edit_on_course [OF assms(2,3)] show ?thesis by blast
next
  case (guest_edits_text t sel ue w)
  with guest_edit_on_course [OF assms(2,3)] show ?thesis by blast
next
  case (host_background msg ue w)
  have u: "undisturbed (host x) w" by (rule background_undisturbed [OF host_background(2,3)])
  have "on_course api g y"
    using assms(3) u unfolding host_background(1)
    by (elim on_courseE) (rule on_courseI; simp add: undisturbed_def host_ready_def under_way_def)
  then show ?thesis by blast
next
  case (guest_background msg ue w)
  have u: "undisturbed (guest x) w" by (rule background_undisturbed [OF guest_background(2,3)])
  have "on_course api g y"
    using assms(3) u unfolding guest_background(1)
    by (elim on_courseE) (rule on_courseI; simp add: undisturbed_def guest_ready_def guest_linked_def under_way_def)
  then show ?thesis by blast
qed

lemma in_session_on_course: "in_session api x \<Longrightarrow> utf8_api api \<Longrightarrow> \<exists>g. on_course api g x"
  by (induction rule: in_session.induct) (blast intro: on_course_start dest: session_step_on_course)+

section \<open>Everything arrives\<close>

definition less_under_way :: "(session \<times> session) set" where
  "less_under_way = measures
     [\<lambda>x. length (c_send_queue (n_client (guest x))), \<lambda>x. length (wire x),
      \<lambda>x. length (c_events (n_client (guest x))), \<lambda>x. length (event_queue (n_server (host x)))]"

lemma delivery_possible:
  assumes "utf8_api api" and "on_course api g x" and "\<not> settled x"
  shows "\<exists>y. deliver api x y \<and> (y, x) \<in> less_under_way"
proof -
  let ?s = "n_server (host x)"
  obtain us ds gs hs where c: "host_ready (host x)" "under_way api x us ds gs hs" "asks (session_code ?s) us (document ?s) g"
    "unat (revision ?s) + length us < 2 ^ 64"
    by (rule on_courseE [OF assms(2)])
  obtain ps where ps: "c_send_queue (n_client (guest x)) = map EncodeFrame ps" "carries api ps us"
    using c(2) by (auto simp: under_way_def)
  obtain qs where qs: "wire x = frames qs" "carries api qs ds" using c(2) by (auto simp: under_way_def)
  obtain k where k: "peer_socket ?s = Some k" using c(1) by (auto simp: host_ready_def)
  consider p ps' where "ps = p # ps'" | q qs' where "ps = []" "qs = q # qs'"
    | "ps = []" "qs = []" "gs \<noteq> []" | "ps = []" "qs = []" "gs = []" "hs \<noteq> []"
    using assms(3) ps(1) qs(1) c(2) by (cases ps; cases qs) (auto simp: settled_def under_way_def)
  then show ?thesis
  proof cases
    case 1
    obtain m where m: "DeserializeMessage api p = (NoError, m)" "length p \<le> kMaxFramePayloadBytes"
      using carries_cases [of api p ps' us] ps(2) 1 by blast
    obtain ok s where s: "HandleEditMessage api k m ?s = (ok, s)" by force
    have "FrameDecoder_TryReadFrame (EncodeFrame p) = (Some p, NoError, [])"
      using take_frame [OF m(2), of "[]"] by simp
    then have "deliver api x (x\<lparr>host := (host x)\<lparr>n_server := s\<rparr>,
       guest := (guest x)\<lparr>n_client := (n_client (guest x))\<lparr>c_send_queue := map EncodeFrame ps'\<rparr>\<rparr>,
       wire := wire x @ put_on_wire ?s s\<rparr>)"
      using deliver.server_takes [of x "EncodeFrame p" "map EncodeFrame ps'" p api m k ok s] ps(1) 1 m(1) k s by simp
    then show ?thesis using ps(1) 1 by (auto simp: less_under_way_def)
  next
    case 2
    obtain m where m: "DeserializeMessage api q = (NoError, m)" "length q \<le> kMaxFramePayloadBytes"
      using carries_cases [of api q qs' ds] qs(2) 2 by blast
    have read: "FrameDecoder_TryReadFrame (wire x) = (Some q, NoError, frames qs')"
      using take_frame [OF m(2), of "frames qs'"] qs(1) 2 by simp
    have "c_send_queue (receive_message 0 m (n_client (guest x))) = c_send_queue (n_client (guest x))"
      by (simp add: receive_message_def PushClientEvent_def Let_def split: message_type.splits)
    then show ?thesis
      using deliver.client_takes [OF read m(1), where now = 0] TryReadFrame_shorter [OF read]
      by (auto simp: less_under_way_def)
  next
    case 3
    have "HandleMessage api undefined WmSyncEvent (guest x) = Some (DrainSyncEvents_main api (guest x))" by simp
    note d = this and g = guest_drains_on_course [OF assms(2) this]
    have "c_events (n_client (guest x)) \<noteq> []" using c(2) 3 by (simp add: under_way_def)
    then show ?thesis
      using deliver.guest_drains [OF d] g(2,3) by (auto simp: less_under_way_def)
  next
    case 4
    have "HandleMessage api undefined WmSyncEvent (host x) = Some (DrainSyncEvents_main api (host x))" by simp
    note d = this and h = host_drains_on_course [OF assms(2) this]
    have "event_queue (n_server (host x)) \<noteq> []" using c(2) 4 by (simp add: under_way_def)
    then show ?thesis
      using deliver.host_drains [OF d] h(2) by (auto simp: less_under_way_def)
  qed
qed

lemma settles:
  assumes "utf8_api api" and "on_course api g x"
  shows "\<exists>y. (deliver api)\<^sup>*\<^sup>* x y \<and> settled y"
proof -
  have "wf less_under_way" by (simp add: less_under_way_def)
  then show ?thesis
    using assms(2)
  proof (induction x rule: wf_induct_rule)
    case (less x)
    show ?case
    proof (cases "settled x")
      case False
      then obtain y where y: "deliver api x y" "(y, x) \<in> less_under_way"
        using delivery_possible [OF assms(1) less.prems] by blast
      obtain z where "(deliver api)\<^sup>*\<^sup>* y z" "settled z"
        using less.IH [OF y(2) deliver_on_course [OF y(1) assms(1) less.prems]] by blast
      with y(1) show ?thesis by (meson converse_rtranclp_into_rtranclp)
    qed blast
  qed
qed

lemma deliveries_on_course: "(deliver api)\<^sup>*\<^sup>* x y \<Longrightarrow> utf8_api api \<Longrightarrow> on_course api g x \<Longrightarrow> on_course api g y"
  by (induction rule: rtranclp_induct) (auto intro: deliver_on_course)

end
