(* ===== verification/Establish.thy ===== *)
theory Establish
  imports Session Delivery ClientJoin SessionSafety
begin

text \<open>
  From two windows that have nothing to do with each other to the start of a session: one person
  creates a room, the other joins it with the code, the server answers, the guest's client asks
  for the document and receives it.
\<close>

section \<open>The request for the document\<close>

lemma request_queued:
  assumes "utf8_api api" and "session_ok (c_session_code c)" and "c_assigned c = wide ''B''"
    and "c_connected c" and "\<not> c_stopping c" and "c_send_queue c = []"
  obtains p where "SendSyncRequest api r c = (True, c\<lparr>c_send_queue := [EncodeFrame p]\<rparr>)"
    and "DeserializeMessage api p = (NoError, received (sync_request r c))"
    and "length p + 4096 \<le> kMaxFramePayloadBytes + 1"
proof -
  have "small_message (sync_request r c)"
    using assms(2,3) by (intro small_sync_request) (simp_all add: text_ok_def utf16_wf_wide)
  from small_message_sent [OF assms(1) this] obtain p where p: "SerializeMessage api (sync_request r c) = Inr p"
    "DeserializeMessage api p = (NoError, received (sync_request r c))" "length p + 4096 \<le> kMaxFramePayloadBytes + 1"
    by blast
  have "SendSyncRequest api r c = (True, c\<lparr>c_send_queue := [EncodeFrame p]\<rparr>)"
    using p(1) assms(4-6) by (simp add: SendSyncRequest_def EnqueueMessage_def sync_request_def queue_push_def)
  with p show thesis using that by blast
qed

lemma request_sent:
  assumes "c_send_queue c = [f]" and "\<not> c_stopping c" and "c_socket c = Some k" and "reliable k"
  obtains k' where "SendLoop c = (True, c\<lparr>c_send_queue := [], c_socket := Some k'\<rparr>)"
    and "conn_wire k' = conn_wire k @ f"
proof -
  obtain k' where "SendAll f k = (True, k')" "conn_wire k' = conn_wire k @ f"
    using SendAll_reliable [OF assms(4)] by blast
  then show thesis using that assms(1-3) by (simp add: SendLoop_def)
qed

text \<open>The server's thread takes the request and sends the document.\<close>

lemma request_served:
  assumes "pieces (EncodeFrame p) segs" and "DeserializeMessage api p = (NoError, m)"
    and "length p + 4096 \<le> kMaxFramePayloadBytes + 1" and "msg_type m = MsgSyncRequest"
    and "msg_session m = session_code s" and "\<not> stopping s" and "th_phase t = Serving join"
    and "th_decoder t = []" and "th_input t = map Received segs" and "SendSyncResponse api (th_socket t) s = (True, s')"
  shows "\<exists>t'. HandleClient api clock t s = Some (t', s')"
proof -
  have in0: "[] @ concat segs = EncodeFrame p @ []" and ok: "\<forall>x \<in> set segs. x \<noteq> [] \<and> length x \<le> 4096"
    using assms(1) by (simp_all add: pieces_def)
  obtain d segs' where "ReceiveProtocolMessage api (map Received segs @ []) [] = Some (RecvMessage m, d, map Received segs' @ [])"
    using receive_frame [OF in0 ok assms(3), of api "[]"] assms(2) by auto
  then show ?thesis
    using assms(4-10) by (simp add: HandleClient_def serve_def Let_def)
qed

section \<open>Creating the room\<close>

lemma Stop_frame:
  assumes "peer_socket s \<noteq> Some k" and "listen_socket s \<noteq> Some k"
  shows "net (Stop api s) k = net s k" and "document (Stop api s) = document s" and "revision (Stop api s) = revision s"
    and "event_queue (Stop api s) = event_queue s" and "next_guid (Stop api s) = next_guid s"
  using assms
  by (auto simp: Stop_def Let_def ClosePeerSocket_def CloseListenSocket_def closesocket_def split: option.splits)

lemma Start_succeeds:
  assumes "peer_socket s \<noteq> Some k" and "listen_socket s \<noteq> Some k" and "bind p = BindOk l" and "unat p \<le> 7799"
  obtains s' where "Start api bind code p s = (True, s')" and "net s' k = net s k" and "document s' = document s"
    and "revision s' = revision s" and "event_queue s' = event_queue s" and "next_guid s' = next_guid s"
    and "session_code s' = code" and "\<not> peer_joined s'" and "failed_join_count s' = 0" and "\<not> stopping s'"
  using assms Stop_frame [OF assms(1,2), of api]
  by (simp add: Start_def Let_def BindListenSocket_def BindListenSocket_from.simps)

lemma GenerateSessionCode_main_ok:
  assumes "n < 1000000"
  shows "session_ok (GenerateSessionCode_main n)"
proof -
  have "length (dec_digits n) \<le> 6"
    using length_dec_digits [of n 6] assms by simp
  moreover have "is_ascii (dec_digits n)"
    using dec_digits_digits [of n] by (auto simp: is_ascii_def iswdigit_unat)
  then have "is_ascii (GenerateSessionCode_main n)"
    by (auto simp: GenerateSessionCode_main_def is_ascii_def Let_def)
  then have "utf16_wf (GenerateSessionCode_main n)"
    by (rule is_ascii_wf)
  ultimately show ?thesis
    by (simp add: session_ok_def GenerateSessionCode_main_def Let_def)
qed

section \<open>Draining the document\<close>

lemma ApplySyncResponse_main_frame:
  "n_role (ApplySyncResponse_main m w) = n_role w" "n_local (ApplySyncResponse_main m w) = n_local w"
  "n_ime (ApplySyncResponse_main m w) = n_ime w" "n_session (ApplySyncResponse_main m w) = n_session w"
  by (simp_all add: ApplySyncResponse_main_def ApplyFullSyncDocument_main_def store_chunk_main_def set_status_def
      take_text_def set_editor_def note_active_def UpdateMarkdownPreview_def Let_def split: option.splits prod.splits)

lemma responses_frame:
  "n_role (fold ApplySyncResponse_main ms w) = n_role w" "n_local (fold ApplySyncResponse_main ms w) = n_local w"
  "n_ime (fold ApplySyncResponse_main ms w) = n_ime w" "n_server (fold ApplySyncResponse_main ms w) = n_server w"
  "editor_ok w \<Longrightarrow> editor_ok (fold ApplySyncResponse_main ms w)"
  by (induction ms arbitrary: w)
    (use mild_ApplySyncResponse in \<open>auto simp: ApplySyncResponse_main_frame mild_def\<close>)

lemma document_drained:
  assumes "length doc \<le> kMaxDocumentChars" and "n_chunks w = []" and "event_queue (n_server w) = []"
    and "c_events (n_client w) = map message_event (map (\<lambda>i. received (sync_chunk doc r s i)) [0..<chunk_count doc])"
    and "guest_linked code (w\<lparr>n_client := (n_client w)\<lparr>c_events := []\<rparr>\<rparr>)" and "window_ready w"
    and "c_send_queue (n_client w) = []"
  shows "guest_ready code (DrainSyncEvents_main api w)" and "n_editor (DrainSyncEvents_main api w) = doc"
    and "n_revision (DrainSyncEvents_main api w) = r" and "c_send_queue (n_client (DrainSyncEvents_main api w)) = []"
    and "c_events (n_client (DrainSyncEvents_main api w)) = []"
proof -
  define ms where "ms = map (\<lambda>i. received (sync_chunk doc r s i)) [0..<chunk_count doc]"
  have d: "DrainSyncEvents_main api w = (fold ApplySyncResponse_main ms w)\<lparr>n_client := (n_client w)\<lparr>c_events := []\<rparr>\<rparr>"
    using drain_sync_responses_main [of w ms api] assms(3,4)
    by (auto simp: ms_def sync_chunk_get DrainSyncEvents_main_def drain_server_main_Nil)
  show "guest_ready code (DrainSyncEvents_main api w)" "c_send_queue (n_client (DrainSyncEvents_main api w)) = []"
    "c_events (n_client (DrainSyncEvents_main api w)) = []"
    using assms(5-7) responses_frame(5) [of w ms]
    by (simp_all add: d responses_frame(1-4) guest_ready_def guest_linked_def window_ready_def editor_ok_def)
  show "n_editor (DrainSyncEvents_main api w) = doc" "n_revision (DrainSyncEvents_main api w) = r"
    using native_drain_response [OF assms(1-4), of api] by simp_all
qed

section \<open>The meeting\<close>

text \<open>
  What the two computers answer: the host's window, the guest's window, the socket that \<^verbatim>\<open>accept\<close>
  returns for the guest, and the clocks of the threads.
\<close>

record meeting =
  mt_host :: ui_env
  mt_guest :: ui_env
  mt_socket :: socket
  mt_clock :: "u64 list"
  mt_now :: u64

text \<open>The guest types the code; the network will bring \<open>input\<close>.\<close>

definition joins_with :: "wstr \<Rightarrow> recv_result list \<Rightarrow> ui_env \<Rightarrow> ui_env" where
  "joins_with code input ue = ue\<lparr>ue_code := code,
     ue_web := (ue_web ue)\<lparr>env_connect := hearing (env_connect (ue_web ue)) input\<rparr>\<rparr>"

text \<open>
  The meeting in the order of its events. HELLO and JOIN reach the server in pieces of any size,
  its answer reaches the client, the client's send loop sends the request for the document, the
  server's thread sends the document, the client's receive loop runs once for each of its
  chunks, and the guest's window drains its events. The server sends nothing between its
  answer and the document.
\<close>

inductive establishes :: "text_api \<Rightarrow> meeting \<Rightarrow> window \<Rightarrow> window \<Rightarrow> session \<Rightarrow> bool" for api mt h g where
  meets: "HandleMessage api (mt_host mt) (WmCommand CmdHost) h = Some h1 \<Longrightarrow>
    HandleMessage api (joins_with (n_session h1) (map Received (answer @ chunks)) (mt_guest mt)) (WmCommand CmdConnect) g = Some g1 \<Longrightarrow>
    pieces (on_line (n_client g1)) hello \<Longrightarrow>
    handle_rounds api (mt_clock mt) 6 ((new_thread (mt_socket mt))\<lparr>th_input := map Received hello\<rparr>) (n_server h1) = Some (t, s) \<Longrightarrow>
    pieces (conn_wire (net s (mt_socket mt))) answer \<Longrightarrow>
    SendLoop (n_client g1) = (sent, c) \<Longrightarrow>
    pieces (drop (length (on_line (n_client g1))) (on_line c)) request \<Longrightarrow>
    HandleClient api (mt_clock mt) (t\<lparr>th_input := map Received request\<rparr>) s = Some (t', s') \<Longrightarrow>
    pieces (drop (length (conn_wire (net s (mt_socket mt)))) (conn_wire (net s' (mt_socket mt)))) chunks \<Longrightarrow>
    receive_rounds api (mt_now mt) (chunk_count (document s')) c = Some c' \<Longrightarrow>
    HandleMessage api (mt_guest mt) WmSyncEvent (g1\<lparr>n_client := c'\<rparr>) = Some g2 \<Longrightarrow>
    establishes api mt h g \<lparr>host = h1\<lparr>n_server := s'\<rparr>, guest = g2, wire = []\<rparr>"

text \<open>The two windows before, and answers of the two computers under which a join can succeed.\<close>

definition idle_window :: "window \<Rightarrow> bool" where
  "idle_window w \<longleftrightarrow> window_ready w \<and> c_events (n_client w) = [] \<and> event_queue (n_server w) = [] \<and> n_chunks w = []"

definition preferred_port_of :: "web_env \<Rightarrow> u16" where
  "preferred_port_of env = (case env_config env of None \<Rightarrow> 7777 | Some cfg \<Rightarrow> cfg_port cfg)"

definition host_can :: "meeting \<Rightarrow> window \<Rightarrow> bool" where
  "host_can mt h \<longleftrightarrow>
     (let env = ue_web (mt_host mt); s = n_server h; k = mt_socket mt
      in idle_window h \<and> length (n_editor h) \<le> kMaxDocumentChars \<and> chunks_wf (n_editor h) \<and>
         text_ok (GenerateReconnectToken s) \<and> reliable (net s k) \<and> conn_wire (net s k) = [] \<and>
         peer_socket s \<noteq> Some k \<and> listen_socket s \<noteq> Some k \<and>
         env_winsock env = None \<and> env_random env < 1000000 \<and> unat (preferred_port_of env) \<le> 7799 \<and>
         (\<exists>l. env_bind env (preferred_port_of env) = BindOk l) \<and> in_time kHandshakeTimeoutMs (mt_clock mt))"

definition guest_can :: "meeting \<Rightarrow> window \<Rightarrow> bool" where
  "guest_can mt g \<longleftrightarrow>
     (let env = ue_web (mt_guest mt); ce = env_connect env
      in idle_window g \<and> text_ok (c_token (n_client g)) \<and> env_winsock env = None \<and> env_found env \<noteq> None \<and>
         (\<forall>cfg. env_config env = Some cfg \<longrightarrow> text_ok (cfg_device_id cfg) \<and> text_ok (cfg_nickname cfg)) \<and>
         (\<exists>k. env_socket ce = Some k \<and> reliable k \<and> conn_wire k = []) \<and> env_host_ok ce \<and>
         ConnectWithTimeout (env_calls ce) = Connected \<and> in_time kJoinResponseTimeoutMs (env_clock ce))"

text \<open>The host's window once the room is there.\<close>

definition hosting :: "wstr \<Rightarrow> window \<Rightarrow> bool" where
  "hosting doc w \<longleftrightarrow> window_ready w \<and> n_role w = Host \<and> n_local w = wide ''A'' \<and> c_events (n_client w) = [] \<and>
     n_editor w = doc \<and> n_revision w = 0"

lemma host_creates:
  assumes "host_can mt h"
  obtains h1 where "HandleMessage api (mt_host mt) (WmCommand CmdHost) h = Some h1"
    and "session_ok (n_session h1)" and "session_code (n_server h1) = n_session h1" and "\<not> peer_joined (n_server h1)"
    and "\<not> IsJoinBlocked (n_server h1)" and "\<not> stopping (n_server h1)" and "document (n_server h1) = n_editor h"
    and "revision (n_server h1) = 0" and "event_queue (n_server h1) = []"
    and "net (n_server h1) (mt_socket mt) = net (n_server h) (mt_socket mt)"
    and "GenerateReconnectToken (n_server h1) = GenerateReconnectToken (n_server h)"
    and "hosting (n_editor h) h1"
proof -
  define env where "env = ue_web (mt_host mt)"
  define code where "code = GenerateSessionCode_main (env_random env)"
  define s0 where "s0 = SetSessionLogPath (wide ''session.log'') (SetDocument (n_last h) 0 (n_server h))"
  note can = assms [unfolded host_can_def Let_def idle_window_def env_def [symmetric]]
  obtain l where l: "env_bind env (preferred_port_of env) = BindOk l" using can by blast
  have s0: "peer_socket s0 \<noteq> Some (mt_socket mt)" "listen_socket s0 \<noteq> Some (mt_socket mt)"
    using can by (simp_all add: s0_def SetSessionLogPath_def SetDocument_def)
  have port: "unat (preferred_port_of env) \<le> 7799" using can by blast
  obtain s1 where s1: "Start api (env_bind env) code (preferred_port_of env) s0 = (True, s1)"
    "net s1 (mt_socket mt) = net s0 (mt_socket mt)" "document s1 = document s0" "revision s1 = revision s0"
    "event_queue s1 = event_queue s0" "next_guid s1 = next_guid s0" "session_code s1 = code" "\<not> peer_joined s1"
    "failed_join_count s1 = 0" "\<not> stopping s1"
    by (rule Start_succeeds [OF s0, where bind = "env_bind env" and p = "preferred_port_of env" and l = l, OF l port])
  have last: "n_last h = n_editor h" using can by (simp add: window_ready_def editor_ok_def)
  define h1 where "h1 = HandleCreateRoom_main api env h"
  have h1: "h1 = ShowEditorScreen (nt_hosting @ code @ nt_waiting_port @ dec_digits (unat (port s1)))
      ((StopReconnectLoop h)\<lparr>n_session := code, n_local := wide ''A'', n_revision := 0, n_server := s1,
         n_announced := (if env_announce_ok env then Some (code, port s1) else None), n_role := Host\<rparr>)"
    using can s1(1)
    by (simp add: h1_def HandleCreateRoom_main_def Let_def code_def [symmetric] s0_def preferred_port_of_def StopReconnectLoop_def)
  note eds = ShowEditorScreen_def set_status_def UpdateMarkdownPreview_def StopReconnectLoop_def
  show thesis
  proof (rule that [of h1])
    show "HandleMessage api (mt_host mt) (WmCommand CmdHost) h = Some h1" by (simp add: h1_def env_def)
    show "session_ok (n_session h1)"
      using GenerateSessionCode_main_ok can by (simp add: h1 eds code_def)
    show "hosting (n_editor h) h1" using can by (simp add: h1 eds hosting_def window_ready_def editor_ok_def)
    show "\<not> IsJoinBlocked (n_server h1)"
      using s1 by (simp add: h1 eds IsJoinBlocked_def kMaxFailedJoinAttempts_def)
  qed (use can s1 last in \<open>simp_all add: h1 eds s0_def SetDocument_def SetSessionLogPath_def GenerateReconnectToken_def\<close>)
qed

text \<open>
  The guest's side of the join: whatever the network brings, HELLO and JOIN are what is on its
  line if the command ends; if the answer to them comes in pieces of its own, the join
  succeeds, the request for the document is queued and the pieces that follow are still there.
\<close>

lemma guest_runs:
  assumes "guest_can mt g" and "code \<noteq> []"
  obtains device_id nickname where "text_ok device_id" and "text_ok nickname"
    and "\<forall>input. case Connect api (hearing (env_connect (ue_web (mt_guest mt))) input) code device_id nickname (n_client g) of
        None \<Rightarrow> HandleMessage api (joins_with code input (mt_guest mt)) (WmCommand CmdConnect) g = None
      | Some (ok, c) \<Rightarrow> \<exists>g1. HandleMessage api (joins_with code input (mt_guest mt)) (WmCommand CmdConnect) g = Some g1 \<and>
          n_client g1 = c \<and> window_ready g1 \<and> n_chunks g1 = [] \<and> event_queue (n_server g1) = [] \<and>
          (ok \<longrightarrow> n_role g1 = Guest \<and> n_local g1 = (if c_assigned c = [] then wide ''B'' else c_assigned c))"
proof -
  define env where "env = ue_web (mt_guest mt)"
  define device_id where "device_id = (case env_config env of None \<Rightarrow> wide ''local-device'' | Some cfg \<Rightarrow> cfg_device_id cfg)"
  define nickname where "nickname = (case env_config env of None \<Rightarrow> wide ''User'' | Some cfg \<Rightarrow> cfg_nickname cfg)"
  note can = assms(1) [unfolded guest_can_def Let_def idle_window_def env_def [symmetric]]
  obtain host port_number where address: "env_found env = Some (host, port_number)" using can by fastforce
  have texts: "text_ok device_id" "text_ok nickname"
    using can by (auto simp: device_id_def nickname_def text_ok_def utf16_wf_wide split: option.split)
  have run: "HandleMessage api (joins_with code input (mt_guest mt)) (WmCommand CmdConnect) g =
      HandleJoinRoom_main api (env\<lparr>env_connect := hearing (env_connect env) input\<rparr>) code
        (ue_host (mt_guest mt)) (ue_port (mt_guest mt)) g" for input
    by (simp add: join_room_def joins_with_def env_def)
  have client: "n_client (StopReconnectLoop g) = n_client g" by (simp add: StopReconnectLoop_def)
  note eds = ShowEditorScreen_def set_status_def UpdateMarkdownPreview_def StopReconnectLoop_def window_ready_def editor_ok_def
  show thesis
  proof (rule that [OF texts], rule allI)
    fix input
    show "case Connect api (hearing (env_connect (ue_web (mt_guest mt))) input) code device_id nickname (n_client g) of
        None \<Rightarrow> HandleMessage api (joins_with code input (mt_guest mt)) (WmCommand CmdConnect) g = None
      | Some (ok, c) \<Rightarrow> \<exists>g1. HandleMessage api (joins_with code input (mt_guest mt)) (WmCommand CmdConnect) g = Some g1 \<and>
          n_client g1 = c \<and> window_ready g1 \<and> n_chunks g1 = [] \<and> event_queue (n_server g1) = [] \<and>
          (ok \<longrightarrow> n_role g1 = Guest \<and> n_local g1 = (if c_assigned c = [] then wide ''B'' else c_assigned c))"
      unfolding run env_def [symmetric]
      using can address assms(2)
      by (simp add: HandleJoinRoom_main_def join_address_def Let_def client device_id_def [symmetric] nickname_def [symmetric]
          split: option.split prod.split) (simp add: eds)
  qed
qed

section \<open>The document on its way\<close>

lemma receive_message_frame:
  "c_connected (receive_message now m c) = c_connected c" "c_assigned (receive_message now m c) = c_assigned c"
  "c_session_code (receive_message now m c) = c_session_code c" "c_send_queue (receive_message now m c) = c_send_queue c"
  by (simp_all add: receive_message_def PushClientEvent_def Let_def split: message_type.split)

lemma receive_messages_frame:
  "c_connected (fold (receive_message now) ms c) = c_connected c" "c_assigned (fold (receive_message now) ms c) = c_assigned c"
  "c_session_code (fold (receive_message now) ms c) = c_session_code c"
  "c_send_queue (fold (receive_message now) ms c) = c_send_queue c" "c_stopping (fold (receive_message now) ms c) = c_stopping c"
  by (induction ms arbitrary: c) (simp_all add: receive_message_frame)

text \<open>The client has joined and asks: the request goes out, and the answer to it is still to be read.\<close>

definition asked :: "wstr \<Rightarrow> bytes list \<Rightarrow> client \<Rightarrow> bool" where
  "asked code chunks c \<longleftrightarrow> c_socket c \<noteq> None \<and> c_connected c \<and> \<not> c_stopping c \<and> c_decoder c = [] \<and>
     c_input c = map Received chunks \<and> c_events c = [] \<and> c_send_queue c = [] \<and> c_session_code c = code \<and>
     c_assigned c = wide ''B''"

lemma document_asked:
  assumes "utf8_api api" and "session_ok code" and "joined_client code k m (map Received chunks) c0 c3" and "c_events c0 = []"
    and "GetString m (wide ''assigned_client'') = Some (wide ''B'')" and "reliable k"
  obtains p c where "on_line (snd (SendSyncRequest api 0 c3)) = conn_wire k"
    and "SendLoop (snd (SendSyncRequest api 0 c3)) = (True, c)" and "on_line c = conn_wire k @ EncodeFrame p"
    and "DeserializeMessage api p = (NoError, received (sync_request 0 c3))" and "length p + 4096 \<le> kMaxFramePayloadBytes + 1"
    and "asked code chunks c"
proof -
  have c3: "c_socket c3 = Some k" "c_connected c3" "\<not> c_stopping c3" "c_decoder c3 = []" "c_input c3 = map Received chunks"
    "c_events c3 = []" "c_send_queue c3 = []" "c_session_code c3 = code" "c_assigned c3 = wide ''B''"
    using assms(3-5) by (simp_all add: joined_client_def)
  have sok: "session_ok (c_session_code c3)" using assms(2) c3(8) by simp
  obtain p where p: "SendSyncRequest api 0 c3 = (True, c3\<lparr>c_send_queue := [EncodeFrame p]\<rparr>)"
    "DeserializeMessage api p = (NoError, received (sync_request 0 c3))" "length p + 4096 \<le> kMaxFramePayloadBytes + 1"
    by (rule request_queued [OF assms(1) sok c3(9,2,3,7)])
  define g where "g = c3\<lparr>c_send_queue := [EncodeFrame p]\<rparr>"
  have "c_send_queue g = [EncodeFrame p]" "\<not> c_stopping g" "c_socket g = Some k" using c3 by (simp_all add: g_def)
  then obtain k' where k': "SendLoop g = (True, g\<lparr>c_send_queue := [], c_socket := Some k'\<rparr>)" "conn_wire k' = conn_wire k @ EncodeFrame p"
    by (rule request_sent [OF _ _ _ assms(6)])
  have "asked code chunks (g\<lparr>c_send_queue := [], c_socket := Some k'\<rparr>)"
    using c3 by (simp add: asked_def g_def)
  then show thesis
    using p k' c3 by (intro that [of "g\<lparr>c_send_queue := [], c_socket := Some k'\<rparr>" p]) (simp_all add: on_line_def g_def)
qed

lemma document_received:
  assumes "utf8_api api" and "session_ok (session_code s)" and "chunks_wf doc"
    and "pieces (frames (sync_payloads api doc r s)) chunks" and "asked code chunks c"
  obtains c' where "receive_rounds api now (chunk_count doc) c = Some c'"
    and "c_events c' = map message_event (map (\<lambda>i. received (sync_chunk doc r s i)) [0..<chunk_count doc])"
    and "c_connected c'" and "\<not> c_stopping c'" and "c_assigned c' = wide ''B''" and "c_session_code c' = code"
    and "c_send_queue c' = []"
proof -
  define ms where "ms = map (\<lambda>i. received (sync_chunk doc r s i)) [0..<chunk_count doc]"
  have cut: "concat chunks = frames (sync_payloads api doc r s)" "\<forall>seg \<in> set chunks. seg \<noteq> [] \<and> length seg \<le> 4096"
    using assms(4) by (simp_all add: pieces_def)
  obtain k where c: "\<not> c_stopping c" "c_socket c = Some k" "c_decoder c = []" "c_input c = map Received chunks" "c_events c = []"
    using assms(5) by (auto simp: asked_def)
  obtain d i where r: "receive_rounds api now (chunk_count doc) c =
      Some ((fold (receive_message now) ms c)\<lparr>c_decoder := d, c_input := i\<rparr>)"
    using response_frames_received [OF assms(1-3) cut c(1-4), of now] by (auto simp: ms_def)
  have "c_events (fold (receive_message now) ms c) = map message_event ms"
    using fold_receive_client [of ms now c] c(5) by (auto simp: ms_def sync_chunk_get)
  then show thesis
    using assms(5) r
    by (intro that [of "(fold (receive_message now) ms c)\<lparr>c_decoder := d, c_input := i\<rparr>"])
      (simp_all add: receive_messages_frame asked_def ms_def)
qed

section \<open>The three parts of a meeting\<close>

text \<open>The server has answered HELLO and JOIN on socket \<open>k\<close> with the payload \<open>p\<close>, and serves.\<close>

definition serving :: "text_api \<Rightarrow> socket \<Rightarrow> wstr \<Rightarrow> wstr \<Rightarrow> client_thread \<Rightarrow> server \<Rightarrow> bytes \<Rightarrow> bool" where
  "serving api k code doc t s p \<longleftrightarrow> (\<exists>join. th_phase t = Serving join) \<and> th_socket t = k \<and> th_decoder t = [] \<and>
     \<not> stopping s \<and> peer_socket s = Some k \<and> session_code s = code \<and> document s = doc \<and> revision s = 0 \<and>
     event_queue s = [] \<and> reliable (net s k) \<and> conn_wire (net s k) = EncodeFrame p \<and>
     length p + 4096 \<le> kMaxFramePayloadBytes + 1 \<and>
     (\<exists>m. DeserializeMessage api p = (NoError, m) \<and> msg_type m = MsgJoinOk \<and>
        GetString m (wide ''assigned_client'') = Some (wide ''B''))"

lemma server_answers:
  assumes "utf8_api api" and "DeserializeMessage api b1 = (NoError, received (hello_message code device_id nickname))"
    and "DeserializeMessage api b2 = (NoError, received (join_message code token))"
    and "length b1 + 4096 \<le> kMaxFramePayloadBytes + 1" and "length b2 + 4096 \<le> kMaxFramePayloadBytes + 1"
    and "pieces (frames [b1, b2]) hello" and "session_code s = code" and "session_ok code"
    and "text_ok (GenerateReconnectToken s)" and "reliable (net s k)" and "conn_wire (net s k) = []"
    and "\<not> IsJoinBlocked s" and "\<not> peer_joined s" and "\<not> stopping s" and "revision s = 0" and "event_queue s = []"
    and "in_time kHandshakeTimeoutMs clock"
  shows "\<exists>t s' p. handle_rounds api clock 6 ((new_thread k)\<lparr>th_input := map Received hello\<rparr>) s = Some (t, s') \<and>
    serving api k code (document s) t s' p"
proof -
  have types: "msg_type (received (hello_message code device_id nickname)) = MsgHello"
    "msg_type (received (join_message code token)) = MsgJoin"
    "optional_string (received (join_message code token)) ''join_code'' = session_code s"
    by (simp_all add: hello_message_def join_message_def optional_string_def assms(7))
  have segs: "concat hello = frames [b1, b2]" "\<forall>x \<in> set hello. x \<noteq> [] \<and> length x \<le> 4096"
    using assms(6) by (simp_all add: pieces_def)
  have code: "session_ok (session_code s)" using assms(7,8) by simp
  note answer = join_rounds [OF assms(1,2) types(1) assms(4,3) types(2) assms(5) segs code assms(9,10,12,13) types(3) assms(17)]
  have "msg_type (received (join_ok_message s)) = MsgJoinOk"
    "GetString (received (join_ok_message s)) (wide ''assigned_client'') = Some (wide ''B'')"
    by (simp_all add: join_ok_message_def server_message_def)
  with answer show ?thesis
    using assms(7,11,14-16) unfolding serving_def by fastforce
qed

lemma server_sends:
  assumes "utf8_api api" and "serving api k code doc t s p" and "session_ok code" and "chunks_wf doc"
    and "DeserializeMessage api p' = (NoError, received (sync_request 0 c))" and "c_session_code c = code"
    and "length p' + 4096 \<le> kMaxFramePayloadBytes + 1"
  obtains s' where "\<forall>request. pieces (EncodeFrame p') request \<longrightarrow>
      (\<exists>t'. HandleClient api clock (t\<lparr>th_input := map Received request\<rparr>) s = Some (t', s'))"
    and "conn_wire (net s' k) = conn_wire (net s k) @ frames (sync_payloads api doc 0 s)" and "reliable (net s' k)"
    and "session_code s' = code" and "document s' = doc" and "revision s' = 0" and "peer_socket s' = Some k"
    and "event_queue s' = []"
proof -
  obtain join where join: "th_phase t = Serving join" using assms(2) by (auto simp: serving_def)
  have s: "th_socket t = k" "th_decoder t = []" "\<not> stopping s" "peer_socket s = Some k" "session_code s = code"
    "document s = doc" "revision s = 0" "event_queue s = []" "reliable (net s k)"
    using assms(2) by (simp_all add: serving_def)
  have sok: "session_ok (session_code s)" "chunks_wf (document s)" using assms(3,4) s by simp_all
  obtain s' where s': "SendSyncResponse api k s = (True, s')" "reliable (net s' k)" "session_code s' = code"
    "document s' = doc" "revision s' = 0" "peer_socket s' = Some k" "event_queue s' = []"
    "conn_wire (net s' k) = conn_wire (net s k) @ frames (sync_payloads api doc 0 s)"
    using SendSyncResponse_reliable [OF assms(1) sok(1) s(9) sok(2)] s(4-8) by auto
  have m: "msg_type (received (sync_request 0 c)) = MsgSyncRequest" "msg_session (received (sync_request 0 c)) = session_code s"
    using assms(6) s(5) by (simp_all add: sync_request_def client_message_def)
  have "\<exists>t'. HandleClient api clock (t\<lparr>th_input := map Received request\<rparr>) s = Some (t', s')"
    if "pieces (EncodeFrame p') request" for request
    by (rule request_served [OF that assms(5,7) m s(3)]) (use join s(1,2) s'(1) in simp_all)
  then show thesis using that s' by blast
qed

lemma guest_joins:
  assumes "utf8_api api" and "session_ok code" and "guest_can mt g"
  obtains b1 b2 k token device_id nickname where "reliable k" and "conn_wire k = frames [b1, b2]"
    and "DeserializeMessage api b1 = (NoError, received (hello_message code device_id nickname))"
    and "DeserializeMessage api b2 = (NoError, received (join_message code token))"
    and "length b1 + 4096 \<le> kMaxFramePayloadBytes + 1" and "length b2 + 4096 \<le> kMaxFramePayloadBytes + 1"
    and "\<forall>input g1. HandleMessage api (joins_with code input (mt_guest mt)) (WmCommand CmdConnect) g = Some g1 \<longrightarrow>
      on_line (n_client g1) \<in> {[], frames [b1, b2]}"
    and "\<forall>p m answer chunks. pieces (EncodeFrame p) answer \<longrightarrow> DeserializeMessage api p = (NoError, m) \<longrightarrow>
      msg_type m = MsgJoinOk \<longrightarrow> length p + 4096 \<le> kMaxFramePayloadBytes + 1 \<longrightarrow>
      GetString m (wide ''assigned_client'') = Some (wide ''B'') \<longrightarrow>
      (\<exists>g1 c3. HandleMessage api (joins_with code (map Received (answer @ chunks)) (mt_guest mt)) (WmCommand CmdConnect) g = Some g1 \<and>
         n_client g1 = snd (SendSyncRequest api 0 c3) \<and> joined_client code k m (map Received chunks) (n_client g) c3 \<and>
         n_role g1 = Guest \<and> n_local g1 = wide ''B'' \<and> window_ready g1 \<and> n_chunks g1 = [] \<and> event_queue (n_server g1) = [])"
proof -
  define ce where "ce = env_connect (ue_web (mt_guest mt))"
  have can: "text_ok (c_token (n_client g))" "env_host_ok ce" "ConnectWithTimeout (env_calls ce) = Connected"
    "in_time kJoinResponseTimeoutMs (env_clock ce)" "\<exists>k. env_socket ce = Some k \<and> reliable k \<and> conn_wire k = []"
    using assms(3) by (simp_all add: guest_can_def Let_def ce_def)
  then obtain k0 where k0: "env_socket ce = Some k0" "reliable k0" "conn_wire k0 = []" by blast
  have "code \<noteq> []" using assms(2) by (simp add: session_ok_def)
  then obtain device_id nickname where run: "text_ok device_id" "text_ok nickname"
    "\<forall>input. case Connect api (hearing ce input) code device_id nickname (n_client g) of
        None \<Rightarrow> HandleMessage api (joins_with code input (mt_guest mt)) (WmCommand CmdConnect) g = None
      | Some (ok, c) \<Rightarrow> \<exists>g1. HandleMessage api (joins_with code input (mt_guest mt)) (WmCommand CmdConnect) g = Some g1 \<and>
          n_client g1 = c \<and> window_ready g1 \<and> n_chunks g1 = [] \<and> event_queue (n_server g1) = [] \<and>
          (ok \<longrightarrow> n_role g1 = Guest \<and> n_local g1 = (if c_assigned c = [] then wide ''B'' else c_assigned c))"
    unfolding ce_def by (rule guest_runs [OF assms(3), of code api]) blast
  obtain k b1 b2 token where hj: "greets api ce code device_id nickname (n_client g) k" "reliable k"
    "conn_wire k = conn_wire k0 @ frames [b1, b2]"
    "DeserializeMessage api b1 = (NoError, received (hello_message code device_id nickname))"
    "DeserializeMessage api b2 = (NoError, received (join_message code token))"
    "length b1 + 4096 \<le> kMaxFramePayloadBytes + 1" "length b2 + 4096 \<le> kMaxFramePayloadBytes + 1"
    by (rule greeting_sent [OF assms(1,2) run(1,2) can(1) k0(1,2)])
  have wire: "conn_wire k = frames [b1, b2]" using hj(3) k0(3) by simp
  have line: "on_line (n_client g1) \<in> {[], frames [b1, b2]}"
    if g1: "HandleMessage api (joins_with code input (mt_guest mt)) (WmCommand CmdConnect) g = Some g1" for input g1
  proof -
    obtain ok c where c: "Connect api (hearing ce input) code device_id nickname (n_client g) = Some (ok, c)" "n_client g1 = c"
      using run(3) [rule_format, of input] g1 by (auto split: option.splits)
    then show ?thesis
      using Connect_socket [OF hj(1) k0(1) can(2,3) c(1)] wire by (simp add: on_line_def)
  qed
  have joins: "\<exists>g1 c3. HandleMessage api (joins_with code (map Received (answer @ chunks)) (mt_guest mt)) (WmCommand CmdConnect) g = Some g1 \<and>
      n_client g1 = snd (SendSyncRequest api 0 c3) \<and> joined_client code k m (map Received chunks) (n_client g) c3 \<and>
      n_role g1 = Guest \<and> n_local g1 = wide ''B'' \<and> window_ready g1 \<and> n_chunks g1 = [] \<and> event_queue (n_server g1) = []"
    if p: "pieces (EncodeFrame p) answer" "DeserializeMessage api p = (NoError, m)" "length p + 4096 \<le> kMaxFramePayloadBytes + 1"
      "msg_type m = MsgJoinOk" "GetString m (wide ''assigned_client'') = Some (wide ''B'')" for p m answer chunks
  proof -
    obtain c3 where c3: "Connect api (hearing ce (map Received (answer @ chunks))) code device_id nickname (n_client g) =
        Some (True, snd (SendSyncRequest api 0 c3))" "joined_client code k m (map Received chunks) (n_client g) c3"
      using Connect_answered [OF hj(1) k0(1) can(2,3) _ p(4)] answer_in_pieces [OF p(1-3) can(4), of "map Received chunks"]
      by fastforce
    have "c_assigned c3 = wide ''B''" using c3(2) p(5) by (simp add: joined_client_def)
    then show ?thesis
      using run(3) [rule_format, of "map Received (answer @ chunks)"] c3 by auto
  qed
  show thesis
    using line joins by (intro that [OF hj(2) wire hj(4-7)]) blast+
qed

section \<open>The whole meeting\<close>

text \<open>From the answer on: the request, the document, and the state the two windows end in.\<close>

lemma meeting_ends:
  assumes "utf8_api api" and "session_ok code" and "chunks_wf doc" and "length doc \<le> kMaxDocumentChars" and "hosting doc h1"
    and "serving api k code doc t s p" and "n_client g1 = snd (SendSyncRequest api 0 c3)"
    and "joined_client code kc m (map Received chunks) c0 c3" and "c_events c0 = []"
    and "GetString m (wide ''assigned_client'') = Some (wide ''B'')" and "reliable kc"
    and "n_role g1 = Guest" and "n_local g1 = wide ''B''" and "window_ready g1" and "n_chunks g1 = []"
    and "event_queue (n_server g1) = []"
  obtains c p' s' where "on_line (n_client g1) = conn_wire kc" and "SendLoop (n_client g1) = (True, c)"
    and "on_line c = conn_wire kc @ EncodeFrame p'"
    and "\<forall>request. pieces (EncodeFrame p') request \<longrightarrow>
      (\<exists>t'. HandleClient api clock (t\<lparr>th_input := map Received request\<rparr>) s = Some (t', s'))"
    and "conn_wire (net s' k) = EncodeFrame p @ frames (sync_payloads api doc 0 s)" and "document s' = doc"
    and "pieces (frames (sync_payloads api doc 0 s)) chunks \<longrightarrow>
      (\<exists>c' g2. receive_rounds api now (chunk_count doc) c = Some c' \<and>
         HandleMessage api ue WmSyncEvent (g1\<lparr>n_client := c'\<rparr>) = Some g2 \<and>
         session_start \<lparr>host = h1\<lparr>n_server := s'\<rparr>, guest = g2, wire = []\<rparr> \<and> n_editor g2 = doc)"
proof -
  obtain p' c where asks: "on_line (n_client g1) = conn_wire kc" "SendLoop (n_client g1) = (True, c)"
    "on_line c = conn_wire kc @ EncodeFrame p'"
    "DeserializeMessage api p' = (NoError, received (sync_request 0 c3))" "length p' + 4096 \<le> kMaxFramePayloadBytes + 1"
    "asked code chunks c"
    unfolding assms(7) by (rule document_asked [OF assms(1,2,8-11)])
  have c3: "c_session_code c3 = code" using assms(8) by (simp add: joined_client_def)
  obtain s' where s': "\<forall>request. pieces (EncodeFrame p') request \<longrightarrow>
      (\<exists>t'. HandleClient api clock (t\<lparr>th_input := map Received request\<rparr>) s = Some (t', s'))"
    "conn_wire (net s' k) = conn_wire (net s k) @ frames (sync_payloads api doc 0 s)" "reliable (net s' k)"
    "session_code s' = code" "document s' = doc" "revision s' = 0" "peer_socket s' = Some k" "event_queue s' = []"
    by (rule server_sends [OF assms(1,6,2,3) asks(4) c3 asks(5)])
  have wire: "conn_wire (net s k) = EncodeFrame p" and sok: "session_ok (session_code s)"
    using assms(2,6) by (simp_all add: serving_def)
  have ends: "\<exists>c' g2. receive_rounds api now (chunk_count doc) c = Some c' \<and>
         HandleMessage api ue WmSyncEvent (g1\<lparr>n_client := c'\<rparr>) = Some g2 \<and>
         session_start \<lparr>host = h1\<lparr>n_server := s'\<rparr>, guest = g2, wire = []\<rparr> \<and> n_editor g2 = doc"
    if cut: "pieces (frames (sync_payloads api doc 0 s)) chunks"
  proof -
    obtain c' where c': "receive_rounds api now (chunk_count doc) c = Some c'"
      "c_events c' = map message_event (map (\<lambda>i. received (sync_chunk doc 0 s i)) [0..<chunk_count doc])"
      "c_connected c'" "\<not> c_stopping c'" "c_assigned c' = wide ''B''" "c_session_code c' = code" "c_send_queue c' = []"
      by (rule document_received [OF assms(1) sok assms(3) cut asks(6)])
    define w where "w = g1\<lparr>n_client := c'\<rparr>"
    have w: "n_chunks w = []" "event_queue (n_server w) = []"
      "c_events (n_client w) = map message_event (map (\<lambda>i. received (sync_chunk doc 0 s i)) [0..<chunk_count doc])"
      "guest_linked code (w\<lparr>n_client := (n_client w)\<lparr>c_events := []\<rparr>\<rparr>)" "window_ready w" "c_send_queue (n_client w) = []"
      using assms(12-16) c' by (simp_all add: w_def guest_linked_def window_ready_def editor_ok_def)
    show ?thesis
      using c'(1) s'(3-8) assms(2,4,5) document_drained [OF assms(4) w, of api]
      by (auto simp: w_def [symmetric] session_start_def host_ready_def hosting_def settled_def in_agreement_def
          window_ready_def editor_ok_def)
  qed
  show thesis
    using ends s'(5) by (intro that [OF asks(1-3) s'(1)]) (simp_all add: s'(2) wire)
qed

text \<open>Without a byte from the guest the server's thread waits.\<close>

lemma nothing_heard:
  assumes "in_time kHandshakeTimeoutMs clock"
  shows "handle_rounds api clock (Suc n) ((new_thread k)\<lparr>th_input := []\<rparr>) s = None"
proof -
  have "FrameDecoder_TryReadFrame [] = (None, NoError, [])" by (simp add: FrameDecoder_TryReadFrame_def)
  then have "ReceiveProtocolMessage api [] [] = None" by (simp add: ReceiveProtocolMessage.simps)
  then show ?thesis
    using assms
    by (auto simp: in_time_def HandleClient_def handshake_def new_thread_def ReceiveProtocolMessageWithin_def)
qed

lemma meeting_leads_to_session:
  assumes "utf8_api api" and "host_can mt h" and "guest_can mt g"
  shows "(\<exists>x. establishes api mt h g x) \<and>
    (\<forall>x. establishes api mt h g x \<longrightarrow>
       session_start x \<and> n_editor (host x) = n_editor h \<and> n_editor (guest x) = n_editor h)"
proof -
  let ?k = "mt_socket mt" and ?doc = "n_editor h"
  have can: "chunks_wf ?doc" "length ?doc \<le> kMaxDocumentChars" "in_time kHandshakeTimeoutMs (mt_clock mt)"
    "text_ok (GenerateReconnectToken (n_server h))" "reliable (net (n_server h) ?k)" "conn_wire (net (n_server h) ?k) = []"
    using assms(2) by (simp_all add: host_can_def Let_def)
  have idle: "c_events (n_client g) = []" using assms(3) by (simp add: guest_can_def idle_window_def Let_def)
  obtain h1 where h1: "HandleMessage api (mt_host mt) (WmCommand CmdHost) h = Some h1"
    "session_ok (n_session h1)" "session_code (n_server h1) = n_session h1" "\<not> peer_joined (n_server h1)"
    "\<not> IsJoinBlocked (n_server h1)" "\<not> stopping (n_server h1)" "document (n_server h1) = ?doc"
    "revision (n_server h1) = 0" "event_queue (n_server h1) = []"
    "net (n_server h1) ?k = net (n_server h) ?k" "GenerateReconnectToken (n_server h1) = GenerateReconnectToken (n_server h)"
    "hosting ?doc h1"
    by (rule host_creates [OF assms(2), of api])
  let ?code = "n_session h1"
  obtain b1 b2 kc token device_id nickname where greet: "reliable kc" "conn_wire kc = frames [b1, b2]"
    "DeserializeMessage api b1 = (NoError, received (hello_message ?code device_id nickname))"
    "DeserializeMessage api b2 = (NoError, received (join_message ?code token))"
    "length b1 + 4096 \<le> kMaxFramePayloadBytes + 1" "length b2 + 4096 \<le> kMaxFramePayloadBytes + 1"
    and line: "\<forall>input g1. HandleMessage api (joins_with ?code input (mt_guest mt)) (WmCommand CmdConnect) g = Some g1 \<longrightarrow>
      on_line (n_client g1) \<in> {[], frames [b1, b2]}"
    and joins: "\<forall>p m answer chunks. pieces (EncodeFrame p) answer \<longrightarrow> DeserializeMessage api p = (NoError, m) \<longrightarrow>
      msg_type m = MsgJoinOk \<longrightarrow> length p + 4096 \<le> kMaxFramePayloadBytes + 1 \<longrightarrow>
      GetString m (wide ''assigned_client'') = Some (wide ''B'') \<longrightarrow>
      (\<exists>g1 c3. HandleMessage api (joins_with ?code (map Received (answer @ chunks)) (mt_guest mt)) (WmCommand CmdConnect) g = Some g1 \<and>
         n_client g1 = snd (SendSyncRequest api 0 c3) \<and> joined_client ?code kc m (map Received chunks) (n_client g) c3 \<and>
         n_role g1 = Guest \<and> n_local g1 = wide ''B'' \<and> window_ready g1 \<and> n_chunks g1 = [] \<and> event_queue (n_server g1) = [])"
    by (rule guest_joins [OF assms(1) h1(2) assms(3)])
  have served: "\<exists>t s p. handle_rounds api (mt_clock mt) 6 ((new_thread ?k)\<lparr>th_input := map Received hello\<rparr>) (n_server h1) = Some (t, s) \<and>
      serving api ?k ?code ?doc t s p" if "pieces (frames [b1, b2]) hello" for hello
    using server_answers [OF assms(1) greet(3-6) that h1(3,2), of ?k "mt_clock mt"] can(3-6) h1(4-11) by simp
  have answered: "\<exists>g1 c p' s'. HandleMessage api (joins_with ?code (map Received (answer @ chunks)) (mt_guest mt)) (WmCommand CmdConnect) g = Some g1 \<and>
      on_line (n_client g1) = frames [b1, b2] \<and> SendLoop (n_client g1) = (True, c) \<and> on_line c = frames [b1, b2] @ EncodeFrame p' \<and>
      (\<forall>request. pieces (EncodeFrame p') request \<longrightarrow>
        (\<exists>t'. HandleClient api (mt_clock mt) (t\<lparr>th_input := map Received request\<rparr>) s = Some (t', s'))) \<and>
      conn_wire (net s' ?k) = EncodeFrame p @ frames (sync_payloads api ?doc 0 s) \<and> document s' = ?doc \<and>
      (pieces (frames (sync_payloads api ?doc 0 s)) chunks \<longrightarrow>
        (\<exists>c' g2. receive_rounds api (mt_now mt) (chunk_count ?doc) c = Some c' \<and>
         HandleMessage api (mt_guest mt) WmSyncEvent (g1\<lparr>n_client := c'\<rparr>) = Some g2 \<and>
         session_start \<lparr>host = h1\<lparr>n_server := s'\<rparr>, guest = g2, wire = []\<rparr> \<and> n_editor g2 = ?doc))"
    if serves: "serving api ?k ?code ?doc t s p" and answer: "pieces (EncodeFrame p) answer" for t s p answer chunks
  proof -
    obtain m where m: "DeserializeMessage api p = (NoError, m)" "msg_type m = MsgJoinOk"
      "GetString m (wide ''assigned_client'') = Some (wide ''B'')" "length p + 4096 \<le> kMaxFramePayloadBytes + 1"
      using serves by (auto simp: serving_def)
    obtain g1 c3 where g1: "HandleMessage api (joins_with ?code (map Received (answer @ chunks)) (mt_guest mt)) (WmCommand CmdConnect) g = Some g1"
      "n_client g1 = snd (SendSyncRequest api 0 c3)" "joined_client ?code kc m (map Received chunks) (n_client g) c3"
      "n_role g1 = Guest" "n_local g1 = wide ''B''" "window_ready g1" "n_chunks g1 = []" "event_queue (n_server g1) = []"
      using joins answer m by blast
    show ?thesis
      by (rule meeting_ends [OF assms(1) h1(2) can(1,2) h1(12) serves g1(2,3) idle m(3) greet(1) g1(4-8), of "mt_clock mt" "mt_now mt" "mt_guest mt"])
        (use g1(1) greet(2) in auto)
  qed
  have "\<exists>x. establishes api mt h g x"
  proof -
    obtain hello where hello: "pieces (frames [b1, b2]) hello" using pieces_exist by blast
    obtain t s p where s: "handle_rounds api (mt_clock mt) 6 ((new_thread ?k)\<lparr>th_input := map Received hello\<rparr>) (n_server h1) = Some (t, s)"
      "serving api ?k ?code ?doc t s p" using served [OF hello] by blast
    obtain answer chunks where cut: "pieces (EncodeFrame p) answer" "pieces (frames (sync_payloads api ?doc 0 s)) chunks"
      using pieces_exist by blast
    have wire: "conn_wire (net s ?k) = EncodeFrame p" using s(2) by (simp add: serving_def)
    obtain g1 c p' s' where e: "HandleMessage api (joins_with ?code (map Received (answer @ chunks)) (mt_guest mt)) (WmCommand CmdConnect) g = Some g1"
      "on_line (n_client g1) = frames [b1, b2]" "SendLoop (n_client g1) = (True, c)" "on_line c = frames [b1, b2] @ EncodeFrame p'"
      "\<forall>request. pieces (EncodeFrame p') request \<longrightarrow>
        (\<exists>t'. HandleClient api (mt_clock mt) (t\<lparr>th_input := map Received request\<rparr>) s = Some (t', s'))"
      "conn_wire (net s' ?k) = EncodeFrame p @ frames (sync_payloads api ?doc 0 s)" "document s' = ?doc"
      "\<exists>c' g2. receive_rounds api (mt_now mt) (chunk_count ?doc) c = Some c' \<and>
         HandleMessage api (mt_guest mt) WmSyncEvent (g1\<lparr>n_client := c'\<rparr>) = Some g2"
      using answered [OF s(2) cut(1), of chunks] cut(2) by blast
    obtain request where request: "pieces (EncodeFrame p') request" using pieces_exist by blast
    then obtain t' where t': "HandleClient api (mt_clock mt) (t\<lparr>th_input := map Received request\<rparr>) s = Some (t', s')"
      using e(5) by blast
    obtain c' g2 where g2: "receive_rounds api (mt_now mt) (chunk_count (document s')) c = Some c'"
      "HandleMessage api (mt_guest mt) WmSyncEvent (g1\<lparr>n_client := c'\<rparr>) = Some g2" using e(7,8) by auto
    have "pieces (on_line (n_client g1)) hello" "pieces (conn_wire (net s ?k)) answer"
      "pieces (drop (length (on_line (n_client g1))) (on_line c)) request"
      "pieces (drop (length (conn_wire (net s ?k))) (conn_wire (net s' ?k))) chunks"
      using hello cut request e(2,4,6) wire by simp_all
    then show ?thesis using establishes.meets [OF h1(1) e(1) _ s(1) _ e(3) _ t' _ g2] by blast
  qed
  moreover have "session_start x \<and> n_editor (host x) = ?doc \<and> n_editor (guest x) = ?doc" if "establishes api mt h g x" for x
    using that
  proof cases
    case (meets h' answer chunks g1 hello t s sent c request t' s' c' g2)
    have h': "h' = h1" using meets(2) h1(1) by simp
    have hello: "pieces (frames [b1, b2]) hello"
    proof (rule ccontr)
      assume "\<not> ?thesis"
      moreover have "on_line (n_client g1) \<in> {[], frames [b1, b2]}" using line meets(3) h' by blast
      ultimately have "on_line (n_client g1) = []" using meets(4) by auto
      then have "hello = []" using meets(4) by (cases hello) (auto simp: pieces_def)
      then show False using nothing_heard [OF can(3), of api 5 ?k "n_server h1"] meets(5) h' by simp
    qed
    obtain p where s: "serving api ?k ?code ?doc t s p"
      using served [OF hello] meets(5) h' by auto
    have wire: "conn_wire (net s ?k) = EncodeFrame p" using s by (simp add: serving_def)
    have answer: "pieces (EncodeFrame p) answer" using meets(6) wire by simp
    obtain p' v where e: "on_line (n_client g1) = frames [b1, b2]" "sent = True" "on_line c = frames [b1, b2] @ EncodeFrame p'"
      "\<forall>request. pieces (EncodeFrame p') request \<longrightarrow>
        (\<exists>t'. HandleClient api (mt_clock mt) (t\<lparr>th_input := map Received request\<rparr>) s = Some (t', v))"
      "conn_wire (net v ?k) = EncodeFrame p @ frames (sync_payloads api ?doc 0 s)" "document v = ?doc"
      "pieces (frames (sync_payloads api ?doc 0 s)) chunks \<longrightarrow>
        (\<exists>c' g2. receive_rounds api (mt_now mt) (chunk_count ?doc) c = Some c' \<and>
         HandleMessage api (mt_guest mt) WmSyncEvent (g1\<lparr>n_client := c'\<rparr>) = Some g2 \<and>
         session_start \<lparr>host = h1\<lparr>n_server := v\<rparr>, guest = g2, wire = []\<rparr> \<and> n_editor g2 = ?doc)"
      using answered [OF s answer, of chunks] meets(3,7) h' by auto
    have "pieces (EncodeFrame p') request" using meets(8) e(1,3) by simp
    then have s': "s' = v" using e(4) meets(9) by fastforce
    have "pieces (frames (sync_payloads api ?doc 0 s)) chunks" using meets(10) wire e(5) s' by simp
    then show ?thesis
      using e(6,7) meets(1,11,12) h' s' h1(12) by (auto simp: hosting_def)
  qed
  ultimately show ?thesis by blast
qed

end
