(* ===== verification/SessionProps.thy ===== *)
theory SessionProps
  imports SessionInvariant NativeProps Establish
begin

text \<open>
  What two people see who share a document in classic windows and take turns; and the one kind of
  typing that breaks it even then.
\<close>

definition example_session :: session where
  "example_session = \<lparr>host = native_host, guest = native_guest\<lparr>n_client := example_client\<rparr>, wire = []\<rparr>"

lemma example_session_start: "session_start example_session"
  using reliable_ready_conn session_ok_example
  by (auto simp: session_start_def example_session_def native_defs example_server_def example_client_def SyncServer_init_def
      SyncClient_init_def host_ready_def guest_ready_def guest_linked_def window_ready_def editor_ok_def settled_def
      in_agreement_def kMaxDocumentChars_def)

lemma ascii_operations_typed:
  assumes "is_ascii new_text" and "length new_text \<le> 7000"
  shows "\<forall>op \<in> set (operations (ComputeEditorDiff old_text new_text)). typed_ok (op_text op)"
proof (cases "old_text = new_text")
  case True
  then show ?thesis by (simp add: ComputeEditorDiff_def)
next
  case False
  have "length new_text \<le> kMaxDocumentChars" using assms(2) by (simp add: kMaxDocumentChars_def)
  then obtain p d i s where "old_text = p @ d @ s" and n: "new_text = p @ i @ s" and ops: "operations (ComputeEditorDiff old_text new_text) =
      (if d \<noteq> [] then [delete_op (length p) (length d)] else []) @ (if i \<noteq> [] then [insert_op (length p) i] else [])"
    by (rule diff_decompose [OF _ False]) (rule that)
  have "is_ascii i" using assms(1) by (simp add: n is_ascii_def)
  then have "typed_ok i" using assms(2) n is_ascii_wf by (simp add: typed_ok_def)
  then show ?thesis unfolding ops by (auto simp: delete_op_def insert_op_def typed_ok_def)
qed

text \<open>Without a space or a line break before the caret there is no shortcut.\<close>

lemma no_shortcut: "sel_end sel = 0 \<Longrightarrow> n_editor (after_shortcut t sel w) = t"
  by (simp add: after_shortcut_def ApplyMarkdownShortcutIfNeeded_def ResetMarkdownStyleAtLineBreakIfNeeded_def Let_def)

lemma no_shortcut_behind:
  "t ! (unat (sel_end sel) - 1) \<notin> {10, 13, 32} \<Longrightarrow> n_editor (after_shortcut t sel w) = t"
  by (simp add: after_shortcut_def ApplyMarkdownShortcutIfNeeded_def ResetMarkdownStyleAtLineBreakIfNeeded_def Let_def)

lemma sel_end_no_selection: "sel_end no_selection = 0"
  by (simp add: no_selection_def)

lemma deliveries_in_session: "(deliver api)\<^sup>*\<^sup>* x y \<Longrightarrow> in_session api x \<Longrightarrow> in_session api y"
  by (induction rule: rtranclp_induct) (auto intro: in_session.step session_step.delivers)

lemma example_edit:
  "editable (wide ''ho'') no_selection native_host"
  "editable (wide ''ho'') no_selection (native_guest\<lparr>n_client := example_client\<rparr>)"
proof -
  have ops: "\<forall>op \<in> set (operations (ComputeEditorDiff t (wide ''ho''))). typed_ok (op_text op)" for t
    by (rule ascii_operations_typed) (simp_all add: wide_def is_ascii_def)
  note e = no_shortcut [OF sel_end_no_selection]
  show "editable (wide ''ho'') no_selection native_host"
    "editable (wide ''ho'') no_selection (native_guest\<lparr>n_client := example_client\<rparr>)"
    using ops by (simp_all add: editable_def e) (simp_all add: native_defs kMaxDocumentChars_def)
qed

section \<open>Taking turns\<close>

text \<open>
  C1: two windows whose users take turns agree with the server. Starting from a host and a guest
  that show the same document, each side may change its text, within the bounds of \<open>editable\<close>, when
  nothing is under way; the requests, announcements and events of the change are then delivered in
  any order the threads allow, with saving, selecting, hints and the preview in between. Whenever
  nothing is under way, both editors hold the document of the server, and both windows its revision.
\<close>

theorem turns_keep_agreement:
  assumes "utf8_api api" and "in_session api x" and "settled x"
  shows "n_editor (host x) = document (n_server (host x)) \<and> n_editor (guest x) = document (n_server (host x)) \<and>
         n_revision (host x) = revision (n_server (host x)) \<and> n_revision (guest x) = revision (n_server (host x))"
proof -
  obtain g where "on_course api g x" using in_session_on_course [OF assms(2,1)] by blast
  from on_course_settled(1) [OF this assms(3)] show ?thesis by (simp add: in_agreement_def)
qed

text \<open>The host types, and its edit arrives.\<close>

lemma example_host_edit:
  "\<exists>y. in_session utf8_ref y \<and> settled y \<and> document (n_server (host y)) = wide ''ho''"
proof -
  let ?x = example_session
  have doc: "document (n_server (host ?x)) = wide ''hi''"
    by (simp add: example_session_def native_defs example_server_def)
  have x: "in_session utf8_ref ?x" "settled ?x" "on_course utf8_ref (wide ''hi'') ?x" "host_ready (host ?x)"
    "n_editor (host ?x) = document (n_server (host ?x))" "n_revision (host ?x) = revision (n_server (host ?x))"
    using in_session.start [OF example_session_start] on_course_start [OF example_session_start] example_session_start doc
    by (simp_all add: session_start_def in_agreement_def)
  obtain w where w: "HandleMessage utf8_ref dead_env (WmEdited (wide ''ho'') no_selection) (host ?x) = Some w" by simp
  define x1 where "x1 = ?x\<lparr>host := w, wire := wire ?x @ put_on_wire (n_server (host ?x)) (n_server w)\<rparr>"
  have e: "editable (wide ''ho'') no_selection (host ?x)" using example_edit(1) by (simp add: example_session_def)
  have "session_step utf8_ref ?x x1"
    unfolding x1_def by (rule session_step.host_edits_text [OF x(2) e w])
  then have s1: "in_session utf8_ref x1" by (rule in_session.step [OF x(1)])
  have "n_editor w = wide ''ho''"
    using host_types_step [OF utf8_api_ref x(4) e w x(5,6)] no_shortcut [OF sel_end_no_selection] by metis
  then have c1: "on_course utf8_ref (wide ''ho'') x1"
    using host_edit_on_course [OF utf8_api_ref x(3,2) e w] by (simp add: x1_def)
  obtain y where y: "(deliver utf8_ref)\<^sup>*\<^sup>* x1 y" "settled y" using settles [OF utf8_api_ref c1] by blast
  have "in_session utf8_ref y" using deliveries_in_session [OF y(1) s1] .
  moreover have "document (n_server (host y)) = wide ''ho''"
    using on_course_settled(2) [OF deliveries_on_course [OF y(1) utf8_api_ref c1] y(2)] .
  ultimately show ?thesis using y(2) by blast
qed

lemma turns_keep_agreement_witness:
  "\<exists>y. in_session utf8_ref y \<and> n_editor (guest y) = wide ''ho'' \<and> n_editor (host y) = wide ''ho''"
  using example_host_edit turns_keep_agreement [OF utf8_api_ref] by metis



section \<open>Half a character\<close>

text \<open>
  C34: replacing a character by one that shares its first UTF-16 unit, such as one emoji by another,
  with the caret behind it as after typing, breaks the session. The comparison of the texts is by
  units: what is sent is the deletion of the second unit only, because the insertion of the other
  half is not well-formed and cannot be encoded. The guest shows the new character; the server is left with half of the old one, a text
  that it can never send as a whole again.
\<close>

theorem half_character_edit_lost:
  assumes "utf8_api api" and "guest_ready code w" and "session_ok code" and "n_editor w = p @ [hi, lo] @ s"
    and "is_high_surrogate hi" and "is_low_surrogate lo" and "is_low_surrogate lo'" and "lo \<noteq> lo'"
    and "utf16_wf p" and "utf16_wf s" and "length (n_editor w) \<le> kMaxDocumentChars"
    and "unat (sel_end sel) = length p + 2" and "HandleMessage api ue (WmEdited (p @ [hi, lo'] @ s) sel) w = Some w'"
  shows "n_editor w' = p @ [hi, lo'] @ s \<and>
    (\<exists>b m. c_send_queue (n_client w') = c_send_queue (n_client w) @ [EncodeFrame b] \<and>
       DeserializeMessage api b = (NoError, m) \<and> requested_edit m = Some (length p + 1, 1, [])) \<and>
    do_edit (length p + 1, 1, []) (n_editor w) = p @ [hi] @ s \<and> \<not> utf16_wf (p @ [hi] @ s)"
proof -
  let ?t = "p @ [hi, lo'] @ s" and ?q = "p @ [hi]"
  define v where "v = after_shortcut ?t sel w"
  have len: "length ?t \<le> kMaxDocumentChars" using assms(4,11) by simp
  have "?t ! (unat (sel_end sel) - 1) = lo'" by (simp add: assms(12) nth_append)
  moreover have "lo' \<notin> {10, 13, 32}" using assms(7) by (auto simp: is_low_surrogate_def)
  ultimately have "n_editor (after_shortcut ?t sel w) = ?t" using no_shortcut_behind by metis
  note same = this
  have v: "n_editor v = ?t" "n_last v = n_editor w" "n_role v = Guest" "n_client v = n_client w" "guest_linked code v"
    using assms(2) after_shortcut_frame [of ?t sel w] same
    by (simp_all add: v_def guest_ready_def guest_linked_def window_ready_def editor_ok_def)
  have old: "n_editor w = ?q @ [lo] @ s" and new: "?t = ?q @ [lo'] @ s" using assms(4) by simp_all
  have ops: "operations (ComputeEditorDiff (n_last v) (n_editor v)) = [delete_op (length p + 1) 1, insert_op (length p + 1) [lo']]"
    using single_change [of ?q lo' s lo] len assms(8) by (simp add: v old)
  have "apply_operation (delete_op (length p + 1) 1) (n_editor w) = (Applied, p @ [hi] @ s)"
    by (simp add: apply_operation_def delete_op_def delete_applied splice_def old)
  then obtain m b where m: "send_local_operation_main api (delete_op (length p + 1) 1) v =
      v\<lparr>n_client := (n_client v)\<lparr>c_send_queue := c_send_queue (n_client v) @ [EncodeFrame b]\<rparr>\<rparr>"
    "carries api [b] [m]" "requested_edit m = Some (operation_edit (delete_op (length p + 1) 1))"
    by (rule guest_sends_one [OF assms(1) v(5) assms(3) _ _ assms(11)]) (simp_all add: delete_op_def typed_ok_def)
  define v1 where "v1 = v\<lparr>n_client := (n_client v)\<lparr>c_send_queue := c_send_queue (n_client v) @ [EncodeFrame b]\<rparr>\<rparr>"
  define u where "u = fold (send_local_operation_main api) (operations (ComputeEditorDiff (n_last v) (n_editor v))) v"
  have "c_assigned (n_client v1) \<noteq> []" using v(5) by (simp add: v1_def guest_linked_def)
  then have "\<not> field_wf (StrField (wide ''text'') [lo'])" "StrField (wide ''text'') [lo'] \<in>
      set (message_fields (insert_message (n_revision v1) (length p + 1) [lo'] (n_client v1)))"
    using assms(7) by (simp_all add: insert_fields)
  then obtain e where e: "SerializeMessage api (insert_message (n_revision v1) (length p + 1) [lo'] (n_client v1)) = Inl e"
    using SerializeMessage_ill_formed [OF assms(1)] by blast
  have u: "u = v1\<lparr>n_client := (n_client v1)\<lparr>c_last_error := wide ''message serialize failed''\<rparr>\<rparr>"
  proof -
    have "u = send_local_operation_main api (insert_op (length p + 1) [lo']) v1"
      unfolding u_def ops v1_def m(1) [symmetric] by simp
    also have "\<dots> = v1\<lparr>n_client := (n_client v1)\<lparr>c_last_error := wide ''message serialize failed''\<rparr>\<rparr>"
      using e v(3) by (simp add: send_local_operation_main_def insert_op_def SendInsert_def EnqueueMessage_def v1_def Let_def)
    finally show ?thesis .
  qed
  note f = ProcessEditorChange_fields [OF _ u_def]
  have w': "w' = ProcessEditorChange api v"
    using WmEdited_result [OF assms(13)] assms(2) by (simp add: v_def guest_ready_def)
  have "n_editor w' = ?t" "n_client w' = n_client u"
    using f(2,6) len v(1,3) by (simp_all add: w' u v1_def)
  moreover have "\<not> utf16_wf (p @ [hi] @ s)"
    using assms(5,9,10) utf16_wf_append [OF assms(9), of "hi # s"]
    by (cases s) (auto simp: is_high_surrogate_def is_low_surrogate_def)
  moreover have "do_edit (length p + 1, 1, []) (n_editor w) = p @ [hi] @ s"
    by (simp add: do_edit_def splice_def old)
  ultimately show ?thesis
    using m(2,3) v(4) by (auto simp: u v1_def operation_edit_def delete_op_def)
qed

text \<open>One smiling face becomes another.\<close>

lemma half_character_edit_lost_witness:
  "\<exists>w' b. HandleMessage utf8_ref dead_env (WmEdited [0xD83D, 0xDE01] \<lparr>sel_start = 2, sel_end = 2\<rparr>)
       (native_guest\<lparr>n_client := example_client, n_editor := [0xD83D, 0xDE00], n_last := [0xD83D, 0xDE00]\<rparr>) = Some w' \<and>
     n_editor w' = [0xD83D, 0xDE01] \<and> c_send_queue (n_client w') = [EncodeFrame b]"
proof -
  let ?w = "native_guest\<lparr>n_client := example_client, n_editor := [0xD83D, 0xDE00], n_last := [0xD83D, 0xDE00]\<rparr>"
  obtain w' where w': "HandleMessage utf8_ref dead_env (WmEdited [0xD83D, 0xDE01] \<lparr>sel_start = 2, sel_end = 2\<rparr>) ?w = Some w'" by simp
  have g: "guest_ready (wide ''123456'') ?w"
    by (simp add: guest_ready_def guest_linked_def window_ready_def editor_ok_def native_defs example_client_def
        SyncServer_init_def SyncClient_init_def)
  have q: "c_send_queue (n_client ?w) = []" by (simp add: example_client_def SyncClient_init_def)
  show ?thesis
    using half_character_edit_lost [OF utf8_api_ref g session_ok_example, of "[]" "0xD83D" "0xDE00" "[]" "0xDE01"
        "\<lparr>sel_start = 2, sel_end = 2\<rparr>" dead_env w'] w' q
    by (auto simp: is_high_surrogate_def is_low_surrogate_def kMaxDocumentChars_def)
qed

section \<open>Typing while disconnected\<close>

text \<open>Without a connection nothing is queued; only the reason is noted.\<close>

lemma disconnected_sends:
  assumes "n_role w = Guest" and "\<not> c_connected (n_client w)"
  shows "\<exists>e. fold (send_local_operation_main api) ops w = w\<lparr>n_client := (n_client w)\<lparr>c_last_error := e\<rparr>\<rparr>"
  using assms
proof (induction ops arbitrary: w)
  case Nil
  have "w = w\<lparr>n_client := (n_client w)\<lparr>c_last_error := c_last_error (n_client w)\<rparr>\<rparr>" by simp
  then show ?case by (metis fold_simps(1))
next
  case (Cons op ops)
  have q: "\<exists>e. snd (EnqueueMessage api m (n_client w)) = (n_client w)\<lparr>c_last_error := e\<rparr>" for m
    using Cons.prems(2) by (auto simp: EnqueueMessage_def split: sum.splits)
  have "\<exists>e. snd (SendInsert api r p t (n_client w)) = (n_client w)\<lparr>c_last_error := e\<rparr>"
    "\<exists>e. snd (SendDelete api r p n (n_client w)) = (n_client w)\<lparr>c_last_error := e\<rparr>" for r p t n
    using q by (simp_all add: SendInsert_def SendDelete_def) (metis client.select_convs client.surjective)+
  then have "\<exists>e. snd (case op_type op of
      OpInsert \<Rightarrow> SendInsert api (n_revision w) (op_position op) (op_text op) (n_client w)
    | OpDelete \<Rightarrow> SendDelete api (n_revision w) (op_position op) (op_length op) (n_client w)) = (n_client w)\<lparr>c_last_error := e\<rparr>"
    by (simp split: editor_operation_type.split)
  then have "\<exists>e. send_local_operation_main api op w = w\<lparr>n_client := (n_client w)\<lparr>c_last_error := e\<rparr>\<rparr>"
    using Cons.prems(1) by (auto simp: send_local_operation_main_def Let_def simp del: prod.simps split del: editor_operation_type.split)
  then obtain e where e: "send_local_operation_main api op w = w\<lparr>n_client := (n_client w)\<lparr>c_last_error := e\<rparr>\<rparr>" by blast
  from Cons.IH [of "send_local_operation_main api op w"] show ?case
    using Cons.prems by (auto simp: e)
qed

text \<open>
  C35: what a guest types while the connection is down is lost. The editor takes the text, but nothing
  is queued for the server; and the first thing that happens after a reconnection, the full
  synchronisation, replaces the editor, the comparison text and the active tab by the document of the
  server. The design documents promise a queue and that the user's document is kept.
\<close>

theorem typing_while_disconnected_lost:
  assumes "n_role w = Guest" and "window_ready w" and "\<not> c_connected (n_client w)" and "length t \<le> kMaxDocumentChars"
    and "HandleMessage api ue (WmEdited t sel) w = Some w'"
    and "is_chunk doc r 0 m" and "chunk_count doc = 1" and "n_active w' < length (n_tabs w')"
  shows "n_editor w' = n_editor (after_shortcut t sel w) \<and> c_send_queue (n_client w') = c_send_queue (n_client w) \<and>
    n_editor (ApplySyncResponse_main m w') = doc \<and> n_last (ApplySyncResponse_main m w') = doc \<and>
    tab_content (n_tabs (ApplySyncResponse_main m w') ! n_active w') = doc"
proof -
  define v where "v = after_shortcut t sel w"
  define u where "u = fold (send_local_operation_main api) (operations (ComputeEditorDiff (n_last v) (n_editor v))) v"
  have v: "n_role v = Guest" "\<not> c_connected (n_client v)" "length (n_editor v) \<le> kMaxDocumentChars" "n_client v = n_client w"
    using assms(1,3,4) after_shortcut_frame [of t sel w] by (simp_all add: v_def)
  obtain e where u: "u = v\<lparr>n_client := (n_client v)\<lparr>c_last_error := e\<rparr>\<rparr>"
    using disconnected_sends [OF v(1,2)] by (auto simp: u_def)
  note f = ProcessEditorChange_fields [OF v(3) u_def]
  have w': "w' = ProcessEditorChange api v"
    using WmEdited_result [OF assms(5,2)] by (simp add: v_def)
  have "n_editor w' = n_editor v" "n_client w' = n_client u"
    using f(2,6) v(1) by (simp_all add: w' u)
  moreover have "ApplySyncResponse_main m w' = take_text doc (n_selection w') r nt_synced (w'\<lparr>n_chunks := [], n_received := []\<rparr>)"
  proof -
    have "chunk kSyncChunkChars doc 0 = doc" using concat_sync_chunks [of doc] assms(7) by simp
    then show ?thesis
      using assms(6,7)
      by (simp add: is_chunk_def ApplySyncResponse_main_def ApplyFullSyncDocument_main_def optional_number_def Let_def)
  qed
  moreover have "tab_content (n_tabs (take_text doc (n_selection w') r nt_synced (w'\<lparr>n_chunks := [], n_received := []\<rparr>)) ! n_active w') = doc"
    using take_text_content [of "w'\<lparr>n_chunks := [], n_received := []\<rparr>" doc "n_selection w'" r nt_synced] assms(8) by simp
  ultimately show ?thesis by (simp add: u v_def [symmetric] v(4))
qed

lemma typing_while_disconnected_lost_witness:
  "\<exists>w'. HandleMessage utf8_ref dead_env (WmEdited (wide ''my notes'') no_selection) native_guest = Some w' \<and>
     n_editor w' = wide ''my notes'' \<and> n_editor (ApplySyncResponse_main (received (sync_chunk (wide ''hi'') 9 example_server 0)) w') = wide ''hi''"
proof -
  obtain w' where w': "HandleMessage utf8_ref dead_env (WmEdited (wide ''my notes'') no_selection) native_guest = Some w'" by simp
  have "tabs_ok native_guest" by (simp add: tabs_ok_def native_defs kMaxTabs_def)
  then have "n_active w' < length (n_tabs w')"
    using HandleMessage_in_order [OF w'] by (auto simp: in_order_def tabs_ok_def)
  moreover have "chunk_count (wide ''hi'') = 1" by (simp add: chunk_count_def kSyncChunkChars_def)
  moreover have "n_role native_guest = Guest" "window_ready native_guest" "\<not> c_connected (n_client native_guest)"
    "length (wide ''my notes'') \<le> kMaxDocumentChars"
    by (simp_all add: native_defs window_ready_def editor_ok_def SyncClient_init_def kMaxDocumentChars_def)
  ultimately show ?thesis
    using typing_while_disconnected_lost [of native_guest "wide ''my notes''" utf8_ref dead_env no_selection w' "wide ''hi''" 9
        "received (sync_chunk (wide ''hi'') 9 example_server 0)"] w' is_chunk_sync_chunk no_shortcut [OF sel_end_no_selection]
    by metis
qed

section \<open>How a session starts\<close>

text \<open>
  C3: joining leads to a session. A window creates a room (at least one port is free, the code is a
  random number of six digits) and another window joins it with that code (the host is found, the
  line works and the clocks are in time): then the meeting of the two is possible; and however the
  network cuts the greeting, the answer, the request and the document into pieces, at its end the
  guest shows the host's text under the host's revision, nothing is under way, and all that
  the theorems on a session assume at its start holds.
\<close>

theorem joining_starts_session:
  assumes "utf8_api api" and "host_can mt h" and "guest_can mt g"
  shows "(\<exists>x. establishes api mt h g x) \<and>
    (\<forall>x. establishes api mt h g x \<longrightarrow>
       session_start x \<and> n_editor (host x) = n_editor h \<and> n_editor (guest x) = n_editor h)"
  by (rule meeting_leads_to_session [OF assms])

text \<open>A meeting of two windows fresh from the start, the host's with a text.\<close>

definition example_meeting :: meeting where
  "example_meeting =
     \<lparr>mt_host = dead_env,
      mt_guest = dead_env\<lparr>ue_web := (ue_web dead_env)\<lparr>env_found := Some (wide ''10.0.0.2'', 7777),
        env_connect := dead_connect\<lparr>env_socket := Some ready_conn, env_clock := [0, 1],
          env_calls := (env_calls dead_connect)\<lparr>connect_error := None\<rparr>\<rparr>\<rparr>\<rparr>,
      mt_socket = 1, mt_clock = [0, 10], mt_now = 0\<rparr>"

lemma example_idle: "idle_window example_native" "idle_window (example_native\<lparr>n_editor := [], n_last := []\<rparr>)"
  by (simp_all add: idle_window_def window_ready_def editor_ok_def native_defs SyncServer_init_def SyncClient_init_def)

lemma joining_starts_session_witness:
  "\<exists>x. establishes utf8_ref example_meeting example_native (example_native\<lparr>n_editor := [], n_last := []\<rparr>) x \<and>
     session_start x \<and> n_editor (guest x) = wide ''hi''"
proof -
  have "chunks_wf (wide ''hi'')" by (rule chunks_wf_short) (simp_all add: kSyncChunkChars_def)
  moreover have "text_ok (GenerateReconnectToken SyncServer_init)" by (rule token_ok) (simp add: SyncServer_init_def)
  ultimately have "host_can example_meeting example_native"
    using example_idle(1)
    by (auto simp: host_can_def Let_def example_meeting_def dead_env_def native_defs SyncServer_init_def reliable_def
        preferred_port_of_def in_time_def kHandshakeTimeoutMs_def kMaxDocumentChars_def)
  moreover have "guest_can example_meeting (example_native\<lparr>n_editor := [], n_last := []\<rparr>)"
    using example_idle(2) reliable_ready_conn
    by (simp add: guest_can_def Let_def example_meeting_def dead_env_def dead_connect_def native_defs SyncClient_init_def
        text_ok_def in_time_def kJoinResponseTimeoutMs_def ConnectWithTimeout_def) (simp add: ready_conn_def)
  ultimately show ?thesis
    using joining_starts_session [OF utf8_api_ref, of example_meeting example_native "example_native\<lparr>n_editor := [], n_last := []\<rparr>"]
    by (auto simp: native_defs)
qed

end
