(* ===== verification/NativeControls.thy ===== *)
theory NativeControls
  imports NativeLayout NativeMessages
begin

text \<open>
  The creation of the classic window: its class, its menus, its 37 controls with the styles,
  texts, identifiers and fonts they get, and the theme; then what each identifier of a
  WM_COMMAND does. Which calls of the system succeed is part of the environment; the order of
  the calls is kept as a list.
\<close>

section \<open>Identifiers\<close>

datatype command_id =
    HostButtonId | JoinButtonId | ConnectButtonId | BackButtonId | AdvancedButtonId | FileNewId | FileSaveId
  | FileExitId | EditUndoId | EditCutId | EditCopyId | EditPasteId | EditDeleteId | EditSelectAllId
  | ViewMarkdownPreviewId | ShareCopyCodeId | ShareLeaveRoomId | HelpAboutId | FileMenuButtonId
  | EditMenuButtonId | ViewMenuButtonId | StyleButtonId | ListButtonId | BoldButtonId | ItalicButtonId
  | StrikeButtonId | LinkButtonId | TableButtonId | MarkdownButtonId | ShareButtonId | AccountButtonId
  | SettingsButtonId | Tab0ButtonId | Tab1ButtonId | Tab2ButtonId | NewTabButtonId

fun id_number :: "command_id \<Rightarrow> nat" where
  "id_number HostButtonId = 1001"
| "id_number JoinButtonId = 1002"
| "id_number ConnectButtonId = 1003"
| "id_number BackButtonId = 1004"
| "id_number AdvancedButtonId = 1005"
| "id_number FileNewId = 1101"
| "id_number FileSaveId = 1102"
| "id_number FileExitId = 1103"
| "id_number EditUndoId = 1201"
| "id_number EditCutId = 1202"
| "id_number EditCopyId = 1203"
| "id_number EditPasteId = 1204"
| "id_number EditDeleteId = 1205"
| "id_number EditSelectAllId = 1206"
| "id_number ViewMarkdownPreviewId = 1251"
| "id_number ShareCopyCodeId = 1301"
| "id_number ShareLeaveRoomId = 1302"
| "id_number HelpAboutId = 1401"
| "id_number FileMenuButtonId = 1501"
| "id_number EditMenuButtonId = 1502"
| "id_number ViewMenuButtonId = 1503"
| "id_number StyleButtonId = 1504"
| "id_number ListButtonId = 1505"
| "id_number BoldButtonId = 1506"
| "id_number ItalicButtonId = 1507"
| "id_number StrikeButtonId = 1508"
| "id_number LinkButtonId = 1509"
| "id_number TableButtonId = 1510"
| "id_number MarkdownButtonId = 1511"
| "id_number ShareButtonId = 1512"
| "id_number AccountButtonId = 1513"
| "id_number SettingsButtonId = 1514"
| "id_number Tab0ButtonId = 1601"
| "id_number Tab1ButtonId = 1602"
| "id_number Tab2ButtonId = 1603"
| "id_number NewTabButtonId = 1604"

definition all_ids :: "command_id list" where
  "all_ids =
     [HostButtonId, JoinButtonId, ConnectButtonId, BackButtonId, AdvancedButtonId, FileNewId, FileSaveId,
      FileExitId, EditUndoId, EditCutId, EditCopyId, EditPasteId, EditDeleteId, EditSelectAllId,
      ViewMarkdownPreviewId, ShareCopyCodeId, ShareLeaveRoomId, HelpAboutId, FileMenuButtonId,
      EditMenuButtonId, ViewMenuButtonId, StyleButtonId, ListButtonId, BoldButtonId, ItalicButtonId,
      StrikeButtonId, LinkButtonId, TableButtonId, MarkdownButtonId, ShareButtonId, AccountButtonId,
      SettingsButtonId, Tab0ButtonId, Tab1ButtonId, Tab2ButtonId, NewTabButtonId]"

definition id_of_number :: "nat \<Rightarrow> command_id option" where
  "id_of_number n = List.find (\<lambda>i. id_number i = n) all_ids"

lemma all_ids_all: "i \<in> set all_ids"
  by (cases i) (simp_all add: all_ids_def)

lemma id_numbers_distinct: "distinct (map id_number all_ids)"
  by (simp add: all_ids_def)

lemma id_number_eq_iff [simp]: "id_number i = id_number j \<longleftrightarrow> i = j"
  using id_numbers_distinct all_ids_all by (auto simp: distinct_map inj_on_def)

lemma id_of_number_id [simp]: "id_of_number (id_number i) = Some i"
proof -
  have "find (\<lambda>j. id_number j = id_number i) xs = Some i" if "i \<in> set xs" for xs
    using that by (induction xs) auto
  then show ?thesis using all_ids_all by (simp add: id_of_number_def)
qed

lemma id_of_number_SomeD: "id_of_number n = Some i \<Longrightarrow> id_number i = n"
  by (auto simp: id_of_number_def find_Some_iff)

section \<open>Menus\<close>

datatype menu = MainMenu | FileMenu | EditMenu | ViewMenu | ShareMenu | HelpMenu

datatype menu_item = MenuEntry command_id wstr | MenuSeparator

definition file_menu :: "menu_item list" where
  "file_menu = [MenuEntry FileNewId mn_file_new, MenuEntry FileSaveId mn_file_save, MenuSeparator,
     MenuEntry FileExitId mn_file_exit]"

definition edit_menu :: "menu_item list" where
  "edit_menu = [MenuEntry EditUndoId mn_edit_undo, MenuSeparator, MenuEntry EditCutId mn_edit_cut,
     MenuEntry EditCopyId mn_edit_copy, MenuEntry EditPasteId mn_edit_paste, MenuEntry EditDeleteId mn_edit_delete,
     MenuSeparator, MenuEntry EditSelectAllId mn_edit_select_all]"

definition view_menu :: "menu_item list" where
  "view_menu = [MenuEntry ViewMarkdownPreviewId mn_view_preview]"

definition share_menu :: "menu_item list" where
  "share_menu = [MenuEntry HostButtonId mn_share_host, MenuEntry JoinButtonId mn_share_join,
     MenuEntry ShareCopyCodeId mn_share_copy, MenuSeparator, MenuEntry ShareLeaveRoomId mn_share_leave]"

definition help_menu :: "menu_item list" where
  "help_menu = [MenuEntry HelpAboutId mn_help_about]"

fun menu_items :: "menu \<Rightarrow> menu_item list" where
  "menu_items MainMenu = []"
| "menu_items FileMenu = file_menu"
| "menu_items EditMenu = edit_menu"
| "menu_items ViewMenu = view_menu"
| "menu_items ShareMenu = share_menu"
| "menu_items HelpMenu = help_menu"

text \<open>The popups of the main menu. No code sets it as the menu of the window.\<close>

definition main_menu :: "(menu \<times> wstr) list" where
  "main_menu = [(FileMenu, mn_file), (EditMenu, mn_edit), (ViewMenu, mn_view), (ShareMenu, mn_share), (HelpMenu, mn_help)]"

text \<open>Which menus the system creates; then whether all of them could be.\<close>

definition CreateMainMenu :: "(menu \<Rightarrow> bool) \<Rightarrow> bool" where
  "CreateMainMenu created = list_all created [MainMenu, FileMenu, EditMenu, ViewMenu, ShareMenu, HelpMenu]"

section \<open>Controls\<close>

datatype window_class = ClassStatic | ClassButton | ClassEdit | ClassRichEdit

datatype style = WsChild | WsVisible | WsVScroll | SsNotify | SsLeft | SsCenter | BsPushButton | EsAutoHScroll
  | EsLeft | EsMultiline | EsAutoVScroll | EsWantReturn | EsNoHideSel | EsReadOnly

text \<open>The arguments of one \<^verbatim>\<open>CreateWindowExW\<close>: the flag is WS_EX_CLIENTEDGE; sizes are all zero.\<close>

datatype control_spec =
  ControlSpec (cs_control: control) (cs_client_edge: bool) (cs_class: window_class) (cs_text: wstr)
    (cs_styles: "style list") (cs_id: "command_id option")

definition tab_controls :: "control_spec list" where
  "tab_controls =
     [ControlSpec TabBar False ClassStatic []
        [WsChild, WsVisible] None,
      ControlSpec (TabLabel 0) True ClassStatic (wide ''  current.txt'')
        [WsChild, WsVisible, SsNotify, SsLeft] (Some Tab0ButtonId),
      ControlSpec (TabLabel 1) True ClassStatic ct_tab_1
        [WsChild, SsNotify, SsLeft] (Some Tab1ButtonId),
      ControlSpec (TabLabel 2) True ClassStatic ct_tab_2
        [WsChild, SsNotify, SsLeft] (Some Tab2ButtonId),
      ControlSpec NewTabButton False ClassStatic (wide ''+'')
        [WsChild, WsVisible, SsNotify, SsCenter] (Some NewTabButtonId)]"

definition menu_controls :: "control_spec list" where
  "menu_controls =
     [ControlSpec ToolbarBar False ClassStatic []
        [WsChild, WsVisible] None,
      ControlSpec FileMenuButton False ClassStatic ct_file
        [WsChild, WsVisible, SsNotify, SsCenter] (Some FileMenuButtonId),
      ControlSpec EditMenuButton False ClassStatic ct_edit
        [WsChild, WsVisible, SsNotify, SsCenter] (Some EditMenuButtonId),
      ControlSpec ViewMenuButton False ClassStatic ct_view
        [WsChild, WsVisible, SsNotify, SsCenter] (Some ViewMenuButtonId)]"

definition toolbar_controls :: "control_spec list" where
  "toolbar_controls =
     [ControlSpec StyleButton False ClassStatic ct_style
        [WsChild, WsVisible, SsNotify, SsCenter] (Some StyleButtonId),
      ControlSpec ListButton False ClassStatic ct_list
        [WsChild, WsVisible, SsNotify, SsCenter] (Some ListButtonId),
      ControlSpec BoldButton False ClassStatic ct_bold
        [WsChild, WsVisible, SsNotify, SsCenter] (Some BoldButtonId),
      ControlSpec ItalicButton False ClassStatic ct_italic
        [WsChild, WsVisible, SsNotify, SsCenter] (Some ItalicButtonId),
      ControlSpec StrikeButton False ClassStatic ct_strike
        [WsChild, WsVisible, SsNotify, SsCenter] (Some StrikeButtonId),
      ControlSpec LinkButton False ClassStatic ct_link
        [WsChild, WsVisible, SsNotify, SsCenter] (Some LinkButtonId),
      ControlSpec TableButton False ClassStatic ct_table
        [WsChild, WsVisible, SsNotify, SsCenter] (Some TableButtonId),
      ControlSpec MarkdownButton False ClassStatic ct_markdown
        [WsChild, WsVisible, SsNotify, SsCenter] (Some MarkdownButtonId)]"

definition share_controls :: "control_spec list" where
  "share_controls =
     [ControlSpec ShareButton False ClassStatic nt_share_wide
        [WsChild, WsVisible, SsNotify, SsCenter] (Some ShareButtonId),
      ControlSpec AccountButton False ClassStatic ct_account
        [WsChild, WsVisible, SsNotify, SsCenter] (Some AccountButtonId),
      ControlSpec SettingsButton False ClassStatic ct_settings
        [WsChild, WsVisible, SsNotify, SsCenter] (Some SettingsButtonId)]"

definition start_controls :: "control_spec list" where
  "start_controls =
     [ControlSpec TitleLabel False ClassStatic (wide ''ShareNotepad'')
        [WsChild, SsCenter] None,
      ControlSpec HostButton False ClassButton ct_host
        [WsChild, BsPushButton] (Some HostButtonId),
      ControlSpec JoinButton False ClassButton ct_join
        [WsChild, BsPushButton] (Some JoinButtonId),
      ControlSpec RecentLabel False ClassStatic ct_recent
        [WsChild, SsCenter] None]"

definition join_controls :: "control_spec list" where
  "join_controls =
     [ControlSpec JoinTitleLabel False ClassStatic ct_join
        [WsChild, SsCenter] None,
      ControlSpec JoinCodeLabel False ClassStatic ct_code
        [WsChild, SsLeft] None,
      ControlSpec JoinCodeEdit True ClassEdit []
        [WsChild, EsAutoHScroll] None,
      ControlSpec JoinHostLabel False ClassStatic ct_address
        [WsChild, SsLeft] None,
      ControlSpec JoinHostEdit True ClassEdit (wide ''127.0.0.1'')
        [WsChild, EsAutoHScroll] None,
      ControlSpec JoinPortLabel False ClassStatic ct_port
        [WsChild, SsLeft] None,
      ControlSpec JoinPortEdit True ClassEdit (wide ''7777'')
        [WsChild, EsAutoHScroll] None,
      ControlSpec ConnectButton False ClassButton ct_connect
        [WsChild, BsPushButton] (Some ConnectButtonId),
      ControlSpec BackButton False ClassButton ct_back
        [WsChild, BsPushButton] (Some BackButtonId),
      ControlSpec AdvancedButton False ClassButton ct_advanced
        [WsChild, BsPushButton] (Some AdvancedButtonId)]"

definition editor_controls :: "bool \<Rightarrow> control_spec list" where
  "editor_controls rich =
     [ControlSpec Editor True (if rich then ClassRichEdit else ClassEdit) []
        [WsChild, WsVScroll, EsLeft, EsMultiline, EsAutoVScroll, EsWantReturn, EsNoHideSel] None,
      ControlSpec MarkdownPreview True ClassEdit []
        [WsChild, WsVScroll, EsLeft, EsMultiline, EsAutoVScroll, EsReadOnly] None,
      ControlSpec StatusLabel False ClassStatic ct_ready
        [WsChild, SsLeft] None]"

definition all_controls :: "bool \<Rightarrow> control_spec list" where
  "all_controls rich =
     tab_controls @ menu_controls @ toolbar_controls @ share_controls @ start_controls @ join_controls @ editor_controls rich"

lemmas control_lists = all_controls_def tab_controls_def menu_controls_def toolbar_controls_def share_controls_def
  start_controls_def join_controls_def editor_controls_def

lemma all_controls_distinct: "distinct (map cs_control (all_controls rich))"
  by (simp add: control_lists)

lemma length_all_controls: "length (all_controls rich) = 37"
  by (simp add: control_lists)

section \<open>Fonts and colours\<close>

datatype font = UiFont | ToolbarFont | EditorFont | StockFont

text \<open>Height and face of the fonts the window makes.\<close>

fun font_spec :: "font \<Rightarrow> (int \<times> wstr) option" where
  "font_spec UiFont = Some (-16, wide ''Segoe UI'')"
| "font_spec ToolbarFont = Some (-18, wide ''Segoe UI'')"
| "font_spec EditorFont = Some (-18, wide ''Consolas'')"
| "font_spec StockFont = None"

definition toolbar_font_controls :: "control list" where
  "toolbar_font_controls =
     [TabLabel 0, TabLabel 1, TabLabel 2, NewTabButton, FileMenuButton, EditMenuButton, ViewMenuButton, StyleButton,
      ListButton, BoldButton, ItalicButton, StrikeButton, LinkButton, TableButton, MarkdownButton, ShareButton,
      AccountButton, SettingsButton]"

text \<open>The font a control gets; \<open>have\<close> tells which fonts could be made.\<close>

definition ApplyDefaultFont :: "(font \<Rightarrow> bool) \<Rightarrow> control \<Rightarrow> font" where
  "ApplyDefaultFont have c =
     (let font = (if have UiFont then UiFont else StockFont)
      in if c = Editor \<or> c = MarkdownPreview then (if have EditorFont then EditorFont else font)
         else if c \<in> set toolbar_font_controls then (if have ToolbarFont then ToolbarFont else font)
         else font)"

definition kDarkBackground :: u32 where "kDarkBackground = RGB 32 32 32"
definition kDarkEditor :: u32 where "kDarkEditor = RGB 31 31 31"
definition kDwmUseImmersiveDarkMode :: u32 where "kDwmUseImmersiveDarkMode = 20"
definition kDwmCaptionColor :: u32 where "kDwmCaptionColor = 35"
definition kDwmTextColor :: u32 where "kDwmTextColor = 36"

datatype setup_call =
    NewControl control_spec | SetFont control font | ReportChanges control | ExtendBackColor control
  | SetTheme control wstr | BackColor control u32 | FormatAll control u32 nat wstr | FrameAttribute u32 u32

definition ApplyDarkEditorTheme :: "setup_call list" where
  "ApplyDarkEditorTheme =
     [SetTheme Editor (wide ''DarkMode_Explorer''), SetTheme MarkdownPreview (wide ''DarkMode_Explorer''),
      BackColor Editor kDarkEditor, FormatAll Editor kDarkText kDefaultTextHeight (wide ''Consolas''),
      BackColor MarkdownPreview kDarkEditor]"

definition ApplyDarkWindowFrame :: "setup_call list" where
  "ApplyDarkWindowFrame =
     [FrameAttribute kDwmUseImmersiveDarkMode 1, FrameAttribute kDwmCaptionColor kDarkBackground,
      FrameAttribute kDwmTextColor kDarkText]"

text \<open>The colours of an edit control; the brush behind the controls, if it could be made.\<close>

definition edit_colors :: "u32 \<times> u32" where
  "edit_colors = (kDarkText, kDarkEditor)"

definition erase_color :: "bool \<Rightarrow> u32 option" where
  "erase_color brush_made = (if brush_made then Some kDarkBackground else None)"

section \<open>Creating the window\<close>

datatype class_outcome = ClassRegistered | ClassExists | ClassRefused

record creation_env =
  ce_class :: class_outcome
  ce_shell :: bool
  ce_menu :: "menu \<Rightarrow> bool"
  ce_rich :: bool
  ce_control :: "control \<Rightarrow> bool"
  ce_font :: "font \<Rightarrow> bool"

definition RegisterWindowClass :: "class_outcome \<Rightarrow> bool" where
  "RegisterWindowClass r = (r = ClassRegistered \<or> r = ClassExists)"

text \<open>Fonts in the order of the controls, up to the first control that could not be created.\<close>

fun apply_fonts :: "creation_env \<Rightarrow> control list \<Rightarrow> bool \<times> setup_call list" where
  "apply_fonts ce [] = (True, [])"
| "apply_fonts ce (c # cs) =
     (if \<not> ce_control ce c then (False, [])
      else case apply_fonts ce cs of (ok, calls) \<Rightarrow> (ok, SetFont c (ApplyDefaultFont (ce_font ce) c) # calls))"

definition CreateControls :: "creation_env \<Rightarrow> bool \<times> setup_call list" where
  "CreateControls ce =
     (let specs = all_controls (ce_rich ce);
          (ok, fonts) = apply_fonts ce (map cs_control specs)
      in (ok, map NewControl specs @ fonts
            @ (if \<not> ok then []
               else (if ce_rich ce then [ReportChanges Editor, ExtendBackColor Editor] else []) @ ApplyDarkEditorTheme)))"

text \<open>What WM_CREATE answers, the errors it logs, the calls it makes, and the window after it.\<close>

record creation =
  cr_ok :: bool
  cr_log :: "wstr list"
  cr_calls :: "setup_call list"
  cr_window :: "window option"

definition HandleCreate :: "text_api \<Rightarrow> ui_env \<Rightarrow> creation_env \<Rightarrow> window \<Rightarrow> creation" where
  "HandleCreate api ue ce w =
     (if \<not> CreateMainMenu (ce_menu ce)
      then \<lparr>cr_ok = False, cr_log = [wide ''CreateMainMenu failed''], cr_calls = [],
            cr_window = HandleMessage api ue (WmCreate False) w\<rparr>
      else case CreateControls ce of
             (False, calls) \<Rightarrow> \<lparr>cr_ok = False, cr_log = [wide ''CreateControls failed''], cr_calls = calls,
                                cr_window = HandleMessage api ue (WmCreate False) w\<rparr>
           | (True, calls) \<Rightarrow> \<lparr>cr_ok = True, cr_log = [], cr_calls = calls,
                               cr_window = HandleMessage api ue (WmCreate True) w\<rparr>)"

text \<open>
  \<^verbatim>\<open>CreateWindowExW\<close> delivers WM_CREATE before it returns, and returns no window when the
  handler refuses; \<open>ce_shell\<close> says whether the system gets as far as delivering it.
\<close>

definition Create_main :: "text_api \<Rightarrow> ui_env \<Rightarrow> creation_env \<Rightarrow> window \<Rightarrow> creation" where
  "Create_main api ue ce w =
     (if \<not> RegisterWindowClass (ce_class ce)
      then \<lparr>cr_ok = False, cr_log = [wide ''RegisterWindowClass failed''], cr_calls = [], cr_window = Some w\<rparr>
      else if \<not> ce_shell ce
      then \<lparr>cr_ok = False, cr_log = [wide ''CreateWindowEx failed for main window''], cr_calls = [], cr_window = Some w\<rparr>
      else let r = HandleCreate api ue ce w
           in if cr_ok r then r\<lparr>cr_calls := cr_calls r @ ApplyDarkWindowFrame\<rparr>
              else r\<lparr>cr_log := cr_log r @ [wide ''CreateWindowEx failed for main window'']\<rparr>)"

lemma apply_fonts_result:
  "fst (apply_fonts ce cs) = list_all (ce_control ce) cs"
  "list_all (ce_control ce) cs \<Longrightarrow>
     snd (apply_fonts ce cs) = map (\<lambda>c. SetFont c (ApplyDefaultFont (ce_font ce) c)) cs"
  by (induction cs) (auto split: prod.splits)

section \<open>Commands\<close>

datatype edit_message = UndoText | CutText | CopyText | PasteText | ClearText | SelectAllText

datatype reaction = Perform command | OpenMenu menu control | EditCommand command_id | AboutCommand

fun command_action :: "command_id \<Rightarrow> reaction" where
  "command_action HostButtonId = Perform CmdHost"
| "command_action JoinButtonId = Perform CmdJoin"
| "command_action ConnectButtonId = Perform CmdConnect"
| "command_action BackButtonId = Perform CmdBack"
| "command_action AdvancedButtonId = Perform CmdAdvanced"
| "command_action FileMenuButtonId = OpenMenu FileMenu FileMenuButton"
| "command_action EditMenuButtonId = OpenMenu EditMenu EditMenuButton"
| "command_action ViewMenuButtonId = OpenMenu ViewMenu ViewMenuButton"
| "command_action StyleButtonId = EditCommand EditSelectAllId"
| "command_action ListButtonId = Perform (CmdHint HintList)"
| "command_action BoldButtonId = Perform (CmdHint HintBold)"
| "command_action ItalicButtonId = Perform (CmdHint HintItalic)"
| "command_action StrikeButtonId = Perform (CmdHint HintStrike)"
| "command_action LinkButtonId = Perform (CmdHint HintLink)"
| "command_action TableButtonId = Perform (CmdHint HintTable)"
| "command_action MarkdownButtonId = Perform CmdPreview"
| "command_action ShareButtonId = OpenMenu ShareMenu ShareButton"
| "command_action AccountButtonId = AboutCommand"
| "command_action SettingsButtonId = AboutCommand"
| "command_action Tab0ButtonId = Perform (CmdTab 0)"
| "command_action Tab1ButtonId = Perform (CmdTab 1)"
| "command_action Tab2ButtonId = Perform (CmdTab 2)"
| "command_action NewTabButtonId = Perform CmdNewTab"
| "command_action FileNewId = Perform CmdNewTab"
| "command_action FileSaveId = Perform CmdSave"
| "command_action FileExitId = Perform CmdExit"
| "command_action EditUndoId = EditCommand EditUndoId"
| "command_action EditCutId = EditCommand EditCutId"
| "command_action EditCopyId = EditCommand EditCopyId"
| "command_action EditPasteId = EditCommand EditPasteId"
| "command_action EditDeleteId = EditCommand EditDeleteId"
| "command_action EditSelectAllId = EditCommand EditSelectAllId"
| "command_action ViewMarkdownPreviewId = Perform CmdPreview"
| "command_action ShareCopyCodeId = Perform CmdCopyCode"
| "command_action ShareLeaveRoomId = Perform CmdLeave"
| "command_action HelpAboutId = AboutCommand"

definition IsOwnedEditControl :: "control \<Rightarrow> bool" where
  "IsOwnedEditControl c =
     (c = Editor \<or> c = MarkdownPreview \<or> c = JoinCodeEdit \<or> c = JoinHostEdit \<or> c = JoinPortEdit)"

text \<open>The control that has the focus, if one of the window has it.\<close>

definition FocusedEditControl :: "control option \<Rightarrow> control" where
  "FocusedEditControl focus =
     (case focus of Some c \<Rightarrow> if IsOwnedEditControl c then c else Editor | None \<Rightarrow> Editor)"

definition HandleEditCommand :: "command_id \<Rightarrow> control option \<Rightarrow> (control \<times> edit_message) option" where
  "HandleEditCommand i focus =
     (let target = FocusedEditControl focus
      in case i of EditUndoId \<Rightarrow> Some (target, UndoText) | EditCutId \<Rightarrow> Some (target, CutText)
           | EditCopyId \<Rightarrow> Some (target, CopyText) | EditPasteId \<Rightarrow> Some (target, PasteText)
           | EditDeleteId \<Rightarrow> Some (target, ClearText) | EditSelectAllId \<Rightarrow> Some (target, SelectAllText) | _ \<Rightarrow> None)"

text \<open>What the user sees of a command beside its effect on the window.\<close>

datatype ui_effect = Silent | PopupShown menu control | Told control edit_message | MessageShown wstr wstr

definition ShowAboutDialog :: ui_effect where
  "ShowAboutDialog = MessageShown ct_about ct_about_title"

definition ShowPopupMenu :: "menu \<Rightarrow> control \<Rightarrow> ui_effect" where
  "ShowPopupMenu m anchor = PopupShown m anchor"

text \<open>A WM_COMMAND that is not the report of a change: by the low word of its parameter.\<close>

definition HandleWmCommand ::
  "text_api \<Rightarrow> ui_env \<Rightarrow> control option \<Rightarrow> u32 \<Rightarrow> window \<Rightarrow> ui_effect \<times> window option" where
  "HandleWmCommand api ue focus wparam w =
     (case id_of_number (unat (wparam AND 0xFFFF)) of
        None \<Rightarrow> (Silent, Some w)
      | Some i \<Rightarrow>
          (case command_action i of
             Perform c \<Rightarrow> (Silent, HandleCommand api ue c w)
           | OpenMenu m anchor \<Rightarrow> (ShowPopupMenu m anchor, Some w)
           | AboutCommand \<Rightarrow> (ShowAboutDialog, Some w)
           | EditCommand e \<Rightarrow>
               (case HandleEditCommand e focus of
                  None \<Rightarrow> (Silent, Some w)
                | Some (target, m) \<Rightarrow>
                    (Told target m,
                     if m = SelectAllText then Some (select_all (ue\<lparr>ue_editor_focused := (target = Editor)\<rparr>) w) else Some w))))"

text \<open>The mouse wheel goes to the text under it, or to the editor; the focus goes to the editor.\<close>

definition wheel_target :: "control option \<Rightarrow> window \<Rightarrow> control option" where
  "wheel_target pointed w =
     (case pointed of
        Some c \<Rightarrow> if c = Editor \<or> c = MarkdownPreview then Some c
                  else if n_screen w = EditorScreen then Some Editor else None
      | None \<Rightarrow> if n_screen w = EditorScreen then Some Editor else None)"

definition focus_target :: "window \<Rightarrow> control option" where
  "focus_target w = (if n_screen w = EditorScreen then Some Editor else None)"

text \<open>
  The text of a control: a length the system gives, which may be too large, then a copy of at
  most so many units, and the number of units copied.
\<close>

definition GetControlText :: "int \<Rightarrow> wstr \<Rightarrow> wstr" where
  "GetControlText reported content =
     (if reported \<le> 0 then []
      else let copied = min (int (length content)) reported in take (nat (max 0 copied)) content)"

definition GetEditorText :: "int \<Rightarrow> wstr \<Rightarrow> wstr" where
  "GetEditorText reported editor_content = GetControlText reported editor_content"

lemma GetControlText_whole: "int (length content) \<le> reported \<Longrightarrow> GetControlText reported content = content"
  by (cases content) (auto simp: GetControlText_def min_def)

text \<open>An editing command acts on a control that holds text, whatever has the focus.\<close>

lemma edit_target_owned: "HandleEditCommand i focus = Some (target, m) \<Longrightarrow> IsOwnedEditControl target"
  by (cases i; auto simp: HandleEditCommand_def FocusedEditControl_def IsOwnedEditControl_def Let_def
      split: option.splits if_splits)

end
