(* ===== verification/NativeScreens.thy ===== *)
theory NativeScreens
  imports NativeControls
begin

text \<open>
  What each screen of the classic window shows: the calls of \<^verbatim>\<open>ShowStartScreen\<close>, \<^verbatim>\<open>ShowJoinScreen\<close>,
  \<^verbatim>\<open>ShowEditorScreen\<close> and the two toggles as lists, what is visible after them, and the commands
  that the visible controls and their popups offer.
\<close>

section \<open>The calls of each change of the screen\<close>

text \<open>The size of the client area, and the width the labels of the tabs had at the last layout.\<close>

record view =
  v_width :: int
  v_height :: int
  v_tab_width :: int

definition layout_calls :: "view \<Rightarrow> window \<Rightarrow> ui_call list" where
  "layout_calls v w = snd (Layout (v_width v) (v_height v) (v_tab_width v) w)"

definition HideJoinControls :: "bool \<Rightarrow> ui_call list" where
  "HideJoinControls advanced = SetJoinControlsVisible advanced False"

definition preview_calls :: "window \<Rightarrow> ui_call list" where
  "preview_calls w =
     (if n_preview_visible w then [SetText MarkdownPreview (RenderMarkdownPreview (n_editor w))] else [])"

definition start_buttons :: "bool \<Rightarrow> ui_call list" where
  "start_buttons shown =
     [ShowControl TitleLabel shown, ShowControl HostButton shown, ShowControl JoinButton shown, ShowControl RecentLabel shown]"

definition ShowStartScreen_calls :: "view \<Rightarrow> window \<Rightarrow> ui_call list" where
  "ShowStartScreen_calls v w =
     start_buttons True @ HideJoinControls (n_advanced w)
     @ [ShowControl Editor False, ShowControl MarkdownPreview False, ShowControl StatusLabel True,
        SetText StatusLabel (wide ''Idle'')]
     @ layout_calls v (ShowStartScreen w)"

text \<open>The port shown is the one of the configuration, if there is one.\<close>

definition ShowJoinScreen_calls :: "u16 option \<Rightarrow> view \<Rightarrow> window \<Rightarrow> ui_call list" where
  "ShowJoinScreen_calls config_port v w =
     start_buttons False @ SetJoinControlsVisible False True
     @ [ShowControl Editor False, ShowControl MarkdownPreview False, ShowControl StatusLabel True,
        SetText JoinPortEdit (dec_digits (unat (case config_port of None \<Rightarrow> 7777 | Some p \<Rightarrow> p))),
        SetText StatusLabel nt_join_prompt]
     @ layout_calls v (ShowJoinScreen w)"

definition ShowEditorScreen_calls :: "wstr \<Rightarrow> view \<Rightarrow> window \<Rightarrow> ui_call list" where
  "ShowEditorScreen_calls status_text v w =
     SetText StatusLabel status_text # start_buttons False @ HideJoinControls (n_advanced w)
     @ [ShowControl Editor True, ShowControl MarkdownPreview (n_preview_visible w), ShowControl StatusLabel True]
     @ preview_calls w @ UpdateTabBar (v_tab_width v) w
     @ layout_calls v (ShowEditorScreen status_text w)"

definition ToggleAdvancedJoin_calls :: "view \<Rightarrow> window \<Rightarrow> ui_call list" where
  "ToggleAdvancedJoin_calls v w =
     (let advanced = \<not> n_advanced w
      in SetText AdvancedButton (if advanced then ct_advanced_hide else ct_advanced)
         # SetJoinControlsVisible advanced True @ layout_calls v (ToggleAdvancedJoin w))"

definition ToggleMarkdownPreview_calls :: "view \<Rightarrow> window \<Rightarrow> ui_call list" where
  "ToggleMarkdownPreview_calls v w =
     (let w1 = ToggleMarkdownPreview w
      in ShowControl MarkdownPreview (n_screen w = EditorScreen \<and> n_preview_visible w1)
         # preview_calls w1 @ layout_calls v w1)"

text \<open>Everything the window does to its controls after its creation, with its state at the time.\<close>

datatype screen_change =
    ToStart | ToJoin "u16 option" | ToEditor wstr | NewLayout | NewTabs | AdvancedToggled | PreviewToggled

fun change_calls :: "screen_change \<Rightarrow> view \<Rightarrow> window \<Rightarrow> ui_call list" where
  "change_calls ToStart v w = ShowStartScreen_calls v w"
| "change_calls (ToJoin p) v w = ShowJoinScreen_calls p v w"
| "change_calls (ToEditor t) v w = ShowEditorScreen_calls t v w"
| "change_calls NewLayout v w = layout_calls v w"
| "change_calls NewTabs v w = UpdateTabBar (v_tab_width v) w"
| "change_calls AdvancedToggled v w = ToggleAdvancedJoin_calls v w"
| "change_calls PreviewToggled v w = ToggleMarkdownPreview_calls v w"

section \<open>What is visible, and what a control says\<close>

definition shown_at_creation :: "bool \<Rightarrow> control \<Rightarrow> bool" where
  "shown_at_creation rich c = list_ex (\<lambda>s. cs_control s = c \<and> WsVisible \<in> set (cs_styles s)) (all_controls rich)"

fun shown_after :: "ui_call list \<Rightarrow> (control \<Rightarrow> bool) \<Rightarrow> control \<Rightarrow> bool" where
  "shown_after [] shown = shown"
| "shown_after (ShowControl c b # cs) shown = shown_after cs (shown(c := b))"
| "shown_after (MoveControl c x y w h # cs) shown = shown_after cs shown"
| "shown_after (SetText c t # cs) shown = shown_after cs shown"

fun text_after :: "ui_call list \<Rightarrow> control \<Rightarrow> wstr \<Rightarrow> wstr" where
  "text_after [] k t = t"
| "text_after (SetText c t' # cs) k t = text_after cs k (if c = k then t' else t)"
| "text_after (MoveControl c x y w h # cs) k t = text_after cs k t"
| "text_after (ShowControl c b # cs) k t = text_after cs k t"

lemma shown_after_append [simp]: "shown_after (as @ bs) shown = shown_after bs (shown_after as shown)"
  by (induction as shown rule: shown_after.induct) (simp_all add: fun_upd_def)

lemma text_after_append [simp]: "text_after (as @ bs) k t = text_after bs k (text_after as k t)"
  by (induction as k t rule: text_after.induct) simp_all

text \<open>The controls a list of calls shows or hides.\<close>

definition touched :: "ui_call list \<Rightarrow> control set" where
  "touched cs = {c. \<exists>b. ShowControl c b \<in> set cs}"

lemma touched_simps [simp]:
  "touched [] = {}" "touched (ShowControl c b # cs) = insert c (touched cs)"
  "touched (MoveControl c x y w h # cs) = touched cs" "touched (SetText c t # cs) = touched cs"
  "touched (as @ bs) = touched as \<union> touched bs"
  by (auto simp: touched_def)

lemma shown_after_untouched: "c \<notin> touched cs \<Longrightarrow> shown_after cs shown c = shown c"
  by (induction cs shown rule: shown_after.induct) auto

text \<open>A control that no call shows stays hidden; one that a call hides besides is hidden.\<close>

lemma shown_after_hidden:
  "ShowControl c True \<notin> set cs \<Longrightarrow> (\<not> shown c \<or> ShowControl c False \<in> set cs) \<Longrightarrow> \<not> shown_after cs shown c"
  by (induction cs shown rule: shown_after.induct) auto

section \<open>The frame around the screens\<close>

definition frame_controls :: "control set" where
  "frame_controls = {TabLabel 0, TabLabel 1, TabLabel 2, NewTabButton, StyleButton, ListButton, BoldButton, ItalicButton,
     StrikeButton, LinkButton, TableButton, MarkdownButton, ShareButton, AccountButton, SettingsButton}"

lemma touched_UpdateTabBar: "touched (UpdateTabBar tw w) \<subseteq> {TabLabel 0, TabLabel 1, TabLabel 2, NewTabButton}"
  by (auto simp: UpdateTabBar_def Let_def)

lemma touched_place: "touched (place_toolbar_buttons y limit x cs) \<subseteq> fst ` set cs"
  by (induction y limit x cs rule: place_toolbar_buttons.induct) auto

lemma touched_toolbar: "touched (layout_toolbar width) \<subseteq> frame_controls"
proof -
  have "fst ` set toolbar_buttons \<subseteq> frame_controls" by (auto simp: toolbar_buttons_def frame_controls_def)
  then have "touched (place_toolbar_buttons y limit x toolbar_buttons) \<subseteq> frame_controls" for y limit x
    using touched_place [of y limit x toolbar_buttons] by blast
  then show ?thesis by (auto simp: layout_toolbar_def Let_def) (auto simp: frame_controls_def)
qed

lemma touched_layout_parts [simp]:
  "touched (layout_tabs width n) = {}" "touched (layout_start width height) = {}"
  "touched (layout_join width height a) = {}" "touched (layout_editor width height p) = {}"
  by (auto simp: layout_tabs_def layout_start_def layout_join_def layout_editor_def Let_def)

lemma touched_layout: "touched (layout_calls v w) \<subseteq> frame_controls"
  using touched_toolbar touched_UpdateTabBar [of _ w]
  by (auto simp: layout_calls_def Layout_def Let_def frame_controls_def split: screen.splits)

lemma layout_keeps_shown: "c \<notin> frame_controls \<Longrightarrow> shown_after (layout_calls v w) shown c = shown c"
  using touched_layout [of v w] by (intro shown_after_untouched) blast

lemma tab_bar_keeps_shown: "c \<notin> frame_controls \<Longrightarrow> shown_after (UpdateTabBar tw w) shown c = shown c"
  using touched_UpdateTabBar [of tw w] by (intro shown_after_untouched) (auto simp: frame_controls_def)

lemma preview_keeps_shown [simp]: "shown_after (preview_calls w) shown = shown"
  by (simp add: preview_calls_def)

section \<open>The screens\<close>

definition start_group :: "control list" where
  "start_group = [TitleLabel, HostButton, JoinButton, RecentLabel]"

definition join_group :: "control list" where
  "join_group = [JoinTitleLabel, JoinCodeLabel, JoinCodeEdit, ConnectButton, BackButton, AdvancedButton]"

definition advanced_group :: "control list" where
  "advanced_group = [JoinHostLabel, JoinHostEdit, JoinPortLabel, JoinPortEdit]"

text \<open>The controls of the three screens, beside the bars at the top.\<close>

definition screen_controls :: "control list" where
  "screen_controls = start_group @ join_group @ advanced_group @ [Editor, MarkdownPreview, StatusLabel]"

lemmas screen_groups = screen_controls_def start_group_def join_group_def advanced_group_def

text \<open>What a screen is to show.\<close>

definition screen_shows :: "window \<Rightarrow> control \<Rightarrow> bool" where
  "screen_shows w c =
     (c = StatusLabel \<or>
      (case n_screen w of
         StartScreen \<Rightarrow> c \<in> set start_group
       | JoinScreen \<Rightarrow> c \<in> set join_group \<or> n_advanced w \<and> c \<in> set advanced_group
       | EditorScreen \<Rightarrow> c = Editor \<or> c = MarkdownPreview \<and> n_preview_visible w))"

lemma screen_controls_no_frame: "c \<in> set screen_controls \<Longrightarrow> c \<notin> frame_controls"
  by (auto simp: screen_groups frame_controls_def)

lemmas screen_call_defs = start_buttons_def HideJoinControls_def SetJoinControlsVisible_def

lemma start_screen_shows:
  "c \<in> set screen_controls \<Longrightarrow> shown_after (ShowStartScreen_calls v w) shown c = screen_shows (ShowStartScreen w) c"
  by (frule screen_controls_no_frame)
    (auto simp: ShowStartScreen_calls_def layout_keeps_shown screen_call_defs screen_shows_def ShowStartScreen_def
      set_status_def screen_groups)

lemma join_screen_shows:
  "c \<in> set screen_controls \<Longrightarrow> shown_after (ShowJoinScreen_calls p v w) shown c = screen_shows (ShowJoinScreen w) c"
  by (frule screen_controls_no_frame)
    (auto simp: ShowJoinScreen_calls_def layout_keeps_shown screen_call_defs screen_shows_def ShowJoinScreen_def
      set_status_def screen_groups)

lemma ShowEditorScreen_view [simp]:
  "n_screen (ShowEditorScreen t w) = EditorScreen" "n_preview_visible (ShowEditorScreen t w) = n_preview_visible w"
  "n_advanced (ShowEditorScreen t w) = n_advanced w"
  by (simp_all add: ShowEditorScreen_def UpdateMarkdownPreview_def set_status_def)

lemma editor_screen_shows:
  "c \<in> set screen_controls \<Longrightarrow> shown_after (ShowEditorScreen_calls t v w) shown c = screen_shows (ShowEditorScreen t w) c"
  by (frule screen_controls_no_frame)
    (auto simp: ShowEditorScreen_calls_def layout_keeps_shown tab_bar_keeps_shown screen_call_defs screen_shows_def
      screen_groups)

text \<open>The two toggles keep what the screen shows, if it shows it already.\<close>

lemma advanced_toggle_shows:
  assumes "n_screen w = JoinScreen" and "\<forall>c \<in> set screen_controls. shown c = screen_shows w c" and "c \<in> set screen_controls"
  shows "shown_after (ToggleAdvancedJoin_calls v w) shown c = screen_shows (ToggleAdvancedJoin w) c"
  using assms screen_controls_no_frame [OF assms(3)]
  by (auto simp: ToggleAdvancedJoin_calls_def layout_keeps_shown screen_call_defs screen_shows_def ToggleAdvancedJoin_def
      screen_groups)

lemma preview_toggle_shows:
  assumes "\<forall>c \<in> set screen_controls. shown c = screen_shows w c" and "c \<in> set screen_controls"
  shows "shown_after (ToggleMarkdownPreview_calls v w) shown c = screen_shows (ToggleMarkdownPreview w) c"
  using assms screen_controls_no_frame [OF assms(2)]
  by (cases "n_screen w")
    (auto simp: ToggleMarkdownPreview_calls_def layout_keeps_shown screen_shows_def ToggleMarkdownPreview_def
      UpdateMarkdownPreview_def screen_groups Let_def)

section \<open>The commands within reach\<close>

text \<open>The identifiers of the visible controls, and those of a menu.\<close>

definition shown_ids :: "(control \<Rightarrow> bool) \<Rightarrow> command_id list" where
  "shown_ids shown =
     concat (map (\<lambda>s. case cs_id s of Some i \<Rightarrow> if shown (cs_control s) then [i] else [] | None \<Rightarrow> []) (all_controls True))"

definition menu_ids :: "menu \<Rightarrow> command_id list" where
  "menu_ids m = concat (map (\<lambda>e. case e of MenuEntry i _ \<Rightarrow> [i] | MenuSeparator \<Rightarrow> []) (menu_items m))"

text \<open>A menu opens only from the control whose command opens it.\<close>

definition within_reach :: "(control \<Rightarrow> bool) \<Rightarrow> command_id list" where
  "within_reach shown =
     concat (map (\<lambda>i. i # (case command_action i of OpenMenu m _ \<Rightarrow> menu_ids m | _ \<Rightarrow> [])) (shown_ids shown))"

lemma opened_menus: "command_action i = OpenMenu m c \<Longrightarrow> m = FileMenu \<or> m = EditMenu \<or> m = ViewMenu \<or> m = ShareMenu"
  by (cases i) auto

lemma about_ids: "command_action i = AboutCommand \<longleftrightarrow> i = AccountButtonId \<or> i = SettingsButtonId \<or> i = HelpAboutId"
  by (cases i) auto

lemma opened_menu_not_about: "command_action i = OpenMenu m c \<Longrightarrow> j \<in> set (menu_ids m) \<Longrightarrow> command_action j \<noteq> AboutCommand"
  by (auto simp: menu_ids_def file_menu_def edit_menu_def view_menu_def share_menu_def dest!: opened_menus)

lemma shown_ids_about:
  assumes "i \<in> set (shown_ids shown)" and "command_action i = AboutCommand"
  shows "shown AccountButton \<or> shown SettingsButton"
  using assms by (auto simp: shown_ids_def control_lists about_ids split: if_splits)

lemma about_within_reach:
  assumes "i \<in> set (within_reach shown)" and "command_action i = AboutCommand"
  shows "shown AccountButton \<or> shown SettingsButton"
proof -
  obtain j where j: "j \<in> set (shown_ids shown)"
    "i = j \<or> i \<in> set (case command_action j of OpenMenu m _ \<Rightarrow> menu_ids m | _ \<Rightarrow> [])"
    using assms(1) by (auto simp: within_reach_def)
  then have "i = j"
    using assms(2) opened_menu_not_about [of j _ _ i] by (cases "command_action j") auto
  then show ?thesis using shown_ids_about [OF j(1)] assms(2) by simp
qed

section \<open>Buttons that are never shown\<close>

text \<open>No change of the screen shows these; every layout hides them.\<close>

definition hidden_buttons :: "control list" where
  "hidden_buttons = [StrikeButton, TableButton, AccountButton, SettingsButton]"

lemma place_shows: "ShowControl c b \<in> set (place_toolbar_buttons y limit x cs) \<Longrightarrow> c \<in> fst ` set cs"
  by (induction y limit x cs rule: place_toolbar_buttons.induct) (auto split: if_splits)

lemma tab_bar_shows: "ShowControl c b \<in> set (UpdateTabBar tw w) \<Longrightarrow> c \<notin> set hidden_buttons"
  by (auto simp: UpdateTabBar_def hidden_buttons_def Let_def split: if_splits)

lemma layout_never_shows: "c \<in> set hidden_buttons \<Longrightarrow> ShowControl c True \<notin> set (layout_calls v w)"
  by (auto simp: layout_calls_def Layout_def layout_tabs_def layout_toolbar_def layout_start_def layout_join_def
      layout_editor_def toolbar_buttons_def hidden_buttons_def Let_def split: screen.splits if_splits
      dest!: place_shows tab_bar_shows)

lemma layout_hides: "c \<in> set hidden_buttons \<Longrightarrow> ShowControl c False \<in> set (layout_calls v w)"
  by (auto simp: layout_calls_def Layout_def layout_toolbar_def hidden_buttons_def Let_def)

lemma change_never_shows: "c \<in> set hidden_buttons \<Longrightarrow> ShowControl c True \<notin> set (change_calls k v w)"
  using layout_never_shows [of c] tab_bar_shows [of c True]
  by (cases k)
    (auto simp: ShowStartScreen_calls_def ShowJoinScreen_calls_def ShowEditorScreen_calls_def ToggleAdvancedJoin_calls_def
      ToggleMarkdownPreview_calls_def screen_call_defs preview_calls_def Let_def hidden_buttons_def)

lemma changes_keep_hidden:
  assumes "c \<in> set hidden_buttons" and "\<not> shown c"
  shows "\<not> shown_after (concat (map (\<lambda>(k, v, w). change_calls k v w) changes)) shown c"
  using assms change_never_shows by (intro shown_after_hidden) fastforce+

lemma first_screen_hides: "c \<in> set hidden_buttons \<Longrightarrow> \<not> shown_after (ShowEditorScreen_calls t v w) shown c"
  using layout_hides change_never_shows [of c "ToEditor t"]
  by (intro shown_after_hidden) (auto simp: ShowEditorScreen_calls_def)

end
