(* ===== verification/ControlProps.thy ===== *)
theory ControlProps
  imports NativeScreens NativeProps
begin

text \<open>
  Properties of the controls of the classic window: it is created completely or not at all, each
  screen shows its controls and no others, and which commands the user can reach.
\<close>

section \<open>A run of screen changes\<close>

fun change_effect :: "screen_change \<Rightarrow> window \<Rightarrow> window" where
  "change_effect ToStart w = ShowStartScreen w"
| "change_effect (ToJoin p) w = ShowJoinScreen w"
| "change_effect (ToEditor t) w = ShowEditorScreen t w"
| "change_effect AdvancedToggled w = ToggleAdvancedJoin w"
| "change_effect PreviewToggled w = ToggleMarkdownPreview w"
| "change_effect NewLayout w = w"
| "change_effect NewTabs w = w"

text \<open>The button that toggles the advanced fields can only be pressed while it is visible.\<close>

fun take_change :: "screen_change \<times> view \<Rightarrow> window \<times> (control \<Rightarrow> bool) \<Rightarrow> window \<times> (control \<Rightarrow> bool)" where
  "take_change (k, v) (w, shown) =
     (if k = AdvancedToggled \<and> \<not> shown AdvancedButton then (w, shown)
      else (change_effect k w, shown_after (change_calls k v w) shown))"

definition consistent :: "window \<times> (control \<Rightarrow> bool) \<Rightarrow> bool" where
  "consistent x \<longleftrightarrow> (case x of (w, shown) \<Rightarrow> \<forall>c \<in> set screen_controls. shown c = screen_shows w c)"

lemma consistent_advanced: "consistent (w, shown) \<Longrightarrow> shown AdvancedButton \<Longrightarrow> n_screen w = JoinScreen"
  by (auto simp: consistent_def screen_shows_def screen_groups split: screen.splits)

lemma take_change_consistent: "consistent x \<Longrightarrow> consistent (take_change kv x)"
proof -
  assume c: "consistent x"
  obtain k v w shown where kv: "kv = (k, v)" and x: "x = (w, shown)" by fastforce
  show ?thesis
  proof (cases k)
    case AdvancedToggled
    then show ?thesis
      using c consistent_advanced [of w shown] advanced_toggle_shows [of w shown _ v] by (simp add: kv x consistent_def)
  next
    case PreviewToggled
    then show ?thesis using c preview_toggle_shows [of shown w _ v] by (simp add: kv x consistent_def)
  qed (use c in \<open>simp_all add: kv x consistent_def start_screen_shows join_screen_shows editor_screen_shows
        layout_keeps_shown tab_bar_keeps_shown screen_controls_no_frame\<close>)
qed

lemma changes_consistent: "consistent x \<Longrightarrow> consistent (fold take_change kvs x)"
  by (induction kvs arbitrary: x) (simp_all add: take_change_consistent)

text \<open>
  C29: each screen shows its controls and no others. Whatever was visible when the window first
  showed its editor, and whatever changes of the screen, toggles and layouts came after that, in
  any order and at any size: of the controls of the three screens exactly those are visible that
  belong to the present one, with the advanced fields and the preview as their flags say.
\<close>

theorem screens_show_their_controls:
  "case fold take_change changes (ShowEditorScreen t w, shown_after (ShowEditorScreen_calls t v w) shown) of
     (w', shown') \<Rightarrow> filter shown' screen_controls = filter (screen_shows w') screen_controls"
proof -
  let ?y = "fold take_change changes (ShowEditorScreen t w, shown_after (ShowEditorScreen_calls t v w) shown)"
  have "consistent ?y"
    by (rule changes_consistent) (simp add: consistent_def editor_screen_shows)
  then show ?thesis by (auto simp: consistent_def split: prod.splits intro!: filter_cong)
qed

section \<open>Commands\<close>







section \<open>Creation\<close>

text \<open>
  The window is created completely or not at all: exactly when the class, the shell, all menus and
  all controls are; then every control has been created once and has a font, and the window shows
  the stored document in its one tab. Otherwise an error is logged and the state is as before.
\<close>

lemma CreateControls_result:
  "fst (CreateControls ce) = list_all (ce_control ce) (map cs_control (all_controls (ce_rich ce)))"
  "fst (CreateControls ce) \<Longrightarrow> \<exists>rest. snd (CreateControls ce) =
     map NewControl (all_controls (ce_rich ce))
     @ map (\<lambda>c. SetFont c (ApplyDefaultFont (ce_font ce) c)) (map cs_control (all_controls (ce_rich ce))) @ rest"
  using apply_fonts_result [of ce "map cs_control (all_controls (ce_rich ce))"]
  by (simp_all add: CreateControls_def Let_def split_def)

lemma HandleCreate_made:
  "CreateMainMenu (ce_menu ce) \<Longrightarrow> CreateControls ce = (True, calls) \<Longrightarrow> HandleCreate api ue ce w =
     \<lparr>cr_ok = True, cr_log = [], cr_calls = calls, cr_window = HandleMessage api ue (WmCreate True) w\<rparr>"
  by (simp only: HandleCreate_def prod.case bool.case not_True_eq_False if_False)

lemma HandleCreate_refused:
  assumes "\<not> (CreateMainMenu (ce_menu ce) \<and> fst (CreateControls ce))"
  shows "\<not> cr_ok (HandleCreate api ue ce w)" and "cr_window (HandleCreate api ue ce w) = Some w"
proof -
  obtain ok calls where c: "CreateControls ce = (ok, calls)" by fastforce
  show "\<not> cr_ok (HandleCreate api ue ce w)" "cr_window (HandleCreate api ue ce w) = Some w"
    using assms by (cases ok; simp add: HandleCreate_def c)+
qed

lemma HandleCreate_ok: "cr_ok (HandleCreate api ue ce w) \<longleftrightarrow> CreateMainMenu (ce_menu ce) \<and> fst (CreateControls ce)"
  using HandleCreate_made [of ce] HandleCreate_refused(1) [of ce api ue w]
  by (metis creation.select_convs(1) prod.collapse)

lemma Create_main_ok:
  "cr_ok (Create_main api ue ce w) \<longleftrightarrow>
     RegisterWindowClass (ce_class ce) \<and> ce_shell ce \<and> CreateMainMenu (ce_menu ce) \<and>
     list_all (ce_control ce) (map cs_control (all_controls (ce_rich ce)))"
  using HandleCreate_ok [of api ue ce w] CreateControls_result(1) [of ce] by (simp add: Create_main_def Let_def)

lemma Create_main_complete:
  assumes "cr_ok (Create_main api ue ce w)"
  shows "cr_log (Create_main api ue ce w) = []"
    and "cr_window (Create_main api ue ce w) = HandleMessage api ue (WmCreate True) w"
    and "\<exists>rest. cr_calls (Create_main api ue ce w) =
      map NewControl (all_controls (ce_rich ce))
      @ map (\<lambda>c. SetFont c (ApplyDefaultFont (ce_font ce) c)) (map cs_control (all_controls (ce_rich ce))) @ rest"
proof -
  have ok: "RegisterWindowClass (ce_class ce)" "ce_shell ce" "CreateMainMenu (ce_menu ce)" "fst (CreateControls ce)"
    using assms by (simp_all add: Create_main_ok CreateControls_result(1))
  obtain calls where calls: "CreateControls ce = (True, calls)"
    using ok(4) by (cases "CreateControls ce") simp
  note made = HandleCreate_made [OF ok(3) calls, of api ue w]
  show "cr_log (Create_main api ue ce w) = []"
    "cr_window (Create_main api ue ce w) = HandleMessage api ue (WmCreate True) w"
    using ok made by (simp_all add: Create_main_def Let_def)
  show "\<exists>rest. cr_calls (Create_main api ue ce w) =
      map NewControl (all_controls (ce_rich ce))
      @ map (\<lambda>c. SetFont c (ApplyDefaultFont (ce_font ce) c)) (map cs_control (all_controls (ce_rich ce))) @ rest"
    using ok made CreateControls_result(2) [OF ok(4)] calls by (auto simp: Create_main_def Let_def)
qed

lemma Create_main_refused:
  "\<not> cr_ok (Create_main api ue ce w) \<Longrightarrow>
     cr_window (Create_main api ue ce w) = Some w \<and> cr_log (Create_main api ue ce w) \<noteq> []"
  using HandleCreate_refused(2) [of ce api ue w] HandleCreate_ok [of api ue ce w]
  by (auto simp: Create_main_def Let_def split: if_splits)

section \<open>A label that is not reset\<close>

text \<open>
  Showing the join screen hides the advanced fields and leaves the text of the button that toggles
  them: after showing them, going back and coming again, the button offers to hide fields that are
  not there.
\<close>

lemma advanced_label_stale:
  assumes "n_screen w = JoinScreen" and "\<not> n_advanced w"
    and "calls = ToggleAdvancedJoin_calls v w @ ShowEditorScreen_calls t v (ToggleAdvancedJoin w)
      @ ShowJoinScreen_calls p v (ShowEditorScreen t (ToggleAdvancedJoin w))"
  shows "text_after calls AdvancedButton l = ct_advanced_hide \<and> \<not> shown_after calls shown JoinHostEdit"
proof -
  have other: "text_after cs AdvancedButton l = l" if "\<forall>t. SetText AdvancedButton t \<notin> set cs" for cs l
    using that by (induction cs AdvancedButton l rule: text_after.induct) auto
  have place: "SetText c t' \<notin> set (place_toolbar_buttons y limit x cs)" for c t' y limit x cs
    by (induction y limit x cs rule: place_toolbar_buttons.induct) auto
  have tabs: "SetText AdvancedButton t' \<notin> set (UpdateTabBar tw u)" for t' tw u
    by (auto simp: UpdateTabBar_def Let_def split: if_splits)
  have layout: "SetText AdvancedButton t' \<notin> set (layout_calls v u)" for t' u
    using tabs place
    by (auto simp: layout_calls_def Layout_def layout_tabs_def layout_toolbar_def layout_start_def layout_join_def
        layout_editor_def Let_def split: screen.splits)
  have "text_after calls AdvancedButton l = ct_advanced_hide"
    using assms(2) by (simp add: assms(3) ToggleAdvancedJoin_calls_def ShowEditorScreen_calls_def ShowJoinScreen_calls_def
        screen_call_defs preview_calls_def other layout tabs)
  moreover have "\<not> shown_after calls shown JoinHostEdit"
    using join_screen_shows [of JoinHostEdit p v "ShowEditorScreen t (ToggleAdvancedJoin w)"]
    by (simp add: assms(3) screen_shows_def ShowJoinScreen_def set_status_def screen_groups)
  ultimately show ?thesis ..
qed

end
