(* ===== verification/NativeThreads.thy ===== *)
theory NativeThreads
  imports NativeLemmas
begin

text \<open>
  The reconnection thread beside the message loop of the classic window: \<^verbatim>\<open>ReconnectLoop\<close> cut where
  another thread can act, the messages it posts, and \<^verbatim>\<open>StopReconnectLoop\<close> and \<^verbatim>\<open>StartReconnectLoop\<close>,
  which wait for the thread to end. A message whose handler stops the loop is handled in two
  steps: it raises \<^verbatim>\<open>reconnect_stop_\<close> and waits, and goes on when the thread has ended. (On closing,
  the document is saved before the flag is raised; the thread touches nothing that saving does.)
\<close>

section \<open>The states of the thread\<close>

text \<open>
  \<open>Trying n\<close> is the head of the loop with \<^verbatim>\<open>attempt\<close> = n; \<open>Connecting\<close> is inside \<^verbatim>\<open>client_.Connect\<close>,
  \<open>Pausing\<close> in the wait after a failure. \<open>Succeeded\<close> and \<open>GivingUp\<close> are just before \<^verbatim>\<open>reconnecting_\<close> is
  cleared, \<open>Reporting\<close> and \<open>ReportingFailure\<close> between that and the last message.
\<close>

datatype reconnect_phase = NoThread | Trying nat | Connecting nat | Pausing nat | Succeeded | Reporting | GivingUp
  | ReportingFailure

record room =
  rm_window :: window
  rm_phase :: reconnect_phase
  rm_posted :: "(nat \<times> nat) list"
  rm_joining :: "(ui_env \<times> window_message) option"

definition connect_again :: "text_api \<Rightarrow> connect_env \<Rightarrow> window \<Rightarrow> (bool \<times> client) option" where
  "connect_again api env w = Connect api env (n_session w) (n_re_device w) (n_re_nickname w) (n_client w)"

inductive thread_step :: "text_api \<Rightarrow> room \<Rightarrow> room \<Rightarrow> bool" for api where
  tries: "rm_phase x = Trying n \<Longrightarrow> n \<le> kMaxReconnectAttempts \<Longrightarrow> \<not> n_re_stop (rm_window x) \<Longrightarrow>
     thread_step api x (x\<lparr>rm_phase := Connecting n, rm_posted := rm_posted x @ [(n, 0)]\<rparr>)"
| leaves_loop: "rm_phase x = Trying n \<Longrightarrow> kMaxReconnectAttempts < n \<or> n_re_stop (rm_window x) \<Longrightarrow>
     thread_step api x (x\<lparr>rm_phase := GivingUp\<rparr>)"
| connects: "rm_phase x = Connecting n \<Longrightarrow> connect_again api env (rm_window x) = Some (True, c) \<Longrightarrow>
     thread_step api x (x\<lparr>rm_window := (rm_window x)\<lparr>n_client := c\<rparr>, rm_phase := Succeeded\<rparr>)"
| fails: "rm_phase x = Connecting n \<Longrightarrow> connect_again api env (rm_window x) = Some (False, c) \<Longrightarrow>
     thread_step api x (x\<lparr>rm_window := (rm_window x)\<lparr>n_client := c\<rparr>, rm_phase := Pausing n\<rparr>)"
| waits: "rm_phase x = Pausing n \<Longrightarrow> thread_step api x (x\<lparr>rm_phase := Trying (Suc n)\<rparr>)"
| succeeded: "rm_phase x = Succeeded \<Longrightarrow>
     thread_step api x (x\<lparr>rm_window := (rm_window x)\<lparr>n_reconnecting := False\<rparr>, rm_phase := Reporting\<rparr>)"
| reports: "rm_phase x = Reporting \<Longrightarrow>
     thread_step api x (x\<lparr>rm_phase := NoThread, rm_posted := rm_posted x @ [(0, 1)]\<rparr>)"
| gives_up: "rm_phase x = GivingUp \<Longrightarrow>
     thread_step api x (x\<lparr>rm_window := (rm_window x)\<lparr>n_reconnecting := False\<rparr>, rm_phase := ReportingFailure\<rparr>)"
| reports_failure: "rm_phase x = ReportingFailure \<Longrightarrow>
     thread_step api x (x\<lparr>rm_phase := NoThread,
       rm_posted := rm_posted x @ (if n_re_stop (rm_window x) then [] else [(0, 2)])\<rparr>)"

section \<open>The message loop\<close>

text \<open>The messages whose handler stops the reconnection.\<close>

fun joins_thread :: "window_message \<Rightarrow> window \<Rightarrow> bool" where
  "joins_thread WmClose w = True"
| "joins_thread (WmCommand c) w = (c = CmdHost \<or> c = CmdConnect \<or> c = CmdLeave \<or> c = CmdExit)"
| "joins_thread (WmKeyDown control key) w = (n_screen w = JoinScreen \<and> key = 13)"
| "joins_thread _ w = False"

text \<open>The messages the user and the system send; the first one and the posted ones have rules of their own.\<close>

fun plain_message :: "window_message \<Rightarrow> bool" where
  "plain_message (WmCreate ok) = False"
| "plain_message (WmReconnectStatus p l) = False"
| "plain_message _ = True"

definition starts_thread :: "window \<Rightarrow> window \<Rightarrow> bool" where
  "starts_thread w w' \<longleftrightarrow> \<not> n_reconnecting w \<and> n_reconnecting w'"

text \<open>
  \<^verbatim>\<open>StartReconnectLoop\<close> waits for the thread before, which has cleared \<^verbatim>\<open>reconnecting_\<close> already and
  only has to post; so a message that starts a thread is handled when there is none.
\<close>

inductive ui_step :: "text_api \<Rightarrow> room \<Rightarrow> room \<Rightarrow> bool" for api where
  begins_stop: "rm_joining x = None \<Longrightarrow> plain_message msg \<Longrightarrow> joins_thread msg (rm_window x) \<Longrightarrow>
     ui_step api x (x\<lparr>rm_window := (rm_window x)\<lparr>n_re_stop := True\<rparr>, rm_joining := Some (ue, msg)\<rparr>)"
| joined: "rm_joining x = Some (ue, msg) \<Longrightarrow> rm_phase x = NoThread \<Longrightarrow>
     HandleMessage api ue msg (rm_window x) = Some w \<Longrightarrow>
     ui_step api x (x\<lparr>rm_window := w, rm_joining := None\<rparr>)"
| handles: "rm_joining x = None \<Longrightarrow> plain_message msg \<Longrightarrow> \<not> joins_thread msg (rm_window x) \<Longrightarrow>
     HandleMessage api ue msg (rm_window x) = Some w \<Longrightarrow> \<not> starts_thread (rm_window x) w \<Longrightarrow>
     ui_step api x (x\<lparr>rm_window := w\<rparr>)"
| starts: "rm_joining x = None \<Longrightarrow> plain_message msg \<Longrightarrow> \<not> joins_thread msg (rm_window x) \<Longrightarrow>
     HandleMessage api ue msg (rm_window x) = Some w \<Longrightarrow> starts_thread (rm_window x) w \<Longrightarrow> rm_phase x = NoThread \<Longrightarrow>
     ui_step api x (x\<lparr>rm_window := w, rm_phase := Trying 1\<rparr>)"
| status: "rm_joining x = None \<Longrightarrow> rm_posted x = (p, l) # ps \<Longrightarrow>
     HandleMessage api ue (WmReconnectStatus p l) (rm_window x) = Some w \<Longrightarrow>
     ui_step api x (x\<lparr>rm_window := w, rm_posted := ps\<rparr>)"

text \<open>A round of one of the client's workers.\<close>

inductive worker_round :: "text_api \<Rightarrow> client \<Rightarrow> client \<Rightarrow> bool" for api where
  receives: "ReceiveLoop api now c = Some (b, c') \<Longrightarrow> worker_round api c c'"
| sends: "SendLoop c = (b, c') \<Longrightarrow> worker_round api c c'"
| beats: "HeartbeatLoop api now c = (b, c') \<Longrightarrow> worker_round api c c'"

inductive room_step :: "text_api \<Rightarrow> room \<Rightarrow> room \<Rightarrow> bool" for api where
  thread: "thread_step api x y \<Longrightarrow> room_step api x y"
| ui: "ui_step api x y \<Longrightarrow> room_step api x y"
| worker: "worker_round api (n_client (rm_window x)) c \<Longrightarrow>
     room_step api x (x\<lparr>rm_window := (rm_window x)\<lparr>n_client := c\<rparr>\<rparr>)"

definition room_start :: "room \<Rightarrow> bool" where
  "room_start x \<longleftrightarrow> rm_phase x = NoThread \<and> rm_joining x = None \<and> rm_posted x = [] \<and> \<not> n_reconnecting (rm_window x)"

inductive in_room :: "text_api \<Rightarrow> room \<Rightarrow> bool" for api where
  start: "room_start x \<Longrightarrow> in_room api x"
| step: "in_room api x \<Longrightarrow> room_step api x y \<Longrightarrow> in_room api y"

inductive_cases thread_stepE: "thread_step api x y"
inductive_cases ui_stepE: "ui_step api x y"
inductive_cases room_stepE: "room_step api x y"

section \<open>What the thread reads\<close>

text \<open>The fields \<^verbatim>\<open>ReconnectLoop\<close> reads without a lock, and the role.\<close>

definition link :: "window \<Rightarrow> sync_role \<times> wstr \<times> wstr \<times> u16 \<times> wstr \<times> wstr" where
  "link w = (n_role w, n_session w, n_re_host w, n_re_port w, n_re_device w, n_re_nickname w)"

text \<open>What a message that does not stop the loop does to the link and the two flags.\<close>

definition same_link :: "window \<Rightarrow> window \<Rightarrow> bool" where
  "same_link w w' \<longleftrightarrow> link w' = link w \<and>
     (n_reconnecting w' = n_reconnecting w \<and> n_re_stop w' = n_re_stop w \<and> n_joinable w' = n_joinable w \<or>
      \<not> n_reconnecting w \<and> n_reconnecting w' \<and> \<not> n_re_stop w' \<and> n_joinable w' \<and> n_role w = Guest)"

lemma same_link_refl [simp]: "same_link w w"
  by (simp add: same_link_def)

lemma same_link_trans: "same_link u v \<Longrightarrow> same_link v w \<Longrightarrow> same_link u w"
  by (auto simp: same_link_def link_def)

lemma same_linkI:
  "n_role w' = n_role w \<Longrightarrow> n_session w' = n_session w \<Longrightarrow> n_re_host w' = n_re_host w \<Longrightarrow> n_re_port w' = n_re_port w \<Longrightarrow>
   n_re_device w' = n_re_device w \<Longrightarrow> n_re_nickname w' = n_re_nickname w \<Longrightarrow> n_reconnecting w' = n_reconnecting w \<Longrightarrow>
   n_re_stop w' = n_re_stop w \<Longrightarrow> n_joinable w' = n_joinable w \<Longrightarrow> same_link w w'"
  by (simp add: same_link_def link_def)

lemma same_link_preview [simp]: "same_link w (UpdateMarkdownPreview w)"
  by (rule same_linkI) (simp_all add: UpdateMarkdownPreview_def)

lemma same_link_note [simp]: "same_link w (note_active t d w)"
  by (rule same_linkI) (simp_all add: note_active_def)

lemma same_link_take_text: "same_link w (take_text t sel r st w)"
  by (rule same_linkI) (simp_all add: take_text_def set_editor_def set_status_def UpdateMarkdownPreview_def note_active_def Let_def)

lemma same_link_status [simp]: "same_link w (set_status t w)"
  by (rule same_linkI) (simp_all add: set_status_def)

lemma same_link_full_sync: "same_link w (RequestFullSync_main api w)"
  by (cases "n_role w") (auto simp: RequestFullSync_main_def same_link_take_text set_status_def intro!: same_linkI)

lemma same_link_apply: "same_link w (ApplySyncApply_main api m w)"
  by (auto simp: ApplySyncApply_main_def same_link_take_text same_link_full_sync intro!: same_linkI
      split: option.splits prod.splits document_apply_status.splits)

lemma same_link_store: "same_link w (store_chunk_main r n i t w)"
  by (rule same_linkI) (simp_all add: store_chunk_main_def Let_def)

lemma same_link_response: "same_link w (ApplySyncResponse_main m w)"
proof -
  have "same_link w (take_text t sel r st (w\<lparr>n_chunks := cs, n_received := rs\<rparr>))" for t sel r st w cs rs
    by (rule same_link_trans [OF _ same_link_take_text]) (rule same_linkI, simp_all)
  then have full: "same_link w (ApplyFullSyncDocument_main t r (w\<lparr>n_chunks := cs, n_received := rs\<rparr>))" for t r w cs rs
    by (simp add: ApplyFullSyncDocument_main_def)
  show ?thesis
    by (auto simp: ApplySyncResponse_main_def Let_def full same_link_store same_link_trans [OF same_link_store full]
        same_link_trans [OF same_link_store same_link_status] split: option.splits)
qed

lemma same_link_start: "same_link w (StartReconnectLoop w)"
  by (auto simp: StartReconnectLoop_def set_status_def same_link_def link_def)

lemma same_link_event: "same_link w (HandleSyncEvent_main api e w)"
  by (auto simp: HandleSyncEvent_main_def same_link_apply same_link_response same_link_start split: sync_event_type.splits)

lemma same_link_drain_server: "same_link w (drain_server_events_main api w)"
proof (induction api w rule: drain_server_events_main.induct)
  case (1 api w)
  have s: "same_link w (w\<lparr>n_server := s\<rparr>)" for s by (rule same_linkI) simp_all
  obtain e s where e: "TryPopEvent (n_server w) = (e, s)" by fastforce
  show ?case
  proof (cases e)
    case None
    then show ?thesis by (subst drain_server_events_main.simps) (simp add: e s)
  next
    case (Some ev)
    then have "same_link (HandleSyncEvent_main api ev (w\<lparr>n_server := s\<rparr>)) (drain_server_events_main api w)"
      using "1.IH" [OF e [symmetric] Some] by (subst drain_server_events_main.simps) (simp add: e)
    then show ?thesis by (blast intro: same_link_trans s same_link_event)
  qed
qed

lemma same_link_drain_client: "same_link w (drain_client_events_main api w)"
proof (induction api w rule: drain_client_events_main.induct)
  case (1 api w)
  have s: "same_link w (w\<lparr>n_client := s\<rparr>)" for s by (rule same_linkI) simp_all
  obtain e s where e: "TryPopClientEvent (n_client w) = (e, s)" by fastforce
  show ?case
  proof (cases e)
    case None
    then show ?thesis by (subst drain_client_events_main.simps) (simp add: e s)
  next
    case (Some ev)
    then have "same_link (HandleSyncEvent_main api ev (w\<lparr>n_client := s\<rparr>)) (drain_client_events_main api w)"
      using "1.IH" [OF e [symmetric] Some] by (subst drain_client_events_main.simps) (simp add: e)
    then show ?thesis by (blast intro: same_link_trans s same_link_event)
  qed
qed

lemma same_link_drain: "same_link w (DrainSyncEvents_main api w)"
  unfolding DrainSyncEvents_main_def by (rule same_link_trans [OF same_link_drain_server same_link_drain_client])

lemma same_link_operation: "same_link w (send_local_operation_main api op w)"
proof -
  have "same_link w (RequestFullSync_main api (w\<lparr>n_server := s\<rparr>))" for s
    by (rule same_link_trans [OF _ same_link_full_sync]) (rule same_linkI, simp_all)
  then show ?thesis
    by (auto simp: send_local_operation_main_def Let_def intro!: same_linkI split: prod.splits option.splits)
qed

lemma same_link_operations: "same_link w (fold (send_local_operation_main api) ops w)"
  by (induction ops arbitrary: w) (auto intro: same_link_trans same_link_operation)

lemma same_link_change: "same_link w (ProcessEditorChange api w)"
proof -
  have send: "same_link w (SendLocalOperations_main api d w)" for d
    by (simp add: SendLocalOperations_main_def same_link_operations)
  have frame: "same_link v (UpdateMarkdownPreview (note_active t True (v\<lparr>n_last := t, n_dirty := True\<rparr>)))" for v t
    by (rule same_linkI) (simp_all add: UpdateMarkdownPreview_def note_active_def)
  define d where "d = ComputeEditorDiff (n_last w) (n_editor w)"
  define w2 where "w2 = UpdateMarkdownPreview (note_active (n_editor w) True
      ((SendLocalOperations_main api d w)\<lparr>n_last := n_editor w, n_dirty := True\<rparr>))"
  have w2: "same_link w w2" unfolding w2_def by (rule same_link_trans [OF send frame])
  have timer: "same_link v (v\<lparr>n_timer := True\<rparr>)" "same_link v ((set_status st v)\<lparr>n_timer := True\<rparr>)"
    "same_link v (set_editor t (set_status st v))" for v st t
    by (rule same_linkI; simp add: set_status_def set_editor_def)+
  have "ProcessEditorChange api w =
      (if \<not> valid d then if document_too_large d then set_editor (n_last w) (set_status nt_too_large w) else w
       else if \<not> changed d then w
       else (if n_screen w2 = EditorScreen then (set_status nt_editing w2)\<lparr>n_timer := True\<rparr> else w2\<lparr>n_timer := True\<rparr>))"
    by (simp add: ProcessEditorChange_def Let_def d_def w2_def)
  then show ?thesis
    using timer same_link_trans [OF w2 timer(1)] same_link_trans [OF w2 timer(2)] by simp
qed

lemma same_link_shortcut: "same_link w (ApplyMarkdownShortcutIfNeeded (ResetMarkdownStyleAtLineBreakIfNeeded w))"
proof -
  have styles: "same_link v (ApplyHeadingShortcut i n h v)" "same_link v (ApplyBulletShortcut i n v)"
    "same_link v (ApplyQuoteShortcut i n v)" "same_link v (ApplyCodeShortcut i n v)" for v i n h
    by (rule same_linkI; simp add: shortcut_defs)+
  have "same_link v (case st of Heading h \<Rightarrow> ApplyHeadingShortcut i n h v | Bullet \<Rightarrow> ApplyBulletShortcut i n v
      | Quote \<Rightarrow> ApplyQuoteShortcut i n v | CodeLine \<Rightarrow> ApplyCodeShortcut i n v)" for v i n st
    by (cases st) (simp_all add: styles)
  then have "same_link v (ApplyMarkdownShortcutIfNeeded v)" for v
    by (simp add: ApplyMarkdownShortcutIfNeeded_def Let_def split: option.split prod.split)
  moreover have "same_link v (ResetRichEditParagraphFormat (ResetRichEditInsertionFormat v))" for v
    by (rule same_linkI) simp_all
  then have "same_link v (ResetMarkdownStyleAtLineBreakIfNeeded v)" for v
    by (simp add: ResetMarkdownStyleAtLineBreakIfNeeded_def Let_def)
  ultimately show ?thesis by (blast intro: same_link_trans)
qed

lemma same_link_edited: "same_link w (OnEditorChanged api w)"
  by (simp add: OnEditorChanged_def same_link_trans [OF same_link_shortcut same_link_change])

lemma same_link_save: "same_link w (SaveEditorContent api w)"
  by (auto simp: SaveEditorContent_def SyncActiveTabFromEditor_def set_status_def note_active_def Let_def intro!: same_linkI
      split: prod.splits)

lemma same_link_switch: "same_link w (SwitchToTab i w)"
  by (auto simp: SwitchToTab_def SyncActiveTabFromEditor_def set_status_def set_editor_def note_active_def
      UpdateMarkdownPreview_def Let_def intro!: same_linkI)

lemma same_link_new_tab: "same_link w (HandleNewTab w)"
proof -
  have "same_link w ((SyncActiveTabFromEditor w)\<lparr>n_tabs := ts\<rparr>)" for ts
    by (rule same_linkI) (simp_all add: SyncActiveTabFromEditor_def note_active_def)
  then show ?thesis
    by (simp add: HandleNewTab_def Let_def same_link_trans [OF _ same_link_switch])
qed

lemma same_link_view:
  "same_link w (ShowEditorScreen t w)" "same_link w (ShowJoinScreen w)" "same_link w (ToggleAdvancedJoin w)"
  "same_link w (ToggleMarkdownPreview w)" "same_link w (select_all ue w)" "same_link w (snd (CopyInviteCode outcome w))"
  "same_link w (HandleReconnectStatus p l w)"
  by (auto simp: ShowEditorScreen_def ShowJoinScreen_def ToggleAdvancedJoin_def ToggleMarkdownPreview_def select_all_def
      CopyInviteCode_def HandleReconnectStatus_def set_status_def UpdateMarkdownPreview_def intro!: same_linkI
      split: clipboard_outcome.splits)

lemmas same_link_all = same_link_view same_link_new_tab same_link_switch same_link_save same_link_edited same_link_change
  same_link_drain

text \<open>Every message that does not stop the reconnection keeps the link.\<close>

lemma message_same_link:
  assumes "HandleMessage api ue msg w = Some w'" and "\<not> joins_thread msg w" and "\<And>ok. msg \<noteq> WmCreate ok"
  shows "same_link w w'"
proof -
  have dirty: "same_link w (SaveEditorContent api (w\<lparr>n_dirty := True\<rparr>))"
    "same_link w (SaveEditorContent api (w\<lparr>n_timer := False\<rparr>))"
    by (rule same_link_trans [OF _ same_link_save], rule same_linkI, simp_all)+
  have edited: "same_link w (OnEditorChanged api (w\<lparr>n_editor := t, n_selection := sel\<rparr>))" for t sel
    by (rule same_link_trans [OF _ same_link_edited], rule same_linkI) simp_all
  have ime: "same_link w (ProcessEditorChange api (w\<lparr>n_ime := False\<rparr>))" "same_link w (w\<lparr>n_ime := True\<rparr>)"
    by (rule same_link_trans [OF _ same_link_change], rule same_linkI, simp_all) (rule same_linkI, simp_all)
  have command: "HandleCommand api ue c w = Some w' \<Longrightarrow> \<not> joins_thread (WmCommand c) w \<Longrightarrow> same_link w w'" for c
    by (cases c) (auto simp: same_link_all dirty)
  have key: "HandleKey api ue control k w = Some w' \<Longrightarrow> \<not> joins_thread (WmKeyDown control k) w \<Longrightarrow> same_link w w'" for control k
    by (auto simp: HandleKey_def same_link_all dirty split: if_splits)
  show ?thesis
    using assms command key by (cases msg) (auto simp: same_link_all dirty edited ime)
qed

text \<open>A message that stops the reconnection leaves no trace of it in the flag.\<close>

lemma joined_not_reconnecting:
  assumes "HandleMessage api ue msg w = Some w'" and "joins_thread msg w"
  shows "\<not> n_reconnecting w'"
proof -
  have stop: "\<not> n_reconnecting (StopReconnectLoop v)" for v by (simp add: StopReconnectLoop_def)
  have close: "\<not> n_reconnecting (close_window api w)" by (simp add: close_window_def Let_def stop)
  have leave: "\<not> n_reconnecting (HandleLeaveRoom api w)"
    by (simp add: HandleLeaveRoom_def ShowEditorScreen_def set_status_def UpdateMarkdownPreview_def stop Let_def)
  have host: "\<not> n_reconnecting (HandleCreateRoom_main api env w)" for env
    by (auto simp: HandleCreateRoom_main_def ShowEditorScreen_def set_status_def UpdateMarkdownPreview_def stop Let_def
        split: option.splits prod.splits)
  have join: "join_room api ue w = Some w' \<Longrightarrow> \<not> n_reconnecting w'"
    by (auto simp: join_room_def HandleJoinRoom_main_def ShowEditorScreen_def set_status_def UpdateMarkdownPreview_def stop
        Let_def split: option.splits prod.splits sum.splits if_splits)
  have key: "HandleKey api ue control 13 w = join_room api ue w" if "n_screen w = JoinScreen" for control
    using that by (simp add: HandleKey_def)
  from assms show ?thesis
    using join by (cases msg) (auto simp: close leave host key)
qed

section \<open>The invariant\<close>

text \<open>The phases in which \<^verbatim>\<open>reconnecting_\<close> is set, and the numbers of the attempts.\<close>

fun flag_phase :: "reconnect_phase \<Rightarrow> bool" where
  "flag_phase NoThread = False"
| "flag_phase Reporting = False"
| "flag_phase ReportingFailure = False"
| "flag_phase _ = True"

fun attempt_ok :: "reconnect_phase \<Rightarrow> bool" where
  "attempt_ok (Trying n) = (1 \<le> n \<and> n \<le> Suc kMaxReconnectAttempts)"
| "attempt_ok (Connecting n) = (1 \<le> n \<and> n \<le> kMaxReconnectAttempts)"
| "attempt_ok (Pausing n) = (1 \<le> n \<and> n \<le> kMaxReconnectAttempts)"
| "attempt_ok _ = True"

definition room_ok :: "room \<Rightarrow> bool" where
  "room_ok x \<longleftrightarrow>
     (n_reconnecting (rm_window x) \<longleftrightarrow> flag_phase (rm_phase x)) \<and> attempt_ok (rm_phase x) \<and>
     (rm_phase x \<noteq> NoThread \<longrightarrow> n_role (rm_window x) = Guest \<and> n_joinable (rm_window x)) \<and>
     (rm_phase x \<noteq> NoThread \<longrightarrow> n_re_stop (rm_window x) \<longrightarrow> rm_joining x \<noteq> None) \<and>
     (\<forall>ue msg. rm_joining x = Some (ue, msg) \<longrightarrow> n_re_stop (rm_window x) \<and> joins_thread msg (rm_window x))"

lemma joins_thread_screen: "n_screen w' = n_screen w \<Longrightarrow> joins_thread msg w' = joins_thread msg w"
  by (cases msg) auto

lemma thread_step_ok:
  assumes "thread_step api x y" and "room_ok x"
  shows "room_ok y" and "link (rm_window y) = link (rm_window x)" and "rm_phase x \<noteq> NoThread" and "rm_joining y = rm_joining x"
proof -
  have window: "joins_thread msg (w\<lparr>n_client := c\<rparr>) = joins_thread msg w"
    "joins_thread msg (w\<lparr>n_reconnecting := b\<rparr>) = joins_thread msg w" for msg w c b
    by (rule joins_thread_screen; simp)+
  show "room_ok y" "link (rm_window y) = link (rm_window x)" "rm_phase x \<noteq> NoThread" "rm_joining y = rm_joining x"
    using assms by (cases rule: thread_step.cases; auto simp: room_ok_def link_def window)+
qed

lemma ui_step_ok:
  assumes "ui_step api x y" and "room_ok x"
  shows "room_ok y" and "rm_phase x \<noteq> NoThread \<Longrightarrow> link (rm_window y) = link (rm_window x) \<and> rm_phase y = rm_phase x"
proof -
  have "room_ok y \<and> (rm_phase x \<noteq> NoThread \<longrightarrow> link (rm_window y) = link (rm_window x) \<and> rm_phase y = rm_phase x)"
    using assms(1)
  proof cases
    case (begins_stop msg ue)
    have "joins_thread msg (w\<lparr>n_re_stop := True\<rparr>) = joins_thread msg w" for w
      by (rule joins_thread_screen) simp
    then show ?thesis using assms(2) begins_stop by (auto simp: room_ok_def link_def)
  next
    case (joined ue msg w)
    then have "\<not> n_reconnecting w"
      using assms(2) joined_not_reconnecting [where msg = msg and w = "rm_window x" and w' = w] by (auto simp: room_ok_def)
    then show ?thesis using assms(2) joined by (auto simp: room_ok_def)
  next
    case (handles msg ue w)
    have "same_link (rm_window x) w"
      using handles by (intro message_same_link [where msg = msg]) auto
    then show ?thesis
      using assms(2) handles by (auto simp: room_ok_def same_link_def link_def starts_thread_def)
  next
    case (starts msg ue w)
    have "same_link (rm_window x) w"
      using starts by (intro message_same_link [where msg = msg]) auto
    then show ?thesis
      using assms(2) starts by (auto simp: room_ok_def same_link_def link_def starts_thread_def)
  next
    case (status p l ps ue w)
    have "w = HandleReconnectStatus p l (rm_window x)" using status by simp
    then have "same_link (rm_window x) w" "n_reconnecting w = n_reconnecting (rm_window x)" "n_re_stop w = n_re_stop (rm_window x)" "n_joinable w = n_joinable (rm_window x)"
      by (simp_all add: same_link_view) (simp_all add: HandleReconnectStatus_def set_status_def)
    then show ?thesis using assms(2) status by (auto simp: room_ok_def same_link_def link_def)
  qed
  then show "room_ok y" "rm_phase x \<noteq> NoThread \<Longrightarrow> link (rm_window y) = link (rm_window x) \<and> rm_phase y = rm_phase x"
    by blast+
qed

lemma worker_ok: "room_ok x \<Longrightarrow> room_ok (x\<lparr>rm_window := (rm_window x)\<lparr>n_client := c\<rparr>\<rparr>)"
proof -
  have "joins_thread msg (w\<lparr>n_client := c\<rparr>) = joins_thread msg w" for msg w
    by (rule joins_thread_screen) simp
  then show "room_ok x \<Longrightarrow> room_ok (x\<lparr>rm_window := (rm_window x)\<lparr>n_client := c\<rparr>\<rparr>)"
    by (simp add: room_ok_def)
qed

lemma in_room_ok: "in_room api x \<Longrightarrow> room_ok x"
proof (induction rule: in_room.induct)
  case (start x)
  then show ?case by (simp add: room_start_def room_ok_def)
next
  case (step x y)
  from step.hyps(2) show ?case
    by cases (auto dest: thread_step_ok(1) ui_step_ok(1) intro: worker_ok step.IH)
qed

text \<open>How many steps the thread has left, and how many messages it may still post.\<close>

fun steps_left :: "reconnect_phase \<Rightarrow> nat" where
  "steps_left NoThread = 0"
| "steps_left Reporting = 1"
| "steps_left ReportingFailure = 1"
| "steps_left Succeeded = 2"
| "steps_left GivingUp = 2"
| "steps_left (Trying n) = 3 * (6 - n) + 3"
| "steps_left (Connecting n) = 3 * (6 - n) + 2"
| "steps_left (Pausing n) = 3 * (6 - n) + 1"

fun posts_left :: "reconnect_phase \<Rightarrow> nat" where
  "posts_left NoThread = 0"
| "posts_left (Trying n) = 7 - n"
| "posts_left (Connecting n) = 6 - n"
| "posts_left (Pausing n) = 6 - n"
| "posts_left _ = 1"

lemma thread_step_bounds:
  assumes "thread_step api x y" and "room_ok x"
  shows "steps_left (rm_phase y) < steps_left (rm_phase x)"
    and "length (rm_posted y) + posts_left (rm_phase y) \<le> length (rm_posted x) + posts_left (rm_phase x)"
  using assms by (cases rule: thread_step.cases; auto simp: room_ok_def kMaxReconnectAttempts_def)+

text \<open>The thread can always go on; whether an attempt ends is the business of the network.\<close>

lemma thread_can_step:
  assumes "rm_phase x \<noteq> NoThread"
  shows "\<exists>y. thread_step api x y"
proof (cases "rm_phase x")
  case (Trying n)
  show ?thesis
  proof (cases "n \<le> kMaxReconnectAttempts \<and> \<not> n_re_stop (rm_window x)")
    case True
    then show ?thesis using thread_step.tries [OF Trying] by blast
  next
    case False
    then have "kMaxReconnectAttempts < n \<or> n_re_stop (rm_window x)" by auto
    then show ?thesis using thread_step.leaves_loop [OF Trying] by blast
  qed
next
  case (Connecting n)
  have "connect_again api (env\<lparr>env_socket := None\<rparr>) (rm_window x) =
      Some (False, snd (the (connect_again api (env\<lparr>env_socket := None\<rparr>) (rm_window x))))" for env
    by (simp add: connect_again_def Connect_def Let_def)
  then show ?thesis using thread_step.fails [OF Connecting] by blast
next
  case (Pausing n)
  then show ?thesis using thread_step.waits by blast
next
  case Succeeded
  then show ?thesis using thread_step.succeeded by blast
next
  case Reporting
  then show ?thesis using thread_step.reports by blast
next
  case GivingUp
  then show ?thesis using thread_step.gives_up by blast
next
  case ReportingFailure
  then show ?thesis using thread_step.reports_failure by blast
qed (use assms in simp)

lemma thread_steps_ok:
  "(thread_step api ^^ n) x y \<Longrightarrow> room_ok x \<Longrightarrow>
     room_ok y \<and> n + steps_left (rm_phase y) \<le> steps_left (rm_phase x) \<and>
     length (rm_posted y) + posts_left (rm_phase y) \<le> length (rm_posted x) + posts_left (rm_phase x) \<and>
     link (rm_window y) = link (rm_window x)"
proof (induction n arbitrary: y)
  case (Suc n)
  then obtain z where z: "(thread_step api ^^ n) x z" "thread_step api z y" by auto
  note x = Suc.IH [OF z(1) Suc.prems(2)]
  then have "room_ok z" by blast
  with x thread_step_ok(1,2) [OF z(2)] thread_step_bounds [OF z(2)] show ?case by (intro conjI; simp)
qed simp

lemma phase_bounds: "attempt_ok p \<Longrightarrow> steps_left p \<le> 18 \<and> posts_left p \<le> 6"
  by (cases p) auto

end
