(* ===== verification/ThreadProps.thy ===== *)
theory ThreadProps
  imports NativeThreads NativeProps ClientJoin
begin

text \<open>
  Properties of the reconnection thread beside the message loop: what it reads stands still, it
  ends, and three orders of events in which the user is told something that is not so.
\<close>

section \<open>Isolation\<close>


text \<open>A guest whose connection has ended, about to hear of it.\<close>

definition lost_event :: sync_event where
  "lost_event = default_event\<lparr>ev_type := EvDisconnected, ev_detail := wide ''connection closed''\<rparr>"

definition lost_guest :: window where
  "lost_guest = native_guest\<lparr>n_re_host := wide ''10.0.0.1'', n_re_port := 7777,
     n_client := SyncClient_init\<lparr>c_events := [lost_event]\<rparr>\<rparr>"

definition lost_room :: room where
  "lost_room = \<lparr>rm_window = lost_guest, rm_phase = NoThread, rm_posted = [], rm_joining = None\<rparr>"

lemma lost_room_start: "room_start lost_room"
  by (simp add: room_start_def lost_room_def lost_guest_def native_defs)

lemma drain_lost_event:
  assumes "c_events (n_client w) = [e]" and "ev_type e = EvDisconnected" and "event_queue (n_server w) = []" and "n_role w = Guest"
  shows "DrainSyncEvents_main api w = StartReconnectLoop (w\<lparr>n_client := (n_client w)\<lparr>c_events := []\<rparr>\<rparr>)"
proof -
  let ?w = "StartReconnectLoop (w\<lparr>n_client := (n_client w)\<lparr>c_events := []\<rparr>\<rparr>)"
  have "n_client ?w = (n_client w)\<lparr>c_events := []\<rparr>" by (simp add: StartReconnectLoop_def set_status_def)
  then have nil: "drain_client_events_main api ?w = ?w" by (intro drain_client_main_Nil) simp
  have "drain_client_events_main api w = drain_client_events_main api ?w"
    using assms(1,2,4)
    by (subst drain_client_events_main.simps) (simp add: TryPopClientEvent_def HandleSyncEvent_main_def)
  then show ?thesis by (simp add: DrainSyncEvents_main_def drain_server_main_Nil [OF assms(3)] nil)
qed

text \<open>The thread is started.\<close>

definition trying_room :: room where
  "trying_room = lost_room\<lparr>rm_window := StartReconnectLoop (lost_guest\<lparr>n_client := SyncClient_init\<rparr>), rm_phase := Trying 1\<rparr>"

lemma trying_room_reached: "in_room api trying_room"
proof -
  have q: "c_events (n_client lost_guest) = [lost_event]" "event_queue (n_server lost_guest) = []" "n_role lost_guest = Guest"
    "lost_guest\<lparr>n_client := (n_client lost_guest)\<lparr>c_events := []\<rparr>\<rparr> = lost_guest\<lparr>n_client := SyncClient_init\<rparr>"
    by (simp_all add: lost_guest_def native_defs SyncServer_init_def SyncClient_init_def)
  let ?w = "StartReconnectLoop (lost_guest\<lparr>n_client := SyncClient_init\<rparr>)"
  have "HandleMessage api dead_env WmSyncEvent (rm_window lost_room) = Some ?w"
    using drain_lost_event [OF q(1) _ q(2,3)] by (simp add: lost_room_def q(4)) (simp add: lost_event_def)
  moreover have "starts_thread lost_guest ?w"
    by (simp add: starts_thread_def StartReconnectLoop_def lost_guest_def native_defs set_status_def)
  ultimately have "ui_step api lost_room trying_room"
    unfolding trying_room_def by (intro ui_step.starts [where msg = WmSyncEvent]) (simp_all add: lost_room_def)
  then show ?thesis by (blast intro: in_room.start [OF lost_room_start] in_room.step room_step.ui)
qed


section \<open>The thread ends\<close>



text \<open>Undisturbed, the thread does what \<open>ReconnectLoop\<close> says.\<close>

lemma three_steps: "r x y \<Longrightarrow> r y z \<Longrightarrow> r\<^sup>*\<^sup>* z u \<Longrightarrow> r\<^sup>*\<^sup>* x u"
  by (meson converse_rtranclp_into_rtranclp)

lemma last_steps: "r x y \<Longrightarrow> r y z \<Longrightarrow> r z u \<Longrightarrow> r\<^sup>*\<^sup>* x u"
  by (blast intro: three_steps)

lemma thread_runs_rounds:
  assumes "reconnect_rounds api env (\<lambda>_. False) [n..<Suc kMaxReconnectAttempts] (rm_window x) = Some (posts, w)"
    and "rm_phase x = Trying n" and "\<not> n_re_stop (rm_window x)" and "n \<le> Suc kMaxReconnectAttempts"
  shows "(thread_step api)\<^sup>*\<^sup>* x (x\<lparr>rm_window := w, rm_phase := NoThread, rm_posted := rm_posted x @ posts\<rparr>)"
  using assms
proof (induction "Suc kMaxReconnectAttempts - n" arbitrary: n x posts)
  case 0
  then have n: "n = Suc kMaxReconnectAttempts" by simp
  let ?y = "x\<lparr>rm_phase := GivingUp\<rparr>" and ?z = "x\<lparr>rm_window := w, rm_phase := ReportingFailure\<rparr>"
  have w: "w = (rm_window x)\<lparr>n_reconnecting := False\<rparr>" "posts = [(0, 2)]" using 0 n by auto
  have s1: "thread_step api x ?y" using 0 n by (intro thread_step.leaves_loop [of x n]) auto
  have s2: "thread_step api ?y ?z" using thread_step.gives_up [of ?y api] by (simp add: w)
  have s3: "thread_step api ?z (x\<lparr>rm_window := w, rm_phase := NoThread, rm_posted := rm_posted x @ posts\<rparr>)"
    using thread_step.reports_failure [of ?z api] 0 w by simp
  show ?case by (rule last_steps [where r = "thread_step api", OF s1 s2 s3])
next
  case (Suc k)
  let ?y = "x\<lparr>rm_phase := Connecting n, rm_posted := rm_posted x @ [(n, 0)]\<rparr>"
  have "n < Suc kMaxReconnectAttempts" using Suc.hyps(2) by linarith
  then have n: "n \<le> kMaxReconnectAttempts" "[n..<Suc kMaxReconnectAttempts] = n # [Suc n..<Suc kMaxReconnectAttempts]"
    by (simp, rule upt_conv_Cons)
  have s0: "thread_step api x ?y" by (rule thread_step.tries [OF Suc.prems(2) n(1) Suc.prems(3)])
  obtain ok c where c: "connect_again api (env n) (rm_window x) = Some (ok, c)"
    using Suc.prems(1,3) by (auto simp: n(2) connect_again_def simp del: upt_Suc split: option.splits)
  show ?case
  proof (cases ok)
    case True
    let ?u = "?y\<lparr>rm_window := (rm_window x)\<lparr>n_client := c\<rparr>, rm_phase := Succeeded\<rparr>"
    let ?v = "?y\<lparr>rm_window := w, rm_phase := Reporting\<rparr>"
    have w: "w = (rm_window x)\<lparr>n_client := c, n_reconnecting := False\<rparr>" "posts = [(n, 0), (0, 1)]"
      using Suc.prems(1,3) c True by (auto simp: n(2) connect_again_def simp del: upt_Suc)
    have s1: "thread_step api ?y ?u" using thread_step.connects [of ?y n api "env n" c] c True by simp
    have s2: "thread_step api ?u ?v" using thread_step.succeeded [of ?u api] by (simp add: w)
    have s3: "thread_step api ?v (x\<lparr>rm_window := w, rm_phase := NoThread, rm_posted := rm_posted x @ posts\<rparr>)"
      using thread_step.reports [of ?v api] by (simp add: w)
    show ?thesis
      by (rule converse_rtranclp_into_rtranclp [where r = "thread_step api", OF s0
            last_steps [where r = "thread_step api", OF s1 s2 s3]])
  next
    case False
    let ?u = "?y\<lparr>rm_window := (rm_window x)\<lparr>n_client := c\<rparr>, rm_phase := Pausing n\<rparr>"
    let ?v = "?y\<lparr>rm_window := (rm_window x)\<lparr>n_client := c\<rparr>, rm_phase := Trying (Suc n)\<rparr>"
    have stop: "(rm_window x)\<lparr>n_client := c, n_re_stop := False\<rparr> = (rm_window x)\<lparr>n_client := c\<rparr>"
      using Suc.prems(3) by simp
    obtain posts' where posts: "posts = (n, 0) # posts'"
      "reconnect_rounds api env (\<lambda>_. False) [Suc n..<Suc kMaxReconnectAttempts] ((rm_window x)\<lparr>n_client := c\<rparr>) = Some (posts', w)"
      using Suc.prems(1,3) c False by (auto simp: n(2) connect_again_def stop simp del: upt_Suc)
    have s1: "thread_step api ?y ?u" using thread_step.fails [of ?y n api "env n" c] c False by simp
    have s2: "thread_step api ?u ?v" using thread_step.waits [of ?u n api] by simp
    have s3: "(thread_step api)\<^sup>*\<^sup>* ?v (?v\<lparr>rm_window := w, rm_phase := NoThread, rm_posted := rm_posted ?v @ posts'\<rparr>)"
      using Suc.hyps(2) Suc.prems(3) posts(2) n(1) by (intro Suc.hyps(1) [of "Suc n"]) auto
    have eq: "?v\<lparr>rm_window := w, rm_phase := NoThread, rm_posted := rm_posted ?v @ posts'\<rparr>
        = x\<lparr>rm_window := w, rm_phase := NoThread, rm_posted := rm_posted x @ posts\<rparr>"
      using posts(1) by simp
    show ?thesis
      using converse_rtranclp_into_rtranclp [where r = "thread_step api", OF s0
          three_steps [where r = "thread_step api", OF s1 s2 s3]] unfolding eq .
  qed
qed

lemma thread_runs_loop:
  assumes "ReconnectLoop api env (\<lambda>_. False) (rm_window x) = Some (posts, w)" and "rm_phase x = Trying 1"
    and "\<not> n_re_stop (rm_window x)"
  shows "(thread_step api)\<^sup>*\<^sup>* x (x\<lparr>rm_window := w, rm_phase := NoThread, rm_posted := rm_posted x @ posts\<rparr>)"
proof (rule thread_runs_rounds [where n = 1])
  show "reconnect_rounds api env (\<lambda>_. False) [1..<Suc kMaxReconnectAttempts] (rm_window x) = Some (posts, w)"
    using assms(1) by (simp only: ReconnectLoop_def)
  show "1 \<le> Suc kMaxReconnectAttempts" by simp
qed (rule assms(2,3))+

section \<open>A disconnection that is forgotten\<close>

lemma worker_silent:
  assumes "worker_round api c c'" and "silent c"
  shows "silent c' \<and> c_events c' = c_events c"
  using assms(1)
proof cases
  case (receives now b)
  then show ?thesis using silent_rounds(1) [OF assms(2)] by simp
next
  case (sends b)
  then show ?thesis using silent_rounds(2) [OF assms(2)] by simp
next
  case (beats now b)
  then show ?thesis using silent_rounds(3) [OF assms(2), of api now] by simp
qed

lemma workers_silent: "(worker_round api)\<^sup>*\<^sup>* c c' \<Longrightarrow> silent c \<Longrightarrow> silent c' \<and> c_events c' = c_events c"
  by (induction rule: rtranclp_induct) (auto dest: worker_silent)

text \<open>
  C36: a connection that is lost too early is never made again. \<^verbatim>\<open>Connect\<close> has succeeded, but the
  thread has not yet cleared \<^verbatim>\<open>reconnecting_\<close> when the new connection breaks and the message loop
  handles that: it takes the reconnection for one that is still going on and starts nothing. Then
  the thread reports its success. The window says that it is connected again, it is not, no event
  is left, and none will ever come from the client's workers.
\<close>

theorem early_disconnect_forgotten:
  assumes "in_room api x" and "rm_phase x = Succeeded" and "rm_joining x = None" and "rm_posted x = []"
    and "silent (n_client (rm_window x))" and "c_events (n_client (rm_window x)) = [e]" and "ev_type e = EvDisconnected"
    and "event_queue (n_server (rm_window x)) = []"
  shows "\<exists>y. (room_step api)\<^sup>*\<^sup>* x y \<and> rm_phase y = NoThread \<and> rm_posted y = [] \<and>
    n_role (rm_window y) = Guest \<and> \<not> n_reconnecting (rm_window y) \<and> n_status (rm_window y) = nt_reconnected \<and>
    (\<forall>c. (worker_round api)\<^sup>*\<^sup>* (n_client (rm_window y)) c \<longrightarrow> silent c \<and> c_events c = [])"
proof -
  have ok: "n_reconnecting (rm_window x)" "n_role (rm_window x) = Guest"
    using in_room_ok [OF assms(1)] assms(2) by (simp_all add: room_ok_def)
  define c where "c = (n_client (rm_window x))\<lparr>c_events := []\<rparr>"
  define w where "w = StartReconnectLoop ((rm_window x)\<lparr>n_client := c\<rparr>)"
  have w: "n_client w = c" "n_reconnecting w" "n_role w = Guest"
    using ok by (simp_all add: w_def StartReconnectLoop_def set_status_def)
  define x1 where "x1 = x\<lparr>rm_window := w\<rparr>"
  define x2 where "x2 = x1\<lparr>rm_window := w\<lparr>n_reconnecting := False\<rparr>, rm_phase := Reporting\<rparr>"
  define x3 where "x3 = x2\<lparr>rm_phase := NoThread, rm_posted := [(0, 1)]\<rparr>"
  define y where "y = x3\<lparr>rm_window := HandleReconnectStatus 0 1 (rm_window x3), rm_posted := []\<rparr>"
  have "HandleMessage api dead_env WmSyncEvent (rm_window x) = Some w"
    using drain_lost_event [OF assms(6-8) ok(2), of api] by (simp add: w_def c_def)
  then have s1: "room_step api x x1"
    unfolding x1_def using assms(3) ok(1)
    by (intro room_step.ui ui_step.handles [where msg = WmSyncEvent]) (simp_all add: starts_thread_def)
  have s2: "room_step api x1 x2"
    using thread_step.succeeded [of x1 api] assms(2) by (intro room_step.thread) (simp add: x1_def x2_def)
  have s3: "room_step api x2 x3"
    using thread_step.reports [of x2 api] assms(4) by (intro room_step.thread) (simp add: x1_def x2_def x3_def)
  have s4: "room_step api x3 y"
    using ui_step.status [of x3 0 1 "[]" api dead_env] assms(3)
    by (intro room_step.ui) (simp add: x1_def x2_def x3_def y_def)
  have "(room_step api)\<^sup>*\<^sup>* x y"
    by (rule converse_rtranclp_into_rtranclp [where r = "room_step api", OF s1 last_steps [where r = "room_step api", OF s2 s3 s4]])
  moreover have c: "n_client (rm_window y) = c"
    by (simp add: y_def x3_def x2_def HandleReconnectStatus_def set_status_def w)
  have "silent c" "c_events c = []" using assms(5) by (simp_all add: c_def silent_def)
  then have "silent c' \<and> c_events c' = []" if "(worker_round api)\<^sup>*\<^sup>* c c'" for c'
    using workers_silent [OF that] by simp
  ultimately show ?thesis
    using c w by (intro exI [of _ y]) (simp add: y_def x3_def x2_def x1_def HandleReconnectStatus_def set_status_def)
qed

text \<open>A host that answers and closes the connection at once.\<close>

definition short_env :: "bytes \<Rightarrow> connect_env" where
  "short_env p =
     \<lparr>env_socket = Some ready_conn, env_host_ok = True,
      env_calls = \<lparr>ioctl_ok = True, connect_error = None, select_result = 0, writable = False, sockopt_ok = True, so_error = 0\<rparr>,
      env_now = 0, env_clock = [0, 1], env_input = [Received (EncodeFrame p), Received []]\<rparr>"

lemma early_disconnect_reached:
  "\<exists>x e. in_room utf8_ref x \<and> rm_phase x = Succeeded \<and> rm_joining x = None \<and> rm_posted x = [] \<and>
     silent (n_client (rm_window x)) \<and> c_events (n_client (rm_window x)) = [e] \<and> ev_type e = EvDisconnected \<and>
     event_queue (n_server (rm_window x)) = []"
proof -
  have small: "small_message (join_ok_message example_server)"
    by (rule small_join_ok) (simp_all add: example_defs session_ok_def text_ok_def GenerateReconnectToken_def)
  obtain p where p: "DeserializeMessage utf8_ref p = (NoError, received (join_ok_message example_server))"
    "length p + 4096 \<le> kMaxFramePayloadBytes + 1"
    by (rule small_message_sent [OF utf8_api_ref small])
  have ty: "msg_type (received (join_ok_message example_server)) = MsgJoinOk"
    by (simp add: join_ok_message_def server_message_def)
  let ?w = "rm_window trying_room"
  have w: "n_session ?w = wide ''123456''" "n_re_device ?w = []" "n_re_nickname ?w = []" "n_client ?w = SyncClient_init"
    "\<not> n_re_stop ?w" "event_queue (n_server ?w) = []"
    by (simp_all add: trying_room_def StartReconnectLoop_def lost_guest_def native_defs set_status_def SyncServer_init_def)
  have t: "text_ok []" "text_ok (c_token SyncClient_init)" "in_time kJoinResponseTimeoutMs [0, 1]"
    by (simp_all add: text_ok_def SyncClient_init_def in_time_def kJoinResponseTimeoutMs_def)
  have env: "env_socket (short_env p) = Some ready_conn" "env_host_ok (short_env p)"
    "ConnectWithTimeout (env_calls (short_env p)) = Connected"
    "env_input (short_env p) = Received (EncodeFrame p) # [Received []]" "env_clock (short_env p) = [0, 1]"
    by (simp_all add: short_env_def ConnectWithTimeout_def)
  have "length p + length ([] :: bytes) \<le> kMaxFramePayloadBytes" using p(2) by simp
  then have answer: "ReceiveProtocolMessageWithin utf8_ref (env_clock (short_env p)) kJoinResponseTimeoutMs (env_input (short_env p)) [] =
      Some (Some (received (join_ok_message example_server)), [], [Received []])"
    using answer_in_first_piece [OF p(1) _ t(3), of "[]" "[Received []]"] env(4,5) by simp
  obtain k' where greets: "greets utf8_ref (short_env p) (wide ''123456'') [] [] SyncClient_init k'"
    by (rule greeting_sent [OF utf8_api_ref session_ok_example t(1,1,2) env(1) reliable_ready_conn])
  obtain c3 where c3: "Connect utf8_ref (short_env p) (wide ''123456'') [] [] SyncClient_init =
      Some (True, snd (SendSyncRequest utf8_ref 0 c3))"
    "joined_client (wide ''123456'') k' (received (join_ok_message example_server)) [Received []] SyncClient_init c3"
    using Connect_answered [OF greets env(1-3) answer ty] by auto
  define c where "c = snd (SendSyncRequest utf8_ref 0 c3)"
  have c: "Connect utf8_ref (short_env p) (wide ''123456'') [] [] SyncClient_init = Some (True, c)"
    "\<not> c_stopping c" "c_decoder c = []" "c_input c = [Received []]" "c_events c = []"
    using c3 by (simp_all add: c_def joined_client_def SyncClient_init_def)
  obtain k where k: "c_socket c = Some k" using c3(2) by (auto simp: c_def joined_client_def)
  obtain c' where c': "ReceiveLoop utf8_ref 0 c = Some (False, c')" "silent c'"
    "c_events c' = [default_event\<lparr>ev_type := EvDisconnected, ev_detail := wide ''connection closed''\<rparr>]"
    using failed_receive_tells [OF c(4,3,2) k, of utf8_ref 0] c(5) by auto
  define x1 where "x1 = trying_room\<lparr>rm_phase := Connecting 1, rm_posted := [(1, 0)]\<rparr>"
  define x2 where "x2 = x1\<lparr>rm_window := HandleReconnectStatus 1 0 ?w, rm_posted := []\<rparr>"
  define x3 where "x3 = x2\<lparr>rm_window := (rm_window x2)\<lparr>n_client := c\<rparr>, rm_phase := Succeeded\<rparr>"
  define x4 where "x4 = x3\<lparr>rm_window := (rm_window x3)\<lparr>n_client := c'\<rparr>\<rparr>"
  have j: "rm_joining trying_room = None" "rm_posted trying_room = []" "rm_phase trying_room = Trying 1"
    by (simp_all add: trying_room_def lost_room_def)
  have s1: "room_step utf8_ref trying_room x1"
    using thread_step.tries [of trying_room 1 utf8_ref] w(5) j
    by (intro room_step.thread) (simp add: x1_def kMaxReconnectAttempts_def)
  have s2: "room_step utf8_ref x1 x2"
    using ui_step.status [of x1 1 0 "[]" utf8_ref dead_env] j by (intro room_step.ui) (simp add: x1_def x2_def)
  have "connect_again utf8_ref (short_env p) (rm_window x2) = Some (True, c)"
    using c(1) w by (simp add: connect_again_def x2_def HandleReconnectStatus_def set_status_def)
  then have s3: "room_step utf8_ref x2 x3"
    unfolding x3_def by (intro room_step.thread thread_step.connects [of _ 1]) (simp_all add: x2_def x1_def)
  have s4: "room_step utf8_ref x3 x4"
    unfolding x4_def by (rule room_step.worker, rule worker_round.receives [of utf8_ref 0 _ False]) (simp add: x3_def c'(1))
  have "in_room utf8_ref x4"
    by (rule in_room.step [OF in_room.step [OF in_room.step [OF in_room.step [OF trying_room_reached s1] s2] s3] s4])
  then show ?thesis
    using c'(2,3) j w(6)
    by (intro exI [of _ x4] exI [of _ "default_event\<lparr>ev_type := EvDisconnected, ev_detail := wide ''connection closed''\<rparr>"])
      (simp add: x4_def x3_def x2_def x1_def HandleReconnectStatus_def set_status_def)
qed

lemma early_disconnect_forgotten_witness:
  "\<exists>y. in_room utf8_ref y \<and> n_status (rm_window y) = nt_reconnected \<and> silent (n_client (rm_window y)) \<and>
     n_role (rm_window y) = Guest \<and> \<not> n_reconnecting (rm_window y)"
proof -
  obtain x e where x: "in_room utf8_ref x" "rm_phase x = Succeeded" "rm_joining x = None" "rm_posted x = []"
    "silent (n_client (rm_window x))" "c_events (n_client (rm_window x)) = [e]" "ev_type e = EvDisconnected"
    "event_queue (n_server (rm_window x)) = []"
    using early_disconnect_reached by blast
  have "in_room utf8_ref y" if "(room_step utf8_ref)\<^sup>*\<^sup>* x y" for y
    using that by (induction rule: rtranclp_induct) (auto intro: x(1) in_room.step)
  then show ?thesis using early_disconnect_forgotten [OF x] by blast
qed

section \<open>A report that comes too late\<close>

text \<open>
  Leaving the room while an attempt is under way: the message loop waits for the thread, the
  attempt succeeds, the thread posts its success and ends, the room is left and the connection
  closed. Then the message of success is handled: the window of a user who has left says that it
  is connected again.
\<close>

lemma report_after_leaving:
  assumes "rm_phase x = Connecting n" and "rm_joining x = None" and "rm_posted x = []"
    and "connect_again api env (rm_window x) = Some (True, c)"
  shows "\<exists>y. (room_step api)\<^sup>*\<^sup>* x y \<and> rm_phase y = NoThread \<and> rm_posted y = [] \<and> n_role (rm_window y) = Offline \<and>
    n_session (rm_window y) = [] \<and> \<not> c_connected (n_client (rm_window y)) \<and> n_status (rm_window y) = nt_reconnected"
proof -
  define w1 where "w1 = (rm_window x)\<lparr>n_re_stop := True\<rparr>"
  define x1 where "x1 = x\<lparr>rm_window := w1, rm_joining := Some (dead_env, WmCommand CmdLeave)\<rparr>"
  define x2 where "x2 = x1\<lparr>rm_window := w1\<lparr>n_client := c\<rparr>, rm_phase := Succeeded\<rparr>"
  define x3 where "x3 = x2\<lparr>rm_window := (rm_window x2)\<lparr>n_reconnecting := False\<rparr>, rm_phase := Reporting\<rparr>"
  define x4 where "x4 = x3\<lparr>rm_phase := NoThread, rm_posted := [(0, 1)]\<rparr>"
  define x5 where "x5 = x4\<lparr>rm_window := HandleLeaveRoom api (rm_window x4), rm_joining := None\<rparr>"
  define y where "y = x5\<lparr>rm_window := HandleReconnectStatus 0 1 (rm_window x5), rm_posted := []\<rparr>"
  have s1: "room_step api x x1"
    unfolding x1_def w1_def using assms(2) by (intro room_step.ui ui_step.begins_stop) simp_all
  have "connect_again api env (rm_window x1) = Some (True, c)"
    using assms(4) by (simp add: connect_again_def x1_def w1_def)
  then have s2: "room_step api x1 x2"
    using thread_step.connects [of x1 n api env c] assms(1) by (intro room_step.thread) (simp add: x1_def x2_def)
  have s3: "room_step api x2 x3"
    using thread_step.succeeded [of x2 api] by (intro room_step.thread) (simp add: x2_def x3_def)
  have s4: "room_step api x3 x4"
    using thread_step.reports [of x3 api] assms(3) by (intro room_step.thread) (simp add: x1_def x2_def x3_def x4_def)
  have s5: "room_step api x4 x5"
    unfolding x5_def
    by (intro room_step.ui ui_step.joined [of _ dead_env "WmCommand CmdLeave"]) (simp_all add: x4_def x3_def x2_def x1_def)
  have s6: "room_step api x5 y"
    using ui_step.status [of x5 0 1 "[]" api dead_env] by (intro room_step.ui) (simp add: x5_def x4_def y_def)
  have "(room_step api)\<^sup>*\<^sup>* x3 y"
    by (rule converse_rtranclp_into_rtranclp [where r = "room_step api", OF s4 three_steps [where r = "room_step api", OF s5 s6]]) simp
  then have "(room_step api)\<^sup>*\<^sup>* x y"
    by (intro converse_rtranclp_into_rtranclp [where r = "room_step api", OF s1] three_steps [where r = "room_step api", OF s2 s3])
  moreover have "n_role (rm_window y) = Offline" "n_session (rm_window y) = []" "\<not> c_connected (n_client (rm_window y))"
    "n_status (rm_window y) = nt_reconnected"
    by (simp_all add: y_def x5_def HandleReconnectStatus_def HandleLeaveRoom_def ShowEditorScreen_def set_status_def
        UpdateMarkdownPreview_def Disconnect_def StopWorkers_def CloseSocket_def Let_def)
  ultimately show ?thesis
    by (intro exI [of _ y]) (simp add: y_def x5_def x4_def)
qed

end
