(* ===== verification/Disk.thy ===== *)
theory Disk
  imports Texts TextEncoding
begin

text \<open>
  The part of the file system that \<^verbatim>\<open>client/self_install.cpp\<close> works on: paths are lists of names, a
  path holds a file, a directory or nothing. Every call takes the next outcome of a script; no
  entry is a call that goes well. A call that fails leaves its target, and what is below it, in
  an arbitrary state, and has the message of the system.
\<close>

type_synonym path = "wstr list"

datatype fs_node = FileNode bytes | DirNode

datatype fs_outcome = FsOk | FsError "path \<Rightarrow> fs_node option" bytes

record disk =
  d_files :: "path \<Rightarrow> fs_node option"
  d_script :: "fs_outcome list"
  d_refusal :: bytes

text \<open>\<open>d_refusal\<close> is the message for a call whose arguments do not fit, such as a missing source.\<close>

definition next_outcome :: "disk \<Rightarrow> fs_outcome \<times> disk" where
  "next_outcome d = (case d_script d of [] \<Rightarrow> (FsOk, d) | r # rs \<Rightarrow> (r, d\<lparr>d_script := rs\<rparr>))"

definition under :: "path \<Rightarrow> path \<Rightarrow> bool" where
  "under base p \<longleftrightarrow> take (length base) p = base"

definition set_tree :: "path \<Rightarrow> (path \<Rightarrow> fs_node option) \<Rightarrow> disk \<Rightarrow> disk" where
  "set_tree base g d = d\<lparr>d_files := (\<lambda>p. if under base p then g p else d_files d p)\<rparr>"

section \<open>The calls\<close>

text \<open>\<^verbatim>\<open>exists\<close> and \<^verbatim>\<open>is_directory\<close> with an error code: an error counts as no.\<close>

definition exists_call :: "path \<Rightarrow> disk \<Rightarrow> bool \<times> disk" where
  "exists_call p d =
     (case next_outcome d of (FsOk, d1) \<Rightarrow> (d_files d1 p \<noteq> None, d1) | (FsError _ _, d1) \<Rightarrow> (False, d1))"

definition is_directory_call :: "path \<Rightarrow> disk \<Rightarrow> bool \<times> disk" where
  "is_directory_call p d =
     (case next_outcome d of (FsOk, d1) \<Rightarrow> (d_files d1 p = Some DirNode, d1) | (FsError _ _, d1) \<Rightarrow> (False, d1))"

text \<open>\<^verbatim>\<open>copy_file\<close> with \<^verbatim>\<open>overwrite_existing\<close>; the result is the message of an error.\<close>

definition copy_file_call :: "path \<Rightarrow> path \<Rightarrow> disk \<Rightarrow> bytes option \<times> disk" where
  "copy_file_call source destination d =
     (case next_outcome d of
        (FsError g message, d1) \<Rightarrow> (Some message, set_tree destination g d1)
      | (FsOk, d1) \<Rightarrow>
          (case d_files d1 source of
             Some (FileNode b) \<Rightarrow>
               if d_files d1 (butlast destination) = Some DirNode \<and> d_files d1 destination \<noteq> Some DirNode
               then (None, d1\<lparr>d_files := (d_files d1)(destination := Some (FileNode b))\<rparr>)
               else (Some (d_refusal d1), d1)
           | _ \<Rightarrow> (Some (d_refusal d1), d1)))"

definition remove_all_call :: "path \<Rightarrow> disk \<Rightarrow> bytes option \<times> disk" where
  "remove_all_call base d =
     (case next_outcome d of
        (FsError g message, d1) \<Rightarrow> (Some message, set_tree base g d1)
      | (FsOk, d1) \<Rightarrow> (None, set_tree base (\<lambda>_. None) d1))"

text \<open>\<^verbatim>\<open>copy\<close> with \<^verbatim>\<open>recursive\<close>, to a place where nothing is yet.\<close>

definition copy_tree_call :: "path \<Rightarrow> path \<Rightarrow> disk \<Rightarrow> bytes option \<times> disk" where
  "copy_tree_call source destination d =
     (case next_outcome d of
        (FsError g message, d1) \<Rightarrow> (Some message, set_tree destination g d1)
      | (FsOk, d1) \<Rightarrow>
          if d_files d1 (butlast destination) = Some DirNode
          then (None, set_tree destination (\<lambda>p. d_files d1 (source @ drop (length destination) p)) d1)
          else (Some (d_refusal d1), d1))"

definition is_file :: "fs_node option \<Rightarrow> bool" where
  "is_file n = (case n of Some (FileNode _) \<Rightarrow> True | _ \<Rightarrow> False)"

text \<open>\<^verbatim>\<open>create_directories\<close>: when it fails, some of the missing directories may exist.\<close>

definition create_directories_call :: "path \<Rightarrow> disk \<Rightarrow> bool \<times> disk" where
  "create_directories_call dir d =
     (case next_outcome d of
        (FsError g _, d1) \<Rightarrow>
          (False, d1\<lparr>d_files := (\<lambda>p. if under p dir \<and> d_files d1 p = None \<and> g p \<noteq> None then Some DirNode else d_files d1 p)\<rparr>)
      | (FsOk, d1) \<Rightarrow>
          if list_ex (\<lambda>k. is_file (d_files d1 (take k dir))) [0..<Suc (length dir)] then (False, d1)
          else (True, d1\<lparr>d_files := (\<lambda>p. if under p dir then Some DirNode else d_files d1 p)\<rparr>))"

section \<open>What a call leaves alone\<close>

lemma under_refl [simp]: "under p p" and under_Nil [simp]: "under [] p"
  by (simp_all add: under_def)

lemma under_append [simp]: "under base (base @ p)"
  by (simp add: under_def)

lemma under_iff: "under base p \<longleftrightarrow> (\<exists>q. p = base @ q)"
  by (metis append_take_drop_id under_append under_def)

lemma under_trans: "under a b \<Longrightarrow> under b c \<Longrightarrow> under a c"
  by (auto simp: under_iff)

lemma next_outcome_files: "next_outcome d = (r, d1) \<Longrightarrow> d_files d1 = d_files d"
  by (auto simp: next_outcome_def split: list.splits)

text \<open>Nothing but the places of a set has changed.\<close>

definition only_changed :: "(path \<Rightarrow> bool) \<Rightarrow> disk \<Rightarrow> disk \<Rightarrow> bool" where
  "only_changed S d d' \<longleftrightarrow> (\<forall>p. \<not> S p \<longrightarrow> d_files d' p = d_files d p)"

lemma only_changed_refl [simp]: "only_changed S d d"
  by (simp add: only_changed_def)

lemma only_changed_trans: "only_changed S d d1 \<Longrightarrow> only_changed S d1 d2 \<Longrightarrow> only_changed S d d2"
  by (simp add: only_changed_def)

lemma only_changed_mono: "only_changed S d d' \<Longrightarrow> (\<And>p. S p \<Longrightarrow> T p) \<Longrightarrow> only_changed T d d'"
  by (auto simp: only_changed_def)

lemma exists_call_frame: "exists_call p d = (b, d') \<Longrightarrow> d_files d' = d_files d \<and> (b \<longrightarrow> d_files d p \<noteq> None)"
  by (auto simp: exists_call_def split: prod.splits fs_outcome.splits dest!: next_outcome_files)

lemma is_directory_call_frame:
  "is_directory_call p d = (b, d') \<Longrightarrow> d_files d' = d_files d \<and> (b \<longrightarrow> d_files d p = Some DirNode)"
  by (auto simp: is_directory_call_def split: prod.splits fs_outcome.splits dest!: next_outcome_files)

lemma copy_file_call_frame: "copy_file_call s t d = (r, d') \<Longrightarrow> only_changed (under t) d d'"
  by (auto simp: copy_file_call_def only_changed_def set_tree_def
      split: prod.splits fs_outcome.splits option.splits fs_node.splits if_splits dest!: next_outcome_files)

lemma remove_all_call_frame: "remove_all_call t d = (r, d') \<Longrightarrow> only_changed (under t) d d'"
  by (auto simp: remove_all_call_def only_changed_def set_tree_def
      split: prod.splits fs_outcome.splits dest!: next_outcome_files)

lemma copy_tree_call_frame: "copy_tree_call s t d = (r, d') \<Longrightarrow> only_changed (under t) d d'"
  by (auto simp: copy_tree_call_def only_changed_def set_tree_def
      split: prod.splits fs_outcome.splits if_splits dest!: next_outcome_files)

lemma create_directories_call_frame: "create_directories_call t d = (r, d') \<Longrightarrow> only_changed (\<lambda>p. under p t) d d'"
  by (auto simp: create_directories_call_def only_changed_def
      split: prod.splits fs_outcome.splits if_splits dest!: next_outcome_files)

section \<open>What a call that goes well does\<close>

lemma copy_file_call_done:
  "copy_file_call s t d = (None, d') \<Longrightarrow> \<exists>b. d_files d s = Some (FileNode b) \<and> d_files d' = (d_files d)(t := Some (FileNode b))"
  by (auto simp: copy_file_call_def
      split: prod.splits fs_outcome.splits option.splits fs_node.splits if_splits dest!: next_outcome_files)

lemma remove_all_call_done:
  "remove_all_call t d = (None, d') \<Longrightarrow> d_files d' = (\<lambda>p. if under t p then None else d_files d p)"
  by (auto simp: remove_all_call_def set_tree_def split: prod.splits fs_outcome.splits dest!: next_outcome_files)

lemma copy_tree_call_done:
  "copy_tree_call s t d = (None, d') \<Longrightarrow>
   d_files d' = (\<lambda>p. if under t p then d_files d (s @ drop (length t) p) else d_files d p)"
  by (auto simp: copy_tree_call_def set_tree_def split: prod.splits fs_outcome.splits if_splits dest!: next_outcome_files)

lemma create_directories_call_done:
  "create_directories_call t d = (True, d') \<Longrightarrow> d_files d' = (\<lambda>p. if under p t then Some DirNode else d_files d p)"
  by (auto simp: create_directories_call_def split: prod.splits fs_outcome.splits if_splits dest!: next_outcome_files)

end
