(* ===== verification/SelfInstall.thy ===== *)
theory SelfInstall
  imports Disk StdText
begin

text \<open>
  \<^verbatim>\<open>client/self_install.cpp\<close>: the portable program copies itself to the user's program folder and
  starts the copy. The record \<open>installer\<close> is what a run changes: the disk, how often COM is
  initialised, the shortcut, the messages shown and the program started.
\<close>

datatype self_install_result = Continue | Relaunched | Failed

definition kAppName :: wstr where "kAppName = wide ''ShareNotepad''"
definition kPortableMarker :: wstr where "kPortableMarker = wide ''ShareNotepad.portable''"
definition kInstalledExe :: wstr where "kInstalledExe = wide ''ShareNotepad.exe''"

datatype com_start = ComStarted | ComChangedMode | ComFailed

text \<open>
  What the system answers: the name of the running module (empty when it cannot be told), the
  known folders, the canonical and absolute forms of paths, lower case, the conversion of
  messages, and the outcomes of the COM calls and of the start of the copy, with its error.
\<close>

record install_env =
  ie_module :: wstr
  ie_local_app_data :: "path option"
  ie_programs :: "path option"
  ie_canonical :: "path \<Rightarrow> wstr option"
  ie_absolute :: "path \<Rightarrow> wstr"
  ie_lower :: "wchar \<Rightarrow> wchar"
  ie_convert :: "bytes \<Rightarrow> wstr option"
  ie_com :: com_start
  ie_link_created :: bool
  ie_link_file :: bool
  ie_link_saved :: bool
  ie_launch :: bool
  ie_last_error :: nat
  ie_error_text :: "wstr option"

record installer =
  in_disk :: disk
  in_com :: nat
  in_shortcut :: "(path \<times> path) option"
  in_shown :: "wstr list"
  in_launched :: "path option"

section \<open>Paths and texts\<close>

fun path_text :: "path \<Rightarrow> wstr" where
  "path_text [] = []"
| "path_text [name] = name"
| "path_text (name # names) = name @ [92] @ path_text names"

fun path_of :: "wstr \<Rightarrow> path" where
  "path_of [] = [[]]"
| "path_of (ch # rest) =
     (if ch = 92 \<or> ch = 47 then [] # path_of rest
      else case path_of rest of [] \<Rightarrow> [[ch]] | name # names \<Rightarrow> (ch # name) # names)"

text \<open>
  The call fills a buffer of the given size: the whole name if there is room for it and its end;
  otherwise as much of it as fits before the end, and the size is returned.
\<close>

definition GetModuleFileNameW :: "wstr \<Rightarrow> nat \<Rightarrow> nat \<times> wstr" where
  "GetModuleFileNameW module_name room =
     (if length module_name < room then (length module_name, module_name)
      else (room, if room = 0 then [] else take (room - 1) module_name @ [0]))"

function module_path_from :: "wstr \<Rightarrow> nat \<Rightarrow> wstr option" where
  "module_path_from module_name room =
     (let (n, buffer) = GetModuleFileNameW module_name room
      in if n = 0 then None
         else if n < room - 1 then Some (take n buffer)
         else module_path_from module_name (room * 2))"
  by pat_completeness auto
termination
  by (relation "measure (\<lambda>(name, room). length name + 2 - room)")
    (auto simp: GetModuleFileNameW_def split: if_splits)

declare module_path_from.simps [simp del]

definition MAX_PATH :: nat where "MAX_PATH = 260"

definition CurrentExecutablePath :: "install_env \<Rightarrow> path option" where
  "CurrentExecutablePath e = map_option path_of (module_path_from (ie_module e) MAX_PATH)"

definition InstallDirectory :: "install_env \<Rightarrow> path option" where
  "InstallDirectory e = map_option (\<lambda>folder. folder @ [wide ''Programs'', kAppName]) (ie_local_app_data e)"

definition LowerPath :: "install_env \<Rightarrow> path \<Rightarrow> wstr" where
  "LowerPath e p =
     (let t = (case ie_canonical e p of Some c \<Rightarrow> c | None \<Rightarrow> ie_absolute e p)
      in map (ie_lower e) (rev (dropWhile (\<lambda>ch. ch = 92 \<or> ch = 47) (rev t))))"

definition SamePath :: "install_env \<Rightarrow> path \<Rightarrow> path \<Rightarrow> bool" where
  "SamePath e left right \<longleftrightarrow> LowerPath e left = LowerPath e right"

definition LastErrorMessage :: "install_env \<Rightarrow> wstr" where
  "LastErrorMessage e =
     (if ie_last_error e = 0 then wide ''unknown error''
      else case ie_error_text e of
             None \<Rightarrow> wide ''error '' @ dec_digits (ie_last_error e)
           | Some message \<Rightarrow> message)"

text \<open>Bytes that cannot be converted are widened one by one, with their sign.\<close>

definition NarrowToWide :: "install_env \<Rightarrow> bytes \<Rightarrow> wstr" where
  "NarrowToWide e t =
     (if t = [] then [] else case ie_convert e t of None \<Rightarrow> map scast t | Some output \<Rightarrow> output)"

section \<open>Copying\<close>

text \<open>The result is the error message, \<open>None\<close> for success.\<close>

definition copy_error :: "install_env \<Rightarrow> wstr \<Rightarrow> path \<Rightarrow> path \<Rightarrow> bytes \<Rightarrow> wstr" where
  "copy_error e what source destination message =
     what @ path_text source @ wide '' -> '' @ path_text destination @ [10] @ NarrowToWide e message"

definition CopyFileRequired :: "install_env \<Rightarrow> path \<Rightarrow> path \<Rightarrow> disk \<Rightarrow> wstr option \<times> disk" where
  "CopyFileRequired e source destination d =
     (let (found, d1) = exists_call source d
      in if \<not> found then (Some (si_missing_file @ path_text source), d1)
         else let (r, d2) = copy_file_call source destination d1
              in (map_option (copy_error e si_copy_failed source destination) r, d2))"

definition CopyFileOptional :: "install_env \<Rightarrow> path \<Rightarrow> path \<Rightarrow> disk \<Rightarrow> wstr option \<times> disk" where
  "CopyFileOptional e source destination d =
     (let (found, d1) = exists_call source d
      in if \<not> found then (None, d1)
         else let (r, d2) = copy_file_call source destination d1
              in (map_option (copy_error e si_copy_failed source destination) r, d2))"

definition CopyDirectoryRequired :: "install_env \<Rightarrow> path \<Rightarrow> path \<Rightarrow> disk \<Rightarrow> wstr option \<times> disk" where
  "CopyDirectoryRequired e source destination d =
     (let (found, d1) = exists_call source d;
          (dir, d2) = (if found then is_directory_call source d1 else (False, d1))
      in if \<not> dir then (Some (si_missing_dir @ path_text source), d2)
         else case remove_all_call destination d2 of
           (Some _, d3) \<Rightarrow> (Some (si_clean_failed @ path_text destination), d3)
         | (None, d3) \<Rightarrow>
             let (r, d4) = copy_tree_call source destination d3
             in (map_option (copy_error e si_dir_copy_failed source destination) r, d4))"

text \<open>Copies in order, up to the first that fails.\<close>

fun copy_all :: "(disk \<Rightarrow> wstr option \<times> disk) list \<Rightarrow> disk \<Rightarrow> wstr option \<times> disk" where
  "copy_all [] d = (None, d)"
| "copy_all (c # cs) d = (case c d of (Some message, d1) \<Rightarrow> (Some message, d1) | (None, d1) \<Rightarrow> copy_all cs d1)"

definition copies :: "install_env \<Rightarrow> path \<Rightarrow> path \<Rightarrow> path \<Rightarrow> (disk \<Rightarrow> wstr option \<times> disk) list" where
  "copies e exe source_dir install_dir =
     [CopyFileRequired e exe (install_dir @ [kInstalledExe]),
      CopyFileRequired e (source_dir @ [wide ''WebView2Loader.dll'']) (install_dir @ [wide ''WebView2Loader.dll'']),
      CopyDirectoryRequired e (source_dir @ [wide ''ui'']) (install_dir @ [wide ''ui'']),
      CopyFileOptional e (source_dir @ [wide ''README.txt'']) (install_dir @ [wide ''README.txt'']),
      CopyFileOptional e (source_dir @ [wide ''VERSION.txt'']) (install_dir @ [wide ''VERSION.txt''])]"

section \<open>The shortcut and the start\<close>

definition CreateStartMenuShortcut :: "install_env \<Rightarrow> path \<Rightarrow> installer \<Rightarrow> bool \<times> installer" where
  "CreateStartMenuShortcut e installed_exe s =
     (case ie_programs e of
        None \<Rightarrow> (False, s)
      | Some programs \<Rightarrow>
          let (ok, d) = create_directories_call programs (in_disk s); s1 = s\<lparr>in_disk := d\<rparr>
          in if \<not> ok then (False, s1)
             else if ie_com e = ComFailed then (False, s1)
             else
               let should_uninitialize = (ie_com e = ComStarted);
                   s2 = (if should_uninitialize then s1\<lparr>in_com := in_com s1 + 1\<rparr> else s1);
                   saved = ie_link_created e \<and> ie_link_file e \<and> ie_link_saved e;
                   s3 = (if saved then s2\<lparr>in_shortcut := Some (programs @ [wide ''ShareNotepad.lnk''], installed_exe)\<rparr> else s2)
               in (saved, if should_uninitialize then s3\<lparr>in_com := in_com s3 - 1\<rparr> else s3))"

definition LaunchInstalledApp :: "install_env \<Rightarrow> path \<Rightarrow> installer \<Rightarrow> bool \<times> installer" where
  "LaunchInstalledApp e installed_exe s =
     (if ie_launch e then (True, s\<lparr>in_launched := Some installed_exe\<rparr>) else (False, s))"

definition ShowInstallError :: "wstr \<Rightarrow> installer \<Rightarrow> installer" where
  "ShowInstallError message s = s\<lparr>in_shown := in_shown s @ [message]\<rparr>"

text \<open>The part after the copy has been decided upon.\<close>

definition install_to :: "install_env \<Rightarrow> path \<Rightarrow> path \<Rightarrow> path \<Rightarrow> installer \<Rightarrow> self_install_result \<times> installer" where
  "install_to e exe source_dir install_dir s =
     (let (made, d) = create_directories_call install_dir (in_disk s); s1 = s\<lparr>in_disk := d\<rparr>
      in if \<not> made then (Failed, ShowInstallError (si_mkdir_failed @ path_text install_dir) s1)
         else case copy_all (copies e exe source_dir install_dir) (in_disk s1) of
           (Some message, d2) \<Rightarrow> (Failed, ShowInstallError (message @ si_close_running) (s1\<lparr>in_disk := d2\<rparr>))
         | (None, d2) \<Rightarrow>
             let s3 = snd (CreateStartMenuShortcut e (install_dir @ [kInstalledExe]) (s1\<lparr>in_disk := d2\<rparr>));
                 (started, s4) = LaunchInstalledApp e (install_dir @ [kInstalledExe]) s3
             in if started then (Relaunched, s4)
                else (Failed, ShowInstallError (si_launch_failed @ LastErrorMessage e) s4))"

text \<open>\<open>None\<close> is the exception of \<^verbatim>\<open>exists\<close> without an error code.\<close>

definition RunSelfInstallIfNeeded :: "install_env \<Rightarrow> installer \<Rightarrow> (self_install_result \<times> installer) option" where
  "RunSelfInstallIfNeeded e s =
     (case CurrentExecutablePath e of
        None \<Rightarrow> Some (Continue, s)
      | Some exe \<Rightarrow>
          let source_dir = butlast exe
          in case next_outcome (in_disk s) of
               (FsError _ _, d) \<Rightarrow> None
             | (FsOk, d) \<Rightarrow>
                 let s1 = s\<lparr>in_disk := d\<rparr>
                 in if d_files d (source_dir @ [kPortableMarker]) = None then Some (Continue, s1)
                    else case InstallDirectory e of
                      None \<Rightarrow> Some (Failed, ShowInstallError si_no_folder s1)
                    | Some install_dir \<Rightarrow>
                        if SamePath e source_dir install_dir then Some (Continue, s1)
                        else Some (install_to e exe source_dir install_dir s1))"

section \<open>The name of the program\<close>

lemma module_path_from_exact: "m \<noteq> [] \<Longrightarrow> 0 < n \<Longrightarrow> module_path_from m n = Some m"
proof (induction m n rule: module_path_from.induct)
  case (1 m n)
  obtain k buffer where k: "GetModuleFileNameW m n = (k, buffer)" by force
  have "k = length m \<and> buffer = m \<or> k = n \<and> n \<le> length m"
    using k by (auto simp: GetModuleFileNameW_def split: if_splits)
  then show ?case
    using 1 k by (subst module_path_from.simps) auto
qed

section \<open>What an installation changes\<close>

lemma same_files: "d_files d1 = d_files d \<Longrightarrow> only_changed S d1 d' \<Longrightarrow> only_changed S d d'"
  by (simp add: only_changed_def)

lemma only_changed_same: "d_files d' = d_files d \<Longrightarrow> only_changed S d d'"
  by (simp add: only_changed_def)

lemma CopyFile_frame:
  "CopyFileRequired e a b d = (r, d') \<Longrightarrow> only_changed (under b) d d'"
  "CopyFileOptional e a b d = (r, d') \<Longrightarrow> only_changed (under b) d d'"
  by (auto simp: CopyFileRequired_def CopyFileOptional_def Let_def split: prod.splits if_splits
      dest!: exists_call_frame copy_file_call_frame intro: only_changed_same same_files)

lemma CopyDirectoryRequired_frame:
  assumes "CopyDirectoryRequired e a b d = (r, d')"
  shows "only_changed (under b) d d'"
proof -
  obtain found d1 where f: "exists_call a d = (found, d1)" by force
  obtain dir d2 where dir: "(if found then is_directory_call a d1 else (False, d1)) = (dir, d2)" by force
  have same: "d_files d2 = d_files d"
    using exists_call_frame [OF f] dir by (auto split: if_splits dest: is_directory_call_frame)
  show ?thesis
  proof (cases dir)
    case False
    with assms f dir same show ?thesis by (auto simp: CopyDirectoryRequired_def intro: only_changed_same)
  next
    case True
    obtain q d3 where q: "remove_all_call b d2 = (q, d3)" by force
    have "only_changed (under b) d2 d'"
    proof (cases q)
      case (Some x)
      with assms f dir True q show ?thesis by (auto simp: CopyDirectoryRequired_def dest: remove_all_call_frame)
    next
      case None
      then obtain r4 where r4: "copy_tree_call a b d3 = (r4, d')"
        using assms f dir True q by (auto simp: CopyDirectoryRequired_def Let_def split: prod.splits)
      show ?thesis
        using only_changed_trans [OF remove_all_call_frame [OF q] copy_tree_call_frame [OF r4]] .
    qed
    with same show ?thesis by (rule same_files)
  qed
qed

lemma copy_all_frame:
  assumes "\<And>c d r d'. c \<in> set cs \<Longrightarrow> c d = (r, d') \<Longrightarrow> only_changed S d d'" and "copy_all cs d = (r, d')"
  shows "only_changed S d d'"
  using assms
proof (induction cs arbitrary: d)
  case (Cons c cs)
  obtain q d1 where q: "c d = (q, d1)" by force
  have "only_changed S d d1" by (rule Cons.prems(1) [of c d q d1]) (simp_all add: q)
  moreover have "only_changed S d1 d'"
    using Cons.IH [of d1] Cons.prems q by (cases q) auto
  ultimately show ?case by (rule only_changed_trans)
qed simp

lemma copies_frame:
  assumes "copy_all (copies e exe source_dir install_dir) d = (r, d')"
  shows "only_changed (under install_dir) d d'"
proof (rule copy_all_frame [OF _ assms])
  fix c d r d'
  assume c: "c \<in> set (copies e exe source_dir install_dir)" "c d = (r, d')"
  have below: "only_changed (under (install_dir @ [x])) d d' \<Longrightarrow> only_changed (under install_dir) d d'" for x
    by (erule only_changed_mono) (rule under_trans [OF under_append])
  show "only_changed (under install_dir) d d'"
    using c by (auto simp: copies_def dest!: CopyFile_frame CopyDirectoryRequired_frame intro: below)
qed

lemma CreateStartMenuShortcut_frame:
  assumes "CreateStartMenuShortcut e exe s = (ok, s')"
  shows "only_changed (\<lambda>p. \<exists>programs. ie_programs e = Some programs \<and> under p programs) (in_disk s) (in_disk s')"
    and "in_com s' = in_com s"
  using assms
  by (auto simp: CreateStartMenuShortcut_def Let_def split: option.splits prod.splits if_splits
      dest!: create_directories_call_frame intro: only_changed_mono)

lemma install_to_frame:
  assumes "install_to e exe source_dir install_dir s = (r, s')"
  shows "only_changed (\<lambda>p. under install_dir p \<or> under p install_dir \<or> (\<exists>programs. ie_programs e = Some programs \<and> under p programs))
      (in_disk s) (in_disk s')"
    and "in_com s' = in_com s"
proof -
  let ?S = "\<lambda>p. under install_dir p \<or> under p install_dir \<or> (\<exists>programs. ie_programs e = Some programs \<and> under p programs)"
  obtain made d where m: "create_directories_call install_dir (in_disk s) = (made, d)" by force
  obtain q d2 where q: "copy_all (copies e exe source_dir install_dir) d = (q, d2)" by force
  obtain ok s3 where s3: "CreateStartMenuShortcut e (install_dir @ [kInstalledExe]) (s\<lparr>in_disk := d2\<rparr>) = (ok, s3)" by force
  have 1: "only_changed ?S (in_disk s) d"
    by (rule only_changed_mono [OF create_directories_call_frame [OF m]]) simp
  have 2: "only_changed ?S (in_disk s) d2"
    using only_changed_trans [OF 1 only_changed_mono [OF copies_frame [OF q]]] by simp
  have 3: "only_changed ?S (in_disk s) (in_disk s3)"
    using only_changed_trans [OF 2 only_changed_mono [OF CreateStartMenuShortcut_frame(1) [OF s3, simplified]]] by simp
  have com: "in_com s3 = in_com s" using CreateStartMenuShortcut_frame(2) [OF s3] by simp
  show "only_changed ?S (in_disk s) (in_disk s')" "in_com s' = in_com s"
    using assms m q s3 1 2 3 com
    by (auto simp: install_to_def LaunchInstalledApp_def ShowInstallError_def Let_def split: if_splits option.splits)
qed

section \<open>A complete installation\<close>

lemma CopyFileRequired_done:
  "CopyFileRequired e a b d = (None, d') \<Longrightarrow> \<exists>x. d_files d a = Some (FileNode x) \<and> d_files d' = (d_files d)(b := Some (FileNode x))"
  by (auto simp: CopyFileRequired_def Let_def split: prod.splits if_splits dest!: exists_call_frame copy_file_call_done)

lemma CopyFileOptional_done:
  "CopyFileOptional e a b d = (None, d') \<Longrightarrow> d_files d' = d_files d \<or> d_files d' = (d_files d)(b := d_files d a)"
  by (auto simp: CopyFileOptional_def Let_def split: prod.splits if_splits dest!: exists_call_frame copy_file_call_done)

lemma CopyDirectoryRequired_done:
  assumes "CopyDirectoryRequired e a b d = (None, d')" and "\<not> under b a" and "\<not> under a b"
  shows "d_files d' = (\<lambda>p. if under b p then d_files d (a @ drop (length b) p) else d_files d p)"
    and "d_files d a = Some DirNode"
proof -
  obtain found d1 where f: "exists_call a d = (found, d1)" by force
  obtain dir d2 where dir: "(if found then is_directory_call a d1 else (False, d1)) = (dir, d2)" by force
  have same: "d_files d2 = d_files d" "dir \<longrightarrow> d_files d a = Some DirNode"
    using exists_call_frame [OF f] dir by (auto split: if_splits dest: is_directory_call_frame)
  obtain d3 where q: "remove_all_call b d2 = (None, d3)" "copy_tree_call a b d3 = (None, d')" and ok: dir
    using assms(1) f dir by (auto simp: CopyDirectoryRequired_def Let_def split: prod.splits if_splits option.splits)
  have sep: "\<not> under b (a @ p)" for p
    using assms(2,3) by (auto simp: under_iff append_eq_append_conv2)
  show "d_files d' = (\<lambda>p. if under b p then d_files d (a @ drop (length b) p) else d_files d p)"
    using copy_tree_call_done [OF q(2)] remove_all_call_done [OF q(1)] same(1) sep by auto
  show "d_files d a = Some DirNode" using same(2) ok by simp
qed

lemma apart: "\<not> under a b \<Longrightarrow> \<not> under b a \<Longrightarrow> a @ p \<noteq> b @ q"
  by (auto simp: under_iff append_eq_append_conv2)

text \<open>\<open>holds_copy\<close>: the program folder has what the folder of the portable program had.\<close>

definition holds_copy :: "(path \<Rightarrow> fs_node option) \<Rightarrow> path \<Rightarrow> path \<Rightarrow> (path \<Rightarrow> fs_node option) \<Rightarrow> path \<Rightarrow> bool" where
  "holds_copy f source_dir exe f' install_dir \<longleftrightarrow>
     f exe \<noteq> None \<and> f' (install_dir @ [kInstalledExe]) = f exe \<and>
     f (source_dir @ [wide ''WebView2Loader.dll'']) \<noteq> None \<and>
     f' (install_dir @ [wide ''WebView2Loader.dll'']) = f (source_dir @ [wide ''WebView2Loader.dll'']) \<and>
     f (source_dir @ [wide ''ui'']) = Some DirNode \<and>
     (\<forall>p. f' (install_dir @ wide ''ui'' # p) = f (source_dir @ wide ''ui'' # p))"

lemma copies_done:
  assumes "copy_all (copies e exe source_dir install_dir) d = (None, d')" and "exe = source_dir @ [name]"
    and "\<not> under install_dir source_dir" and "\<not> under source_dir install_dir"
  shows "holds_copy (d_files d) source_dir exe (d_files d') install_dir"
proof -
  let ?i = "\<lambda>x. install_dir @ [x]" and ?s = "\<lambda>x. source_dir @ [x]"
  obtain d1 d2 d3 d4 where c:
    "CopyFileRequired e exe (?i kInstalledExe) d = (None, d1)"
    "CopyFileRequired e (?s (wide ''WebView2Loader.dll'')) (?i (wide ''WebView2Loader.dll'')) d1 = (None, d2)"
    "CopyDirectoryRequired e (?s (wide ''ui'')) (?i (wide ''ui'')) d2 = (None, d3)"
    "CopyFileOptional e (?s (wide ''README.txt'')) (?i (wide ''README.txt'')) d3 = (None, d4)"
    "CopyFileOptional e (?s (wide ''VERSION.txt'')) (?i (wide ''VERSION.txt'')) d4 = (None, d')"
    using assms(1) by (auto simp: copies_def split: prod.splits option.splits)
  have sep: "install_dir @ p \<noteq> source_dir @ q" "source_dir @ q \<noteq> install_dir @ p" for p q
    using apart [OF assms(3,4)] by metis+
  have ui: "\<not> under (?i (wide ''ui'')) (?s (wide ''ui''))" "\<not> under (?s (wide ''ui'')) (?i (wide ''ui''))"
    using sep by (auto simp: under_iff)
  obtain x where x: "d_files d exe = Some (FileNode x)" "d_files d1 = (d_files d)(?i kInstalledExe := Some (FileNode x))"
    using CopyFileRequired_done [OF c(1)] by blast
  obtain y where y: "d_files d1 (?s (wide ''WebView2Loader.dll'')) = Some (FileNode y)"
    "d_files d2 = (d_files d1)(?i (wide ''WebView2Loader.dll'') := Some (FileNode y))"
    using CopyFileRequired_done [OF c(2)] by blast
  note z = CopyDirectoryRequired_done [OF c(3) ui]
  have late: "d_files d' p = d_files d3 p" if "p \<noteq> ?i (wide ''README.txt'')" "p \<noteq> ?i (wide ''VERSION.txt'')" for p
    using CopyFileOptional_done [OF c(4)] CopyFileOptional_done [OF c(5)] that by auto
  have src: "d_files d2 (source_dir @ q) = d_files d (source_dir @ q)" for q
    using x(2) y(2) sep by simp
  have exe: "d_files d' (?i kInstalledExe) = Some (FileNode x)"
    using x(2) y(2) by (simp add: late z(1) under_iff kInstalledExe_def)
  have dll: "d_files d' (?i (wide ''WebView2Loader.dll'')) = Some (FileNode y)"
    using y(2) by (simp add: late z(1) under_iff)
  have tree: "d_files d' (install_dir @ wide ''ui'' # p) = d_files d (source_dir @ wide ''ui'' # p)" for p
    using src [of "wide ''ui'' # p"] by (simp add: late z(1) under_def)
  have "d_files d (?s (wide ''WebView2Loader.dll'')) = Some (FileNode y)"
    using y(1) x(2) by (simp add: kInstalledExe_def)
  then show ?thesis
    using x(1) exe dll tree z(2) src [of "[wide ''ui'']"] by (simp add: holds_copy_def)
qed

lemma install_to_relaunched:
  assumes "install_to e exe source_dir install_dir s = (Relaunched, s')"
  shows "\<exists>d d2. create_directories_call install_dir (in_disk s) = (True, d) \<and>
      copy_all (copies e exe source_dir install_dir) d = (None, d2) \<and>
      in_disk s' = in_disk (snd (CreateStartMenuShortcut e (install_dir @ [kInstalledExe]) (s\<lparr>in_disk := d2\<rparr>))) \<and>
      in_launched s' = Some (install_dir @ [kInstalledExe])"
  using assms
  by (auto simp: install_to_def LaunchInstalledApp_def Let_def split: prod.splits if_splits option.splits)

end
