(* ===== verification/Startup.thy ===== *)
theory Startup
  imports SelfInstall Config Logger
begin

text \<open>
  The process from its start to its end: \<^verbatim>\<open>client/main.cpp\<close>, \<^verbatim>\<open>client/app.cpp\<close>, \<^verbatim>\<open>client/paths.cpp\<close>
  and \<^verbatim>\<open>client/winsock_runtime.cpp\<close>. The program is compiled with one of two windows, which the
  shell uses in the same way: it creates the window, passes messages to it until one of them has
  asked to quit, and destroys it. The operations of the window are a record here; the locale
  \<open>app_window\<close> has what the shell needs of them. The log has the lines of the shell only.
\<close>

text \<open>\<^verbatim>\<open>GetEnvironmentVariableW\<close> gives no value when the variable is missing, empty or too long.\<close>

definition DefaultDataDirectory :: "wstr option \<Rightarrow> path \<Rightarrow> path" where
  "DefaultDataDirectory user_profile current_path =
     (case user_profile of
        None \<Rightarrow> current_path @ [kAppName]
      | Some profile \<Rightarrow>
          if profile = [] \<or> length profile \<ge> MAX_PATH then current_path @ [kAppName]
          else path_of profile @ [wide ''Documents'', kAppName])"

section \<open>Resources of the process\<close>

text \<open>
  WinSock is started once by the window's member and counted by the system; what was started is
  cleaned up when the member is destroyed, after the sockets of the server and the client.
\<close>

record winsock =
  ws_initialized :: bool
  ws_error :: wstr
  ws_started :: nat

definition WinSockRuntime_init :: "int \<Rightarrow> nat \<Rightarrow> winsock" where
  "WinSockRuntime_init startup_result started =
     (if startup_result \<noteq> 0 then \<lparr>ws_initialized = False, ws_error = wide ''WSAStartup failed'', ws_started = started\<rparr>
      else \<lparr>ws_initialized = True, ws_error = [], ws_started = Suc started\<rparr>)"

definition WinSockRuntime_destroy :: "winsock \<Rightarrow> winsock" where
  "WinSockRuntime_destroy r = (if ws_initialized r then r\<lparr>ws_started := ws_started r - 1\<rparr> else r)"

text \<open>
  \<open>dpi_context\<close> is the answer of \<^verbatim>\<open>SetProcessDpiAwarenessContext\<close>, \<open>None\<close> where the system has no such
  function; \<open>dpi_aware\<close> says whether it has \<^verbatim>\<open>SetProcessDPIAware\<close>.
\<close>

record dpi_env =
  dpi_user32 :: bool
  dpi_context :: "bool option"
  dpi_aware :: bool

datatype dpi_call = SetProcessDpiAwarenessContext | SetProcessDPIAware

definition EnableDpiAwareness :: "dpi_env \<Rightarrow> dpi_call list" where
  "EnableDpiAwareness e =
     (if \<not> dpi_user32 e then []
      else (if dpi_context e = None then [] else [SetProcessDpiAwarenessContext]) @
           (if dpi_context e = Some True \<or> \<not> dpi_aware e then [] else [SetProcessDPIAware]))"

section \<open>The application\<close>

text \<open>
  The window: \<open>wc_create\<close> is \<^verbatim>\<open>Create\<close>; \<open>wc_dispatch\<close> handles a message and says with which code it
  has called \<^verbatim>\<open>PostQuitMessage\<close>, if it has; \<open>None\<close> is a handler that does not return. \<open>wc_destroy\<close> is the
  destructor, \<open>None\<close> when it ends the process with \<^verbatim>\<open>std::terminate\<close>.
\<close>

record ('m, 'w) window_ops =
  wc_create :: "'w \<Rightarrow> bool \<times> 'w"
  wc_dispatch :: "'m \<Rightarrow> 'w \<Rightarrow> ('w \<times> int option) option"
  wc_destroy :: "'w \<Rightarrow> 'w option"

record 'w app =
  ap_config :: config
  ap_logger :: logger
  ap_window :: 'w
  ap_winsock :: winsock
  ap_dpi :: "dpi_call list"

definition App_init :: "config \<Rightarrow> logger \<Rightarrow> 'w \<Rightarrow> int \<Rightarrow> nat \<Rightarrow> 'w app" where
  "App_init c g w startup_result started =
     \<lparr>ap_config = c, ap_logger = g, ap_window = w, ap_winsock = WinSockRuntime_init startup_result started, ap_dpi = []\<rparr>"

text \<open>The flag says whether the directory of the log can be created.\<close>

definition App_Initialize :: "text_api \<Rightarrow> bool \<Rightarrow> ('m, 'w) window_ops \<Rightarrow> 'w app \<Rightarrow> bool \<times> 'w app" where
  "App_Initialize api directory cls a =
     (let (loaded, c) = LoadOrCreate api (ap_config a); a1 = a\<lparr>ap_config := c\<rparr>
      in if \<not> loaded then (False, a1)
         else
           let g1 = snd (Initialize api directory (ap_logger a1));
               g2 = snd (Logger_Info api (wide ''ShareNotepad starting'') g1);
               (created, w) = wc_create cls (ap_window a1);
               a2 = a1\<lparr>ap_logger := g2, ap_window := w\<rparr>
           in if \<not> created
              then (False, a2\<lparr>ap_logger := snd (Logger_Error api (wide ''Main window creation failed'') g2)\<rparr>)
              else (True, a2))"

text \<open>
  The messages of the thread in their order. \<^verbatim>\<open>GetMessage\<close> waits for the next one, so a list that
  ends before the program has quit is a program that waits: \<open>None\<close>.
\<close>

fun message_loop :: "('m \<Rightarrow> 'w \<Rightarrow> ('w \<times> int option) option) \<Rightarrow> 'm list \<Rightarrow> 'w \<Rightarrow> (int \<times> 'w) option" where
  "message_loop dispatch [] w = None"
| "message_loop dispatch (m # ms) w =
     (case dispatch m w of
        None \<Rightarrow> None
      | Some (w1, Some code) \<Rightarrow> Some (code, w1)
      | Some (w1, None) \<Rightarrow> message_loop dispatch ms w1)"

definition App_Run :: "text_api \<Rightarrow> ('m, 'w) window_ops \<Rightarrow> 'm list \<Rightarrow> 'w app \<Rightarrow> (int \<times> 'w app) option" where
  "App_Run api cls ms a =
     (case message_loop (wc_dispatch cls) ms (ap_window a) of
        None \<Rightarrow> None
      | Some (code, w) \<Rightarrow>
          Some (code, a\<lparr>ap_window := w, ap_logger := snd (Logger_Info api (wide ''ShareNotepad exiting'') (ap_logger a))\<rparr>))"

text \<open>The members of the application are destroyed in the reverse order: the window, with WinSock in it, first.\<close>

definition App_destroy :: "('m, 'w) window_ops \<Rightarrow> 'w app \<Rightarrow> 'w app option" where
  "App_destroy cls a =
     map_option (\<lambda>w. a\<lparr>ap_window := w, ap_winsock := WinSockRuntime_destroy (ap_winsock a)\<rparr>) (wc_destroy cls (ap_window a))"

text \<open>
  How a process ends: with a code (and the application, if it was constructed), by an exception or
  \<^verbatim>\<open>std::terminate\<close>, or not at all.
\<close>

datatype 'a ending = Exited int 'a | Aborted | Waiting

definition leave_app :: "('m, 'w) window_ops \<Rightarrow> installer \<Rightarrow> int \<Rightarrow> 'w app \<Rightarrow> (installer \<times> 'w app option) ending" where
  "leave_app cls s code a =
     (case App_destroy cls a of None \<Rightarrow> Aborted | Some a1 \<Rightarrow> Exited code (s, Some a1))"

definition wWinMain :: "text_api \<Rightarrow> install_env \<Rightarrow> dpi_env \<Rightarrow> bool \<Rightarrow> ('m, 'w) window_ops \<Rightarrow> 'm list \<Rightarrow> 'w app \<Rightarrow>
    installer \<Rightarrow> (installer \<times> 'w app option) ending" where
  "wWinMain api ie de directory cls ms a s =
     (case RunSelfInstallIfNeeded ie s of
        None \<Rightarrow> Aborted
      | Some (Relaunched, s1) \<Rightarrow> Exited 0 (s1, None)
      | Some (Failed, s1) \<Rightarrow> Exited 1 (s1, None)
      | Some (Continue, s1) \<Rightarrow>
          let (ok, a1) = App_Initialize api directory cls (a\<lparr>ap_dpi := EnableDpiAwareness de\<rparr>)
          in if \<not> ok then leave_app cls s1 1 a1
             else case App_Run api cls ms a1 of
                    None \<Rightarrow> Waiting
                  | Some (code, a2) \<Rightarrow> leave_app cls s1 code a2)"

section \<open>What the shell needs of a window\<close>

text \<open>The loop comes to the message \<open>q\<close>, unless it has quit before.\<close>

fun reaches :: "('m \<Rightarrow> 'w \<Rightarrow> ('w \<times> int option) option) \<Rightarrow> 'm \<Rightarrow> 'm list \<Rightarrow> 'w \<Rightarrow> bool" where
  "reaches dispatch q [] w = False"
| "reaches dispatch q (m # ms) w =
     (m = q \<or>
      (case dispatch m w of
         None \<Rightarrow> False
       | Some (w1, Some code) \<Rightarrow> True
       | Some (w1, None) \<Rightarrow> reaches dispatch q ms w1))"

text \<open>
  The end of a process as it should be: not by \<^verbatim>\<open>std::terminate\<close>; if the application was constructed,
  nothing of its window is left and WinSock is started as often as before it; and when the loop comes to
  the message that closes the window, the process does end.
\<close>

fun ended_in_order :: "('w \<Rightarrow> bool) \<Rightarrow> nat \<Rightarrow> bool \<Rightarrow> (installer \<times> 'w app option) ending \<Rightarrow> bool" where
  "ended_in_order gone n closing Aborted = False"
| "ended_in_order gone n closing Waiting = (\<not> closing)"
| "ended_in_order gone n closing (Exited code (s, None)) = (code = 0 \<or> code = 1)"
| "ended_in_order gone n closing (Exited code (s, Some a)) =
     ((code = 0 \<or> code = 1) \<and> gone (ap_window a) \<and> ws_started (ap_winsock a) = n)"

text \<open>
  A window that is \<open>fresh\<close> has not been created; one that is \<open>live\<close> has been, and stays so until it
  asks to quit. One that is \<open>settled\<close> can be destroyed, and then nothing of it is left: it is \<open>gone\<close>.
\<close>

locale app_window =
  fixes cls :: "('m, 'w) window_ops" and fresh :: "'w \<Rightarrow> bool" and live :: "'w \<Rightarrow> bool"
    and settled :: "'w \<Rightarrow> bool" and gone :: "'w \<Rightarrow> bool"
  assumes fresh_settled: "fresh w \<Longrightarrow> settled w"
    and refused_settled: "fresh w \<Longrightarrow> wc_create cls w = (False, w') \<Longrightarrow> settled w'"
    and created_live: "fresh w \<Longrightarrow> wc_create cls w = (True, w') \<Longrightarrow> live w'"
    and dispatch_live: "live w \<Longrightarrow> wc_dispatch cls m w = Some (w', None) \<Longrightarrow> live w'"
    and quit_settled: "live w \<Longrightarrow> wc_dispatch cls m w = Some (w', Some code) \<Longrightarrow> settled w' \<and> code = 0"
    and destroyed_gone: "settled w \<Longrightarrow> \<exists>w'. wc_destroy cls w = Some w' \<and> gone w'"
begin

lemma loop_settles: "message_loop (wc_dispatch cls) ms w = Some (code, w') \<Longrightarrow> live w \<Longrightarrow> settled w' \<and> code = 0"
proof (induction ms arbitrary: w)
  case (Cons m ms)
  obtain w1 q where d: "wc_dispatch cls m w = Some (w1, q)" using Cons.prems(1) by (auto split: option.splits)
  show ?case
  proof (cases q)
    case None
    then show ?thesis using Cons.IH [of w1] Cons.prems d dispatch_live [OF Cons.prems(2)] by simp
  next
    case (Some c)
    then show ?thesis using Cons.prems d quit_settled [OF Cons.prems(2)] by auto
  qed
qed simp

lemma leave_in_order:
  assumes "settled (ap_window a)" and "ap_winsock a = WinSockRuntime_init r n"
  shows "\<exists>a'. leave_app cls s code a = Exited code (s, Some a') \<and> gone (ap_window a') \<and> ws_started (ap_winsock a') = n"
  using destroyed_gone [OF assms(1)] assms(2)
  by (auto simp: leave_app_def App_destroy_def WinSockRuntime_init_def WinSockRuntime_destroy_def)

lemma Initialize_refused:
  assumes "App_Initialize api directory cls a = (False, a')" and "fresh (ap_window a)"
  shows "settled (ap_window a')" and "ap_winsock a' = ap_winsock a"
  using assms fresh_settled refused_settled
  by (auto simp: App_Initialize_def Let_def split: prod.splits if_splits)

lemma Initialize_winsock: "App_Initialize api directory cls a = (b, a') \<Longrightarrow> ap_winsock a' = ap_winsock a"
  by (auto simp: App_Initialize_def Let_def split: prod.splits if_splits)

lemma Initialize_live: "App_Initialize api directory cls a = (True, a') \<Longrightarrow> fresh (ap_window a) \<Longrightarrow> live (ap_window a')"
  using created_live by (auto simp: App_Initialize_def Let_def split: prod.splits if_splits)

lemma loop_quits:
  assumes "reaches (wc_dispatch cls) q ms w" and "live w" and "\<And>v. live v \<Longrightarrow> \<exists>v'. wc_dispatch cls q v = Some (v', Some 0)"
  shows "message_loop (wc_dispatch cls) ms w \<noteq> None"
  using assms(1,2)
proof (induction ms arbitrary: w)
  case (Cons m ms)
  show ?case
  proof (cases "m = q")
    case True
    then show ?thesis using assms(3) [OF Cons.prems(2)] by auto
  next
    case False
    obtain w1 k where d: "wc_dispatch cls m w = Some (w1, k)" using Cons.prems(1) False by (auto split: option.splits)
    show ?thesis
    proof (cases k)
      case None
      then show ?thesis using Cons.IH [of w1] Cons.prems d False dispatch_live [OF Cons.prems(2)] by simp
    qed (simp add: d)
  qed
qed simp

lemma Initialize_window:
  "App_Initialize api directory cls a = (True, a') \<Longrightarrow> ap_window a' = snd (wc_create cls (ap_window a))"
  by (auto simp: App_Initialize_def Let_def split: prod.splits if_splits)

text \<open>However a process with such a window ends, it ends in order.\<close>

lemma process_in_order:
  assumes "RunSelfInstallIfNeeded ie s = Some (res, s1)" and "fresh w"
    and "\<And>v. live v \<Longrightarrow> \<exists>v'. wc_dispatch cls q v = Some (v', Some 0)"
  shows "ended_in_order gone n (reaches (wc_dispatch cls) q ms (snd (wc_create cls w)))
    (wWinMain api ie de directory cls ms (App_init c g w r n) s)"
proof (cases res)
  case Continue
  let ?a = "(App_init c g w r n)\<lparr>ap_dpi := EnableDpiAwareness de\<rparr>"
  obtain ok a1 where i: "App_Initialize api directory cls ?a = (ok, a1)" by fastforce
  have winsock: "ap_winsock a1 = WinSockRuntime_init r n"
    using Initialize_winsock [OF i] by (simp add: App_init_def)
  show ?thesis
  proof (cases ok)
    case False
    have "settled (ap_window a1)"
      using i False Initialize_refused(1) [of api directory ?a a1] assms(2) by (simp add: App_init_def)
    then show ?thesis
      using leave_in_order [OF _ winsock, of s1 1] i False assms(1) Continue by (auto simp: wWinMain_def)
  next
    case True
    have live: "live (ap_window a1)" "ap_window a1 = snd (wc_create cls w)"
      using Initialize_live [of api directory ?a a1] Initialize_window [of api directory ?a a1] i True assms(2)
      by (simp_all add: App_init_def)
    show ?thesis
    proof (cases "App_Run api cls ms a1")
      case None
      then have "message_loop (wc_dispatch cls) ms (ap_window a1) = None"
        by (auto simp: App_Run_def split: option.splits prod.splits)
      then have "\<not> reaches (wc_dispatch cls) q ms (snd (wc_create cls w))"
        using loop_quits [OF _ live(1) assms(3), of ms] unfolding live(2) by blast
      then show ?thesis using None i True assms(1) Continue by (simp add: wWinMain_def)
    next
      case (Some p)
      obtain code a2 where p: "p = (code, a2)" by fastforce
      then have a2: "settled (ap_window a2)" "code = 0" "ap_winsock a2 = WinSockRuntime_init r n"
        using Some winsock live by (auto simp: App_Run_def dest: loop_settles split: option.splits prod.splits)
      then show ?thesis
        using leave_in_order [OF a2(1,3), of s1 code] i True Some p assms(1) Continue by (auto simp: wWinMain_def)
    qed
  qed
qed (use assms(1) in \<open>simp_all add: wWinMain_def\<close>)

end

end
