(* ===== verification/InstallProps.thy ===== *)
theory InstallProps
  imports Startup Utf8
begin

text \<open>
  Properties of the installation: it copies everything before it starts the copy, it touches
  nothing but its own folder whatever fails, and a failure in the middle leaves the installed
  program without its pages.
\<close>

text \<open>A portable program in \<^verbatim>\<open>C:\p\<close>, with the user's folders.\<close>

definition example_files :: "(path \<times> fs_node) list" where
  "example_files =
     [([wide ''C:'', wide ''p'', kPortableMarker], FileNode []),
      ([wide ''C:'', wide ''p'', wide ''a.exe''], FileNode [1]),
      ([wide ''C:'', wide ''p'', wide ''WebView2Loader.dll''], FileNode [2]),
      ([wide ''C:'', wide ''p'', wide ''ui''], DirNode),
      ([wide ''C:'', wide ''p'', wide ''ui'', wide ''index.html''], FileNode [3])]"

definition example_install :: install_env where
  "example_install =
     \<lparr>ie_module = wide ''C:'' @ [92] @ wide ''p'' @ [92] @ wide ''a.exe'',
      ie_local_app_data = Some [wide ''C:'', wide ''u''], ie_programs = Some [wide ''C:'', wide ''m''],
      ie_canonical = (\<lambda>p. Some (path_text p)), ie_absolute = path_text, ie_lower = id, ie_convert = (\<lambda>_. None),
      ie_com = ComStarted, ie_link_created = True, ie_link_file = True, ie_link_saved = True, ie_launch = True,
      ie_last_error = 0, ie_error_text = None\<rparr>"

definition fresh_installer :: "fs_outcome list \<Rightarrow> installer" where
  "fresh_installer outcomes =
     \<lparr>in_disk = \<lparr>d_files = map_of example_files, d_script = outcomes, d_refusal = []\<rparr>,
      in_com = 0, in_shortcut = None, in_shown = [], in_launched = None\<rparr>"

lemma example_paths:
  "CurrentExecutablePath example_install = Some ([wide ''C:'', wide ''p''] @ [wide ''a.exe''])"
  "InstallDirectory example_install = Some [wide ''C:'', wide ''u'', wide ''Programs'', kAppName]"
  "\<not> SamePath example_install [wide ''C:'', wide ''p''] [wide ''C:'', wide ''u'', wide ''Programs'', kAppName]"
proof -
  have m: "path_of (ie_module example_install) = [wide ''C:'', wide ''p'', wide ''a.exe'']" "ie_module example_install \<noteq> []"
    by (simp_all add: example_install_def wide_def)
  then show "CurrentExecutablePath example_install = Some ([wide ''C:'', wide ''p''] @ [wide ''a.exe''])"
    using module_path_from_exact [OF m(2), of MAX_PATH] by (simp add: CurrentExecutablePath_def MAX_PATH_def)
  show "InstallDirectory example_install = Some [wide ''C:'', wide ''u'', wide ''Programs'', kAppName]"
    by (simp add: InstallDirectory_def example_install_def)
  show "\<not> SamePath example_install [wide ''C:'', wide ''p''] [wide ''C:'', wide ''u'', wide ''Programs'', kAppName]"
    by (simp add: SamePath_def LowerPath_def example_install_def kAppName_def) (simp add: wide_def)
qed

lemma example_run:
  "RunSelfInstallIfNeeded example_install (fresh_installer []) =
     Some (install_to example_install [wide ''C:'', wide ''p'', wide ''a.exe''] [wide ''C:'', wide ''p'']
       [wide ''C:'', wide ''u'', wide ''Programs'', kAppName] (fresh_installer []))"
  using example_paths
  by (simp add: RunSelfInstallIfNeeded_def fresh_installer_def next_outcome_def example_files_def Let_def)

lemma example_relaunches: "\<exists>s'. RunSelfInstallIfNeeded example_install (fresh_installer []) = Some (Relaunched, s')"
  unfolding example_run
  by (simp add: install_to_def fresh_installer_def example_files_def create_directories_call_def next_outcome_def
      upt_rec is_file_def kAppName_def kPortableMarker_def kInstalledExe_def copies_def CopyFileRequired_def
      CopyDirectoryRequired_def CopyFileOptional_def exists_call_def is_directory_call_def copy_file_call_def
      copy_tree_call_def remove_all_call_def set_tree_def under_def example_install_def LaunchInstalledApp_def Let_def
      split: prod.split)

section \<open>The program's own path\<close>

text \<open>
  The program finds its own path however long it is: the loop over growing buffers ends, with
  the whole name, whenever the system can tell it at all.
\<close>

theorem executable_path_found:
  "CurrentExecutablePath e = (if ie_module e = [] then None else Some (path_of (ie_module e)))"
proof (cases "ie_module e = []")
  case True
  then show ?thesis
    by (simp add: CurrentExecutablePath_def) (subst module_path_from.simps, simp add: GetModuleFileNameW_def MAX_PATH_def)
next
  case False
  then show ?thesis
    using module_path_from_exact [OF False, of MAX_PATH] by (simp add: CurrentExecutablePath_def MAX_PATH_def)
qed

section \<open>Installing\<close>

lemma run_install_to:
  assumes "RunSelfInstallIfNeeded e s = Some (r, s')"
  shows "d_files (in_disk s') = d_files (in_disk s) \<and> in_com s' = in_com s \<and> in_launched s' = in_launched s \<and> r \<noteq> Relaunched \<or>
    (\<exists>exe install_dir s1. CurrentExecutablePath e = Some exe \<and> InstallDirectory e = Some install_dir \<and>
       d_files (in_disk s1) = d_files (in_disk s) \<and> in_com s1 = in_com s \<and>
       install_to e exe (butlast exe) install_dir s1 = (r, s'))"
proof -
  obtain o1 d where o1: "next_outcome (in_disk s) = (o1, d)" by force
  from next_outcome_files [OF o1] assms o1 show ?thesis
    unfolding RunSelfInstallIfNeeded_def ShowInstallError_def Let_def
    by (auto split: option.splits fs_outcome.splits if_splits)
qed

text \<open>
  C17: when the program hands over to its installed copy, the copy is complete: the program, the
  loader library and the whole tree of pages in the program folder are those of the portable
  one, file by file, and it is this copy that has been started.
\<close>

theorem relaunch_means_complete_copy:
  assumes "RunSelfInstallIfNeeded e s = Some (Relaunched, s')" and "CurrentExecutablePath e = Some (source_dir @ [name])"
    and "InstallDirectory e = Some install_dir"
    and "\<not> under install_dir source_dir" and "\<not> under source_dir install_dir"
    and "\<forall>programs. ie_programs e = Some programs \<longrightarrow> \<not> under install_dir programs"
  shows "holds_copy (d_files (in_disk s)) source_dir (source_dir @ [name]) (d_files (in_disk s')) install_dir \<and>
    in_launched s' = Some (install_dir @ [kInstalledExe])"
proof -
  let ?exe = "source_dir @ [name]"
  obtain s1 where s1: "d_files (in_disk s1) = d_files (in_disk s)" "install_to e ?exe source_dir install_dir s1 = (Relaunched, s')"
    using run_install_to [OF assms(1)] assms(2,3) by auto
  obtain d d2 where d: "create_directories_call install_dir (in_disk s1) = (True, d)"
    "copy_all (copies e ?exe source_dir install_dir) d = (None, d2)"
    "in_disk s' = in_disk (snd (CreateStartMenuShortcut e (install_dir @ [kInstalledExe]) (s1\<lparr>in_disk := d2\<rparr>)))"
    "in_launched s' = Some (install_dir @ [kInstalledExe])"
    using install_to_relaunched [OF s1(2)] by blast
  have copied: "holds_copy (d_files d) source_dir ?exe (d_files d2) install_dir"
    by (rule copies_done [OF d(2) refl assms(4,5)])
  have source: "d_files d (source_dir @ q) = d_files (in_disk s) (source_dir @ q)" for q
    using create_directories_call_done [OF d(1)] s1(1) assms(5) by (auto simp: under_iff)
  have target: "d_files (in_disk s') (install_dir @ q) = d_files d2 (install_dir @ q)" for q
    using CreateStartMenuShortcut_frame(1) [of e "install_dir @ [kInstalledExe]" "s1\<lparr>in_disk := d2\<rparr>"] assms(6) d(3)
    by (cases "CreateStartMenuShortcut e (install_dir @ [kInstalledExe]) (s1\<lparr>in_disk := d2\<rparr>)")
      (auto simp: only_changed_def under_iff)
  show ?thesis
    using copied d(4) source [of "[name]"] source [of "[wide ''WebView2Loader.dll'']"] source [of "wide ''ui'' # _"]
      source [of "[wide ''ui'']"] target
    by (simp add: holds_copy_def)
qed

lemma relaunch_means_complete_copy_witness:
  "\<exists>s'. RunSelfInstallIfNeeded example_install (fresh_installer []) = Some (Relaunched, s') \<and>
     d_files (in_disk s') [wide ''C:'', wide ''u'', wide ''Programs'', kAppName, wide ''ui'', wide ''index.html''] = Some (FileNode [3])"
proof -
  obtain s' where s': "RunSelfInstallIfNeeded example_install (fresh_installer []) = Some (Relaunched, s')"
    using example_relaunches by blast
  have "holds_copy (d_files (in_disk (fresh_installer []))) [wide ''C:'', wide ''p''] ([wide ''C:'', wide ''p''] @ [wide ''a.exe''])
      (d_files (in_disk s')) [wide ''C:'', wide ''u'', wide ''Programs'', kAppName]"
    using relaunch_means_complete_copy [OF s' example_paths(1,2)] by (simp add: under_def example_install_def)
  then have "d_files (in_disk s') ([wide ''C:'', wide ''u'', wide ''Programs'', kAppName] @ wide ''ui'' # [wide ''index.html'']) =
      d_files (in_disk (fresh_installer [])) ([wide ''C:'', wide ''p''] @ wide ''ui'' # [wide ''index.html''])"
    unfolding holds_copy_def by blast
  also have "\<dots> = Some (FileNode [3])"
    by (simp add: fresh_installer_def example_files_def kPortableMarker_def)
  finally show ?thesis using s' by auto
qed



section \<open>A failing update\<close>

text \<open>
  An update that fails while it copies the pages destroys the installation that was there. The
  old pages are removed before the new ones are copied, and nothing restores them: if the copy
  fails without having written anything, no page is left, although the source was complete.
\<close>

theorem failed_update_removes_pages:
  assumes "d_files d source = Some DirNode" and "d_script d = [FsOk, FsOk, FsOk, FsError (\<lambda>_. None) message]"
    and "CopyDirectoryRequired e source destination d = (r, d')" and "under destination p"
  shows "r \<noteq> None \<and> d_files d' p = None"
  using assms
  by (auto simp: CopyDirectoryRequired_def exists_call_def is_directory_call_def remove_all_call_def copy_tree_call_def
      next_outcome_def set_tree_def Let_def split: if_splits)

lemma failed_update_removes_pages_witness:
  "d_files (snd (CopyDirectoryRequired example_install [wide ''new''] [wide ''old'']
     \<lparr>d_files = map_of [([wide ''new''], DirNode), ([wide ''old''], DirNode), ([wide ''old'', wide ''index.html''], FileNode [3])],
      d_script = [FsOk, FsOk, FsOk, FsError (\<lambda>_. None) [1]], d_refusal = []\<rparr>)) [wide ''old'', wide ''index.html''] = None"
proof -
  let ?d = "\<lparr>d_files = map_of [([wide ''new''], DirNode), ([wide ''old''], DirNode), ([wide ''old'', wide ''index.html''], FileNode [3])],
      d_script = [FsOk, FsOk, FsOk, FsError (\<lambda>_. None) [1]], d_refusal = []\<rparr>"
  obtain r d' where c: "CopyDirectoryRequired example_install [wide ''new''] [wide ''old''] ?d = (r, d')" by force
  show ?thesis
    using failed_update_removes_pages [OF _ _ c, of "[1]" "[wide ''old'', wide ''index.html'']"] c by (simp add: under_def)
qed

end
