(* ===== verification/WebEvents.thy ===== *)
theory WebEvents
  imports WebWindow SelfInstall
begin

text \<open>
  The life of the web window in \<^verbatim>\<open>client/webview_window.cpp\<close>: its creation, the address of its page,
  the events it handles, its end. WebView2 and the Win32 calls are outcomes of the environment.
\<close>

section \<open>The page\<close>

text \<open>Up to the last separator; one call, with a buffer of fixed size.\<close>

definition ExecutableDirectory :: "wstr \<Rightarrow> wstr" where
  "ExecutableDirectory module_name =
     (let (n, buffer) = GetModuleFileNameW module_name MAX_PATH; path = take n buffer;
          before = dropWhile (\<lambda>ch. ch \<noteq> 92 \<and> ch \<noteq> 47) (rev path)
      in if before = [] then [46] else rev (tl before))"

definition IndexUri :: "wstr \<Rightarrow> wstr" where
  "IndexUri module_name =
     FilePathToUri (ExecutableDirectory module_name @ [92] @ wide ''ui'' @ [92] @ wide ''index.html'')"

text \<open>Hexadecimal, in capitals, without leading zeros.\<close>

definition HResultText :: "u32 \<Rightarrow> wstr" where
  "HResultText result =
     (let digit = (\<lambda>i. (unat result div 16 ^ i) mod 16);
          ds = dropWhile (\<lambda>d. d = 0) (map digit (rev [0..<8]))
      in wide ''0x'' @ map (\<lambda>d. if d < 10 then of_nat (48 + d) else of_nat (55 + d)) (if ds = [] then [0] else ds))"

section \<open>Creation and end\<close>

record create_env =
  ce_com :: com_start
  ce_com_result :: u32
  ce_class :: bool
  ce_window :: bool
  ce_request :: "u32 option"

record rectangle =
  rc_left :: int
  rc_top :: int
  rc_right :: int
  rc_bottom :: int

datatype frame_call = SetWindowPos int int int int | PutBounds rectangle | Navigate wstr

record web_life =
  wl_web :: web
  wl_com_initialized :: bool
  wl_com :: nat
  wl_shown :: "wstr list"
  wl_frame :: "frame_call list"

definition ShowWebViewError :: "u32 \<Rightarrow> web_life \<Rightarrow> web_life" where
  "ShowWebViewError result l = l\<lparr>wl_shown := wl_shown l @ [wv_error @ HResultText result]\<rparr>"

text \<open>The page fills the client area, whose size the system tells.\<close>

definition ResizeWebView :: "rectangle \<Rightarrow> web_life \<Rightarrow> web_life" where
  "ResizeWebView client l = (if \<not> w_webview (wl_web l) then l else l\<lparr>wl_frame := wl_frame l @ [PutBounds client]\<rparr>)"

text \<open>
  WebView2 is asked for an environment; \<open>None\<close> is success, here and below. The answers come later, as
  messages of the thread: \<open>EnvironmentCompleted\<close> asks for a controller, \<open>ControllerCompleted\<close> loads the
  page, whose end is reported as \<open>WebNavigationCompleted\<close>.
\<close>

definition InitializeWebView :: "create_env \<Rightarrow> web_life \<Rightarrow> web_life" where
  "InitializeWebView e l = (case ce_request e of Some result \<Rightarrow> ShowWebViewError result l | None \<Rightarrow> l)"

definition EnvironmentCompleted :: "u32 option \<Rightarrow> web_life \<Rightarrow> web_life" where
  "EnvironmentCompleted environment_result l =
     (case environment_result of Some result \<Rightarrow> ShowWebViewError result l | None \<Rightarrow> l)"

definition ControllerCompleted :: "wstr \<Rightarrow> rectangle \<Rightarrow> u32 option \<Rightarrow> web_life \<Rightarrow> web_life" where
  "ControllerCompleted module_name client controller_result l =
     (case controller_result of
        Some result \<Rightarrow> ShowWebViewError result l
      | None \<Rightarrow>
          let l1 = ResizeWebView client (l\<lparr>wl_web := (wl_web l)\<lparr>w_webview := True\<rparr>\<rparr>)
          in l1\<lparr>wl_frame := wl_frame l1 @ [Navigate (IndexUri module_name)]\<rparr>)"

definition WebViewWindow_Create :: "create_env \<Rightarrow> web_life \<Rightarrow> bool \<times> web_life" where
  "WebViewWindow_Create e l =
     (if ce_com e = ComFailed then (False, ShowWebViewError (ce_com_result e) l)
      else
        let l1 = (if ce_com e = ComStarted then l\<lparr>wl_com_initialized := True, wl_com := Suc (wl_com l)\<rparr> else l)
        in if \<not> ce_class e \<or> \<not> ce_window e then (False, l1)
           else (True, InitializeWebView e
                  (l1\<lparr>wl_web := (wl_web l1)\<lparr>w_server := SetEventCallback True (w_server (wl_web l1)),
                                           w_client := SetClientEventCallback True (w_client (wl_web l1))\<rparr>\<rparr>)))"

definition WebViewWindow_destroy :: "text_api \<Rightarrow> web_life \<Rightarrow> web_life" where
  "WebViewWindow_destroy api l =
     l\<lparr>wl_web := (wl_web l)\<lparr>w_announced := None, w_client := Disconnect (w_client (wl_web l)),
                           w_server := Stop api (w_server (wl_web l)), w_webview := False\<rparr>,
       wl_com := (if wl_com_initialized l then wl_com l - 1 else wl_com l), wl_com_initialized := False\<rparr>"

section \<open>Events of the page\<close>

text \<open>\<open>WebPageMessage None\<close> is a message of the page that is not a string.\<close>

datatype web_event = WebNavigationCompleted | WebPageMessage "wstr option"

fun HandleWebEvent :: "text_api \<Rightarrow> web_env \<Rightarrow> web_event \<Rightarrow> web \<Rightarrow> web option" where
  "HandleWebEvent api env WebNavigationCompleted w = Some (PostInitialState api w)"
| "HandleWebEvent api env (WebPageMessage None) w = Some w"
| "HandleWebEvent api env (WebPageMessage (Some message)) w = HandleWebMessage api env message w"

section \<open>Messages of the window\<close>

text \<open>
  The messages of the system. A change of the resolution comes with the rectangle the window should
  take; the change of size that follows is a message of its own.
\<close>

datatype system_message = WmSize | WmDpiChanged "rectangle option" | WmWebSync | WmDestroy | WmDefault

text \<open>The result has the code of \<^verbatim>\<open>PostQuitMessage\<close>, if it was called.\<close>

fun HandleSystemMessage :: "text_api \<Rightarrow> rectangle \<Rightarrow> system_message \<Rightarrow> web_life \<Rightarrow> web_life \<times> int option" where
  "HandleSystemMessage api client WmSize l = (ResizeWebView client l, None)"
| "HandleSystemMessage api client (WmDpiChanged suggested) l =
     (ResizeWebView client
        (case suggested of
           None \<Rightarrow> l
         | Some r \<Rightarrow> l\<lparr>wl_frame := wl_frame l @
             [SetWindowPos (rc_left r) (rc_top r) (rc_right r - rc_left r) (rc_bottom r - rc_top r)]\<rparr>), None)"
| "HandleSystemMessage api client WmWebSync l = (l\<lparr>wl_web := DrainSyncEvents api (wl_web l)\<rparr>, None)"
| "HandleSystemMessage api client WmDestroy l = (l, Some 0)"
| "HandleSystemMessage api client WmDefault l = (l, None)"

section \<open>The address of the page\<close>

text \<open>A path that fits the buffer gives its folder.\<close>

lemma ExecutableDirectory_short:
  assumes "length (dir @ [92] @ name) < MAX_PATH" and "92 \<notin> set name" and "47 \<notin> set name"
  shows "ExecutableDirectory (dir @ [92] @ name) = dir"
proof -
  have "dropWhile (\<lambda>ch. ch \<noteq> 92 \<and> ch \<noteq> 47) (rev (dir @ [92] @ name)) = 92 # rev dir"
    using assms(2,3) by (simp add: dropWhile_append) auto
  with assms(1) show ?thesis
    by (simp add: ExecutableDirectory_def GetModuleFileNameW_def del: rev_append)
qed

text \<open>
  A path that does not fit is cut off without notice: two programs whose paths agree in their
  first 259 units take the page from the same place, wherever they are.
\<close>

lemma ExecutableDirectory_cut_off:
  assumes "MAX_PATH \<le> length a" and "MAX_PATH \<le> length b" and "take 259 a = take 259 b"
  shows "IndexUri a = IndexUri b"
  using assms by (simp add: IndexUri_def ExecutableDirectory_def GetModuleFileNameW_def MAX_PATH_def)

text \<open>After the end nothing runs: no announcement, no connection, no server.\<close>

lemma destroyed:
  "w_announced (wl_web (WebViewWindow_destroy api l)) = None"
  "c_connected (w_client (wl_web (WebViewWindow_destroy api l))) = False"
  "running (w_server (wl_web (WebViewWindow_destroy api l))) = False"
  by (simp_all add: WebViewWindow_destroy_def Disconnect_def StopWorkers_def CloseSocket_def Stop_def ClosePeerSocket_def
      CloseListenSocket_def Let_def split: option.splits)

end
