(* ===== verification/Processes.thy ===== *)
theory Processes
  imports Startup WebEvents NativeControls NativeThreads
begin

text \<open>
  The two windows the shell can be compiled with, as it uses them: \<^verbatim>\<open>MainWindow\<close> and \<^verbatim>\<open>WebViewWindow\<close>.
  Between two messages the other threads of the program may do whatever they like to the server, the
  client and the flag of the reconnection. The locale of the shell is interpreted for both.
\<close>

definition server_ended :: "server \<Rightarrow> bool" where
  "server_ended s \<longleftrightarrow> \<not> running s \<and> listen_socket s = None \<and> peer_socket s = None \<and> \<not> peer_joined s"

definition client_ended :: "client \<Rightarrow> bool" where
  "client_ended c \<longleftrightarrow> \<not> c_connected c \<and> c_socket c = None \<and> \<not> c_workers c"

lemma Stop_ends: "server_ended (SyncServer_destroy api s)"
  by (simp add: SyncServer_destroy_def server_ended_def Stop_def ClosePeerSocket_def CloseListenSocket_def Let_def
      split: option.splits)

lemma Disconnect_ends: "client_ended (SyncClient_destroy c)"
  by (simp add: SyncClient_destroy_def client_ended_def Disconnect_def StopWorkers_def CloseSocket_def)

section \<open>The classic window\<close>

text \<open>
  It has no destructor of its own: its members are destroyed in the reverse order, the thread first. A
  thread that has not been joined ends the process.
\<close>

definition MainWindow_destroy :: "text_api \<Rightarrow> window \<Rightarrow> window option" where
  "MainWindow_destroy api w =
     (if n_joinable w then None
      else Some (w\<lparr>n_announced := None, n_client := SyncClient_destroy (n_client w),
                   n_server := SyncServer_destroy api (n_server w)\<rparr>))"

datatype native_input = Dispatched ui_env window_message | ThreadsActed server client bool

text \<open>Closing the window destroys it, and WM_DESTROY calls \<^verbatim>\<open>PostQuitMessage(0)\<close>.\<close>

fun quits :: "window_message \<Rightarrow> bool" where
  "quits WmClose = True"
| "quits (WmCommand c) = (c = CmdExit)"
| "quits _ = False"

fun native_dispatch :: "text_api \<Rightarrow> native_input \<Rightarrow> window \<Rightarrow> (window \<times> int option) option" where
  "native_dispatch api (Dispatched ue msg) w =
     map_option (\<lambda>w'. (w', if quits msg then Some 0 else None)) (HandleMessage api ue msg w)"
| "native_dispatch api (ThreadsActed s c b) w = Some (w\<lparr>n_server := s, n_client := c, n_reconnecting := b\<rparr>, None)"

definition native_create :: "text_api \<Rightarrow> ui_env \<Rightarrow> creation_env \<Rightarrow> window \<Rightarrow> bool \<times> window" where
  "native_create api ue ce w =
     (let r = Create_main api ue ce w in (cr_ok r, case cr_window r of None \<Rightarrow> w | Some v \<Rightarrow> v))"

definition MainWindow_class :: "text_api \<Rightarrow> ui_env \<Rightarrow> creation_env \<Rightarrow> (native_input, window) window_ops" where
  "MainWindow_class api ue ce =
     \<lparr>wc_create = native_create api ue ce, wc_dispatch = native_dispatch api, wc_destroy = MainWindow_destroy api\<rparr>"

definition native_gone :: "window \<Rightarrow> bool" where
  "native_gone w \<longleftrightarrow> \<not> n_joinable w \<and> n_announced w = None \<and> server_ended (n_server w) \<and> client_ended (n_client w)"

lemma native_create_refused: "native_create api ue ce w = (False, w') \<Longrightarrow> w' = w"
  by (auto simp: native_create_def Create_main_def HandleCreate_def Let_def split: if_splits prod.splits bool.splits)

lemma quit_joins:
  assumes "HandleMessage api ue msg w = Some w'" and "quits msg"
  shows "\<not> n_joinable w'"
proof -
  have "w' = close_window api w" using assms by (cases msg) auto
  then show ?thesis by (simp add: close_window_def StopReconnectLoop_def Let_def)
qed

interpretation classic: app_window "MainWindow_class api ue ce" "\<lambda>w. \<not> n_joinable w" "\<lambda>w. True" "\<lambda>w. \<not> n_joinable w" native_gone
proof unfold_locales
  fix w w' m code
  show "\<not> n_joinable w \<Longrightarrow> wc_create (MainWindow_class api ue ce) w = (False, w') \<Longrightarrow> \<not> n_joinable w'"
    by (auto simp: MainWindow_class_def dest: native_create_refused)
  show "wc_dispatch (MainWindow_class api ue ce) m w = Some (w', Some code) \<Longrightarrow> \<not> n_joinable w' \<and> code = 0"
    by (cases m) (auto simp: MainWindow_class_def dest: quit_joins split: if_splits)
  show "\<not> n_joinable w \<Longrightarrow> \<exists>w'. wc_destroy (MainWindow_class api ue ce) w = Some w' \<and> native_gone w'"
    by (simp add: MainWindow_class_def MainWindow_destroy_def native_gone_def Stop_ends Disconnect_ends)
qed simp_all

section \<open>The web window\<close>

datatype web_input = System rectangle system_message | EnvironmentAnswer "u32 option" | ControllerAnswer rectangle "u32 option"
  | PageEvent web_env web_event | WebThreadsActed server client

fun web_dispatch :: "text_api \<Rightarrow> wstr \<Rightarrow> web_input \<Rightarrow> web_life \<Rightarrow> (web_life \<times> int option) option" where
  "web_dispatch api module_name (System client msg) l = Some (HandleSystemMessage api client msg l)"
| "web_dispatch api module_name (EnvironmentAnswer r) l = Some (EnvironmentCompleted r l, None)"
| "web_dispatch api module_name (ControllerAnswer client r) l = Some (ControllerCompleted module_name client r l, None)"
| "web_dispatch api module_name (PageEvent env e) l =
     map_option (\<lambda>w. (l\<lparr>wl_web := w\<rparr>, None)) (HandleWebEvent api env e (wl_web l))"
| "web_dispatch api module_name (WebThreadsActed s c) l = Some (l\<lparr>wl_web := (wl_web l)\<lparr>w_server := s, w_client := c\<rparr>\<rparr>, None)"

definition WebViewWindow_class :: "text_api \<Rightarrow> wstr \<Rightarrow> create_env \<Rightarrow> (web_input, web_life) window_ops" where
  "WebViewWindow_class api module_name e =
     \<lparr>wc_create = WebViewWindow_Create e, wc_dispatch = web_dispatch api module_name,
      wc_destroy = \<lambda>l. Some (WebViewWindow_destroy api l)\<rparr>"

text \<open>COM is initialised once for each call of \<^verbatim>\<open>CoUninitialize\<close> that is to come.\<close>

definition com_balanced :: "web_life \<Rightarrow> bool" where
  "com_balanced l \<longleftrightarrow> wl_com l = (if wl_com_initialized l then 1 else 0)"

definition web_gone :: "web_life \<Rightarrow> bool" where
  "web_gone l \<longleftrightarrow> wl_com l = 0 \<and> \<not> w_webview (wl_web l) \<and> w_announced (wl_web l) = None \<and>
     server_ended (w_server (wl_web l)) \<and> client_ended (w_client (wl_web l))"

lemma shown_balanced [simp]: "com_balanced (ShowWebViewError r l) = com_balanced l"
  by (simp add: com_balanced_def ShowWebViewError_def)

lemma resize_balanced [simp]: "com_balanced (ResizeWebView c l) = com_balanced l"
  by (simp add: com_balanced_def ResizeWebView_def)

lemma frame_balanced [simp]: "com_balanced (l\<lparr>wl_frame := f\<rparr>) = com_balanced l"
  by (simp add: com_balanced_def)

lemma web_balanced [simp]: "com_balanced (l\<lparr>wl_web := w\<rparr>) = com_balanced l"
  by (simp add: com_balanced_def)

lemma created_balanced:
  assumes "WebViewWindow_Create e l = (b, l')" and "\<not> wl_com_initialized l" and "wl_com l = 0"
  shows "com_balanced l'"
proof -
  have "com_balanced l" "com_balanced (l\<lparr>wl_com_initialized := True, wl_com := Suc 0\<rparr>)"
    using assms(2,3) by (simp_all add: com_balanced_def)
  then show ?thesis
    using assms by (auto simp: WebViewWindow_Create_def InitializeWebView_def Let_def split: if_splits option.splits)
qed

lemma system_balanced: "com_balanced (fst (HandleSystemMessage api c msg l)) = com_balanced l"
  by (cases msg) (auto split: option.splits)

lemma web_dispatch_balanced:
  assumes "web_dispatch api module_name m l = Some (l', q)"
  shows "com_balanced l' = com_balanced l" and "q = None \<or> q = Some 0"
proof -
  have q: "snd (HandleSystemMessage api c msg l) = None \<or> snd (HandleSystemMessage api c msg l) = Some 0" for c msg
    by (cases msg) auto
  show "com_balanced l' = com_balanced l" "q = None \<or> q = Some 0"
    using assms system_balanced [of api _ _ l] q
    by (cases m; auto simp: EnvironmentCompleted_def ControllerCompleted_def Let_def split: option.splits; metis fst_conv snd_conv)+
qed

interpretation page: app_window "WebViewWindow_class api module_name e" "\<lambda>l. \<not> wl_com_initialized l \<and> wl_com l = 0"
  com_balanced com_balanced web_gone
proof unfold_locales
  fix l l' m code
  show "\<not> wl_com_initialized l \<and> wl_com l = 0 \<Longrightarrow> com_balanced l" by (simp add: com_balanced_def)
  show "\<not> wl_com_initialized l \<and> wl_com l = 0 \<Longrightarrow> wc_create (WebViewWindow_class api module_name e) l = (False, l') \<Longrightarrow> com_balanced l'"
    "\<not> wl_com_initialized l \<and> wl_com l = 0 \<Longrightarrow> wc_create (WebViewWindow_class api module_name e) l = (True, l') \<Longrightarrow> com_balanced l'"
    by (auto simp: WebViewWindow_class_def created_balanced)
  show "com_balanced l \<Longrightarrow> wc_dispatch (WebViewWindow_class api module_name e) m l = Some (l', None) \<Longrightarrow> com_balanced l'"
    using web_dispatch_balanced(1) by (auto simp: WebViewWindow_class_def)
  show "com_balanced l \<Longrightarrow> wc_dispatch (WebViewWindow_class api module_name e) m l = Some (l', Some code) \<Longrightarrow>
      com_balanced l' \<and> code = 0"
    using web_dispatch_balanced by (fastforce simp: WebViewWindow_class_def)
  show "com_balanced l \<Longrightarrow> \<exists>l'. wc_destroy (WebViewWindow_class api module_name e) l = Some l' \<and> web_gone l'"
    using Stop_ends [of api "w_server (wl_web l)"] Disconnect_ends [of "w_client (wl_web l)"]
    by (auto simp: WebViewWindow_class_def WebViewWindow_destroy_def web_gone_def com_balanced_def SyncServer_destroy_def
        SyncClient_destroy_def)
qed

end
