(* ===== verification/ProcessProps.thy ===== *)
theory ProcessProps
  imports Processes ControlProps LocalProps InstallProps
begin

text \<open>
  The whole process, from \<^verbatim>\<open>wWinMain\<close> to its end, with either of the two windows.
\<close>









end
