(* ===== verification/Spec2Isabelle.thy ===== *)
theory Spec2Isabelle
  imports WindowProps LocalProps NativeProps SavingProps SessionProps ControlProps ThreadProps InstallProps ProcessProps
begin

text \<open>
  A verification development for ShareNotePad, a notepad for Windows that shares one document
  between two people: a \<^emph>\<open>host\<close> runs a server, one \<^emph>\<open>guest\<close> joins it over TCP with a six-digit code.
  The program is the C++ code under \<^verbatim>\<open>src/client\<close>.

  \<^bold>\<open>The parts and how they interact.\<close> The user interface compares the text before and after a
  change (\<^verbatim>\<open>editor_diff.cpp\<close>) and turns it into at most one deletion and one insertion. On the host
  these go straight to \<^verbatim>\<open>SyncServer::ApplyLocalOperation\<close>; on the guest they become INSERT and
  DELETE requests that \<^verbatim>\<open>SyncClient\<close> serialises (\<^verbatim>\<open>protocol.cpp\<close>: JSON in frames with a length
  prefix), queues and sends. The server checks a request, edits its copy of the document
  (\<^verbatim>\<open>document_model.cpp\<close>), raises the revision and announces the edit as an APPLY message, to the
  guest on the socket and to the host's user interface as an event. A window applies an APPLY
  whose revision is the next one, ignores older ones and asks for the whole document when one is
  missing; the server then sends it in chunks (SYNC_RESPONSE). The document is saved to a file
  (\<^verbatim>\<open>storage.cpp\<close>), the settings to another (\<^verbatim>\<open>config.cpp\<close>), and a guest finds the host by UDP
  announcements (\<^verbatim>\<open>discovery.cpp\<close>). There are two user interfaces, one of which is chosen when the
  program is built: a web page in a WebView2 control (\<^verbatim>\<open>webview_window.cpp\<close>) and a classic window
  with tabs, a Markdown preview and reconnection (\<^verbatim>\<open>window.cpp\<close>). A portable copy of the program
  first installs itself (\<^verbatim>\<open>self_install.cpp\<close>, \<^verbatim>\<open>main.cpp\<close>).

  \<^bold>\<open>Theories.\<close> The data and the operations of a part keep the names the code gives them; a record
  has the fields of the class, and after them the environment the class touches.
    \<^item> \<open>Prelude\<close>: types of the C++ code (UTF-16 units, bytes, 64-bit numbers), literals, list facts.
    \<^item> \<open>StdMap\<close>, \<open>StdText\<close>: \<^verbatim>\<open>std::map\<close> behind an interface, \<^verbatim>\<open>std::stoul\<close>, \<^verbatim>\<open>getline\<close>, \<^verbatim>\<open>operator>>\<close>.
    \<^item> \<open>TextEncoding\<close>, \<open>Utf8\<close>: \<^verbatim>\<open>text_encoding.cpp\<close>. The Windows conversions are parameters under the
      contract \<open>utf8_codec\<close>; \<open>Utf8\<close> shows that UTF-8 itself meets it.
    \<^item> \<open>DocumentModel\<close>, \<open>EditorDiff\<close>: \<^verbatim>\<open>document_model.cpp\<close>, \<^verbatim>\<open>editor_diff.cpp\<close>, both measured against
      the specification \<open>splice\<close>.
    \<^item> \<open>Json\<close>, \<open>Protocol\<close>, \<open>Frame\<close>: \<^verbatim>\<open>protocol.cpp\<close>: strings and numbers, messages, frames and the
      frame decoder, with their round trips.
    \<^item> \<open>Socket\<close>: sending with partial counts and receiving from arbitrary pieces, as both
      \<^verbatim>\<open>sync_server.cpp\<close> and \<^verbatim>\<open>sync_client.cpp\<close> do it. A connection is a script of what \<^verbatim>\<open>send\<close> and \<^verbatim>\<open>recv\<close>
      answer; a call that would wait for ever is \<open>None\<close>.
    \<^item> \<open>SyncEvents\<close>: \<^verbatim>\<open>sync_events.h\<close> and the event queues, behind the interface \<open>fifo\<close>.
    \<^item> \<open>SyncServer\<close>, \<open>ServerThreads\<close>: \<^verbatim>\<open>sync_server.cpp\<close>; first every operation, then the threads: a
      connection is a machine with one phase for each critical section of \<^verbatim>\<open>HandleClient\<close>, and
      \<open>step\<close> interleaves all connections, the accept loop and the user-interface thread.
    \<^item> \<open>ServerLemmas\<close>, \<open>FullSync\<close>, \<open>Handshake\<close>, \<open>SessionSafety\<close>: what the operations change, the
      chunked response, a complete join, invariants of the reachable states.
    \<^item> \<open>SyncClient\<close>: \<^verbatim>\<open>sync_client.cpp\<close>: connecting, requests, one round of each worker loop.
    \<^item> \<open>Storage\<close>, \<open>Config\<close>, \<open>LocalTime\<close>, \<open>Logger\<close>, \<open>Discovery\<close>, \<open>Texts\<close>: the files and the texts of the program.
    \<^item> \<open>WebBridge\<close>, \<open>WebSync\<close>, \<open>WebWindow\<close>, \<open>WebEvents\<close>: \<^verbatim>\<open>webview_window.cpp\<close>: its JSON, the handling of
      synchronisation messages and of the commands of the page, its creation and its end.
    \<^item> \<open>Assembly\<close>, \<open>Follower\<close>, \<open>WebLemmas\<close>, \<open>Delivery\<close>: the interfaces \<open>chunk_collector\<close> of a window that
      puts chunks together, \<open>edit_follower\<close> of one that handles the host's edits and \<open>host_editor\<close> of
      one that hosts, what the web window does with chunks and
      edits, and the way of a whole document from the server's buffer to the guest's window.
    \<^item> \<open>Selection\<close>, \<open>Markdown\<close>, \<open>NativeWindow\<close>, \<open>NativeEditing\<close>, \<open>NativeRoom\<close>, \<open>NativeMessages\<close>, \<open>NativeLayout\<close>:
      \<^verbatim>\<open>window.cpp\<close>. The record \<open>window\<close> has the fields of \<^verbatim>\<open>MainWindow\<close> and what its controls hold;
      \<open>HandleMessage\<close> is one message of its loop. First the selection under remote edits and the
      preview, then tabs and remote edits, the changes of the user, rooms and reconnection, the
      dispatch, and the places of the controls as the lists of calls that set them.
    \<^item> \<open>NativeControls\<close>, \<open>NativeScreens\<close>: its creation (class, menus, the 37 controls, fonts, theme), the
      identifiers of WM_COMMAND, and what each screen shows: \<open>shown_after\<close> is what is visible after a
      list of calls, \<open>within_reach\<close> the commands that the visible controls and their popups offer.
    \<^item> \<open>NativeLemmas\<close>: the three interfaces for the classic window, and what each message keeps of its
      tabs and editor (\<open>tabs_ok\<close>, \<open>editor_ok\<close>, \<open>others_kept\<close>).
    \<^item> \<open>NativeSaving\<close>: what each message keeps of the relation between text, flags and disk (\<open>accounted\<close>).
    \<^item> \<open>NativeThreads\<close>: the reconnection thread as a machine beside the message loop; \<open>room_step\<close>
      interleaves both with the workers of the client, \<open>room_ok\<close> is the invariant.
    \<^item> \<open>ClientJoin\<close>: a successful \<^verbatim>\<open>SyncClient::Connect\<close>, and a client that is gone without a word.
    \<^item> \<open>Session\<close>, \<open>SessionLemmas\<close>, \<open>TurnTaking\<close>, \<open>SessionInvariant\<close>: a host with its server, a guest and the
      socket between them as one system. \<open>deliver\<close> has the four ways something in transit arrives (the
      server takes a request, the guest's receive loop takes bytes, either window drains its events);
      \<open>session_step\<close> adds the messages of the user, who types only when nothing is under way. The
      invariant \<open>on_course\<close> says that what is under way leads each side to the server's document.
    \<^item> \<open>Establish\<close>: how two windows come to such a session: \<open>establishes\<close> has the creation of the room, the
      join, the server's answer and the first transfer of the document in their order.
    \<^item> \<open>Disk\<close>, \<open>SelfInstall\<close>, \<open>Startup\<close>, \<open>Processes\<close>: the file system with the outcome of each call,
      \<^verbatim>\<open>self_install.cpp\<close>, and \<^verbatim>\<open>main.cpp\<close>, \<^verbatim>\<open>app.cpp\<close>, \<^verbatim>\<open>paths.cpp\<close>, \<^verbatim>\<open>winsock_runtime.cpp\<close>: the whole
      process over the messages its window gets, for any window that meets the locale \<open>app_window\<close>; both
      windows do.
    \<^item> \<open>Examples\<close>: concrete states and a run of the system in which a guest joins and types.
    \<^item> \<open>TransportProps\<close>, \<open>ServerProps\<close>, \<open>WindowProps\<close>, \<open>LocalProps\<close>, \<open>NativeProps\<close>, \<open>SavingProps\<close>, \<open>SessionProps\<close>,
      \<open>ControlProps\<close>, \<open>ThreadProps\<close>, \<open>InstallProps\<close>, \<open>ProcessProps\<close> and this theory: the properties, each followed by an instance
      that shows its hypotheses can hold.

  \<^bold>\<open>What is shown.\<close> Messages and frames survive any segmentation of the stream; the
  change detection is correct and minimal; a request is accepted exactly under its conditions and then
  is one splice under the next revision; only the one joined peer can edit and the join is shut after
  five failures; a full synchronisation delivers the document; a window that only watches follows the
  server exactly; creating a room and joining it brings two classic windows to the start of a session,
  and there two windows whose users take turns agree with the server whenever nothing is
  under way, and what either types arrives after finitely many deliveries; files are replaced completely
  or not at all; the text of the first tab is always on disk or marked, and a window that is closed is
  followed by one with the same text; settings survive a restart; the search for a host ends. In the classic window a remote
  edit leaves the selection in place, no message disturbs a tab that is not active, reconnection ends
  after at most five attempts in a thread that nobody disturbs, code is previewed unchanged, each screen
  shows its own controls only, and saving and leaving are always within reach. An installation writes to
  its own folder only, and starts the copy only when it is complete. A process, with either window, leaves
  no thread, connection, WinSock or COM behind when it ends, and it ends when its window is closed. Other properties record what the
  code does where this is not what it seems to mean: the divergence of concurrent edits, the chunk that
  splits a surrogate pair, the insertion too large to be announced, bytes lost with the join response,
  the race of the heartbeat, edits lost with a new tab, a refused paste, half of a character deleted
  when one emoji replaces another, typing while disconnected, a connection lost while the thread reports
  it, a label that is not reset, an update that fails half-way.

  \<^bold>\<open>Bounds.\<close> No fuel is used. Loops recurse on their data or by a measure; a blocking call recurses
  on the finite list of answers the environment gives and is \<open>None\<close> when the list is too short to
  end it. A thread's loop is one round of it, iterated by \<open>step\<close> or by the \<open>rounds\<close> functions.
  Revisions, lengths on the wire, clock readings and ports are words of their width. Sizes of
  containers are natural numbers: the document is at most 5242880 characters. In the properties of
  a session a typed text has at most 7000 characters, which is enough for its message to fit into
  64 KB whatever it contains, and the revision stays two below the largest 64-bit number.

  \<^bold>\<open>Not modelled.\<close> Icons, painting other than the colours, and the calls of Win32
  and WebView2 themselves (input and output without logic of their own). The editor of the classic
  window is taken to give back the text it was set to, and to count positions in UTF-16 units of that
  text. Mutexes appear only as the atomicity of a step. Memory exhaustion and exceptions of the standard
  library other than those the code catches are left out. The relay server (Go), the web page
  (JavaScript) and the tests are other programs.
\<close>

section \<open>Server, wire and window together\<close>

text \<open>
  C4: a full synchronisation delivers the document. On a connection whose sends do not fail,
  and as long as no chunk boundary splits a surrogate pair, \<^verbatim>\<open>SendSyncResponse\<close> succeeds; and
  however TCP cuts its bytes into pieces of at most 4096 bytes, the receive loop of the guest
  takes all the messages, and draining the events leaves the window with exactly the
  document and the revision of the server.
\<close>

theorem full_sync_delivered:
  assumes "utf8_api api" and "session_ok (session_code s)" and "reliable (net s k)"
    and "conn_wire (net s k) = []" and "chunks_wf (document s)" and "length (document s) \<le> kMaxDocumentChars"
    and "concat segs = conn_wire (net (snd (SendSyncResponse api k s)) k)"
    and "\<forall>seg \<in> set segs. seg \<noteq> [] \<and> length seg \<le> 4096"
    and "\<not> c_stopping c" and "c_socket c = Some j" and "c_decoder c = []" and "c_events c = []"
    and "c_input c = map Received segs" and "w_chunks w = []" and "event_queue (w_server w) = []"
  shows "fst (SendSyncResponse api k s) \<and>
    (\<exists>c'. receive_rounds api now (chunk_count (document s)) c = Some c' \<and>
          w_text (DrainSyncEvents api (w\<lparr>w_client := c'\<rparr>)) = document s \<and>
          w_revision (DrainSyncEvents api (w\<lparr>w_client := c'\<rparr>)) = revision s)"
  using response_received(1) [OF assms(1-5,7-13)] response_received(2) [OF assms(1-5,7-13), of now]
    drain_response [OF assms(6), of _ "revision s" s] assms(14,15)
  by auto

lemma full_sync_delivered_witness:
  "\<exists>c'. receive_rounds utf8_ref 0 (chunk_count (wide ''hi''))
          (example_client\<lparr>c_input := map Received (map (\<lambda>b. [b])
             (conn_wire (net (snd (SendSyncResponse utf8_ref 1 example_server)) 1)))\<rparr>) = Some c' \<and>
        w_text (DrainSyncEvents utf8_ref (example_web\<lparr>w_client := c'\<rparr>)) = wide ''hi''"
proof -
  have "chunks_wf (wide ''hi'')"
    by (rule chunks_wf_short) (simp_all add: kSyncChunkChars_def)
  then show ?thesis
    using full_sync_delivered [OF utf8_api_ref, of example_server 1
        "map (\<lambda>b. [b]) (conn_wire (net (snd (SendSyncResponse utf8_ref 1 example_server)) 1))"
        "example_client\<lparr>c_input := map Received (map (\<lambda>b. [b])
             (conn_wire (net (snd (SendSyncResponse utf8_ref 1 example_server)) 1)))\<rparr>"
        ready_conn example_web 0]
      reliable_ready_conn session_ok_example
    by (auto simp: example_server_def example_client_def example_web_def SyncServer_init_def
        SyncClient_init_def ready_conn_def kMaxDocumentChars_def)
qed




end
